(* ===== verification/Go_Prelude.thy ===== *)
theory Go_Prelude
  imports Main "HOL-Library.AList" "HOL-Library.Char_ord" "HOL-Library.List_Lexorder"
    "HOL-Library.Product_Lexorder" "HOL-Library.Multiset"
begin

text \<open>
  The part of Go and of its standard library that the modelled packages use, and the
  generic lemmas the component theories share.

  \<^item> A Go string is its list of bytes (\<^typ>\<open>string\<close>); \<open><\<close> on it is Go's bytewise order.
  \<^item> \<open>TrimSpace\<close> is \<open>strings.TrimSpace\<close> with Unicode's white space in its UTF-8 encoding;
    \<open>ToLower\<close> and \<open>ToUpper\<close> are \<open>strings.ToLower\<close> and \<open>strings.ToUpper\<close> on ASCII letters
    (the mapping of letters outside ASCII is not reproduced).
  \<^item> \<open>time.Time\<close> is the number of nanoseconds since Go's zero time, so \<open>IsZero\<close> is
    equality with 0, and \<open>UTC()\<close> is the identity on instants.
  \<^item> An \<open>int64\<close> is an \<^typ>\<open>int\<close>; where sums of amounts can overflow the model applies
    \<open>wrap64\<close> after each addition and subtraction.
  \<^item> A Go map is an association list with distinct keys. Go iterates over a map in an
    unspecified order; every theorem is about an arbitrary list, so about any order.
    A \<open>sort.Slice\<close> (not stable) over values collected from a map is a stable sort of that
    arbitrary list.
  \<^item> An \<open>any\<close> value is a \<open>gval\<close>; \<open>json_encode\<close> is \<open>encoding/json.Marshal\<close> on such values.
\<close>

named_theorems go_defs \<open>definitions unfolded by the component proofs\<close>
named_theorems gm_simps \<open>laws of Go maps\<close>

section \<open>Strings\<close>

text \<open>The UTF-8 encodings of the runes for which \<open>unicode.IsSpace\<close> holds.\<close>

definition white_space :: "string list" where
  "white_space =
     [[CHR 0x20], [CHR 0x09], [CHR 0x0A], [CHR 0x0B], [CHR 0x0C], [CHR 0x0D],
      [CHR 0xC2, CHR 0x85], [CHR 0xC2, CHR 0xA0], [CHR 0xE1, CHR 0x9A, CHR 0x80],
      [CHR 0xE2, CHR 0x80, CHR 0x80], [CHR 0xE2, CHR 0x80, CHR 0x81],
      [CHR 0xE2, CHR 0x80, CHR 0x82], [CHR 0xE2, CHR 0x80, CHR 0x83],
      [CHR 0xE2, CHR 0x80, CHR 0x84], [CHR 0xE2, CHR 0x80, CHR 0x85],
      [CHR 0xE2, CHR 0x80, CHR 0x86], [CHR 0xE2, CHR 0x80, CHR 0x87],
      [CHR 0xE2, CHR 0x80, CHR 0x88], [CHR 0xE2, CHR 0x80, CHR 0x89],
      [CHR 0xE2, CHR 0x80, CHR 0x8A], [CHR 0xE2, CHR 0x80, CHR 0xA8],
      [CHR 0xE2, CHR 0x80, CHR 0xA9], [CHR 0xE2, CHR 0x80, CHR 0xAF],
      [CHR 0xE2, CHR 0x81, CHR 0x9F], [CHR 0xE3, CHR 0x80, CHR 0x80]]"

definition starts_with :: "string \<Rightarrow> string \<Rightarrow> bool" where
  "starts_with p s \<longleftrightarrow> take (length p) s = p"

definition space_len :: "string list \<Rightarrow> string \<Rightarrow> nat" where
  "space_len ws s = (case filter (\<lambda>w. starts_with w s) ws of [] \<Rightarrow> 0 | w # _ \<Rightarrow> length w)"

lemma space_len_Nil [simp]: "[] \<notin> set ws \<Longrightarrow> space_len ws [] = 0"
  by (induction ws) (auto simp: space_len_def starts_with_def)

function strip :: "string list \<Rightarrow> string \<Rightarrow> string" where
  "strip ws s =
     (if s = [] \<or> space_len ws s = 0 then s else strip ws (drop (space_len ws s) s))"
  by pat_completeness auto
termination
  by (relation "measure (\<lambda>(ws, s). length s)") auto

declare strip.simps [simp del]

definition TrimSpace :: "string \<Rightarrow> string" where
  "TrimSpace s = rev (strip (map rev white_space) (rev (strip white_space s)))"

lemma strip_suffix: "\<exists>p. s = p @ strip ws s"
proof (induction ws s rule: strip.induct)
  case (1 ws s)
  show ?case
  proof (cases "s = [] \<or> space_len ws s = 0")
    case True
    then show ?thesis by (subst strip.simps) simp
  next
    case False
    let ?n = "space_len ws s"
    obtain p where "drop ?n s = p @ strip ws (drop ?n s)"
      using 1 False by blast
    moreover have "strip ws s = strip ws (drop ?n s)"
      using False by (subst strip.simps) simp
    ultimately have "s = (take ?n s @ p) @ strip ws s"
      by (metis append_assoc append_take_drop_id)
    then show ?thesis by blast
  qed
qed

lemma strip_done: "strip ws s = [] \<or> space_len ws (strip ws s) = 0"
proof (induction ws s rule: strip.induct)
  case (1 ws s)
  then show ?case
    by (cases "s = [] \<or> space_len ws s = 0") (auto simp: strip.simps [of ws s])
qed

lemma strip_idem_cond: "s = [] \<or> space_len ws s = 0 \<Longrightarrow> strip ws s = s"
  by (subst strip.simps) auto

lemma space_len_0_iff:
  "[] \<notin> set ws \<Longrightarrow> space_len ws s = 0 \<longleftrightarrow> (\<forall>w \<in> set ws. \<not> starts_with w s)"
proof (cases "filter (\<lambda>w. starts_with w s) ws")
  case Nil
  then show ?thesis by (auto simp: space_len_def filter_empty_conv)
next
  case (Cons w xs)
  assume ne: "[] \<notin> set ws"
  have "w \<in> set (filter (\<lambda>w. starts_with w s) ws)"
    by (simp add: Cons)
  then have "w \<in> set ws" "starts_with w s"
    by simp_all
  with Cons ne show ?thesis by (auto simp: space_len_def)
qed

lemma starts_with_append: "starts_with w s \<Longrightarrow> starts_with w (s @ t)"
  unfolding starts_with_def by (metis append_Nil2 diff_is_0_eq' length_take min.cobounded1
      take0 take_append)

lemma white_space_nonempty [simp]: "[] \<notin> set white_space" "[] \<notin> set (map rev white_space)"
  by (simp_all add: white_space_def)

text \<open>\<open>TrimSpace\<close> removes nothing from its own result.\<close>

lemma TrimSpace_idem [simp]: "TrimSpace (TrimSpace s) = TrimSpace s"
proof -
  let ?a = "strip white_space s"
  let ?b = "strip (map rev white_space) (rev ?a)"
  obtain p where p: "rev ?a = p @ ?b"
    using strip_suffix by blast
  then have a: "?a = rev ?b @ rev p"
    by (metis rev_append rev_rev_ident)
  have "space_len white_space (rev ?b) = 0" if "rev ?b \<noteq> []"
  proof -
    have "?a \<noteq> []" using a that by auto
    then have "space_len white_space ?a = 0"
      using strip_done by blast
    then have "\<forall>w \<in> set white_space. \<not> starts_with w ?a"
      by (simp add: space_len_0_iff)
    then have "\<forall>w \<in> set white_space. \<not> starts_with w (rev ?b)"
      using a starts_with_append by metis
    then show ?thesis by (simp add: space_len_0_iff)
  qed
  then have "strip white_space (rev ?b) = rev ?b"
    using strip_idem_cond by blast
  moreover have "strip (map rev white_space) ?b = ?b"
    using strip_done strip_idem_cond by blast
  ultimately show ?thesis by (simp add: TrimSpace_def)
qed

text \<open>
  A string whose first and last bytes are printing ASCII characters is its own trimmed
  form; this evaluates \<open>TrimSpace\<close> on concrete identifiers.
\<close>

definition graphic :: "char \<Rightarrow> bool" where
  "graphic c \<longleftrightarrow> CHR 0x20 < c \<and> c < CHR 0x7F"

definition plain_ends :: "string \<Rightarrow> bool" where
  "plain_ends s \<longleftrightarrow> s = [] \<or> graphic (hd s) \<and> graphic (last s)"

lemma white_space_not_graphic:
  "w \<in> set white_space \<Longrightarrow> w \<noteq> [] \<and> \<not> graphic (hd w) \<and> \<not> graphic (last w)"
  unfolding white_space_def graphic_def by (auto simp: less_char_def)

lemma starts_with_hd: "starts_with w s \<Longrightarrow> w \<noteq> [] \<Longrightarrow> s \<noteq> [] \<and> hd s = hd w"
  unfolding starts_with_def by (cases s; cases w) auto

lemma TrimSpace_plain [simp]: "plain_ends s \<Longrightarrow> TrimSpace s = s"
proof -
  assume plain: "plain_ends s"
  have "space_len white_space s = 0" if "s \<noteq> []"
    using plain that white_space_not_graphic starts_with_hd
    by (metis plain_ends_def space_len_0_iff white_space_nonempty(1))
  then have 1: "strip white_space s = s"
    using strip_idem_cond by blast
  have "space_len (map rev white_space) (rev s) = 0" if "s \<noteq> []"
  proof -
    have "\<not> starts_with (rev w) (rev s)" if "w \<in> set white_space" for w
      using white_space_not_graphic [OF that] starts_with_hd [of "rev w" "rev s"] plain
        \<open>s \<noteq> []\<close> by (auto simp: plain_ends_def hd_rev)
    then show ?thesis by (simp add: space_len_0_iff [OF white_space_nonempty(2)])
  qed
  then have "strip (map rev white_space) (rev s) = rev s"
    using strip_idem_cond by (metis rev_is_Nil_conv)
  with 1 show ?thesis by (simp add: TrimSpace_def)
qed

lemma TrimSpace_Nil [simp]: "TrimSpace [] = []"
  by (simp add: plain_ends_def)

text \<open>\<open>strings.ToLower\<close> and \<open>strings.ToUpper\<close>, on ASCII letters.\<close>

definition char_between :: "char \<Rightarrow> char \<Rightarrow> char \<Rightarrow> bool" where
  "char_between lo hi c \<longleftrightarrow> lo \<le> c \<and> c \<le> hi"

definition lower_byte :: "char \<Rightarrow> char" where
  "lower_byte c =
     (if char_between (CHR ''A'') (CHR ''Z'') c then char_of (of_char c + 32 :: nat) else c)"

definition upper_byte :: "char \<Rightarrow> char" where
  "upper_byte c =
     (if char_between (CHR ''a'') (CHR ''z'') c then char_of (of_char c - 32 :: nat) else c)"

definition ToLower :: "string \<Rightarrow> string" where
  "ToLower = map lower_byte"

definition ToUpper :: "string \<Rightarrow> string" where
  "ToUpper = map upper_byte"

text \<open>\<open>strings.EqualFold\<close> on ASCII letters.\<close>

definition EqualFold :: "string \<Rightarrow> string \<Rightarrow> bool" where
  "EqualFold a b \<longleftrightarrow> ToLower a = ToLower b"

lemma lower_byte_idem [simp]: "lower_byte (lower_byte c) = lower_byte c"
  by (auto simp: lower_byte_def char_between_def less_eq_char_def)

lemma upper_byte_idem [simp]: "upper_byte (upper_byte c) = upper_byte c"
  by (auto simp: upper_byte_def char_between_def less_eq_char_def)

lemma ToLower_idem [simp]: "ToLower (ToLower s) = ToLower s"
  by (simp add: ToLower_def)

lemma ToUpper_idem [simp]: "ToUpper (ToUpper s) = ToUpper s"
  by (simp add: ToUpper_def)

lemma ToLower_Nil_iff [simp]: "ToLower s = [] \<longleftrightarrow> s = []" "ToLower [] = []"
  by (simp_all add: ToLower_def)

lemma ToUpper_Nil_iff [simp]: "ToUpper s = [] \<longleftrightarrow> s = []" "ToUpper [] = []"
  by (simp_all add: ToUpper_def)

section \<open>Time and 64-bit integers\<close>

type_synonym time = int
type_synonym duration = int

abbreviation (input) zero_time :: time where
  "zero_time \<equiv> 0"

abbreviation (input) IsZero :: "time \<Rightarrow> bool" where
  "IsZero t \<equiv> t = zero_time"

abbreviation (input) Microsecond :: duration where
  "Microsecond \<equiv> 1000"

abbreviation (input) Second :: duration where
  "Second \<equiv> 1000000000"

abbreviation (input) Minute :: duration where
  "Minute \<equiv> 60000000000"

abbreviation (input) Hour :: duration where
  "Hour \<equiv> 3600000000000"

definition wrap64 :: "int \<Rightarrow> int" where
  "wrap64 x = (x + 2 ^ 63) mod 2 ^ 64 - 2 ^ 63"

definition int64 :: "int \<Rightarrow> bool" where
  "int64 x \<longleftrightarrow> - (2 ^ 63) \<le> x \<and> x < 2 ^ 63"

lemma wrap64_id [simp]: "int64 x \<Longrightarrow> wrap64 x = x"
  by (simp add: int64_def wrap64_def)

lemma int64_wrap64 [simp]: "int64 (wrap64 x)"
proof -
  have "0 \<le> (x + 2 ^ 63) mod 2 ^ 64" "(x + 2 ^ 63) mod 2 ^ 64 < 2 ^ 64"
    by simp_all
  then show ?thesis by (simp add: int64_def wrap64_def)
qed

lemma int64_between: "int64 a \<Longrightarrow> int64 b \<Longrightarrow> a \<le> x \<Longrightarrow> x \<le> b \<Longrightarrow> int64 x"
  by (simp add: int64_def)

text \<open>The running \<open>int64\<close> total of a loop \<open>for _, v := range m { total += f(v) }\<close>.\<close>

definition sum64 :: "('a \<Rightarrow> int) \<Rightarrow> 'a list \<Rightarrow> int" where
  "sum64 f xs = foldl (\<lambda>t x. wrap64 (t + f x)) 0 xs"

lemma sum64_exact_aux:
  assumes "\<forall>x \<in> set xs. 0 \<le> f x" and "0 \<le> t" and "t + sum_list (map f xs) < 2 ^ 63"
  shows "foldl (\<lambda>t x. wrap64 (t + f x)) t xs = t + sum_list (map f xs)"
  using assms
proof (induction xs arbitrary: t)
  case Nil
  then show ?case by simp
next
  case (Cons x xs)
  have "0 \<le> sum_list (map f xs)"
    using Cons.prems(1) by (intro sum_list_nonneg) auto
  then have "int64 (t + f x)"
    using Cons.prems by (simp add: int64_def)
  then show ?case
    using Cons.prems Cons.IH [of "t + f x"] by simp
qed

text \<open>A total of non-negative amounts that fits is exact: no partial sum wraps around.\<close>

lemma sum64_exact:
  assumes "\<forall>x \<in> set xs. 0 \<le> f x" and "sum_list (map f xs) < 2 ^ 63"
  shows "sum64 f xs = sum_list (map f xs)"
  using sum64_exact_aux [of xs f 0] assms by (simp add: sum64_def)

text \<open>A wrapped total of non-negative amounts is never above the exact one.\<close>

lemma wrap64_le: "- (2 ^ 63) \<le> x \<Longrightarrow> wrap64 x \<le> x"
  using zmod_le_nonneg_dividend [of "x + 2 ^ 63" "2 ^ 64"] by (simp add: wrap64_def)

lemma sum64_le_aux:
  assumes "\<forall>x \<in> set xs. 0 \<le> f x" and "int64 t"
  shows "foldl (\<lambda>t x. wrap64 (t + f x)) t xs \<le> t + sum_list (map f xs)"
  using assms
proof (induction xs arbitrary: t)
  case Nil
  then show ?case by simp
next
  case (Cons x xs)
  have "wrap64 (t + f x) \<le> t + f x"
    using Cons.prems by (intro wrap64_le) (simp add: int64_def)
  moreover have "foldl (\<lambda>t x. wrap64 (t + f x)) (wrap64 (t + f x)) xs \<le> wrap64 (t + f x) + sum_list (map f xs)"
    using Cons.prems by (intro Cons.IH) auto
  ultimately show ?case by simp
qed

lemma sum64_le: "\<forall>x \<in> set xs. 0 \<le> f x \<Longrightarrow> sum64 f xs \<le> sum_list (map f xs)"
  using sum64_le_aux [of xs f 0] by (simp add: sum64_def int64_def)

section \<open>Maps\<close>

type_synonym ('k, 'v) gomap = "('k \<times> 'v) list"

abbreviation gm_get :: "('k, 'v) gomap \<Rightarrow> 'k \<Rightarrow> 'v option" where
  "gm_get m k \<equiv> map_of m k"

abbreviation gm_has :: "('k, 'v) gomap \<Rightarrow> 'k \<Rightarrow> bool" where
  "gm_has m k \<equiv> map_of m k \<noteq> None"

abbreviation gm_put :: "'k \<Rightarrow> 'v \<Rightarrow> ('k, 'v) gomap \<Rightarrow> ('k, 'v) gomap" where
  "gm_put k v m \<equiv> AList.update k v m"

abbreviation gm_del :: "'k \<Rightarrow> ('k, 'v) gomap \<Rightarrow> ('k, 'v) gomap" where
  "gm_del k m \<equiv> AList.delete k m"

abbreviation gm_vals :: "('k, 'v) gomap \<Rightarrow> 'v list" where
  "gm_vals m \<equiv> map snd m"

abbreviation gm_wf :: "('k, 'v) gomap \<Rightarrow> bool" where
  "gm_wf m \<equiv> distinct (map fst m)"

text \<open>\<open>m[k]\<close> for a string-valued map: the zero value is the empty string.\<close>

definition gm_str :: "('k, string) gomap \<Rightarrow> 'k \<Rightarrow> string" where
  "gm_str m k = (case gm_get m k of None \<Rightarrow> [] | Some v \<Rightarrow> v)"

text \<open>\<open>m[k]\<close> for a map of slices: the zero value is the nil slice.\<close>

definition gm_list :: "('k, 'v list) gomap \<Rightarrow> 'k \<Rightarrow> 'v list" where
  "gm_list m k = (case gm_get m k of None \<Rightarrow> [] | Some v \<Rightarrow> v)"

lemma gm_get_put [simp]: "gm_get (gm_put k v m) k' = (if k' = k then Some v else gm_get m k')"
  by (simp add: update_conv')

lemma gm_get_del [simp]: "gm_get (gm_del k m) k' = (if k' = k then None else gm_get m k')"
  by (simp add: delete_conv')

lemma gm_wf_put [simp]: "gm_wf m \<Longrightarrow> gm_wf (gm_put k v m)"
  by (rule distinct_update)

lemma gm_wf_del [simp]: "gm_wf m \<Longrightarrow> gm_wf (gm_del k m)"
  by (rule distinct_delete)

lemma gm_str_put [simp]: "gm_str (gm_put k v m) k' = (if k' = k then v else gm_str m k')"
  by (simp add: gm_str_def)

lemma gm_list_put [simp]: "gm_list (gm_put k v m) k' = (if k' = k then v else gm_list m k')"
  by (simp add: gm_list_def)

lemma gm_put_new: "gm_get m k = None \<Longrightarrow> gm_put k v m = m @ [(k, v)]"
  by (induction m) (auto split: if_splits)

lemma gm_put_split:
  assumes "gm_get m k = Some u" and "gm_wf m"
  obtains l r where "m = l @ (k, u) # r" "gm_put k v m = l @ (k, v) # r"
    "k \<notin> fst ` set l" "k \<notin> fst ` set r"
  using assms
proof (induction m arbitrary: thesis)
  case Nil
  then show ?case by simp
next
  case (Cons p m)
  show ?case
  proof (cases "fst p = k")
    case True
    then have "p = (k, u)" using Cons.prems(2) by (cases p) auto
    then show ?thesis
      using Cons.prems(1) [of "[]" m] Cons.prems(3) by auto
  next
    case False
    then have "gm_get m k = Some u" using Cons.prems(2) by (cases p) auto
    then obtain l r where "m = l @ (k, u) # r" "gm_put k v m = l @ (k, v) # r"
      "k \<notin> fst ` set l" "k \<notin> fst ` set r"
      using Cons.IH Cons.prems(3) by auto
    then show ?thesis
      using Cons.prems(1) [of "p # l" r] False by (cases p) auto
  qed
qed

lemma gm_vals_get: "gm_wf m \<Longrightarrow> v \<in> set (gm_vals m) \<longleftrightarrow> (\<exists>k. gm_get m k = Some v)"
  by (force dest: map_of_SomeD)

lemma gm_get_vals: "gm_get m k = Some v \<Longrightarrow> v \<in> set (gm_vals m)"
  by (force dest: map_of_SomeD)

lemma gm_vals_put_subset: "set (gm_vals (gm_put k v m)) \<subseteq> insert v (set (gm_vals m))"
  by (induction m) auto

text \<open>Sums and counts over the values, after storing a new or a replaced value.\<close>

lemma sum_put_new:
  "gm_get m k = None \<Longrightarrow>
   sum_list (map f (gm_vals (gm_put k v m))) = sum_list (map f (gm_vals m)) + f v"
  for f :: "'v \<Rightarrow> int"
  by (simp add: gm_put_new)

lemma sum_put_old:
  fixes f :: "'v \<Rightarrow> int"
  assumes "gm_get m k = Some u" and "gm_wf m"
  shows "sum_list (map f (gm_vals (gm_put k v m))) = sum_list (map f (gm_vals m)) - f u + f v"
proof -
  obtain l r where m: "m = l @ (k, u) # r" and put: "gm_put k v m = l @ (k, v) # r"
    using gm_put_split [OF assms] by blast
  show ?thesis unfolding put unfolding m by simp
qed

definition count_vals :: "('v \<Rightarrow> bool) \<Rightarrow> ('k, 'v) gomap \<Rightarrow> nat" where
  "count_vals P m = length (filter P (gm_vals m))"

lemma count_put_new:
  "gm_get m k = None \<Longrightarrow>
   count_vals P (gm_put k v m) = count_vals P m + (if P v then 1 else 0)"
  by (simp add: gm_put_new count_vals_def)

lemma count_put_old:
  assumes "gm_get m k = Some u" and "gm_wf m"
  shows "count_vals P (gm_put k v m) + (if P u then 1 else 0) =
    count_vals P m + (if P v then 1 else 0)"
proof -
  obtain l r where m: "m = l @ (k, u) # r" and put: "gm_put k v m = l @ (k, v) # r"
    using gm_put_split [OF assms] by blast
  show ?thesis unfolding put unfolding m by (simp add: count_vals_def)
qed

text \<open>
  Among the values with a property, no two have the same group: at most one open request per
  user, at most one reward per invitee.
\<close>

definition unique_by :: "('v \<Rightarrow> bool) \<Rightarrow> ('v \<Rightarrow> 'g) \<Rightarrow> ('k, 'v) gomap \<Rightarrow> bool" where
  "unique_by P g m \<longleftrightarrow> (\<forall>k k' v v'. gm_get m k = Some v \<longrightarrow> gm_get m k' = Some v' \<longrightarrow> P v \<longrightarrow> P v' \<longrightarrow> g v = g v' \<longrightarrow> k = k')"

lemma unique_by_Nil [simp]: "unique_by P g []"
  by (simp add: unique_by_def)

lemma unique_byD:
  "unique_by P g m \<Longrightarrow> gm_get m k = Some v \<Longrightarrow> gm_get m k' = Some v' \<Longrightarrow> P v \<Longrightarrow> P v' \<Longrightarrow> g v = g v' \<Longrightarrow> k = k'"
  unfolding unique_by_def by blast

lemma unique_by_weaken:
  assumes "unique_by P g m" and "\<And>k v'. gm_get m' k = Some v' \<Longrightarrow> P v' \<Longrightarrow> \<exists>v. gm_get m k = Some v \<and> P v \<and> g v = g v'"
  shows "unique_by P g m'"
  unfolding unique_by_def
proof (intro allI impI)
  fix a b v w assume a: "gm_get m' a = Some v" "P v" and b: "gm_get m' b = Some w" "P w" and eq: "g v = g w"
  from assms(2) [OF a] assms(2) [OF b] obtain v' w' where "gm_get m a = Some v'" "gm_get m b = Some w'" "P v'" "P w'" "g v' = g w'"
    using eq by metis
  then show "a = b" by (rule unique_byD [OF assms(1)])
qed

lemma unique_by_replace:
  assumes "unique_by P g m" "gm_get m k = Some v" "P v' \<Longrightarrow> P v \<and> g v = g v'"
  shows "unique_by P g (gm_put k v' m)"
  by (rule unique_by_weaken [OF assms(1)]) (use assms(2,3) in \<open>auto split: if_splits\<close>)

lemma unique_by_put:
  assumes "unique_by P g m" and "\<And>k' v'. gm_get m k' = Some v' \<Longrightarrow> k' \<noteq> k \<Longrightarrow> P v' \<Longrightarrow> P v \<Longrightarrow> g v' \<noteq> g v"
  shows "unique_by P g (gm_put k v m)"
  unfolding unique_by_def
proof (intro allI impI)
  fix a b x y assume x: "gm_get (gm_put k v m) a = Some x" and y: "gm_get (gm_put k v m) b = Some y"
    and eq: "P x" "P y" "g x = g y"
  have old: "gm_get m j = Some z" "P v \<Longrightarrow> g z \<noteq> g v" if "gm_get (gm_put k v m) j = Some z" "j \<noteq> k" "P z" for j z
    using that assms(2) [of j z] by simp_all
  show "a = b"
  proof (rule ccontr)
    assume ne: "a \<noteq> b"
    consider "a = k" "b \<noteq> k" | "a \<noteq> k" "b = k" | "a \<noteq> k" "b \<noteq> k" using ne by blast
    then show False
    proof cases
      case 1
      then have "x = v" using x by simp
      then show False using old(2) [OF y 1(2) eq(2)] eq by simp
    next
      case 2
      then have "y = v" using y by simp
      then show False using old(2) [OF x 2(1) eq(1)] eq by simp
    next
      case 3
      then show False using unique_byD [OF assms(1) old(1) [OF x 3(1) eq(1)] old(1) [OF y 3(2) eq(2)] eq] ne by simp
    qed
  qed
qed

text \<open>When at most one key has a value with a property, a loop collects at most that value.\<close>

lemma filter_vals_unique:
  assumes "gm_wf m" and "\<And>k k' v v'. gm_get m k = Some v \<Longrightarrow> P v \<Longrightarrow> gm_get m k' = Some v' \<Longrightarrow> P v' \<Longrightarrow> k = k'"
  shows "filter P (gm_vals m) = [] \<or> (\<exists>k v. gm_get m k = Some v \<and> P v \<and> filter P (gm_vals m) = [v])"
proof (cases "filter P (gm_vals m)")
  case (Cons v vs)
  have "v \<in> set (filter P (gm_vals m))" by (simp only: Cons list.set_intros)
  then have "v \<in> set (gm_vals m)" "P v" by (simp_all only: set_filter mem_Collect_eq)
  then obtain k where k: "gm_get m k = Some v" using gm_vals_get [OF assms(1)] by blast
  obtain l r where m: "m = l @ (k, v) # r" and out: "k \<notin> fst ` set l" "k \<notin> fst ` set r"
    by (rule gm_put_split [OF k assms(1), of v])
  have "\<not> P (snd p)" if "p \<in> set l \<union> set r" for p
  proof
    assume P: "P (snd p)"
    have "p \<in> set m" using that m by auto
    then have "gm_get m (fst p) = Some (snd p)" using assms(1) by simp
    then have "fst p = k" using assms(2) [OF _ P k \<open>P v\<close>] by blast
    then show False using that out by force
  qed
  then have "filter P (gm_vals l) = []" "filter P (gm_vals r) = []"
    by (auto simp: filter_empty_conv)
  then have "filter P (gm_vals m) = [v]" unfolding m using \<open>P v\<close> by simp
  with k \<open>P v\<close> show ?thesis by blast
qed simp

text \<open>The permutation lemma that makes the association-list order immaterial.\<close>

lemma sum_perm: "mset m = mset m' \<Longrightarrow>
  sum_list (map f (gm_vals m)) = sum_list (map f (gm_vals m'))" for f :: "'v \<Rightarrow> int"
  by (metis mset_map sum_mset_sum_list)

text \<open>\<open>if limit > 0 && len(result) > limit { result = result[:limit] }\<close>\<close>

definition limited :: "int \<Rightarrow> 'a list \<Rightarrow> 'a list" where
  "limited n xs = (if 0 < n \<and> n < int (length xs) then take (nat n) xs else xs)"

lemma length_limited: "0 < n \<Longrightarrow> int (length (limited n xs)) \<le> n"
  by (auto simp: limited_def)

lemma set_limited: "set (limited n xs) \<subseteq> set xs"
  by (auto simp: limited_def dest: in_set_takeD)

lemma limited_take: "\<exists>k. limited n xs = take k xs"
  by (metis limited_def take_all order_refl)

lemma find_SomeD: "find P xs = Some x \<Longrightarrow> x \<in> set xs \<and> P x"
  by (auto simp: find_Some_iff)

section \<open>Selection loops\<close>

text \<open>
  The loop \<open>for _, x := range xs { if !q(x) { continue }; if !found || better(x, selected)
  { selected = x; found = true } }\<close>.
\<close>

definition select :: "('a \<Rightarrow> bool) \<Rightarrow> ('a \<Rightarrow> 'a \<Rightarrow> bool) \<Rightarrow> 'a list \<Rightarrow> 'a option" where
  "select q better xs =
     foldl (\<lambda>best x. if \<not> q x then best
                     else case best of None \<Rightarrow> Some x
                                     | Some b \<Rightarrow> if better x b then Some x else best) None xs"

text \<open>What the comparison of such a loop has to satisfy for the loop to find an optimum.\<close>

locale selection =
  fixes better :: "'a \<Rightarrow> 'a \<Rightarrow> bool"
  assumes better_irrefl: "\<not> better x x"
    and better_neg_trans: "better x b \<Longrightarrow> \<not> better y b \<Longrightarrow> \<not> better y x"
begin

lemma select_inv:
  "case select q better xs of
     None \<Rightarrow> \<forall>x \<in> set xs. \<not> q x
   | Some b \<Rightarrow> b \<in> set xs \<and> q b \<and> (\<forall>x \<in> set xs. q x \<longrightarrow> \<not> better x b)"
proof (induction xs rule: rev_induct)
  case Nil
  then show ?case by (simp add: select_def)
next
  case (snoc y xs)
  have step: "select q better (xs @ [y]) =
    (if \<not> q y then select q better xs
     else case select q better xs of None \<Rightarrow> Some y
          | Some b \<Rightarrow> if better y b then Some y else Some b)"
    by (auto simp: select_def split: option.splits)
  show ?case
  proof (cases "select q better xs")
    case None
    then show ?thesis using snoc by (auto simp: step better_irrefl)
  next
    case (Some b)
    then show ?thesis using snoc by (auto simp: step better_irrefl dest: better_neg_trans)
  qed
qed

lemma select_None_iff: "select q better xs = None \<longleftrightarrow> (\<forall>x \<in> set xs. \<not> q x)"
  using select_inv [where q = q and xs = xs] by (auto split: option.splits)

lemma select_SomeD:
  assumes "select q better xs = Some b"
  shows "b \<in> set xs" "q b" "\<And>x. x \<in> set xs \<Longrightarrow> q x \<Longrightarrow> \<not> better x b"
  using select_inv [where q = q and xs = xs] assms by auto

end

section \<open>Reasoning along the branches of an operation\<close>

text \<open>
  \<open>post Q r\<close> says that the outcome \<open>r\<close> of an operation, a pair of the new state and the
  result, satisfies \<open>Q\<close>. The rules in \<open>branches\<close> follow the early returns of the operation,
  keep each condition as a hypothesis and each local variable as a variable, and leave one
  goal per return.
\<close>

named_theorems branches

definition post :: "('r \<Rightarrow> bool) \<Rightarrow> 'r \<Rightarrow> bool" where
  "post Q r = Q r"

lemma post_D: "post Q r \<Longrightarrow> Q r"
  by (simp add: post_def)

lemma post_Inr:
  assumes "p = (s, Inr v)" and "post (\<lambda>(s, r). \<forall>v. r = Inr v \<longrightarrow> Q s v) p"
  shows "Q s v"
  using assms by (simp add: post_def)

lemma post_fst: "post (\<lambda>(s', r). Q s') p \<Longrightarrow> Q (fst p)"
  by (cases p) (simp add: post_def)

lemma post_let [branches]: "(\<And>x. x = a \<Longrightarrow> post Q (f x)) \<Longrightarrow> post Q (let x = a in f x)"
  by (simp add: Let_def)

lemma post_if [branches]:
  "(c \<Longrightarrow> post Q r) \<Longrightarrow> (\<not> c \<Longrightarrow> post Q r') \<Longrightarrow> post Q (if c then r else r')"
  by simp

lemma post_option [branches]:
  "(a = None \<Longrightarrow> post Q r) \<Longrightarrow> (\<And>v. a = Some v \<Longrightarrow> post Q (f v)) \<Longrightarrow>
   post Q (case a of None \<Rightarrow> r | Some v \<Rightarrow> f v)"
  by (cases a) simp_all

lemma post_sum [branches]:
  "(\<And>e. a = Inl e \<Longrightarrow> post Q (f e)) \<Longrightarrow> (\<And>v. a = Inr v \<Longrightarrow> post Q (g v)) \<Longrightarrow>
   post Q (case a of Inl e \<Rightarrow> f e | Inr v \<Rightarrow> g v)"
  by (cases a) simp_all

lemma post_prod [branches]:
  "(\<And>x y. a = (x, y) \<Longrightarrow> post Q (f x y)) \<Longrightarrow> post Q (case a of (x, y) \<Rightarrow> f x y)"
  by (cases a) simp_all

text \<open>An operation succeeds with a result that satisfies \<open>P\<close>.\<close>

definition outcome :: "'s \<times> ('e + 'a) \<Rightarrow> ('a \<Rightarrow> bool) \<Rightarrow> bool" where
  "outcome r P = (case snd r of Inl _ \<Rightarrow> False | Inr v \<Rightarrow> P v)"

lemma outcomeE: "outcome r P \<Longrightarrow> (\<And>v. r = (fst r, Inr v) \<Longrightarrow> P v \<Longrightarrow> thesis) \<Longrightarrow> thesis"
  by (cases r) (auto simp: outcome_def split: sum.splits)

section \<open>State machines\<close>

text \<open>
  The states a sequence of operations can reach. Each operation of a modelled store holds
  the store's mutex from its first access to its last, so every interleaving of concurrent
  callers is such a sequence.
\<close>

inductive reachable :: "('op \<Rightarrow> 's \<Rightarrow> 's) \<Rightarrow> 's \<Rightarrow> 's \<Rightarrow> bool"
  for exec :: "'op \<Rightarrow> 's \<Rightarrow> 's" and init :: 's where
  reach_init: "reachable exec init init"
| reach_step: "reachable exec init s \<Longrightarrow> reachable exec init (exec opn s)"

fun exec_all :: "('op \<Rightarrow> 's \<Rightarrow> 's) \<Rightarrow> 'op list \<Rightarrow> 's \<Rightarrow> 's" where
  "exec_all exec [] s = s"
| "exec_all exec (opn # ops) s = exec_all exec ops (exec opn s)"

lemma reachable_exec_all: "reachable exec init s \<Longrightarrow> reachable exec init (exec_all exec ops s)"
  by (induction ops arbitrary: s) (auto intro: reach_step)

lemma reachable_run: "reachable exec init (exec_all exec ops init)"
  by (rule reachable_exec_all) (rule reach_init)

text \<open>The contract of an inductive invariant, and what a store gets from it.\<close>

locale invariant =
  fixes exec :: "'op \<Rightarrow> 's \<Rightarrow> 's" and init :: 's and inv :: "'s \<Rightarrow> bool"
  assumes inv_init: "inv init"
    and inv_step: "inv s \<Longrightarrow> inv (exec opn s)"
begin

lemma reachable_inv: "reachable exec init s \<Longrightarrow> inv s"
  by (induction rule: reachable.induct) (auto intro: inv_init inv_step)

lemma exec_all_inv: "inv s \<Longrightarrow> inv (exec_all exec ops s)"
  by (induction ops arbitrary: s) (auto intro: inv_step)

end

text \<open>
  The same contract for an invariant that needs the arguments of the operations to satisfy
  a condition, such as a bound on amounts. An unconditional invariant is a special case.
\<close>

locale guarded_invariant =
  fixes exec :: "'op \<Rightarrow> 's \<Rightarrow> 's" and init :: 's and inv :: "'s \<Rightarrow> bool" and ok :: "'op \<Rightarrow> bool"
  assumes guarded_init: "inv init"
    and guarded_step: "inv s \<Longrightarrow> ok opn \<Longrightarrow> inv (exec opn s)"
begin

lemma guarded_run: "inv s \<Longrightarrow> list_all ok ops \<Longrightarrow> inv (exec_all exec ops s)"
  by (induction ops arbitrary: s) (auto intro: guarded_step)

end

sublocale invariant \<subseteq> guarded: guarded_invariant exec init inv "\<lambda>_. True"
  by unfold_locales (auto intro: inv_init inv_step)

text \<open>
  A condition on the operations may also depend on the state they run in: an id that
  \<open>uuid.NewString\<close> returns is not in use yet.
\<close>

fun legal :: "('s \<Rightarrow> 'op \<Rightarrow> bool) \<Rightarrow> ('op \<Rightarrow> 's \<Rightarrow> 's) \<Rightarrow> 'op list \<Rightarrow> 's \<Rightarrow> bool" where
  "legal allowed exec [] s \<longleftrightarrow> True"
| "legal allowed exec (opn # ops) s \<longleftrightarrow> allowed s opn \<and> legal allowed exec ops (exec opn s)"

locale legal_invariant =
  fixes exec :: "'op \<Rightarrow> 's \<Rightarrow> 's" and init :: 's and inv :: "'s \<Rightarrow> bool" and allowed :: "'s \<Rightarrow> 'op \<Rightarrow> bool"
  assumes legal_init: "inv init"
    and legal_step: "inv s \<Longrightarrow> allowed s opn \<Longrightarrow> inv (exec opn s)"
begin

lemma legal_run: "inv s \<Longrightarrow> legal allowed exec ops s \<Longrightarrow> inv (exec_all exec ops s)"
  by (induction ops arbitrary: s) (auto intro: legal_step)

end

sublocale guarded_invariant \<subseteq> stateless: legal_invariant exec init inv "\<lambda>_ opn. ok opn"
  by unfold_locales (auto intro: guarded_init guarded_step)

locale legal_monotone = legal_invariant +
  fixes le :: "'s \<Rightarrow> 's \<Rightarrow> bool"
  assumes later_refl: "le s s"
    and later_trans: "le s t \<Longrightarrow> le t u \<Longrightarrow> le s u"
    and later_step: "inv s \<Longrightarrow> allowed s opn \<Longrightarrow> le s (exec opn s)"
begin

lemma legal_run_le: "inv s \<Longrightarrow> legal allowed exec ops s \<Longrightarrow> le s (exec_all exec ops s)"
  by (induction ops arbitrary: s) (auto intro: later_refl later_trans later_step legal_step)

end

text \<open>
  A store in which a reflexive and transitive relation holds between a state and its
  successor, in every state that satisfies the invariant: it then holds between a state
  and every later one (logs only grow, settled records stay settled).
\<close>

locale monotone_store = invariant +
  fixes le :: "'s \<Rightarrow> 's \<Rightarrow> bool"
  assumes le_refl: "le s s"
    and le_trans: "le s t \<Longrightarrow> le t u \<Longrightarrow> le s u"
    and le_step: "inv s \<Longrightarrow> le s (exec opn s)"
begin

lemma exec_all_le: "inv s \<Longrightarrow> le s (exec_all exec ops s)"
  by (induction ops arbitrary: s) (auto intro: le_refl le_trans le_step inv_step)

end

end
