(* ===== verification/Go_Values.thy ===== *)
theory Go_Values
  imports Go_Prelude
begin

text \<open>
  Values of Go's type \<open>any\<close> as they occur in event payloads, session contexts, audit
  details and JSON documents, and the two standard-library renderings the code applies to
  them: \<open>encoding/json.Marshal\<close> (\<open>json_encode\<close>) and \<open>fmt.Sprint\<close> (\<open>fmt_sprint\<close>).

  A \<open>float64\<close> is represented by what the code can observe of it: whether it is finite,
  whether it is a whole number and which one, and the decimal text the standard library
  prints for it.
\<close>

datatype gofloat = FNaN | FInf | FWhole int string | FFrac string

datatype gval =
    GNil
  | GBool bool
  | GInt int
  | GFloat gofloat
  | GString string
  | GList "gval list"
  | GMap "(string \<times> gval) list"

type_synonym gobject = "(string, gval) gomap"

section \<open>Decimal numbers\<close>

definition digit :: "int \<Rightarrow> char" where
  "digit d = ''0123456789'' ! nat d"

function show_digits :: "int \<Rightarrow> string" where
  "show_digits n = (if n < 10 then [digit n] else show_digits (n div 10) @ [digit (n mod 10)])"
  by pat_completeness auto
termination
  by (relation "measure nat") auto

declare show_digits.simps [simp del]

definition show_int :: "int \<Rightarrow> string" where
  "show_int i = (if i < 0 then CHR ''-'' # show_digits (- i) else show_digits i)"

lemma show_digits_nonempty [simp]: "show_digits n \<noteq> []"
  by (subst show_digits.simps) simp

section \<open>JSON encoding\<close>

definition byte :: "char \<Rightarrow> int" where
  "byte c = of_char c"

definition continuation :: "char \<Rightarrow> bool" where
  "continuation c \<longleftrightarrow> 128 \<le> byte c \<and> byte c \<le> 191"

text \<open>
  The length of the valid UTF-8 sequence at the head of a string, 0 when the head is not
  valid UTF-8 (\<open>utf8.DecodeRune\<close> then gives \<open>RuneError\<close>).
\<close>

definition utf8_len :: "string \<Rightarrow> nat" where
  "utf8_len s =
     (case s of
        [] \<Rightarrow> 0
      | a # r \<Rightarrow>
          let n = byte a in
          if n < 128 then 1
          else if 194 \<le> n \<and> n \<le> 223 then
            (case r of b # _ \<Rightarrow> if continuation b then 2 else 0 | _ \<Rightarrow> 0)
          else if 224 \<le> n \<and> n \<le> 239 then
            (case r of
               b # c # _ \<Rightarrow>
                 if continuation b \<and> continuation c \<and>
                    (n = 224 \<longrightarrow> 160 \<le> byte b) \<and> (n = 237 \<longrightarrow> byte b \<le> 159)
                 then 3 else 0
             | _ \<Rightarrow> 0)
          else if 240 \<le> n \<and> n \<le> 244 then
            (case r of
               b # c # d # _ \<Rightarrow>
                 if continuation b \<and> continuation c \<and> continuation d \<and>
                    (n = 240 \<longrightarrow> 144 \<le> byte b) \<and> (n = 244 \<longrightarrow> byte b \<le> 143)
                 then 4 else 0
             | _ \<Rightarrow> 0)
          else 0)"

definition hex_digit :: "int \<Rightarrow> char" where
  "hex_digit d = ''0123456789abcdef'' ! nat d"

definition backslash :: char where
  "backslash = CHR 0x5C"

definition json_escape_byte :: "char \<Rightarrow> string" where
  "json_escape_byte c =
     (if c = backslash \<or> c = CHR 0x22 then [backslash, c]
      else if c = CHR 0x08 then [backslash, CHR ''b'']
      else if c = CHR 0x0C then [backslash, CHR ''f'']
      else if c = CHR 0x0A then [backslash, CHR ''n'']
      else if c = CHR 0x0D then [backslash, CHR ''r'']
      else if c = CHR 0x09 then [backslash, CHR ''t'']
      else if byte c < 32 \<or> c = CHR ''<'' \<or> c = CHR ''>'' \<or> c = CHR ''&''
        then backslash # ''u00'' @ [hex_digit (byte c div 16), hex_digit (byte c mod 16)]
      else [c])"

function json_escape :: "string \<Rightarrow> string" where
  "json_escape s =
     (case s of
        [] \<Rightarrow> []
      | c # cs \<Rightarrow>
          if byte c < 128 then json_escape_byte c @ json_escape cs
          else if utf8_len s = 0 then backslash # ''ufffd'' @ json_escape cs
          else if take 3 s = [CHR 0xE2, CHR 0x80, CHR 0xA8]
            then backslash # ''u2028'' @ json_escape (drop 2 cs)
          else if take 3 s = [CHR 0xE2, CHR 0x80, CHR 0xA9]
            then backslash # ''u2029'' @ json_escape (drop 2 cs)
          else take (utf8_len s) s @ json_escape (drop (utf8_len s - 1) cs))"
  by pat_completeness auto
termination
  by (relation "measure length") auto

declare json_escape.simps [simp del]

definition json_string :: "string \<Rightarrow> string" where
  "json_string s = CHR 0x22 # json_escape s @ [CHR 0x22]"

fun join :: "string \<Rightarrow> string list \<Rightarrow> string" where
  "join sep [] = []"
| "join sep [x] = x"
| "join sep (x # xs) = x @ sep @ join sep xs"

text \<open>\<open>Some\<close> of every element, or \<open>None\<close> when one is missing.\<close>

fun all_some :: "'a option list \<Rightarrow> 'a list option" where
  "all_some [] = Some []"
| "all_some (None # xs) = None"
| "all_some (Some x # xs) = map_option (Cons x) (all_some xs)"

fun json_float :: "gofloat \<Rightarrow> string option" where
  "json_float FNaN = None"
| "json_float FInf = None"
| "json_float (FWhole i t) = Some t"
| "json_float (FFrac t) = Some t"

definition json_list :: "string option list \<Rightarrow> string option" where
  "json_list vs = map_option (\<lambda>ts. ''['' @ join '','' ts @ '']'') (all_some vs)"

definition json_object :: "(string \<times> string option) list \<Rightarrow> string option" where
  "json_object kvs =
     map_option (\<lambda>ts. ''{'' @ join '','' ts @ ''}'')
       (all_some (map (\<lambda>(k, v). map_option (\<lambda>t. json_string k @ '':'' @ t) v) (sort_key fst kvs)))"

text \<open>
  \<open>json.Marshal\<close>: object keys in ascending order, HTML characters escaped, an error
  (\<open>None\<close>) for a float that is not finite.
\<close>

primrec json_encode :: "gval \<Rightarrow> string option" where
  "json_encode GNil = Some ''null''"
| "json_encode (GBool b) = Some (if b then ''true'' else ''false'')"
| "json_encode (GInt i) = Some (show_int i)"
| "json_encode (GFloat f) = json_float f"
| "json_encode (GString s) = Some (json_string s)"
| "json_encode (GList vs) = json_list (map json_encode vs)"
| "json_encode (GMap kvs) = json_object (map (map_prod id json_encode) kvs)"

section \<open>Rendering with fmt.Sprint\<close>

fun float_text :: "gofloat \<Rightarrow> string" where
  "float_text FNaN = ''NaN''"
| "float_text FInf = ''+Inf''"
| "float_text (FWhole i t) = t"
| "float_text (FFrac t) = t"

primrec fmt_sprint :: "gval \<Rightarrow> string" where
  "fmt_sprint GNil = ''<nil>''"
| "fmt_sprint (GBool b) = (if b then ''true'' else ''false'')"
| "fmt_sprint (GInt i) = show_int i"
| "fmt_sprint (GFloat f) = float_text f"
| "fmt_sprint (GString s) = s"
| "fmt_sprint (GList vs) = ''['' @ join '' '' (map fmt_sprint vs) @ '']''"
| "fmt_sprint (GMap kvs) =
     ''map['' @ join '' '' (map (\<lambda>(k, t). k @ '':'' @ t)
       (sort_key fst (map (map_prod id fmt_sprint) kvs))) @ '']''"

section \<open>Type assertions on map entries\<close>

text \<open>\<open>text, ok := m[k].(string)\<close>\<close>

definition get_string :: "gobject \<Rightarrow> string \<Rightarrow> string option" where
  "get_string m k = (case gm_get m k of Some (GString s) \<Rightarrow> Some s | _ \<Rightarrow> None)"

text \<open>\<open>m[k] == s\<close> for a string \<open>s\<close>: an absent key compares as \<open>nil\<close>.\<close>

definition is_string :: "gobject \<Rightarrow> string \<Rightarrow> string \<Rightarrow> bool" where
  "is_string m k s \<longleftrightarrow> gm_get m k = Some (GString s)"

lemma get_string_put [simp]:
  "get_string (gm_put k v m) k' = (if k' = k then (case v of GString s \<Rightarrow> Some s | _ \<Rightarrow> None)
     else get_string m k')"
  by (simp add: get_string_def)

lemma is_string_put [simp]:
  "is_string (gm_put k v m) k' s = (if k' = k then v = GString s else is_string m k' s)"
  by (simp add: is_string_def)

end
