(* ===== verification/Task_Types.thy ===== *)
theory Task_Types
  imports Go_Values
begin

text \<open>
  The data model of the task-session control plane (package \<open>internal/tasksession\<close>):
  the structs of \<open>types.go\<close> and \<open>scheduler.go\<close> as records, the error values as a
  datatype and the state of \<open>MemoryStore\<close>. State and event-type constants are the strings
  of the source.
\<close>

abbreviation NamespacePersonal :: string where "NamespacePersonal \<equiv> ''personal''"
abbreviation SessionReady :: string where "SessionReady \<equiv> ''ready''"
abbreviation TaskRunQueued :: string where "TaskRunQueued \<equiv> ''queued''"
abbreviation TaskRunRunning :: string where "TaskRunRunning \<equiv> ''running''"
abbreviation TaskRunComplete :: string where "TaskRunComplete \<equiv> ''completed''"
abbreviation TaskRunFailed :: string where "TaskRunFailed \<equiv> ''failed''"
abbreviation TaskRunCanceled :: string where "TaskRunCanceled \<equiv> ''cancelled''"

abbreviation EventMessageCreated :: string where "EventMessageCreated \<equiv> ''message.created''"
abbreviation EventRunQueued :: string where "EventRunQueued \<equiv> ''run.queued''"
abbreviation EventRunRunning :: string where "EventRunRunning \<equiv> ''run.running''"
abbreviation EventRunProgressed :: string where "EventRunProgressed \<equiv> ''run.progressed''"
abbreviation EventAssistantMessageCreated :: string where
  "EventAssistantMessageCreated \<equiv> ''assistant.message.created''"
abbreviation EventRunCompleted :: string where "EventRunCompleted \<equiv> ''run.completed''"
abbreviation EventRunFailed :: string where "EventRunFailed \<equiv> ''run.failed''"
abbreviation EventRunCancelled :: string where "EventRunCancelled \<equiv> ''run.cancelled''"
abbreviation EventRunCancelRequested :: string where
  "EventRunCancelRequested \<equiv> ''run.cancel_requested''"

text \<open>The package's error values; \<open>ErrMarshal\<close> stands for an error of \<open>json.Marshal\<close> itself.\<close>

datatype ts_error =
    ErrAlreadyExists
  | ErrNotFound
  | ErrAccountMismatch
  | ErrPayloadTooLarge
  | ErrNoEligibleTask
  | ErrInvalidInput
  | ErrLeaseConflict
  | ErrArtifactPayload
  | ErrRunFinished
  | ErrMarshal

record Namespace =
  ns_ID :: string
  ns_AccountID :: string
  ns_Slug :: string
  ns_DisplayName :: string
  ns_MaxActiveRuns :: int
  ns_CreatedAt :: time

record Session =
  ss_ID :: string
  ss_AccountID :: string
  ss_NamespaceID :: string
  ss_Title :: string
  ss_SnapshotVer :: int
  ss_LastEventSeq :: int
  ss_LifecycleState :: string
  ss_Context :: gobject
  ss_CreatedAt :: time
  ss_UpdatedAt :: time

record Event =
  ev_SessionID :: string
  ev_Seq :: int
  ev_Type :: string
  ev_Payload :: gobject
  ev_ActorID :: string
  ev_ClientRequestID :: string
  ev_CreatedAt :: time

record TaskRun =
  tr_ID :: string
  tr_AccountID :: string
  tr_NamespaceID :: string
  tr_SessionID :: string
  tr_ClientRequestID :: string
  tr_State :: string
  tr_Priority :: int
  tr_NotBefore :: time
  tr_CreatedAt :: time
  tr_UpdatedAt :: time
  tr_Attempt :: int
  tr_LeaseOwner :: string
  tr_LeaseToken :: string
  tr_LeaseExpires :: time
  tr_Fence :: int
  tr_BridgeRef :: string

record Snapshot =
  sn_SessionID :: string
  sn_NamespaceID :: string
  sn_Title :: string
  sn_SnapshotVer :: int
  sn_LastEventSeq :: int
  sn_LifecycleState :: string
  sn_Context :: gobject
  sn_TaskRun :: "TaskRun option"
  sn_UpdatedAt :: time

record CreateNamespaceInput =
  cni_ID :: string
  cni_AccountID :: string
  cni_Slug :: string
  cni_DisplayName :: string
  cni_MaxActiveRuns :: int
  cni_CreatedAt :: time

record CreateSessionInput =
  csi_ID :: string
  csi_AccountID :: string
  csi_NamespaceID :: string
  csi_Title :: string
  csi_CreatedAt :: time

record AppendEventInput =
  aei_AccountID :: string
  aei_SessionID :: string
  aei_ActorID :: string
  aei_ClientRequestID :: string
  aei_Type :: string
  aei_Payload :: gobject
  aei_CreatedAt :: time

record EnqueueTaskRunInput =
  eti_ID :: string
  eti_AccountID :: string
  eti_NamespaceID :: string
  eti_SessionID :: string
  eti_ClientRequestID :: string
  eti_Priority :: int
  eti_NotBefore :: time
  eti_CreatedAt :: time

record AppendMessageInput =
  ami_AccountID :: string
  ami_SessionID :: string
  ami_ActorID :: string
  ami_ClientRequestID :: string
  ami_Text :: string
  ami_Routing :: gobject
  ami_TaskRunID :: string
  ami_Priority :: int
  ami_NotBefore :: time
  ami_CreatedAt :: time

record MessageCommandResult =
  mcr_Message :: Event
  mcr_Queued :: Event
  mcr_TaskRun :: TaskRun
  mcr_SnapshotVer :: int
  mcr_LastEventSeq :: int
  mcr_Existing :: bool

record TaskRunEventInput =
  tei_AccountID :: string
  tei_TaskRunID :: string
  tei_ActorID :: string
  tei_ClientRequestID :: string
  tei_Fence :: int
  tei_LeaseToken :: string
  tei_Type :: string
  tei_Payload :: gobject
  tei_BridgeRef :: string
  tei_CreatedAt :: time

record TaskRunEventResult =
  ter_Event :: Event
  ter_TaskRun :: TaskRun
  ter_SnapshotVer :: int
  ter_LastEventSeq :: int

record ClaimInput =
  ci_AccountID :: string
  ci_WorkerID :: string
  ci_Now :: time
  ci_MaxGlobalActive :: int
  ci_LeaseTTL :: duration

record RenewLeaseInput =
  rli_AccountID :: string
  rli_TaskRunID :: string
  rli_WorkerID :: string
  rli_Fence :: int
  rli_LeaseToken :: string
  rli_LeaseTTL :: duration
  rli_Now :: time

record RenewLeaseResult =
  rlr_TaskRun :: TaskRun
  rlr_CancelRequested :: bool

record CancelRunInput =
  cri_AccountID :: string
  cri_SessionID :: string
  cri_TaskRunID :: string
  cri_ActorID :: string
  cri_ClientRequestID :: string
  cri_CreatedAt :: time

record RunMessage =
  rm_Text :: string
  rm_Routing :: gobject

text \<open>
  The state of \<open>MemoryStore\<close>. Its mutex is held for the whole of every operation, so an
  operation is one atomic step of the state.
\<close>

record MemoryStore =
  namespaces :: "(string, Namespace) gomap"
  namespacesByAcct :: "(string, (string, string) gomap) gomap"
  sessions :: "(string, Session) gomap"
  events :: "(string, Event list) gomap"
  eventByRequest :: "(string, Event) gomap"
  taskRuns :: "(string, TaskRun) gomap"
  runRouting :: "(string, gobject) gomap"
  lastClaimNamespace :: "(string, string) gomap"

definition NewMemoryStore :: MemoryStore where
  "NewMemoryStore =
     \<lparr>namespaces = [], namespacesByAcct = [], sessions = [], events = [],
      eventByRequest = [], taskRuns = [], runRouting = [], lastClaimNamespace = []\<rparr>"

end
