(* ===== verification/Task_Payload.thy ===== *)
theory Task_Payload
  imports Task_Types
begin

text \<open>
  The payload helpers of \<open>internal/tasksession\<close>: validation of routing hints
  (\<open>scheduler.go\<close>), the event payload builders (\<open>store.go\<close>), and the size and content
  limits on payloads and on the session context (\<open>postgres_store.go\<close>), with the lemmas on
  what passes them.
\<close>

section \<open>Routing hints\<close>

abbreviation (input) routingStringMax :: int where "routingStringMax \<equiv> 512"
abbreviation (input) routingRefMax :: int where "routingRefMax \<equiv> 128"
abbreviation (input) routingAttachMax :: int where "routingAttachMax \<equiv> 1000"
abbreviation (input) MinSchedulerLeaseTTL :: duration where "MinSchedulerLeaseTTL \<equiv> 10 * Second"
abbreviation (input) MaxSchedulerLeaseTTL :: duration where "MaxSchedulerLeaseTTL \<equiv> 10 * Minute"

definition routingStrings :: "(string, int) gomap" where
  "routingStrings =
     [(''role'', routingStringMax), (''roleMode'', routingStringMax),
      (''roleModel'', routingStringMax), (''productMode'', routingStringMax),
      (''specialty'', routingStringMax), (''dataClass'', routingStringMax),
      (''projectId'', routingRefMax), (''workspace'', routingRefMax)]"

definition routingRefs :: "string list" where
  "routingRefs = [''projectId'', ''workspace'']"

definition routingBools :: "string list" where
  "routingBools = [''followUp'', ''previousTurnFailed'']"

definition plain_char :: "char \<Rightarrow> bool" where
  "plain_char c \<longleftrightarrow>
     char_between (CHR ''a'') (CHR ''z'') c \<or> char_between (CHR ''A'') (CHR ''Z'') c \<or>
     char_between (CHR ''0'') (CHR ''9'') c \<or> c \<in> set ''._:-''"

text \<open>
  A rune outside ASCII and an invalid byte are both refused, so the check on runes is the
  check on bytes.
\<close>

definition plainKey :: "string \<Rightarrow> bool" where
  "plainKey s \<longleftrightarrow> list_all plain_char s \<and> s \<noteq> ''.'' \<and> s \<noteq> ''..''"

text \<open>
  \<open>int(number)\<close> of a whole float outside the range of \<open>int64\<close> is the least integer (the
  amd64 conversion); either conversion in use is refused by the caller's range check.
\<close>

fun wholeNumber :: "gval \<Rightarrow> int option" where
  "wholeNumber (GInt i) = Some i"
| "wholeNumber (GFloat (FWhole i t)) = Some (if int64 i then i else - (2 ^ 63))"
| "wholeNumber _ = None"

text \<open>One entry of the hints: an error, \<open>None\<close> to leave it out, or the value to keep.\<close>

definition routing_entry :: "string \<Rightarrow> gval \<Rightarrow> ts_error + gval option" where
  "routing_entry key v =
     (case gm_get routingStrings key of
        Some limit \<Rightarrow>
          (case v of
             GString text \<Rightarrow>
               if int (length text) > limit then Inl ErrInvalidInput
               else let text = TrimSpace text in
                 if text = [] then Inr None
                 else if key \<in> set routingRefs \<and> \<not> plainKey text then Inl ErrInvalidInput
                 else Inr (Some (GString text))
           | _ \<Rightarrow> Inl ErrInvalidInput)
      | None \<Rightarrow>
          if key \<in> set routingBools then
            (case v of GBool b \<Rightarrow> Inr (Some (GBool b)) | _ \<Rightarrow> Inl ErrInvalidInput)
          else if key = ''attachments'' then
            (case wholeNumber v of
               None \<Rightarrow> Inl ErrInvalidInput
             | Some n \<Rightarrow>
                 if n < 0 \<or> n > routingAttachMax then Inl ErrInvalidInput
                 else Inr (Some (GInt n)))
          else Inl ErrInvalidInput)"

fun NormalizeRouting_loop :: "gobject \<Rightarrow> gobject \<Rightarrow> ts_error + gobject" where
  "NormalizeRouting_loop routing [] = Inr routing"
| "NormalizeRouting_loop routing ((key, v) # rest) =
     (case routing_entry key v of
        Inl e \<Rightarrow> Inl e
      | Inr None \<Rightarrow> NormalizeRouting_loop routing rest
      | Inr (Some w) \<Rightarrow> NormalizeRouting_loop (gm_put key w routing) rest)"

definition NormalizeRouting :: "gobject \<Rightarrow> ts_error + gobject" where
  "NormalizeRouting input = NormalizeRouting_loop [] input"

section \<open>Event payloads\<close>

definition cloneMap :: "gobject \<Rightarrow> gobject" where
  "cloneMap m = m"

definition taskRunEventPayload :: "gobject \<Rightarrow> string \<Rightarrow> int \<Rightarrow> string \<Rightarrow> gobject" where
  "taskRunEventPayload input taskRunID fence state =
     gm_put ''state'' (GString state)
       (gm_put ''fence'' (GInt fence)
         (gm_put ''taskRunId'' (GString (TrimSpace taskRunID))
           (gm_put ''schemaVersion'' (GInt 1) (cloneMap input))))"

definition messageEventPayload :: "string \<Rightarrow> string \<Rightarrow> ts_error + gobject" where
  "messageEventPayload text taskRunID =
     (let text = TrimSpace text; taskRunID = TrimSpace taskRunID in
      if text = [] \<or> taskRunID = [] then Inl ErrInvalidInput
      else Inr [(''schemaVersion'', GInt 1), (''text'', GString text),
                (''taskRunId'', GString taskRunID)])"

definition runQueuedEventPayload :: "string \<Rightarrow> gobject" where
  "runQueuedEventPayload taskRunID =
     [(''schemaVersion'', GInt 1), (''taskRunId'', GString (TrimSpace taskRunID)),
      (''state'', GString TaskRunQueued)]"

definition cancelRequestedPayload :: "string \<Rightarrow> gobject" where
  "cancelRequestedPayload taskRunID =
     [(''schemaVersion'', GInt 1), (''taskRunId'', GString taskRunID),
      (''state'', GString TaskRunRunning)]"

definition cancelledBeforeStartPayload :: "string \<Rightarrow> gobject" where
  "cancelledBeforeStartPayload taskRunID =
     [(''schemaVersion'', GInt 1), (''taskRunId'', GString taskRunID),
      (''state'', GString TaskRunCanceled), (''reason'', GString ''cancelled_before_start'')]"

text \<open>Milliseconds since the Unix epoch, which lies 62135596800 seconds after Go's zero time.\<close>

definition UnixMilli :: "time \<Rightarrow> int" where
  "UnixMilli t = (t - 62135596800 * Second) div 1000000"

definition messageContextValue :: "string \<Rightarrow> string \<Rightarrow> time \<Rightarrow> gobject" where
  "messageContextValue text taskRunID createdAt =
     [(''id'', GString (TrimSpace taskRunID)), (''role'', GString ''user''),
      (''text'', GString (TrimSpace text)), (''timestampMs'', GInt (UnixMilli createdAt)),
      (''pending'', GBool False), (''error'', GBool False)]"

section \<open>Limits on payloads and contexts\<close>

abbreviation (input) maxEventPayloadBytes :: int where "maxEventPayloadBytes \<equiv> 16 * 1024"
abbreviation (input) maxSnapshotBytes :: int where "maxSnapshotBytes \<equiv> 128 * 1024"
abbreviation (input) maxSnapshotMessages :: nat where "maxSnapshotMessages \<equiv> 100"

definition artifact_key :: "string \<Rightarrow> bool" where
  "artifact_key key \<longleftrightarrow>
     filter (\<lambda>c. c \<notin> set ''_-.'') (ToLower (TrimSpace key)) \<in>
       set [''artifactbytes'', ''filebytes'', ''filecontent'', ''attachmentcontent'',
            ''base64'', ''blob'', ''toollog'', ''toollogs'']"

primrec containsArtifactContent :: "gval \<Rightarrow> bool" where
  "containsArtifactContent GNil = False"
| "containsArtifactContent (GBool b) = False"
| "containsArtifactContent (GInt i) = False"
| "containsArtifactContent (GFloat f) = False"
| "containsArtifactContent (GString s) = False"
| "containsArtifactContent (GList vs) = list_ex id (map containsArtifactContent vs)"
| "containsArtifactContent (GMap kvs) =
     list_ex (\<lambda>(key, found). artifact_key key \<or> found)
       (map (map_prod id containsArtifactContent) kvs)"

definition marshal_limited :: "int \<Rightarrow> gobject \<Rightarrow> ts_error + string" where
  "marshal_limited limit m =
     (if containsArtifactContent (GMap m) then Inl ErrArtifactPayload
      else case json_encode (GMap (cloneMap m)) of
        None \<Rightarrow> Inl ErrMarshal
      | Some encoded \<Rightarrow>
          if int (length encoded) > limit then Inl ErrPayloadTooLarge else Inr encoded)"

definition marshalEventPayload :: "gobject \<Rightarrow> ts_error + string" where
  "marshalEventPayload payload = marshal_limited maxEventPayloadBytes payload"

definition marshalContextSummary :: "gobject \<Rightarrow> ts_error + string" where
  "marshalContextSummary contextSummary = marshal_limited maxSnapshotBytes contextSummary"

text \<open>
  The loop that drops the oldest messages until the encoded context fits
  (\<open>appendMessageToContext\<close>); it ends because every round drops one message.
\<close>

fun fit_messages :: "gobject \<Rightarrow> gval list \<Rightarrow> ts_error + gobject \<times> string" where
  "fit_messages nxt [] = Inl ErrPayloadTooLarge"
| "fit_messages nxt (m # ms) =
     (let nxt = gm_put ''messages'' (GList (m # ms)) nxt in
      case marshalContextSummary nxt of
        Inr encoded \<Rightarrow> Inr (nxt, encoded)
      | Inl e \<Rightarrow> if e \<noteq> ErrPayloadTooLarge then Inl e else fit_messages nxt ms)"

definition last_n :: "nat \<Rightarrow> 'a list \<Rightarrow> 'a list" where
  "last_n n xs = drop (length xs - n) xs"

definition appendMessageToContext :: "gobject \<Rightarrow> gobject \<Rightarrow> ts_error + gobject \<times> string" where
  "appendMessageToContext contextSummary message =
     (let nxt = cloneMap contextSummary;
          text = (case gm_get message ''text'' of None \<Rightarrow> GNil | Some v \<Rightarrow> v);
          nxt = gm_put ''lastMessage'' (GString (TrimSpace (fmt_sprint text))) nxt;
          messages = (case gm_get nxt ''messages'' of Some (GList ms) \<Rightarrow> ms | _ \<Rightarrow> []);
          messages = messages @ [GMap (cloneMap message)];
          messages = (if length messages > maxSnapshotMessages
                      then last_n maxSnapshotMessages messages else messages)
      in fit_messages nxt messages)"

text \<open>The context updates of a plain event (\<open>AppendEvent\<close>).\<close>

definition updateContextSummary :: "gobject \<Rightarrow> gobject \<Rightarrow> gobject" where
  "updateContextSummary ctx payload =
     (let ctx = (case get_string payload ''text'' of
                   Some text \<Rightarrow> if TrimSpace text \<noteq> [] then gm_put ''lastMessage'' (GString text) ctx else ctx
                 | None \<Rightarrow> ctx)
      in case get_string payload ''summary'' of
           Some summary \<Rightarrow> if TrimSpace summary \<noteq> [] then gm_put ''summary'' (GString summary) ctx else ctx
         | None \<Rightarrow> ctx)"

section \<open>What the helpers guarantee\<close>

lemma marshal_limited_Inr:
  assumes "marshal_limited n m = Inr t"
  shows "int (length t) \<le> n" "\<not> containsArtifactContent (GMap m)" "json_encode (GMap m) = Some t"
  using assms by (auto simp: marshal_limited_def cloneMap_def split: if_splits option.splits)

lemma fit_messages_Inr:
  assumes "fit_messages nxt ms = Inr (c, t)"
  shows "marshalContextSummary c = Inr t \<and>
    (\<exists>k < length ms. gm_get c ''messages'' = Some (GList (drop k ms))) \<and>
    (\<forall>key. key \<noteq> ''messages'' \<longrightarrow> gm_get c key = gm_get nxt key)"
  using assms
proof (induction nxt ms rule: fit_messages.induct)
  case (1 nxt)
  then show ?case by simp
next
  case (2 nxt m ms)
  let ?n = "gm_put ''messages'' (GList (m # ms)) nxt"
  show ?case
  proof (cases "marshalContextSummary ?n")
    case (Inr e)
    then have "c = ?n" "t = e" using "2.prems" by (simp_all add: Let_def)
    then show ?thesis using Inr by (auto intro: exI [of _ 0])
  next
    case (Inl e)
    then have e: "e = ErrPayloadTooLarge" and rec: "fit_messages ?n ms = Inr (c, t)"
      using "2.prems" by (auto simp: Let_def split: if_splits)
    from "2.IH" [OF refl Inl] rec e obtain k where
      "marshalContextSummary c = Inr t" "k < length ms"
      "gm_get c ''messages'' = Some (GList (drop k ms))"
      "\<forall>key. key \<noteq> ''messages'' \<longrightarrow> gm_get c key = gm_get ?n key"
      by auto
    then show ?thesis by (auto intro!: exI [of _ "Suc k"])
  qed
qed

lemma routing_entry_ok:
  assumes "routing_entry key v = Inr (Some w)"
  shows "key \<in> set (map fst routingStrings @ routingBools @ [''attachments''])"
    and "\<And>text. w = GString text \<Longrightarrow> text \<noteq> [] \<and> TrimSpace text = text"
    and "key \<in> set routingRefs \<Longrightarrow> \<exists>text. w = GString text \<and> plainKey text"
proof -
  show "key \<in> set (map fst routingStrings @ routingBools @ [''attachments''])"
  proof (cases "gm_get routingStrings key")
    case None
    then show ?thesis
      using assms by (auto simp: routing_entry_def split: if_splits)
  next
    case (Some l)
    then show ?thesis by (auto dest: map_of_SomeD intro: rev_image_eqI)
  qed
  show "t \<noteq> [] \<and> TrimSpace t = t" if "w = GString t" for t
    using assms that by (auto simp: routing_entry_def Let_def split: option.splits gval.splits if_splits)
  show "\<exists>text. w = GString text \<and> plainKey text" if "key \<in> set routingRefs"
  proof -
    have "gm_get routingStrings key \<noteq> None"
      using that by (auto simp: routingStrings_def routingRefs_def)
    then show ?thesis
      using assms that by (auto simp: routing_entry_def Let_def split: gval.splits if_splits)
  qed
qed

text \<open>No path separator passes \<open>plainKey\<close>.\<close>

lemma plainKey_no_separator: "plainKey s \<Longrightarrow> CHR ''/'' \<notin> set s \<and> backslash \<notin> set s"
proof -
  have "\<not> plain_char (CHR ''/'')" "\<not> plain_char backslash"
    by (simp_all add: plain_char_def char_between_def backslash_def less_eq_char_def)
  then show "plainKey s \<Longrightarrow> CHR ''/'' \<notin> set s \<and> backslash \<notin> set s"
    by (auto simp: plainKey_def list_all_iff)
qed

end
