(* ===== verification/Task_Store.thy ===== *)
theory Task_Store
  imports Task_Payload
begin

text \<open>
  The operations of \<open>MemoryStore\<close> (\<open>internal/tasksession/store.go\<close> and \<open>scheduler.go\<close>).
  An operation takes the store and returns it, changed or not, with a result: \<open>Inl\<close> of
  the error or \<open>Inr\<close> of the value. Every call of \<open>time.Now().UTC()\<close> is the argument \<open>now\<close>
  and every call of \<open>uuid.NewString()\<close> (a third-party package) the argument \<open>fresh\<close>.
\<close>

type_synonym 'a ts_result = "MemoryStore \<times> (ts_error + 'a)"

abbreviation (input) defaultNamespaceMaxActive :: int where "defaultNamespaceMaxActive \<equiv> 2"
abbreviation (input) defaultGlobalMaxActive :: int where "defaultGlobalMaxActive \<equiv> 5"

definition requestKey :: "string \<Rightarrow> string \<Rightarrow> string" where
  "requestKey sessionID clientRequestID = sessionID @ [CHR 0x00] @ clientRequestID"

definition orNow :: "time \<Rightarrow> time \<Rightarrow> time" where
  "orNow t now = (if IsZero t then now else t)"

section \<open>Namespaces and sessions\<close>

definition ListNamespaces :: "string \<Rightarrow> MemoryStore \<Rightarrow> ts_error + Namespace list" where
  "ListNamespaces accountID s =
     (let accountID = TrimSpace accountID in
      if accountID = [] then Inl ErrInvalidInput
      else Inr (sort_key (\<lambda>n. (ns_CreatedAt n, ns_ID n))
                  (filter (\<lambda>n. ns_AccountID n = accountID) (gm_vals (namespaces s)))))"

definition createNamespaceLocked ::
  "time \<Rightarrow> CreateNamespaceInput \<Rightarrow> MemoryStore \<Rightarrow> Namespace ts_result" where
  "createNamespaceLocked now inp s =
     (let nsID = TrimSpace (cni_ID inp);
          acct = TrimSpace (cni_AccountID inp);
          slug = TrimSpace (cni_Slug inp)
      in
      if nsID = [] \<or> acct = [] \<or> slug = [] then (s, Inl ErrAccountMismatch)
      else if gm_has (namespaces s) nsID then (s, Inl ErrAlreadyExists)
      else
        let s = (if gm_has (namespacesByAcct s) acct then s
                 else s\<lparr>namespacesByAcct := gm_put acct [] (namespacesByAcct s)\<rparr>);
            bySlug = gm_list (namespacesByAcct s) acct
        in
        if gm_has bySlug slug then (s, Inl ErrAlreadyExists)
        else
          let maxRuns = (if cni_MaxActiveRuns inp \<le> 0 \<or> cni_MaxActiveRuns inp > defaultNamespaceMaxActive
                         then defaultNamespaceMaxActive else cni_MaxActiveRuns inp);
              ns = \<lparr>ns_ID = nsID, ns_AccountID = acct, ns_Slug = slug,
                    ns_DisplayName = TrimSpace (cni_DisplayName inp),
                    ns_MaxActiveRuns = maxRuns, ns_CreatedAt = orNow (cni_CreatedAt inp) now\<rparr>
          in (s\<lparr>namespaces := gm_put nsID ns (namespaces s),
                 namespacesByAcct := gm_put acct (gm_put slug nsID bySlug) (namespacesByAcct s)\<rparr>,
              Inr ns))"

definition CreateNamespace ::
  "time \<Rightarrow> CreateNamespaceInput \<Rightarrow> MemoryStore \<Rightarrow> Namespace ts_result" where
  "CreateNamespace now inp s = createNamespaceLocked now inp s"

text \<open>
  \<open>s.namespaces[id]\<close> for an id of the slug index; the index only holds ids of existing
  namespaces (an invariant below), so the zero value of the source is never read.
\<close>

definition EnsurePersonalNamespace ::
  "string \<Rightarrow> time \<Rightarrow> string \<Rightarrow> time \<Rightarrow> MemoryStore \<Rightarrow> Namespace ts_result" where
  "EnsurePersonalNamespace fresh clock accountID now s =
     (let accountID = TrimSpace accountID in
      if accountID = [] then (s, Inl ErrAccountMismatch)
      else
        let nsID = gm_str (gm_list (namespacesByAcct s) accountID) NamespacePersonal in
        if nsID \<noteq> [] then
          (s, Inr (case gm_get (namespaces s) nsID of
                     Some ns \<Rightarrow> ns
                   | None \<Rightarrow> \<lparr>ns_ID = [], ns_AccountID = [], ns_Slug = [], ns_DisplayName = [],
                             ns_MaxActiveRuns = 0, ns_CreatedAt = zero_time\<rparr>))
        else createNamespaceLocked clock
               \<lparr>cni_ID = fresh, cni_AccountID = accountID, cni_Slug = NamespacePersonal,
                cni_DisplayName = ''Personal'', cni_MaxActiveRuns = defaultNamespaceMaxActive,
                cni_CreatedAt = now\<rparr> s)"

definition CreateSession ::
  "time \<Rightarrow> CreateSessionInput \<Rightarrow> MemoryStore \<Rightarrow> Session ts_result" where
  "CreateSession now inp s =
     (if gm_has (sessions s) (csi_ID inp) then (s, Inl ErrAlreadyExists)
      else case gm_get (namespaces s) (csi_NamespaceID inp) of
        None \<Rightarrow> (s, Inl ErrAccountMismatch)
      | Some ns \<Rightarrow>
          if ns_AccountID ns \<noteq> csi_AccountID inp then (s, Inl ErrAccountMismatch)
          else if TrimSpace (csi_ID inp) = [] then (s, Inl ErrNotFound)
          else
            let createdAt = orNow (csi_CreatedAt inp) now;
                session = \<lparr>ss_ID = csi_ID inp, ss_AccountID = csi_AccountID inp,
                  ss_NamespaceID = csi_NamespaceID inp, ss_Title = TrimSpace (csi_Title inp),
                  ss_SnapshotVer = 0, ss_LastEventSeq = 0, ss_LifecycleState = SessionReady,
                  ss_Context = [], ss_CreatedAt = createdAt, ss_UpdatedAt = createdAt\<rparr>
            in (s\<lparr>sessions := gm_put (csi_ID inp) session (sessions s)\<rparr>, Inr session))"

definition GetSession :: "string \<Rightarrow> string \<Rightarrow> string \<Rightarrow> MemoryStore \<Rightarrow> ts_error + Session" where
  "GetSession accountID namespaceID sessionID s =
     (case gm_get (sessions s) sessionID of
        None \<Rightarrow> Inl ErrNotFound
      | Some session \<Rightarrow>
          if ss_AccountID session \<noteq> accountID \<or> ss_NamespaceID session \<noteq> namespaceID
          then Inl ErrAccountMismatch else Inr session)"

text \<open>The loop of \<open>snapshotFromMemoryState\<close> that keeps the latest run of a session.\<close>

definition later_run :: "TaskRun \<Rightarrow> TaskRun \<Rightarrow> bool" where
  "later_run run best \<longleftrightarrow> tr_UpdatedAt run > tr_UpdatedAt best \<or>
     tr_UpdatedAt run = tr_UpdatedAt best \<and> tr_ID run > tr_ID best"

definition latest_run :: "string \<Rightarrow> TaskRun list \<Rightarrow> TaskRun option" where
  "latest_run sessionID runs = select (\<lambda>run. tr_SessionID run = sessionID) later_run runs"

definition snapshotFromMemoryState :: "Session \<Rightarrow> (string, TaskRun) gomap \<Rightarrow> Snapshot" where
  "snapshotFromMemoryState session runs =
     \<lparr>sn_SessionID = ss_ID session, sn_NamespaceID = ss_NamespaceID session,
      sn_Title = ss_Title session, sn_SnapshotVer = ss_SnapshotVer session,
      sn_LastEventSeq = ss_LastEventSeq session,
      sn_LifecycleState = ss_LifecycleState session, sn_Context = cloneMap (ss_Context session),
      sn_TaskRun = latest_run (ss_ID session) (gm_vals runs),
      sn_UpdatedAt = ss_UpdatedAt session\<rparr>"

definition GetSnapshot :: "string \<Rightarrow> string \<Rightarrow> MemoryStore \<Rightarrow> ts_error + Snapshot" where
  "GetSnapshot accountID sessionID s =
     (case gm_get (sessions s) sessionID of
        None \<Rightarrow> Inl ErrNotFound
      | Some session \<Rightarrow>
          if ss_AccountID session \<noteq> accountID then Inl ErrAccountMismatch
          else Inr (snapshotFromMemoryState session (taskRuns s)))"

definition ListSessions :: "string \<Rightarrow> string \<Rightarrow> MemoryStore \<Rightarrow> ts_error + Snapshot list" where
  "ListSessions accountID namespaceID s =
     (let accountID = TrimSpace accountID; namespaceID = TrimSpace namespaceID in
      case gm_get (namespaces s) namespaceID of
        None \<Rightarrow> Inl ErrNotFound
      | Some ns \<Rightarrow>
          if ns_AccountID ns \<noteq> accountID then Inl ErrNotFound
          else Inr (sort_key (\<lambda>sn. (- sn_UpdatedAt sn, sn_SessionID sn))
                 (map (\<lambda>session. snapshotFromMemoryState session (taskRuns s))
                   (filter (\<lambda>session. ss_AccountID session = accountID \<and>
                                      ss_NamespaceID session = namespaceID)
                     (gm_vals (sessions s))))))"

section \<open>The event log\<close>

text \<open>
  \<open>ListEvents\<close>: the loop appends the events after \<open>afterSeq\<close> and stops at \<open>limit\<close>, so it
  returns the first \<open>limit\<close> of them.
\<close>

definition ListEvents ::
  "string \<Rightarrow> string \<Rightarrow> int \<Rightarrow> int \<Rightarrow> MemoryStore \<Rightarrow> ts_error + Event list" where
  "ListEvents accountID sessionID afterSeq limit s =
     (case gm_get (sessions s) (TrimSpace sessionID) of
        None \<Rightarrow> Inl ErrNotFound
      | Some session \<Rightarrow>
          if ss_AccountID session \<noteq> TrimSpace accountID then Inl ErrAccountMismatch
          else
            let afterSeq = (if afterSeq < 0 then 0 else afterSeq);
                limit = (if limit \<le> 0 \<or> limit > 500 then 100 else limit)
            in Inr (take (nat limit)
                 (filter (\<lambda>e. \<not> ev_Seq e \<le> afterSeq) (gm_list (events s) (ss_ID session)))))"

definition AppendEvent ::
  "time \<Rightarrow> AppendEventInput \<Rightarrow> MemoryStore \<Rightarrow> Event ts_result" where
  "AppendEvent now inp s =
     (case gm_get (sessions s) (aei_SessionID inp) of
        None \<Rightarrow> (s, Inl ErrNotFound)
      | Some session \<Rightarrow>
          if ss_AccountID session \<noteq> aei_AccountID inp then (s, Inl ErrAccountMismatch)
          else
            case (if aei_ClientRequestID inp \<noteq> []
                  then gm_get (eventByRequest s) (requestKey (aei_SessionID inp) (aei_ClientRequestID inp))
                  else None) of
              Some event \<Rightarrow> (s, Inr event)
            | None \<Rightarrow>
                (case marshalEventPayload (aei_Payload inp) of
                   Inl e \<Rightarrow> (s, Inl e)
                 | Inr encoded \<Rightarrow>
                     let createdAt = orNow (aei_CreatedAt inp) now;
                         event = \<lparr>ev_SessionID = aei_SessionID inp,
                           ev_Seq = ss_LastEventSeq session + 1, ev_Type = TrimSpace (aei_Type inp),
                           ev_Payload = cloneMap (aei_Payload inp),
                           ev_ActorID = TrimSpace (aei_ActorID inp),
                           ev_ClientRequestID = TrimSpace (aei_ClientRequestID inp),
                           ev_CreatedAt = createdAt\<rparr>;
                         session' = session\<lparr>ss_LastEventSeq := ev_Seq event,
                           ss_SnapshotVer := ss_SnapshotVer session + 1,
                           ss_Context := updateContextSummary (ss_Context session) (aei_Payload inp),
                           ss_UpdatedAt := createdAt\<rparr>
                     in (s\<lparr>events := gm_put (ev_SessionID event)
                              (gm_list (events s) (ev_SessionID event) @ [event]) (events s),
                            eventByRequest :=
                              (if ev_ClientRequestID event \<noteq> []
                               then gm_put (requestKey (ev_SessionID event) (ev_ClientRequestID event))
                                      event (eventByRequest s)
                               else eventByRequest s),
                            sessions := gm_put (ss_ID session) session' (sessions s)\<rparr>,
                         Inr event)))"

section \<open>Messages and runs\<close>

definition AppendMessage ::
  "string \<Rightarrow> time \<Rightarrow> AppendMessageInput \<Rightarrow> MemoryStore \<Rightarrow> MessageCommandResult ts_result" where
  "AppendMessage fresh now inp s =
     (let acct = TrimSpace (ami_AccountID inp); sid = TrimSpace (ami_SessionID inp);
          actor = TrimSpace (ami_ActorID inp); req = TrimSpace (ami_ClientRequestID inp);
          text = TrimSpace (ami_Text inp)
      in
      if acct = [] \<or> sid = [] \<or> req = [] \<or> text = [] then (s, Inl ErrInvalidInput)
      else case NormalizeRouting (ami_Routing inp) of
        Inl e \<Rightarrow> (s, Inl e)
      | Inr routing \<Rightarrow>
      (case gm_get (sessions s) sid of
         None \<Rightarrow> (s, Inl ErrNotFound)
       | Some session \<Rightarrow>
      if ss_AccountID session \<noteq> acct then (s, Inl ErrAccountMismatch)
      else case gm_get (eventByRequest s) (requestKey sid req) of
        Some existing \<Rightarrow>
          let runID = (case get_string (ev_Payload existing) ''taskRunId'' of None \<Rightarrow> [] | Some r \<Rightarrow> r) in
          (case gm_get (taskRuns s) runID of
             None \<Rightarrow> (s, Inl ErrNotFound)
           | Some run \<Rightarrow>
               (case find (\<lambda>queued. ev_Seq queued = ev_Seq existing + 1 \<and> ev_Type queued = EventRunQueued)
                       (gm_list (events s) sid) of
                  None \<Rightarrow> (s, Inl ErrNotFound)
                | Some queued \<Rightarrow>
                    (s, Inr \<lparr>mcr_Message = existing, mcr_Queued = queued, mcr_TaskRun = run,
                             mcr_SnapshotVer = ss_SnapshotVer session,
                             mcr_LastEventSeq = ss_LastEventSeq session, mcr_Existing = True\<rparr>)))
      | None \<Rightarrow>
      let createdAt = orNow (ami_CreatedAt inp) now;
          notBefore = (if IsZero (ami_NotBefore inp) then createdAt else ami_NotBefore inp);
          runID = (if TrimSpace (ami_TaskRunID inp) = [] then fresh else TrimSpace (ami_TaskRunID inp))
      in
      if gm_has (taskRuns s) runID then (s, Inl ErrAlreadyExists)
      else case messageEventPayload text runID of
        Inl e \<Rightarrow> (s, Inl e)
      | Inr messagePayload \<Rightarrow>
      let queuedPayload = runQueuedEventPayload runID in
      (case marshalEventPayload messagePayload of Inl e \<Rightarrow> (s, Inl e) | Inr _ \<Rightarrow>
      (case marshalEventPayload queuedPayload of Inl e \<Rightarrow> (s, Inl e) | Inr _ \<Rightarrow>
      let message = \<lparr>ev_SessionID = sid, ev_Seq = ss_LastEventSeq session + 1,
            ev_Type = EventMessageCreated, ev_Payload = messagePayload, ev_ActorID = actor,
            ev_ClientRequestID = req, ev_CreatedAt = createdAt\<rparr>;
          run = \<lparr>tr_ID = runID, tr_AccountID = acct, tr_NamespaceID = ss_NamespaceID session,
            tr_SessionID = sid, tr_ClientRequestID = req, tr_State = TaskRunQueued,
            tr_Priority = ami_Priority inp, tr_NotBefore = notBefore, tr_CreatedAt = createdAt,
            tr_UpdatedAt = createdAt, tr_Attempt = 0, tr_LeaseOwner = [], tr_LeaseToken = [],
            tr_LeaseExpires = zero_time, tr_Fence = 0, tr_BridgeRef = []\<rparr>;
          queued = \<lparr>ev_SessionID = sid, ev_Seq = ev_Seq message + 1, ev_Type = EventRunQueued,
            ev_Payload = queuedPayload, ev_ActorID = actor, ev_ClientRequestID = [],
            ev_CreatedAt = createdAt\<rparr>
      in
      (case appendMessageToContext (ss_Context session) (messageContextValue text runID createdAt) of
         Inl e \<Rightarrow> (s, Inl e)
       | Inr (nextContext, encoded) \<Rightarrow>
           let session' = session\<lparr>ss_LastEventSeq := ev_Seq queued,
                 ss_SnapshotVer := ss_SnapshotVer session + 2, ss_Context := nextContext,
                 ss_UpdatedAt := createdAt\<rparr>
           in (s\<lparr>events := gm_put sid (gm_list (events s) sid @ [message, queued]) (events s),
                  eventByRequest := gm_put (requestKey sid req) message (eventByRequest s),
                  taskRuns := gm_put runID run (taskRuns s),
                  runRouting := gm_put runID routing (runRouting s),
                  sessions := gm_put (ss_ID session) session' (sessions s)\<rparr>,
               Inr \<lparr>mcr_Message = message, mcr_Queued = queued, mcr_TaskRun = run,
                    mcr_SnapshotVer = ss_SnapshotVer session', mcr_LastEventSeq = ss_LastEventSeq session',
                    mcr_Existing = False\<rparr>))))))"

definition EnqueueTaskRun ::
  "time \<Rightarrow> EnqueueTaskRunInput \<Rightarrow> MemoryStore \<Rightarrow> TaskRun ts_result" where
  "EnqueueTaskRun now inp s =
     (if gm_has (taskRuns s) (eti_ID inp) then (s, Inl ErrAlreadyExists)
      else case gm_get (sessions s) (eti_SessionID inp) of
        None \<Rightarrow> (s, Inl ErrAccountMismatch)
      | Some session \<Rightarrow>
          if ss_AccountID session \<noteq> eti_AccountID inp \<or> ss_NamespaceID session \<noteq> eti_NamespaceID inp
          then (s, Inl ErrAccountMismatch)
          else
            let createdAt = orNow (eti_CreatedAt inp) now;
                run = \<lparr>tr_ID = eti_ID inp, tr_AccountID = eti_AccountID inp,
                  tr_NamespaceID = eti_NamespaceID inp, tr_SessionID = eti_SessionID inp,
                  tr_ClientRequestID = eti_ClientRequestID inp, tr_State = TaskRunQueued,
                  tr_Priority = eti_Priority inp,
                  tr_NotBefore = (if IsZero (eti_NotBefore inp) then createdAt else eti_NotBefore inp),
                  tr_CreatedAt = createdAt, tr_UpdatedAt = createdAt, tr_Attempt = 0,
                  tr_LeaseOwner = [], tr_LeaseToken = [], tr_LeaseExpires = zero_time,
                  tr_Fence = 0, tr_BridgeRef = []\<rparr>
            in (s\<lparr>taskRuns := gm_put (eti_ID inp) run (taskRuns s)\<rparr>, Inr run))"

text \<open>The next state of a run for a callback event, and whether it settles the run.\<close>

definition stateForRunEvent :: "string \<Rightarrow> string \<Rightarrow> ts_error + string \<times> bool" where
  "stateForRunEvent eventType currentState =
     (let t = TrimSpace eventType in
      if t = EventRunRunning \<or> t = EventRunProgressed \<or> t = EventAssistantMessageCreated
        then Inr (currentState, False)
      else if t = EventRunCompleted then Inr (TaskRunComplete, True)
      else if t = EventRunFailed then Inr (TaskRunFailed, True)
      else if t = EventRunCancelled then Inr (TaskRunCanceled, True)
      else Inl ErrInvalidInput)"

definition RecordTaskRunEvent ::
  "time \<Rightarrow> TaskRunEventInput \<Rightarrow> MemoryStore \<Rightarrow> TaskRunEventResult ts_result" where
  "RecordTaskRunEvent now inp s =
     (let acct = TrimSpace (tei_AccountID inp); rid = TrimSpace (tei_TaskRunID inp);
          req = TrimSpace (tei_ClientRequestID inp); token = TrimSpace (tei_LeaseToken inp);
          typ = TrimSpace (tei_Type inp)
      in
      if acct = [] \<or> rid = [] \<or> req = [] \<or> token = [] then (s, Inl ErrInvalidInput)
      else case gm_get (taskRuns s) rid of
        None \<Rightarrow> (s, Inl ErrNotFound)
      | Some run \<Rightarrow>
      if tr_AccountID run \<noteq> acct then (s, Inl ErrNotFound)
      else case gm_get (sessions s) (tr_SessionID run) of
        None \<Rightarrow> (s, Inl ErrNotFound)
      | Some session \<Rightarrow>
      let createdAt = orNow (tei_CreatedAt inp) now in
      if tr_Fence run \<noteq> tei_Fence inp \<or> tr_LeaseToken run \<noteq> token \<or> \<not> tr_LeaseExpires run > createdAt
      then (s, Inl ErrLeaseConflict)
      else case gm_get (eventByRequest s) (requestKey (tr_SessionID run) req) of
        Some existing \<Rightarrow>
          (s, Inr \<lparr>ter_Event = existing, ter_TaskRun = run,
                   ter_SnapshotVer = ss_SnapshotVer session, ter_LastEventSeq = ss_LastEventSeq session\<rparr>)
      | None \<Rightarrow>
      if tr_State run \<noteq> TaskRunRunning then (s, Inl ErrLeaseConflict)
      else case stateForRunEvent typ (tr_State run) of
        Inl e \<Rightarrow> (s, Inl e)
      | Inr (nextState, terminal) \<Rightarrow>
      let payload = taskRunEventPayload (tei_Payload inp) (tr_ID run) (tei_Fence inp) nextState in
      (case marshalEventPayload payload of
         Inl e \<Rightarrow> (s, Inl e)
       | Inr encoded \<Rightarrow>
           let event = \<lparr>ev_SessionID = tr_SessionID run, ev_Seq = ss_LastEventSeq session + 1,
                 ev_Type = typ, ev_Payload = payload, ev_ActorID = TrimSpace (tei_ActorID inp),
                 ev_ClientRequestID = req, ev_CreatedAt = createdAt\<rparr>;
               bridgeRef = TrimSpace (tei_BridgeRef inp);
               run' = run\<lparr>tr_State := nextState,
                 tr_BridgeRef := (if bridgeRef \<noteq> [] then bridgeRef else tr_BridgeRef run),
                 tr_UpdatedAt := createdAt\<rparr>;
               session' = session\<lparr>ss_LastEventSeq := ev_Seq event,
                 ss_SnapshotVer := ss_SnapshotVer session + 1,
                 ss_Context := gm_put ''lastRunState'' (GString nextState) (ss_Context session),
                 ss_UpdatedAt := createdAt\<rparr>
           in (s\<lparr>events := gm_put (tr_SessionID run)
                    (gm_list (events s) (tr_SessionID run) @ [event]) (events s),
                  eventByRequest := gm_put (requestKey (tr_SessionID run) req) event (eventByRequest s),
                  taskRuns := gm_put (tr_ID run) run' (taskRuns s),
                  sessions := gm_put (ss_ID session) session' (sessions s)\<rparr>,
               Inr \<lparr>ter_Event = event, ter_TaskRun = run', ter_SnapshotVer = ss_SnapshotVer session',
                    ter_LastEventSeq = ss_LastEventSeq session'\<rparr>)))"

section \<open>Claiming\<close>

definition active_for :: "string \<Rightarrow> TaskRun \<Rightarrow> bool" where
  "active_for accountID task \<longleftrightarrow> tr_AccountID task = accountID \<and> tr_State task = TaskRunRunning"

definition countActive :: "(string, TaskRun) gomap \<Rightarrow> string \<Rightarrow> int" where
  "countActive tasks accountID = int (count_vals (active_for accountID) tasks)"

definition active_in :: "string \<Rightarrow> string \<Rightarrow> TaskRun \<Rightarrow> bool" where
  "active_in accountID namespaceID task \<longleftrightarrow> tr_AccountID task = accountID \<and>
     tr_NamespaceID task = namespaceID \<and> tr_State task = TaskRunRunning"

definition countActiveForNamespace :: "(string, TaskRun) gomap \<Rightarrow> string \<Rightarrow> string \<Rightarrow> int" where
  "countActiveForNamespace tasks accountID namespaceID =
     int (count_vals (active_in accountID namespaceID) tasks)"

definition due :: "string \<Rightarrow> time \<Rightarrow> TaskRun \<Rightarrow> bool" where
  "due accountID now task \<longleftrightarrow> tr_AccountID task = accountID \<and>
     tr_State task = TaskRunQueued \<and> \<not> tr_NotBefore task > now"

definition eligibleNamespaceIDs ::
  "(string, TaskRun) gomap \<Rightarrow> string \<Rightarrow> (string, Namespace) gomap \<Rightarrow> time \<Rightarrow> string list" where
  "eligibleNamespaceIDs tasks accountID nss now =
     (let seen = remdups (map tr_NamespaceID (filter (due accountID now) (gm_vals tasks)))
      in sort (filter (gm_has nss) seen))"

text \<open>\<open>a\<close> is preferred to the selected \<open>b\<close>: a higher priority, or the same and created earlier.\<close>

definition preferred :: "TaskRun \<Rightarrow> TaskRun \<Rightarrow> bool" where
  "preferred a b \<longleftrightarrow> tr_Priority a > tr_Priority b \<or>
     tr_Priority a = tr_Priority b \<and> tr_CreatedAt a < tr_CreatedAt b"

definition oldestEligibleRun ::
  "(string, TaskRun) gomap \<Rightarrow> string \<Rightarrow> string \<Rightarrow> time \<Rightarrow> TaskRun option" where
  "oldestEligibleRun tasks accountID namespaceID now =
     select (\<lambda>task. due accountID now task \<and> tr_NamespaceID task = namespaceID) preferred
       (gm_vals tasks)"

fun index_of :: "'a \<Rightarrow> 'a list \<Rightarrow> nat option" where
  "index_of x [] = None"
| "index_of x (y # ys) = (if y = x then Some 0 else map_option Suc (index_of x ys))"

definition claim_start :: "string \<Rightarrow> string list \<Rightarrow> nat" where
  "claim_start lst ids =
     (if lst = [] then 0
      else case index_of lst ids of None \<Rightarrow> 0 | Some i \<Rightarrow> Suc i mod length ids)"

definition claim_order :: "nat \<Rightarrow> string list \<Rightarrow> string list" where
  "claim_order start ids = map (\<lambda>off. ids ! ((start + off) mod length ids)) [0..<length ids]"

definition maxActiveRuns :: "MemoryStore \<Rightarrow> string \<Rightarrow> int" where
  "maxActiveRuns s nsID = (case gm_get (namespaces s) nsID of None \<Rightarrow> 0 | Some ns \<Rightarrow> ns_MaxActiveRuns ns)"

text \<open>The loop over the namespaces in the order of the turn.\<close>

fun claim_loop :: "MemoryStore \<Rightarrow> string \<Rightarrow> time \<Rightarrow> string list \<Rightarrow> (string \<times> TaskRun) option" where
  "claim_loop s acct now [] = None"
| "claim_loop s acct now (nsID # rest) =
     (if countActiveForNamespace (taskRuns s) acct nsID \<ge> maxActiveRuns s nsID
      then claim_loop s acct now rest
      else case oldestEligibleRun (taskRuns s) acct nsID now of
        None \<Rightarrow> claim_loop s acct now rest
      | Some candidate \<Rightarrow> Some (nsID, candidate))"

definition claimed :: "string \<Rightarrow> ClaimInput \<Rightarrow> TaskRun \<Rightarrow> TaskRun" where
  "claimed fresh inp candidate = candidate\<lparr>tr_State := TaskRunRunning,
     tr_Attempt := tr_Attempt candidate + 1, tr_LeaseOwner := ci_WorkerID inp,
     tr_LeaseToken := fresh, tr_LeaseExpires := ci_Now inp + ci_LeaseTTL inp,
     tr_Fence := tr_Fence candidate + 1, tr_UpdatedAt := ci_Now inp\<rparr>"

definition claim_defaults :: "time \<Rightarrow> ClaimInput \<Rightarrow> ClaimInput" where
  "claim_defaults clock inp = inp\<lparr>ci_Now := orNow (ci_Now inp) clock,
     ci_MaxGlobalActive :=
       (if ci_MaxGlobalActive inp \<le> 0 \<or> ci_MaxGlobalActive inp > defaultGlobalMaxActive
        then defaultGlobalMaxActive else ci_MaxGlobalActive inp),
     ci_LeaseTTL := (if ci_LeaseTTL inp \<le> 0 then Minute else ci_LeaseTTL inp)\<rparr>"

definition ClaimNext :: "string \<Rightarrow> time \<Rightarrow> ClaimInput \<Rightarrow> MemoryStore \<Rightarrow> TaskRun ts_result" where
  "ClaimNext fresh clock inp s =
     (let inp = claim_defaults clock inp; acct = ci_AccountID inp in
      if countActive (taskRuns s) acct \<ge> ci_MaxGlobalActive inp then (s, Inl ErrNoEligibleTask)
      else
        let ids = eligibleNamespaceIDs (taskRuns s) acct (namespaces s) (ci_Now inp) in
        if ids = [] then (s, Inl ErrNoEligibleTask)
        else
          let start = claim_start (gm_str (lastClaimNamespace s) acct) ids in
          case claim_loop s acct (ci_Now inp) (claim_order start ids) of
            None \<Rightarrow> (s, Inl ErrNoEligibleTask)
          | Some (nsID, candidate) \<Rightarrow>
              let run = claimed fresh inp candidate in
              (s\<lparr>taskRuns := gm_put (tr_ID run) run (taskRuns s),
                 lastClaimNamespace := gm_put acct nsID (lastClaimNamespace s)\<rparr>, Inr run))"

section \<open>Leases and cancellation\<close>

definition normalizeRenew :: "time \<Rightarrow> RenewLeaseInput \<Rightarrow> ts_error + RenewLeaseInput" where
  "normalizeRenew now inp =
     (let inp = inp\<lparr>rli_AccountID := TrimSpace (rli_AccountID inp),
            rli_TaskRunID := TrimSpace (rli_TaskRunID inp),
            rli_WorkerID := TrimSpace (rli_WorkerID inp),
            rli_LeaseToken := TrimSpace (rli_LeaseToken inp)\<rparr>
      in
      if rli_AccountID inp = [] \<or> rli_TaskRunID inp = [] \<or> rli_WorkerID inp = [] \<or> rli_LeaseToken inp = []
        then Inl ErrInvalidInput
      else if rli_LeaseTTL inp < MinSchedulerLeaseTTL \<or> rli_LeaseTTL inp > MaxSchedulerLeaseTTL
        then Inl ErrInvalidInput
      else Inr (inp\<lparr>rli_Now := orNow (rli_Now inp) now\<rparr>))"

definition normalizeCancel :: "time \<Rightarrow> CancelRunInput \<Rightarrow> ts_error + CancelRunInput" where
  "normalizeCancel now inp =
     (let inp = inp\<lparr>cri_AccountID := TrimSpace (cri_AccountID inp),
            cri_SessionID := TrimSpace (cri_SessionID inp),
            cri_TaskRunID := TrimSpace (cri_TaskRunID inp),
            cri_ActorID := TrimSpace (cri_ActorID inp),
            cri_ClientRequestID := TrimSpace (cri_ClientRequestID inp)\<rparr>
      in
      if cri_AccountID inp = [] \<or> cri_SessionID inp = [] \<or> cri_TaskRunID inp = [] \<or>
         cri_ClientRequestID inp = []
        then Inl ErrInvalidInput
      else Inr (inp\<lparr>cri_ActorID := (if cri_ActorID inp = [] then cri_AccountID inp else cri_ActorID inp),
                     cri_CreatedAt := orNow (cri_CreatedAt inp) now\<rparr>))"

definition runFinished :: "string \<Rightarrow> bool" where
  "runFinished state \<longleftrightarrow>
     state = TaskRunComplete \<or> state = TaskRunFailed \<or> state = TaskRunCanceled"

definition cancel_request_of :: "TaskRun \<Rightarrow> Event \<Rightarrow> bool" where
  "cancel_request_of run event \<longleftrightarrow>
     ev_Type event = EventRunCancelRequested \<and> is_string (ev_Payload event) ''taskRunId'' (tr_ID run)"

definition cancelRequestedLocked :: "TaskRun \<Rightarrow> MemoryStore \<Rightarrow> bool" where
  "cancelRequestedLocked run s =
     list_ex (cancel_request_of run) (gm_list (events s) (tr_SessionID run))"

definition RenewLease ::
  "time \<Rightarrow> RenewLeaseInput \<Rightarrow> MemoryStore \<Rightarrow> RenewLeaseResult ts_result" where
  "RenewLease now inp s =
     (case normalizeRenew now inp of
        Inl e \<Rightarrow> (s, Inl e)
      | Inr inp \<Rightarrow>
      (case gm_get (taskRuns s) (rli_TaskRunID inp) of
         None \<Rightarrow> (s, Inl ErrNotFound)
       | Some run \<Rightarrow>
           if tr_AccountID run \<noteq> rli_AccountID inp then (s, Inl ErrNotFound)
           else if tr_State run \<noteq> TaskRunRunning \<or> tr_Fence run \<noteq> rli_Fence inp \<or>
              tr_LeaseToken run \<noteq> rli_LeaseToken inp \<or> tr_LeaseOwner run \<noteq> rli_WorkerID inp \<or>
              \<not> tr_LeaseExpires run > rli_Now inp
             then (s, Inl ErrLeaseConflict)
           else
             let run' = run\<lparr>tr_LeaseExpires := rli_Now inp + rli_LeaseTTL inp,
                            tr_UpdatedAt := rli_Now inp\<rparr>
             in (s\<lparr>taskRuns := gm_put (tr_ID run) run' (taskRuns s)\<rparr>,
                 Inr \<lparr>rlr_TaskRun = run', rlr_CancelRequested = cancelRequestedLocked run' s\<rparr>)))"

text \<open>The event a cancel appends, for a run that is neither finished nor already asked to stop.\<close>

definition cancel_event :: "TaskRun \<Rightarrow> Session \<Rightarrow> CancelRunInput \<Rightarrow> Event" where
  "cancel_event run session inp =
     \<lparr>ev_SessionID = tr_SessionID run, ev_Seq = ss_LastEventSeq session + 1,
      ev_Type = (if tr_State run = TaskRunQueued then EventRunCancelled else EventRunCancelRequested),
      ev_Payload = (if tr_State run = TaskRunQueued then cancelledBeforeStartPayload (tr_ID run)
                    else cancelRequestedPayload (tr_ID run)),
      ev_ActorID = cri_ActorID inp, ev_ClientRequestID = cri_ClientRequestID inp,
      ev_CreatedAt = cri_CreatedAt inp\<rparr>"

definition RequestCancel ::
  "time \<Rightarrow> CancelRunInput \<Rightarrow> MemoryStore \<Rightarrow> TaskRunEventResult ts_result" where
  "RequestCancel now inp s =
     (case normalizeCancel now inp of
        Inl e \<Rightarrow> (s, Inl e)
      | Inr inp \<Rightarrow>
      (case gm_get (sessions s) (cri_SessionID inp) of
         None \<Rightarrow> (s, Inl ErrNotFound)
       | Some session \<Rightarrow>
      if ss_AccountID session \<noteq> cri_AccountID inp then (s, Inl ErrNotFound)
      else case gm_get (taskRuns s) (cri_TaskRunID inp) of
         None \<Rightarrow> (s, Inl ErrNotFound)
       | Some run \<Rightarrow>
      if tr_AccountID run \<noteq> cri_AccountID inp \<or> tr_SessionID run \<noteq> cri_SessionID inp
        then (s, Inl ErrNotFound)
      else case gm_get (eventByRequest s) (requestKey (cri_SessionID inp) (cri_ClientRequestID inp)) of
        Some existing \<Rightarrow>
          if \<not> is_string (ev_Payload existing) ''taskRunId'' (tr_ID run) then (s, Inl ErrAlreadyExists)
          else (s, Inr \<lparr>ter_Event = existing, ter_TaskRun = run,
                        ter_SnapshotVer = ss_SnapshotVer session,
                        ter_LastEventSeq = ss_LastEventSeq session\<rparr>)
      | None \<Rightarrow>
      if runFinished (tr_State run) then (s, Inl ErrRunFinished)
      else
      case (if tr_State run = TaskRunQueued then None
            else find (cancel_request_of run) (gm_list (events s) (tr_SessionID run))) of
        Some existing \<Rightarrow>
          (s, Inr \<lparr>ter_Event = existing, ter_TaskRun = run, ter_SnapshotVer = ss_SnapshotVer session,
                   ter_LastEventSeq = ss_LastEventSeq session\<rparr>)
      | None \<Rightarrow>
          let event = cancel_event run session inp;
              run' = (if tr_State run = TaskRunQueued
                      then run\<lparr>tr_State := TaskRunCanceled, tr_UpdatedAt := cri_CreatedAt inp\<rparr> else run);
              session' = session\<lparr>ss_LastEventSeq := ev_Seq event,
                ss_SnapshotVer := ss_SnapshotVer session + 1,
                ss_Context := gm_put ''lastRunState'' (GString (tr_State run')) (ss_Context session),
                ss_UpdatedAt := cri_CreatedAt inp\<rparr>
          in (s\<lparr>events := gm_put (tr_SessionID run)
                   (gm_list (events s) (tr_SessionID run) @ [event]) (events s),
                 eventByRequest := gm_put (requestKey (cri_SessionID inp) (cri_ClientRequestID inp))
                   event (eventByRequest s),
                 taskRuns := gm_put (tr_ID run) run' (taskRuns s),
                 sessions := gm_put (ss_ID session) session' (sessions s)\<rparr>,
              Inr \<lparr>ter_Event = event, ter_TaskRun = run', ter_SnapshotVer = ss_SnapshotVer session',
                   ter_LastEventSeq = ss_LastEventSeq session'\<rparr>)))"

definition RunMessage_op :: "string \<Rightarrow> string \<Rightarrow> MemoryStore \<Rightarrow> ts_error + RunMessage" where
  "RunMessage_op accountID taskRunID s =
     (case gm_get (taskRuns s) (TrimSpace taskRunID) of
        None \<Rightarrow> Inl ErrNotFound
      | Some run \<Rightarrow>
          if tr_AccountID run \<noteq> TrimSpace accountID then Inl ErrNotFound
          else case find (\<lambda>e. ev_Type e = EventMessageCreated \<and>
                              is_string (ev_Payload e) ''taskRunId'' (tr_ID run))
                      (gm_list (events s) (tr_SessionID run)) of
            None \<Rightarrow> Inl ErrNotFound
          | Some event \<Rightarrow>
              Inr \<lparr>rm_Text = (case get_string (ev_Payload event) ''text'' of None \<Rightarrow> [] | Some t \<Rightarrow> t),
                   rm_Routing = cloneMap (gm_list (runRouting s) (tr_ID run))\<rparr>)"

end
