(* ===== verification/Task_Spec.thy ===== *)
theory Task_Spec
  imports Task_Store
begin

text \<open>
  The abstract specification of the task-session store: the life cycle of one run
  (\<open>run_step\<close>) and the primitive steps of the whole store (\<open>task_step\<close>), and the refinement
  lemmas: every operation of \<open>Task_Store\<close>, on every branch, makes one of these steps. The
  invariants are then proved once per abstract step.
\<close>

section \<open>The life cycle of a run\<close>

inductive run_step :: "TaskRun \<Rightarrow> TaskRun \<Rightarrow> bool" where
  rs_claim: "tr_State r = TaskRunQueued \<Longrightarrow>
    run_step r (r\<lparr>tr_State := TaskRunRunning, tr_Attempt := tr_Attempt r + 1, tr_LeaseOwner := w,
      tr_LeaseToken := tok, tr_LeaseExpires := x, tr_Fence := tr_Fence r + 1, tr_UpdatedAt := u\<rparr>)"
| rs_event: "tr_State r = TaskRunRunning \<Longrightarrow>
    st \<in> {TaskRunRunning, TaskRunComplete, TaskRunFailed, TaskRunCanceled} \<Longrightarrow>
    run_step r (r\<lparr>tr_State := st, tr_BridgeRef := b, tr_UpdatedAt := u\<rparr>)"
| rs_cancel: "tr_State r = TaskRunQueued \<Longrightarrow>
    run_step r (r\<lparr>tr_State := TaskRunCanceled, tr_UpdatedAt := u\<rparr>)"
| rs_renew: "tr_State r = TaskRunRunning \<Longrightarrow>
    run_step r (r\<lparr>tr_LeaseExpires := x, tr_UpdatedAt := u\<rparr>)"

inductive_cases run_stepE: "run_step r r'"

lemma rs_event_same_ref:
  assumes "tr_State r = TaskRunRunning"
    and "st \<in> {TaskRunRunning, TaskRunComplete, TaskRunFailed, TaskRunCanceled}"
  shows "run_step r (r\<lparr>tr_State := st, tr_UpdatedAt := u\<rparr>)"
  using rs_event [OF assms, of u "tr_BridgeRef r"] by simp

text \<open>A step keeps who a run belongs to, and never moves the fence back.\<close>

lemma run_step_identity:
  assumes "run_step r r'"
  shows "tr_ID r' = tr_ID r" "tr_AccountID r' = tr_AccountID r"
    "tr_NamespaceID r' = tr_NamespaceID r" "tr_SessionID r' = tr_SessionID r"
  using assms by (auto elim!: run_stepE)

lemma run_step_fence:
  assumes "run_step r r'"
  shows "tr_Fence r' - tr_Fence r = tr_Attempt r' - tr_Attempt r"
    and "tr_Fence r \<le> tr_Fence r'"
    and "tr_Fence r' = tr_Fence r + (if tr_State r = TaskRunQueued \<and> tr_State r' = TaskRunRunning then 1 else 0)"
  using assms by (auto elim!: run_stepE)

lemma run_step_unfinished: "run_step r r' \<Longrightarrow> \<not> runFinished (tr_State r)"
  by (auto elim!: run_stepE simp: runFinished_def)

lemma run_step_states:
  "run_step r r' \<Longrightarrow> tr_State r = TaskRunQueued \<and> tr_State r' \<in> {TaskRunRunning, TaskRunCanceled} \<or>
     tr_State r = TaskRunRunning \<and>
     tr_State r' \<in> {TaskRunRunning, TaskRunComplete, TaskRunFailed, TaskRunCanceled}"
  by (auto elim!: run_stepE)

section \<open>The steps of the store\<close>

text \<open>A run as it is created: queued, never attempted, in the session's account and namespace.\<close>

definition new_run :: "Session \<Rightarrow> TaskRun \<Rightarrow> bool" where
  "new_run ses r \<longleftrightarrow> tr_SessionID r = ss_ID ses \<and> tr_AccountID r = ss_AccountID ses \<and>
     tr_NamespaceID r = ss_NamespaceID ses \<and> tr_State r = TaskRunQueued \<and>
     tr_Attempt r = 0 \<and> tr_Fence r = 0 \<and> tr_LeaseToken r = []"

definition put_run :: "TaskRun option \<Rightarrow> (string, TaskRun) gomap \<Rightarrow> (string, TaskRun) gomap" where
  "put_run rn runs = (case rn of None \<Rightarrow> runs | Some r \<Rightarrow> gm_put (tr_ID r) r runs)"

definition put_request :: "Event option \<Rightarrow> (string, Event) gomap \<Rightarrow> (string, Event) gomap" where
  "put_request rq m =
     (case rq of None \<Rightarrow> m | Some e \<Rightarrow> gm_put (requestKey (ev_SessionID e) (ev_ClientRequestID e)) e m)"

text \<open>The run change that may come with a log entry: none, a new run, or a step that does not start one.\<close>

definition log_run :: "MemoryStore \<Rightarrow> Session \<Rightarrow> TaskRun option \<Rightarrow> bool" where
  "log_run s ses rn \<longleftrightarrow>
     (case rn of
        None \<Rightarrow> True
      | Some r \<Rightarrow>
          (case gm_get (taskRuns s) (tr_ID r) of
             None \<Rightarrow> new_run ses r
           | Some r0 \<Rightarrow> r = r0 \<or>
               run_step r0 r \<and> (tr_State r = TaskRunRunning \<longrightarrow> tr_State r0 = TaskRunRunning)))"

text \<open>The routing hints only change with a new run, for that run.\<close>

definition log_routing :: "MemoryStore \<Rightarrow> TaskRun option \<Rightarrow> (string, gobject) gomap \<Rightarrow> bool" where
  "log_routing s rn routing \<longleftrightarrow> routing = runRouting s \<or>
     (\<exists>r v. rn = Some r \<and> gm_get (taskRuns s) (tr_ID r) = None \<and> routing = gm_put (tr_ID r) v (runRouting s))"

inductive task_step :: "MemoryStore \<Rightarrow> MemoryStore \<Rightarrow> bool" where
  idle: "task_step s s"
| new_namespace:
    "gm_get (namespaces s) (ns_ID ns) = None \<Longrightarrow>
     gm_get (gm_list (namespacesByAcct s) (ns_AccountID ns)) (ns_Slug ns) = None \<Longrightarrow>
     ns_ID ns \<noteq> [] \<Longrightarrow> 1 \<le> ns_MaxActiveRuns ns \<Longrightarrow> ns_MaxActiveRuns ns \<le> defaultNamespaceMaxActive \<Longrightarrow>
     byAcct = namespacesByAcct s \<or> byAcct = gm_put (ns_AccountID ns) [] (namespacesByAcct s) \<and>
       gm_get (namespacesByAcct s) (ns_AccountID ns) = None \<Longrightarrow>
     task_step s (s\<lparr>namespaces := gm_put (ns_ID ns) ns (namespaces s),
       namespacesByAcct := gm_put (ns_AccountID ns)
         (gm_put (ns_Slug ns) (ns_ID ns) (gm_list byAcct (ns_AccountID ns))) byAcct\<rparr>)"
| new_session:
    "gm_get (sessions s) (ss_ID ses) = None \<Longrightarrow>
     gm_get (namespaces s) (ss_NamespaceID ses) = Some ns \<Longrightarrow> ns_AccountID ns = ss_AccountID ses \<Longrightarrow>
     ss_SnapshotVer ses = 0 \<Longrightarrow> ss_LastEventSeq ses = 0 \<Longrightarrow>
     task_step s (s\<lparr>sessions := gm_put (ss_ID ses) ses (sessions s)\<rparr>)"
| append_log:
    "gm_get (sessions s) sid = Some ses \<Longrightarrow> ss_ID ses = sid \<Longrightarrow>
     map ev_Seq evs = [ss_LastEventSeq ses + 1..ss_LastEventSeq ses + int (length evs)] \<Longrightarrow>
     \<forall>e \<in> set evs. ev_SessionID e = sid \<Longrightarrow>
     rq = None \<or> (\<exists>e \<in> set evs. rq = Some e) \<Longrightarrow>
     log_run s ses rn \<Longrightarrow> log_routing s rn routing \<Longrightarrow>
     task_step s (s\<lparr>events := gm_put sid (gm_list (events s) sid @ evs) (events s),
       eventByRequest := put_request rq (eventByRequest s),
       taskRuns := put_run rn (taskRuns s), runRouting := routing,
       sessions := gm_put sid (ses\<lparr>ss_LastEventSeq := ss_LastEventSeq ses + int (length evs),
         ss_SnapshotVer := ss_SnapshotVer ses + int (length evs),
         ss_Context := c, ss_UpdatedAt := t\<rparr>) (sessions s)\<rparr>)"
| new_queued:
    "gm_get (sessions s) (ss_ID ses) = Some ses \<Longrightarrow> new_run ses r \<Longrightarrow>
     gm_get (taskRuns s) (tr_ID r) = None \<Longrightarrow>
     task_step s (s\<lparr>taskRuns := gm_put (tr_ID r) r (taskRuns s)\<rparr>)"
| claim:
    "gm_get (taskRuns s) (tr_ID r) = Some r \<Longrightarrow> run_step r r' \<Longrightarrow>
     tr_State r = TaskRunQueued \<Longrightarrow> tr_State r' = TaskRunRunning \<Longrightarrow>
     countActive (taskRuns s) (tr_AccountID r) < defaultGlobalMaxActive \<Longrightarrow>
     countActiveForNamespace (taskRuns s) (tr_AccountID r) (tr_NamespaceID r) <
       maxActiveRuns s (tr_NamespaceID r) \<Longrightarrow>
     task_step s (s\<lparr>taskRuns := gm_put (tr_ID r) r' (taskRuns s),
       lastClaimNamespace := gm_put (tr_AccountID r) (tr_NamespaceID r) (lastClaimNamespace s)\<rparr>)"
| renew:
    "gm_get (taskRuns s) (tr_ID r) = Some r \<Longrightarrow> run_step r r' \<Longrightarrow>
     tr_State r = TaskRunRunning \<Longrightarrow> tr_State r' = TaskRunRunning \<Longrightarrow>
     task_step s (s\<lparr>taskRuns := gm_put (tr_ID r) r' (taskRuns s)\<rparr>)"

lemmas task_step_cases = task_step.cases [consumes 1, case_names idle new_namespace new_session
    append_log new_queued claim renew]

section \<open>The selection loops\<close>

interpretation prefer_run: selection preferred
  by unfold_locales (auto simp: preferred_def)

interpretation prefer_later: selection later_run
  by unfold_locales (auto simp: later_run_def)

lemma oldestEligibleRun_SomeD:
  assumes "oldestEligibleRun tasks acct nsID now = Some r"
  shows "r \<in> set (gm_vals tasks)" "due acct now r" "tr_NamespaceID r = nsID"
    "\<And>q. q \<in> set (gm_vals tasks) \<Longrightarrow> due acct now q \<Longrightarrow> tr_NamespaceID q = nsID \<Longrightarrow> \<not> preferred q r"
  using prefer_run.select_SomeD [OF assms [unfolded oldestEligibleRun_def]] by auto

lemma oldestEligibleRun_None_iff:
  "oldestEligibleRun tasks acct nsID now = None \<longleftrightarrow>
     (\<forall>r \<in> set (gm_vals tasks). \<not> (due acct now r \<and> tr_NamespaceID r = nsID))"
  by (simp only: oldestEligibleRun_def prefer_run.select_None_iff)

section \<open>Refinement: every operation makes an abstract step\<close>

text \<open>
  The keys of the session and run maps are the ids of the records under them. This part of
  the invariant is what the refinement needs.
\<close>

definition ids_ok :: "MemoryStore \<Rightarrow> bool" where
  "ids_ok s \<longleftrightarrow> (\<forall>k ses. gm_get (sessions s) k = Some ses \<longrightarrow> ss_ID ses = k) \<and>
     (\<forall>k r. gm_get (taskRuns s) k = Some r \<longrightarrow> tr_ID r = k)"

lemma ids_okD:
  "ids_ok s \<Longrightarrow> gm_get (sessions s) k = Some ses \<Longrightarrow> ss_ID ses = k"
  "ids_ok s \<Longrightarrow> gm_get (taskRuns s) k = Some r \<Longrightarrow> tr_ID r = k"
  by (auto simp: ids_ok_def)

lemma createNamespaceLocked_step: "task_step s (fst (createNamespaceLocked now inp s))"
proof -
  let ?id = "TrimSpace (cni_ID inp)" and ?acct = "TrimSpace (cni_AccountID inp)"
  let ?slug = "TrimSpace (cni_Slug inp)"
  let ?byAcct = "if gm_has (namespacesByAcct s) ?acct then namespacesByAcct s
    else gm_put ?acct [] (namespacesByAcct s)"
  let ?ns = "\<lparr>ns_ID = ?id, ns_AccountID = ?acct, ns_Slug = ?slug,
    ns_DisplayName = TrimSpace (cni_DisplayName inp),
    ns_MaxActiveRuns = (if cni_MaxActiveRuns inp \<le> 0 \<or> cni_MaxActiveRuns inp > defaultNamespaceMaxActive
                         then defaultNamespaceMaxActive else cni_MaxActiveRuns inp),
    ns_CreatedAt = orNow (cni_CreatedAt inp) now\<rparr>"
  show ?thesis
  proof (cases "?id = [] \<or> ?acct = [] \<or> ?slug = [] \<or> gm_has (namespaces s) ?id \<or>
      gm_has (gm_list (namespacesByAcct s) ?acct) ?slug")
    case True
    then have "fst (createNamespaceLocked now inp s) = s"
      by (auto simp: createNamespaceLocked_def Let_def gm_list_def)
    then show ?thesis by (simp add: idle)
  next
    case False
    then have "fst (createNamespaceLocked now inp s) =
      s\<lparr>namespaces := gm_put ?id ?ns (namespaces s),
        namespacesByAcct := gm_put ?acct (gm_put ?slug ?id (gm_list ?byAcct ?acct)) ?byAcct\<rparr>"
      by (cases "gm_has (namespacesByAcct s) ?acct")
        (simp_all add: createNamespaceLocked_def Let_def gm_list_def)
    moreover have "task_step s (s\<lparr>namespaces := gm_put (ns_ID ?ns) ?ns (namespaces s),
        namespacesByAcct := gm_put (ns_AccountID ?ns)
          (gm_put (ns_Slug ?ns) (ns_ID ?ns) (gm_list ?byAcct (ns_AccountID ?ns))) ?byAcct\<rparr>)"
      using False by (intro new_namespace) auto
    ultimately show ?thesis by simp
  qed
qed

lemma EnsurePersonalNamespace_step:
  "task_step s (fst (EnsurePersonalNamespace fresh clock accountID now s))"
  by (auto simp: EnsurePersonalNamespace_def Let_def idle createNamespaceLocked_step)

text \<open>The rules in the form the operations produce: the successor state up to an equation.\<close>

lemma new_sessionI:
  assumes "gm_get (sessions s) sid = None" and "ss_ID ses = sid"
    and "gm_get (namespaces s) (ss_NamespaceID ses) = Some ns" and "ns_AccountID ns = ss_AccountID ses"
    and "ss_SnapshotVer ses = 0" and "ss_LastEventSeq ses = 0"
  shows "task_step s (s\<lparr>sessions := gm_put sid ses (sessions s)\<rparr>)"
  using new_session [of s ses ns] assms by simp

lemma CreateSession_step: "task_step s (fst (CreateSession now inp s))"
  by (auto simp: CreateSession_def Let_def idle intro!: new_sessionI split: option.split)

lemma new_queuedI:
  assumes "gm_get (sessions s) (tr_SessionID r) = Some ses" and "ss_ID ses = tr_SessionID r"
    and "new_run ses r" and "gm_get (taskRuns s) rid = None" and "tr_ID r = rid"
  shows "task_step s (s\<lparr>taskRuns := gm_put rid r (taskRuns s)\<rparr>)"
  using new_queued [of s ses r] assms by (simp add: new_run_def)

lemma EnqueueTaskRun_step:
  assumes "ids_ok s"
  shows "task_step s (fst (EnqueueTaskRun now inp s))"
  using ids_okD(1) [OF assms]
  by (auto simp: EnqueueTaskRun_def Let_def idle new_run_def intro!: new_queuedI split: option.split)

lemma append_logI:
  assumes "gm_get (sessions s) sid = Some ses" and "ss_ID ses = sid"
    and "map ev_Seq evs = [ss_LastEventSeq ses + 1..ss_LastEventSeq ses + int (length evs)]"
    and "\<forall>e \<in> set evs. ev_SessionID e = sid"
    and "rq = None \<or> (\<exists>e \<in> set evs. rq = Some e)" and "log_run s ses rn"
    and "log_routing s rn routing"
    and "s' = s\<lparr>events := gm_put sid (gm_list (events s) sid @ evs) (events s),
       eventByRequest := put_request rq (eventByRequest s),
       taskRuns := put_run rn (taskRuns s), runRouting := routing,
       sessions := gm_put sid (ses\<lparr>ss_LastEventSeq := ss_LastEventSeq ses + int (length evs),
         ss_SnapshotVer := ss_SnapshotVer ses + int (length evs),
         ss_Context := c, ss_UpdatedAt := t\<rparr>) (sessions s)\<rparr>"
  shows "task_step s s'"
  using append_log [OF assms(1-7)] assms(8) by simp

lemma upto_short [simp]: "[i..i] = [i]" "[i + 1..i + 2] = [i + 1, i + 2]" for i :: int
  by (simp_all add: upto.simps)

lemma log_eventI:
  assumes "gm_get (sessions s) sid = Some ses" and "ss_ID ses = sid" and "sid' = sid"
    and "ev_Seq e = ss_LastEventSeq ses + 1" and "ev_SessionID e = sid"
    and "lseq = ss_LastEventSeq ses + 1" and "ver = ss_SnapshotVer ses + 1"
  shows "task_step s (s\<lparr>events := gm_put sid (gm_list (events s) sid @ [e]) (events s),
    sessions := gm_put sid' (ses\<lparr>ss_LastEventSeq := lseq, ss_SnapshotVer := ver,
      ss_Context := c, ss_UpdatedAt := t\<rparr>) (sessions s)\<rparr>)"
  using assms
  by (intro append_logI [where evs = "[e]" and rn = None and ses = ses and sid = sid and c = c and t = t
      and rq = None and routing = "runRouting s"])
    (auto simp: log_run_def log_routing_def put_run_def put_request_def)

lemma log_requestI:
  assumes "gm_get (sessions s) sid = Some ses" and "ss_ID ses = sid" and "sid' = sid"
    and "ev_Seq e = ss_LastEventSeq ses + 1" and "ev_SessionID e = sid"
    and "lseq = ss_LastEventSeq ses + 1" and "ver = ss_SnapshotVer ses + 1"
    and "rkey = requestKey sid (ev_ClientRequestID e)"
  shows "task_step s (s\<lparr>events := gm_put sid (gm_list (events s) sid @ [e]) (events s),
    eventByRequest := gm_put rkey e (eventByRequest s),
    sessions := gm_put sid' (ses\<lparr>ss_LastEventSeq := lseq, ss_SnapshotVer := ver,
      ss_Context := c, ss_UpdatedAt := t\<rparr>) (sessions s)\<rparr>)"
  using assms
  by (intro append_logI [where evs = "[e]" and rn = None and ses = ses and sid = sid and c = c and t = t
      and rq = "Some e" and routing = "runRouting s"])
    (auto simp: log_run_def log_routing_def put_run_def put_request_def)

lemma log_run_stepI:
  assumes "gm_get (taskRuns s) k = Some r0" and "tr_ID r = k" and "run_step r0 r"
    and "tr_State r = TaskRunRunning \<Longrightarrow> tr_State r0 = TaskRunRunning"
  shows "log_run s ses (Some r)"
  using assms by (auto simp: log_run_def)

lemma log_run_cancelI:
  "gm_get (taskRuns s) k = Some r \<Longrightarrow> tr_ID r = k \<Longrightarrow> tr_State r = TaskRunQueued \<Longrightarrow>
   log_run s ses (Some (r\<lparr>tr_State := TaskRunCanceled, tr_UpdatedAt := u\<rparr>))"
  using rs_cancel [of r u] by (auto simp: log_run_def)

lemma log_run_same: "gm_get (taskRuns s) k = Some r \<Longrightarrow> tr_ID r = k \<Longrightarrow> log_run s ses (Some r)"
  by (auto simp: log_run_def)

lemma log_run_eventI:
  assumes "gm_get (sessions s) sid = Some ses" and "ss_ID ses = sid" and "sid' = sid"
    and "ev_Seq e = ss_LastEventSeq ses + 1" and "ev_SessionID e = sid"
    and "lseq = ss_LastEventSeq ses + 1" and "ver = ss_SnapshotVer ses + 1"
    and "rkey = requestKey sid (ev_ClientRequestID e)"
    and "tr_ID r = rid" and "log_run s ses (Some r)"
  shows "task_step s (s\<lparr>events := gm_put sid (gm_list (events s) sid @ [e]) (events s),
    eventByRequest := gm_put rkey e (eventByRequest s),
    taskRuns := gm_put rid r (taskRuns s),
    sessions := gm_put sid' (ses\<lparr>ss_LastEventSeq := lseq, ss_SnapshotVer := ver,
      ss_Context := c, ss_UpdatedAt := t\<rparr>) (sessions s)\<rparr>)"
  using assms
  by (intro append_logI [where evs = "[e]" and rn = "Some r" and ses = ses and sid = sid and c = c and t = t
      and rq = "Some e" and routing = "runRouting s"])
    (auto simp: put_run_def put_request_def log_routing_def)

lemma log_messageI:
  assumes "gm_get (sessions s) sid = Some ses" and "ss_ID ses = sid" and "sid' = sid"
    and "ev_Seq e = ss_LastEventSeq ses + 1" and "ev_SessionID e = sid"
    and "ev_Seq q = ss_LastEventSeq ses + 2" and "ev_SessionID q = sid"
    and "lseq = ss_LastEventSeq ses + 2" and "ver = ss_SnapshotVer ses + 2"
    and "rkey = requestKey sid (ev_ClientRequestID e)"
    and "tr_ID r = rid" and "gm_get (taskRuns s) rid = None" and "new_run ses r"
    and "routing = gm_put rid v (runRouting s)"
  shows "task_step s (s\<lparr>events := gm_put sid (gm_list (events s) sid @ [e, q]) (events s),
    eventByRequest := gm_put rkey e (eventByRequest s),
    taskRuns := gm_put rid r (taskRuns s), runRouting := routing,
    sessions := gm_put sid' (ses\<lparr>ss_LastEventSeq := lseq, ss_SnapshotVer := ver,
      ss_Context := c, ss_UpdatedAt := t\<rparr>) (sessions s)\<rparr>)"
  using assms
  by (intro append_logI [where evs = "[e, q]" and rn = "Some r" and ses = ses and sid = sid and c = c
      and t = t and rq = "Some e" and routing = routing])
    (auto simp: put_run_def put_request_def log_run_def log_routing_def)

lemma AppendEvent_step:
  assumes "ids_ok s"
  shows "task_step s (fst (AppendEvent now inp s))"
  using ids_okD(1) [OF assms]
  by (auto simp: AppendEvent_def Let_def idle intro!: log_eventI log_requestI
      split: option.split sum.split)

lemma AppendMessage_step:
  assumes "ids_ok s"
  shows "task_step s (fst (AppendMessage fresh now inp s))"
proof (rule post_D [where Q = "\<lambda>r. task_step s (fst r)"], unfold AppendMessage_def, intro branches)
qed (auto simp: post_def idle new_run_def dest: ids_okD [OF assms] intro!: log_messageI)

lemma stateForRunEvent_Inr:
  "stateForRunEvent typ TaskRunRunning = Inr (st, fin) \<Longrightarrow>
     st \<in> {TaskRunRunning, TaskRunComplete, TaskRunFailed, TaskRunCanceled}"
  by (auto simp: stateForRunEvent_def Let_def split: if_splits)

lemma RecordTaskRunEvent_step:
  assumes "ids_ok s"
  shows "task_step s (fst (RecordTaskRunEvent now inp s))"
proof (rule post_D [where Q = "\<lambda>r. task_step s (fst r)"], unfold RecordTaskRunEvent_def, intro branches)
qed (auto simp: post_def idle dest: ids_okD [OF assms] stateForRunEvent_Inr
    intro!: log_run_eventI log_run_stepI rs_event rs_event_same_ref)

lemma RequestCancel_step:
  assumes "ids_ok s"
  shows "task_step s (fst (RequestCancel now inp s))"
proof (rule post_D [where Q = "\<lambda>r. task_step s (fst r)"], unfold RequestCancel_def, intro branches)
qed (auto simp: post_def idle cancel_event_def dest: ids_okD [OF assms]
      intro!: log_run_eventI log_run_cancelI intro: log_run_same)

lemma renewI:
  assumes "gm_get (taskRuns s) k = Some r" and "tr_ID r = k" and "tr_State r = TaskRunRunning"
    and "rid = tr_ID r"
  shows "task_step s (s\<lparr>taskRuns := gm_put rid (r\<lparr>tr_LeaseExpires := x, tr_UpdatedAt := u\<rparr>) (taskRuns s)\<rparr>)"
  using renew [OF _ rs_renew, of s r u x] assms by simp

lemma RenewLease_step:
  assumes "ids_ok s"
  shows "task_step s (fst (RenewLease now inp s))"
proof (rule post_D [where Q = "\<lambda>r. task_step s (fst r)"], unfold RenewLease_def, intro branches)
qed (auto simp: post_def idle dest: ids_okD [OF assms] intro!: renewI)


lemma eligibleNamespaceIDs_iff:
  "nsID \<in> set (eligibleNamespaceIDs tasks acct nss now) \<longleftrightarrow> gm_has nss nsID \<and>
     (\<exists>r \<in> set (gm_vals tasks). due acct now r \<and> tr_NamespaceID r = nsID)"
  by (auto simp: eligibleNamespaceIDs_def Let_def)

lemma claim_loop_SomeD:
  assumes "claim_loop s acct now ids = Some (nsID, r)"
  obtains l m where "ids = l @ nsID # m"
    "countActiveForNamespace (taskRuns s) acct nsID < maxActiveRuns s nsID"
    "oldestEligibleRun (taskRuns s) acct nsID now = Some r"
    "\<And>i. i \<in> set l \<Longrightarrow> countActiveForNamespace (taskRuns s) acct i < maxActiveRuns s i \<Longrightarrow>
      oldestEligibleRun (taskRuns s) acct i now = None"
  using assms
proof (induction ids arbitrary: thesis)
  case Nil
  then show ?case by simp
next
  case (Cons i ids)
  show ?case
  proof (cases "countActiveForNamespace (taskRuns s) acct i < maxActiveRuns s i \<and>
      oldestEligibleRun (taskRuns s) acct i now \<noteq> None")
    case True
    then show ?thesis using Cons.prems(1) [of "[]" ids] Cons.prems(2) by auto
  next
    case False
    then have "claim_loop s acct now ids = Some (nsID, r)"
      using Cons.prems(2) by (auto split: option.splits if_splits)
    then obtain l m where "ids = l @ nsID # m"
      "countActiveForNamespace (taskRuns s) acct nsID < maxActiveRuns s nsID"
      "oldestEligibleRun (taskRuns s) acct nsID now = Some r"
      "\<And>i. i \<in> set l \<Longrightarrow> countActiveForNamespace (taskRuns s) acct i < maxActiveRuns s i \<Longrightarrow>
        oldestEligibleRun (taskRuns s) acct i now = None"
      using Cons.IH by blast
    then show ?thesis using Cons.prems(1) [of "i # l" m] False by auto
  qed
qed

lemma claim_loop_None_iff:
  "claim_loop s acct now ids = None \<longleftrightarrow>
     (\<forall>i \<in> set ids. countActiveForNamespace (taskRuns s) acct i < maxActiveRuns s i \<longrightarrow>
        oldestEligibleRun (taskRuns s) acct i now = None)"
  by (induction ids) (auto split: option.split)

text \<open>The order of the turn is a rotation of the sorted ids that ends with the last namespace served.\<close>

lemma claim_order_rotate: "claim_order start ids = rotate start ids"
  by (rule nth_equalityI) (simp_all add: claim_order_def nth_rotate)

lemma index_of_SomeD: "index_of x xs = Some i \<Longrightarrow> i < length xs \<and> xs ! i = x"
  by (induction xs arbitrary: i) (auto split: if_splits)

lemma index_of_None_iff: "index_of x xs = None \<longleftrightarrow> x \<notin> set xs"
  by (induction xs) auto

lemma claim_order_last:
  assumes "lst \<in> set ids" and "distinct ids" and "lst \<noteq> []"
  obtains ys where "claim_order (claim_start lst ids) ids = ys @ [lst]" "lst \<notin> set ys"
proof -
  obtain i where i: "index_of lst ids = Some i" "i < length ids" "ids ! i = lst"
    using assms(1) index_of_None_iff index_of_SomeD by (metis not_None_eq)
  have split: "ids = take i ids @ lst # drop (Suc i) ids"
    using i id_take_nth_drop by metis
  have "claim_order (claim_start lst ids) ids = rotate (Suc i) ids"
    using i assms(3) rotate_conv_mod [of "Suc i" ids]
    by (simp add: claim_order_rotate claim_start_def del: rotate_Suc)
  also have "\<dots> = drop (Suc i) ids @ take i ids @ [lst]"
  proof (cases "Suc i = length ids")
    case True
    then have "take i ids @ [lst] = ids" using split by (metis drop_all order_refl)
    then show ?thesis using True by (simp add: rotate_drop_take)
  next
    case False
    then show ?thesis using i by (simp add: rotate_drop_take take_Suc_conv_app_nth)
  qed
  finally show ?thesis
    using that [of "drop (Suc i) ids @ take i ids"] assms(2) split
    by (metis append.assoc distinct.simps(2) distinct_append not_distinct_conv_prefix Un_iff set_append
        disjoint_iff list.set_intros(1))
qed

lemma set_claim_order [simp]: "set (claim_order start ids) = set ids"
  by (simp add: claim_order_rotate)

lemma distinct_eligible: "distinct (eligibleNamespaceIDs tasks acct nss now)"
  by (simp add: eligibleNamespaceIDs_def Let_def)

text \<open>What a successful claim means, in terms of the store before it.\<close>

lemma ClaimNext_InrD:
  assumes "ClaimNext fresh clock inp s = (s', Inr run)"
  obtains nsID cand where
    "countActive (taskRuns s) (ci_AccountID inp) < ci_MaxGlobalActive (claim_defaults clock inp)"
    "let ids = eligibleNamespaceIDs (taskRuns s) (ci_AccountID inp) (namespaces s) (ci_Now (claim_defaults clock inp))
     in claim_loop s (ci_AccountID inp) (ci_Now (claim_defaults clock inp))
          (claim_order (claim_start (gm_str (lastClaimNamespace s) (ci_AccountID inp)) ids) ids) = Some (nsID, cand)"
    "countActiveForNamespace (taskRuns s) (ci_AccountID inp) nsID < maxActiveRuns s nsID"
    "oldestEligibleRun (taskRuns s) (ci_AccountID inp) nsID (ci_Now (claim_defaults clock inp)) = Some cand"
    "run = claimed fresh (claim_defaults clock inp) cand"
    "s' = s\<lparr>taskRuns := gm_put (tr_ID cand) run (taskRuns s),
        lastClaimNamespace := gm_put (ci_AccountID inp) nsID (lastClaimNamespace s)\<rparr>"
proof -
  have acct: "ci_AccountID (claim_defaults clock inp) = ci_AccountID inp"
    by (simp add: claim_defaults_def)
  show ?thesis
    using assms that
    by (auto simp: ClaimNext_def Let_def acct claimed_def elim!: claim_loop_SomeD
        split: if_splits option.splits prod.splits)
qed

lemma ClaimNext_InlD: "ClaimNext fresh clock inp s = (s', Inl e) \<Longrightarrow> s' = s \<and> e = ErrNoEligibleTask"
  by (auto simp: ClaimNext_def Let_def split: if_splits option.splits prod.splits)

lemma claimed_step: "tr_State r = TaskRunQueued \<Longrightarrow> run_step r (claimed fresh inp r)"
  by (simp add: claimed_def rs_claim)

lemma claimed_simps [simp]:
  "tr_ID (claimed fresh inp r) = tr_ID r" "tr_State (claimed fresh inp r) = TaskRunRunning"
  "tr_AccountID (claimed fresh inp r) = tr_AccountID r"
  "tr_NamespaceID (claimed fresh inp r) = tr_NamespaceID r"
  by (simp_all add: claimed_def)

lemma claim_defaults_limit: "ci_MaxGlobalActive (claim_defaults clock inp) \<le> defaultGlobalMaxActive"
  by (simp add: claim_defaults_def)

lemma ClaimNext_step:
  assumes "ids_ok s" and "gm_wf (taskRuns s)"
  shows "task_step s (fst (ClaimNext fresh clock inp s))"
proof (cases "ClaimNext fresh clock inp s")
  case (Pair s' res)
  show ?thesis
  proof (cases res)
    case (Inl e)
    then show ?thesis using Pair by (auto dest: ClaimNext_InlD simp: idle)
  next
    case (Inr run)
    with Pair have "ClaimNext fresh clock inp s = (s', Inr run)" by simp
    then show ?thesis
    proof (rule ClaimNext_InrD)
      fix nsID cand
      assume global: "countActive (taskRuns s) (ci_AccountID inp) <
          ci_MaxGlobalActive (claim_defaults clock inp)"
        and ns: "countActiveForNamespace (taskRuns s) (ci_AccountID inp) nsID < maxActiveRuns s nsID"
        and cand: "oldestEligibleRun (taskRuns s) (ci_AccountID inp) nsID
          (ci_Now (claim_defaults clock inp)) = Some cand"
        and run: "run = claimed fresh (claim_defaults clock inp) cand"
        and s': "s' = s\<lparr>taskRuns := gm_put (tr_ID cand) run (taskRuns s),
          lastClaimNamespace := gm_put (ci_AccountID inp) nsID (lastClaimNamespace s)\<rparr>"
      note c = oldestEligibleRun_SomeD(1-3) [OF cand]
      obtain k where k: "gm_get (taskRuns s) k = Some cand"
        using c(1) gm_vals_get [OF assms(2)] by blast
      have "gm_get (taskRuns s) (tr_ID cand) = Some cand"
        using k ids_okD(2) [OF assms(1) k] by simp
      then have "task_step s (s\<lparr>taskRuns := gm_put (tr_ID cand) run (taskRuns s),
          lastClaimNamespace := gm_put (tr_AccountID cand) (tr_NamespaceID cand) (lastClaimNamespace s)\<rparr>)"
        using c global ns claim_defaults_limit [of clock inp]
        by (intro claim) (auto simp: due_def run claimed_step)
      then show ?thesis using Pair s' c by (simp add: due_def)
    qed
  qed
qed

end
