(* ===== verification/Task_Invariant.thy ===== *)
theory Task_Invariant
  imports Task_Spec
begin

text \<open>
  The well-formedness invariant of the task-session store, part by part, and that every
  abstract step keeps it. The last section runs the operations as a state machine: by the
  refinement of \<open>Task_Spec\<close> every reachable store satisfies the invariant.
\<close>

section \<open>The parts of the invariant\<close>

text \<open>Every map has one entry per key, and a record is stored under its own id.\<close>

definition inv_ids :: "MemoryStore \<Rightarrow> bool" where
  "inv_ids s \<longleftrightarrow> gm_wf (namespaces s) \<and> gm_wf (sessions s) \<and> gm_wf (taskRuns s) \<and> ids_ok s \<and>
     (\<forall>k ns. gm_get (namespaces s) k = Some ns \<longrightarrow> ns_ID ns = k)"

text \<open>
  A session's log is numbered from 1 without gaps up to \<open>LastEventSeq\<close>, which is also its
  snapshot version; there is no log without a session.
\<close>

definition inv_log :: "MemoryStore \<Rightarrow> bool" where
  "inv_log s \<longleftrightarrow>
     (\<forall>sid ses. gm_get (sessions s) sid = Some ses \<longrightarrow>
        0 \<le> ss_LastEventSeq ses \<and> ss_SnapshotVer ses = ss_LastEventSeq ses \<and>
        map ev_Seq (gm_list (events s) sid) = [1..ss_LastEventSeq ses]) \<and>
     (\<forall>sid. gm_get (sessions s) sid = None \<longrightarrow> gm_list (events s) sid = []) \<and>
     (\<forall>sid. \<forall>e \<in> set (gm_list (events s) sid). ev_SessionID e = sid)"

text \<open>The idempotency index only points to events of the log, under their own key.\<close>

definition inv_requests :: "MemoryStore \<Rightarrow> bool" where
  "inv_requests s \<longleftrightarrow>
     (\<forall>k e. gm_get (eventByRequest s) k = Some e \<longrightarrow>
        k = requestKey (ev_SessionID e) (ev_ClientRequestID e) \<and>
        e \<in> set (gm_list (events s) (ev_SessionID e)))"

text \<open>
  A session belongs to an existing namespace of the same account, a run to an existing
  session of the same account and namespace.
\<close>

definition inv_owner :: "MemoryStore \<Rightarrow> bool" where
  "inv_owner s \<longleftrightarrow>
     (\<forall>k ses. gm_get (sessions s) k = Some ses \<longrightarrow>
        (\<exists>ns. gm_get (namespaces s) (ss_NamespaceID ses) = Some ns \<and> ns_AccountID ns = ss_AccountID ses)) \<and>
     (\<forall>k r. gm_get (taskRuns s) k = Some r \<longrightarrow>
        (\<exists>ses. gm_get (sessions s) (tr_SessionID r) = Some ses \<and> ss_AccountID ses = tr_AccountID r \<and>
           ss_NamespaceID ses = tr_NamespaceID r))"

text \<open>The slug index of an account lists exactly its namespaces.\<close>

definition inv_slugs :: "MemoryStore \<Rightarrow> bool" where
  "inv_slugs s \<longleftrightarrow>
     (\<forall>acct slug nsID. gm_get (gm_list (namespacesByAcct s) acct) slug = Some nsID \<longleftrightarrow>
        (\<exists>ns. gm_get (namespaces s) nsID = Some ns \<and> ns_AccountID ns = acct \<and> ns_Slug ns = slug)) \<and>
     (\<forall>k ns. gm_get (namespaces s) k = Some ns \<longrightarrow>
        k \<noteq> [] \<and> 1 \<le> ns_MaxActiveRuns ns \<and> ns_MaxActiveRuns ns \<le> defaultNamespaceMaxActive)"

text \<open>The state of a run and its fence agree: a run starts at most once.\<close>

definition run_ok :: "TaskRun \<Rightarrow> bool" where
  "run_ok r \<longleftrightarrow> tr_Fence r = tr_Attempt r \<and>
     (tr_State r = TaskRunQueued \<and> tr_Fence r = 0 \<or>
      tr_State r = TaskRunRunning \<and> tr_Fence r = 1 \<or>
      tr_State r = TaskRunComplete \<and> tr_Fence r = 1 \<or>
      tr_State r = TaskRunFailed \<and> tr_Fence r = 1 \<or>
      tr_State r = TaskRunCanceled \<and> (tr_Fence r = 0 \<or> tr_Fence r = 1))"

definition inv_runs :: "MemoryStore \<Rightarrow> bool" where
  "inv_runs s \<longleftrightarrow> (\<forall>k r. gm_get (taskRuns s) k = Some r \<longrightarrow> run_ok r)"

text \<open>The active runs of an account and of a namespace stay within their limits.\<close>

definition inv_active :: "MemoryStore \<Rightarrow> bool" where
  "inv_active s \<longleftrightarrow>
     (\<forall>acct. countActive (taskRuns s) acct \<le> defaultGlobalMaxActive) \<and>
     (\<forall>acct nsID. countActiveForNamespace (taskRuns s) acct nsID \<le> maxActiveRuns s nsID)"

definition ts_inv :: "MemoryStore \<Rightarrow> bool" where
  "ts_inv s \<longleftrightarrow> inv_ids s \<and> inv_log s \<and> inv_requests s \<and> inv_owner s \<and> inv_slugs s \<and> inv_runs s \<and>
     inv_active s"

section \<open>Preservation\<close>

lemma gm_wf_put_run [simp]: "gm_wf m \<Longrightarrow> gm_wf (put_run rn m)"
  by (simp add: put_run_def split: option.split)

lemma get_put_run:
  "gm_get (put_run rn m) k = (case rn of Some r \<Rightarrow> if k = tr_ID r then Some r else gm_get m k | None \<Rightarrow> gm_get m k)"
  by (simp add: put_run_def split: option.split)

text \<open>What a step does to the runs: a run is new, unchanged, or moved along its life cycle.\<close>

lemma step_run_to:
  assumes "task_step s s'" and "gm_get (taskRuns s') k = Some r"
  shows "gm_get (taskRuns s) k = Some r \<or>
    (\<exists>r0. gm_get (taskRuns s) k = Some r0 \<and> run_step r0 r) \<or>
    (\<exists>ses. gm_get (sessions s) (ss_ID ses) = Some ses \<and> gm_get (taskRuns s) k = None \<and> tr_ID r = k \<and>
      new_run ses r)"
  using assms
  by (induction rule: task_step.induct)
    (auto simp: get_put_run log_run_def split: if_splits option.splits)

lemma step_run_from:
  assumes "task_step s s'" and "gm_get (taskRuns s) k = Some r0"
  shows "\<exists>r. gm_get (taskRuns s') k = Some r \<and> (r = r0 \<or> run_step r0 r)"
  using assms
  by (induction rule: task_step.induct)
    (auto simp: get_put_run log_run_def split: if_splits option.splits)

text \<open>A session keeps its account and namespace, and is never removed.\<close>

lemma step_session_from:
  assumes "task_step s s'" and "gm_get (sessions s) k = Some ses0"
  shows "\<exists>ses. gm_get (sessions s') k = Some ses \<and> ss_AccountID ses = ss_AccountID ses0 \<and>
    ss_NamespaceID ses = ss_NamespaceID ses0"
  using assms by (induction rule: task_step.induct) auto

lemma step_session_to:
  assumes "task_step s s'" and "gm_get (sessions s') k = Some ses"
  shows "(\<exists>ses0. gm_get (sessions s) k = Some ses0 \<and> ss_ID ses = ss_ID ses0 \<and>
      ss_AccountID ses = ss_AccountID ses0 \<and> ss_NamespaceID ses = ss_NamespaceID ses0) \<or>
    ss_ID ses = k \<and> (\<exists>ns. gm_get (namespaces s) (ss_NamespaceID ses) = Some ns \<and> ns_AccountID ns = ss_AccountID ses)"
  using assms by (induction rule: task_step.induct) (auto split: if_splits)

lemma ids_ok_step:
  assumes step: "task_step s s'" and "ids_ok s"
  shows "ids_ok s'"
proof -
  have "tr_ID r = k" if "gm_get (taskRuns s') k = Some r" for k r
    using step_run_to [OF step that] ids_okD(2) [OF assms(2)] run_step_identity(1) by metis
  moreover have "ss_ID ses = k" if "gm_get (sessions s') k = Some ses" for k ses
    using step_session_to [OF step that] ids_okD(1) [OF assms(2)] by metis
  ultimately show ?thesis by (simp add: ids_ok_def)
qed

lemma inv_ids_step:
  assumes "task_step s s'" and "inv_ids s"
  shows "inv_ids s'"
proof -
  have "ids_ok s'"
    using assms ids_ok_step by (simp add: inv_ids_def)
  moreover have "gm_wf (namespaces s') \<and> gm_wf (sessions s') \<and> gm_wf (taskRuns s') \<and>
      (\<forall>k ns. gm_get (namespaces s') k = Some ns \<longrightarrow> ns_ID ns = k)"
    using assms by (induction rule: task_step.induct) (simp_all add: inv_ids_def)
  ultimately show ?thesis by (simp add: inv_ids_def)
qed

lemma upto_snoc_seq:
  "0 \<le> n \<Longrightarrow> [1..n] @ [n + 1..n + int k] = [1..n + int k]" for n :: int
  using upto_split2 [of 1 n "n + int k"] by (cases "n = 0") simp_all

lemma inv_log_step:
  assumes "task_step s s'" and "inv_log s"
  shows "inv_log s'"
  using assms
proof (induction rule: task_step.induct)
  case (append_log s sid ses evs rq rn c t routing)
  have old: "0 \<le> ss_LastEventSeq ses" "ss_SnapshotVer ses = ss_LastEventSeq ses"
      "map ev_Seq (gm_list (events s) sid) = [1..ss_LastEventSeq ses]"
    using append_log.prems append_log.hyps(1) unfolding inv_log_def by blast+
  have new: "map ev_Seq (gm_list (events s) sid @ evs) = [1..ss_LastEventSeq ses + int (length evs)]"
    using old append_log.hyps(3) by (simp add: upto_snoc_seq)
  show ?case
    using append_log.prems append_log.hyps(4) old new by (auto simp: inv_log_def)
qed (simp_all add: inv_log_def)

lemma inv_requestsD:
  "inv_requests s \<Longrightarrow> gm_get (eventByRequest s) k = Some e \<Longrightarrow>
     k = requestKey (ev_SessionID e) (ev_ClientRequestID e) \<and> e \<in> set (gm_list (events s) (ev_SessionID e))"
  by (simp add: inv_requests_def)

lemma inv_requests_step:
  assumes "task_step s s'" and "inv_requests s"
  shows "inv_requests s'"
  using assms
proof (induction rule: task_step.induct)
  case (append_log s sid ses evs rq rn c t routing)
  let ?log = "gm_put sid (gm_list (events s) sid @ evs) (events s)"
  have grows: "e \<in> set (gm_list (events s) k) \<Longrightarrow> e \<in> set (gm_list ?log k)" for e k
    by auto
  have "k = requestKey (ev_SessionID e) (ev_ClientRequestID e) \<and> e \<in> set (gm_list ?log (ev_SessionID e))"
    if e: "gm_get (put_request rq (eventByRequest s)) k = Some e" for k e
  proof (cases "gm_get (eventByRequest s) k = Some e")
    case True
    then show ?thesis using inv_requestsD [OF append_log.prems] grows by blast
  next
    case False
    then have "rq = Some e" "k = requestKey (ev_SessionID e) (ev_ClientRequestID e)"
      using e by (auto simp: put_request_def split: option.splits if_splits)
    then show ?thesis using append_log.hyps(4,5) by auto
  qed
  then show ?case by (simp add: inv_requests_def)
qed (simp_all add: inv_requests_def)

lemma run_ok_step: "run_step r0 r \<Longrightarrow> run_ok r0 \<Longrightarrow> run_ok r"
  by (induction rule: run_step.induct) (simp_all add: run_ok_def)

lemma run_ok_new: "new_run ses r \<Longrightarrow> run_ok r"
  by (simp add: new_run_def run_ok_def)

lemma inv_runs_step:
  assumes "task_step s s'" and "inv_runs s"
  shows "inv_runs s'"
  using step_run_to [OF assms(1)] assms(2) run_ok_step run_ok_new unfolding inv_runs_def by metis

lemma step_namespace_from:
  assumes "task_step s s'" and "gm_get (namespaces s) k = Some ns"
  shows "gm_get (namespaces s') k = Some ns"
  using assms by (induction rule: task_step.induct) auto

lemma inv_ownerD:
  assumes "inv_owner s"
  shows "gm_get (sessions s) k = Some ses \<Longrightarrow>
      \<exists>ns. gm_get (namespaces s) (ss_NamespaceID ses) = Some ns \<and> ns_AccountID ns = ss_AccountID ses"
    and "gm_get (taskRuns s) k = Some r \<Longrightarrow>
      \<exists>ses. gm_get (sessions s) (tr_SessionID r) = Some ses \<and> ss_AccountID ses = tr_AccountID r \<and>
        ss_NamespaceID ses = tr_NamespaceID r"
  using assms unfolding inv_owner_def by blast+

lemma inv_owner_session_step:
  assumes step: "task_step s s'" and inv: "inv_owner s" and ses: "gm_get (sessions s') k = Some ses"
  shows "\<exists>ns. gm_get (namespaces s') (ss_NamespaceID ses) = Some ns \<and> ns_AccountID ns = ss_AccountID ses"
proof -
  have "\<exists>ns. gm_get (namespaces s) (ss_NamespaceID ses) = Some ns \<and> ns_AccountID ns = ss_AccountID ses"
    using step_session_to [OF step ses]
  proof (elim disjE exE conjE)
    fix ses0
    assume "gm_get (sessions s) k = Some ses0" and "ss_AccountID ses = ss_AccountID ses0"
      and "ss_NamespaceID ses = ss_NamespaceID ses0"
    then show ?thesis using inv_ownerD(1) [OF inv, of k ses0] by simp
  qed blast
  then show ?thesis using step_namespace_from [OF step] by blast
qed

lemma inv_owner_run_step:
  assumes step: "task_step s s'" and inv: "inv_owner s" and r: "gm_get (taskRuns s') k = Some r"
  shows "\<exists>ses. gm_get (sessions s') (tr_SessionID r) = Some ses \<and> ss_AccountID ses = tr_AccountID r \<and>
      ss_NamespaceID ses = tr_NamespaceID r"
proof -
  have "\<exists>ses. gm_get (sessions s) (tr_SessionID r) = Some ses \<and> ss_AccountID ses = tr_AccountID r \<and>
      ss_NamespaceID ses = tr_NamespaceID r"
    using step_run_to [OF step r]
  proof (elim disjE exE conjE)
    fix r0
    assume "gm_get (taskRuns s) k = Some r0" and "run_step r0 r"
    then show ?thesis using inv_ownerD(2) [OF inv, of k r0] run_step_identity [of r0 r] by simp
  qed (auto simp: new_run_def dest: inv_ownerD(2) [OF inv])
  then obtain ses where "gm_get (sessions s) (tr_SessionID r) = Some ses"
      "ss_AccountID ses = tr_AccountID r" "ss_NamespaceID ses = tr_NamespaceID r"
    by blast
  then show ?thesis using step_session_from [OF step, of "tr_SessionID r" ses] by simp
qed

lemma inv_owner_step: "task_step s s' \<Longrightarrow> inv_owner s \<Longrightarrow> inv_owner s'"
  unfolding inv_owner_def [of s'] using inv_owner_session_step inv_owner_run_step by blast

lemma inv_slugs_step:
  assumes "task_step s s'" and "inv_slugs s"
  shows "inv_slugs s'"
  using assms
proof (induction rule: task_step.induct)
  case (new_namespace s ns byAcct)
  have lists: "gm_list byAcct acct = gm_list (namespacesByAcct s) acct" for acct
    using new_namespace.hyps(6) by (auto simp: gm_list_def)
  have "gm_get (gm_list (namespacesByAcct s) acct) slug = Some nsID \<longleftrightarrow>
      (\<exists>n. gm_get (namespaces s) nsID = Some n \<and> ns_AccountID n = acct \<and> ns_Slug n = slug)"
    for acct slug nsID
    using new_namespace.prems by (simp add: inv_slugs_def)
  moreover from this have "\<not> (ns_AccountID n = ns_AccountID ns \<and> ns_Slug n = ns_Slug ns)"
    if "gm_get (namespaces s) nsID = Some n" for n nsID
    using that new_namespace.hyps(2) by (metis option.distinct(1))
  ultimately show ?case
    using new_namespace.prems new_namespace.hyps(1-5) by (auto simp: inv_slugs_def lists)
qed (simp_all add: inv_slugs_def)

text \<open>The limits on active runs: only a claim raises a count, and it checks both limits first.\<close>

lemma countActive_put_new:
  "gm_get tasks (tr_ID r) = None \<Longrightarrow> tr_State r = TaskRunQueued \<Longrightarrow>
     countActive (gm_put (tr_ID r) r tasks) acct = countActive tasks acct \<and>
     countActiveForNamespace (gm_put (tr_ID r) r tasks) acct nsID = countActiveForNamespace tasks acct nsID"
  by (simp add: countActive_def countActiveForNamespace_def count_put_new active_for_def active_in_def)

text \<open>A step of a stored run changes the counts by the run's own contribution.\<close>

lemma countActive_put_step:
  assumes "gm_get tasks k = Some r0" and "gm_wf tasks" and "run_step r0 r"
  shows "countActive (gm_put k r tasks) acct = countActive tasks acct
      - (if active_for acct r0 then 1 else 0) + (if active_for acct r then 1 else 0)"
    and "countActiveForNamespace (gm_put k r tasks) acct nsID = countActiveForNamespace tasks acct nsID
      - (if active_in acct nsID r0 then 1 else 0) + (if active_in acct nsID r then 1 else 0)"
  using count_put_old [OF assms(1,2), of "active_for acct" r]
    count_put_old [OF assms(1,2), of "active_in acct nsID" r]
  by (auto simp: countActive_def countActiveForNamespace_def split: if_splits)

text \<open>A run that is not started keeps or lowers the counts.\<close>

lemma countActive_not_started:
  assumes "gm_get tasks k = Some r0" and "gm_wf tasks" and "run_step r0 r"
    and "tr_State r = TaskRunRunning \<Longrightarrow> tr_State r0 = TaskRunRunning"
  shows "countActive (gm_put k r tasks) acct \<le> countActive tasks acct"
    and "countActiveForNamespace (gm_put k r tasks) acct nsID \<le> countActiveForNamespace tasks acct nsID"
  using countActive_put_step [OF assms(1-3)] run_step_identity [OF assms(3)] assms(4)
  by (auto simp: active_for_def active_in_def)

lemma gm_put_same: "gm_get m k = Some v \<Longrightarrow> gm_put k v m = m"
  by (induction m) (auto split: if_splits)

lemma countActive_log_run:
  assumes "log_run s ses rn" and "gm_wf (taskRuns s)" and "ss_ID ses = sid"
  shows "countActive (put_run rn (taskRuns s)) acct \<le> countActive (taskRuns s) acct \<and>
    countActiveForNamespace (put_run rn (taskRuns s)) acct nsID \<le>
      countActiveForNamespace (taskRuns s) acct nsID"
proof (cases rn)
  case None
  then show ?thesis by (simp add: put_run_def)
next
  case (Some r)
  show ?thesis
  proof (cases "gm_get (taskRuns s) (tr_ID r)")
    case None
    then show ?thesis
      using assms(1) Some countActive_put_new [OF None] by (simp add: log_run_def put_run_def new_run_def)
  next
    case (Some r0)
    then consider "r = r0" | "run_step r0 r" "tr_State r = TaskRunRunning \<Longrightarrow> tr_State r0 = TaskRunRunning"
      using assms(1) \<open>rn = Some r\<close> by (auto simp: log_run_def)
    then show ?thesis
      using countActive_not_started [OF Some assms(2)] gm_put_same [OF Some] \<open>rn = Some r\<close>
      by cases (auto simp: put_run_def)
  qed
qed

lemma maxActiveRuns_step:
  assumes "task_step s s'" and "inv_slugs s"
  shows "maxActiveRuns s nsID \<le> maxActiveRuns s' nsID"
  using assms
  by (induction rule: task_step.induct) (auto simp: maxActiveRuns_def inv_slugs_def)

lemma active_lower:
  assumes "inv_active s" and "countActive tasks acct \<le> countActive (taskRuns s) acct"
    and "countActiveForNamespace tasks acct nsID \<le> countActiveForNamespace (taskRuns s) acct nsID"
  shows "countActive tasks acct \<le> defaultGlobalMaxActive \<and>
    countActiveForNamespace tasks acct nsID \<le> maxActiveRuns s nsID"
  using assms order_trans unfolding inv_active_def by blast

lemma active_step:
  assumes "task_step s s'" and "gm_wf (taskRuns s)" and "inv_active s"
  shows "countActive (taskRuns s') acct \<le> defaultGlobalMaxActive \<and>
    countActiveForNamespace (taskRuns s') acct nsID \<le> maxActiveRuns s nsID"
  using assms
proof (induction rule: task_step.induct)
  case (append_log s sid ses evs rq rn c t routing)
  then show ?case
    using active_lower [OF append_log.prems(2)]
      countActive_log_run [OF append_log.hyps(6) append_log.prems(1) append_log.hyps(2)] by simp
next
  case (new_queued s ses r)
  then show ?case by (simp add: inv_active_def new_run_def countActive_put_new)
next
  case (claim s r r')
  have "active_for acct r' \<longleftrightarrow> acct = tr_AccountID r"
      "active_in acct nsID r' \<longleftrightarrow> acct = tr_AccountID r \<and> nsID = tr_NamespaceID r"
      "\<not> active_for acct r" "\<not> active_in acct nsID r"
    using claim.hyps run_step_identity [OF claim.hyps(2)] by (auto simp: active_for_def active_in_def)
  then show ?case
    using countActive_put_step [OF claim.hyps(1) claim.prems(1) claim.hyps(2)] claim.hyps(5,6) claim.prems(2)
    by (auto simp: inv_active_def)
next
  case (renew s r r')
  then show ?case
    using active_lower [OF renew.prems(2)]
      countActive_not_started [OF renew.hyps(1) renew.prems(1) renew.hyps(2)] by simp
qed (simp_all add: inv_active_def)

lemma inv_active_step:
  assumes "task_step s s'" and "gm_wf (taskRuns s)" and "inv_slugs s" and "inv_active s"
  shows "inv_active s'"
  using active_step [OF assms(1,2,4)] maxActiveRuns_step [OF assms(1,3)]
  unfolding inv_active_def [of s'] using order_trans by blast

lemma ts_invD:
  assumes "ts_inv s"
  shows "inv_ids s" "inv_log s" "inv_requests s" "inv_owner s" "inv_slugs s" "inv_runs s" "inv_active s"
  using assms unfolding ts_inv_def by blast+

lemma inv_idsD:
  assumes "inv_ids s"
  shows "gm_wf (namespaces s)" "gm_wf (sessions s)" "gm_wf (taskRuns s)" "ids_ok s"
    "gm_get (namespaces s) k = Some ns \<Longrightarrow> ns_ID ns = k"
  using assms unfolding inv_ids_def by blast+

lemma ts_inv_step:
  assumes step: "task_step s s'" and inv: "ts_inv s"
  shows "ts_inv s'"
  unfolding ts_inv_def
  by (intro conjI inv_ids_step [OF step] inv_log_step [OF step] inv_requests_step [OF step]
      inv_owner_step [OF step] inv_slugs_step [OF step] inv_runs_step [OF step] inv_active_step [OF step]
      ts_invD [OF inv] inv_idsD(3) [OF ts_invD(1) [OF inv]])

lemma ts_inv_init: "ts_inv NewMemoryStore"
  by (simp add: ts_inv_def inv_ids_def ids_ok_def inv_log_def inv_requests_def inv_owner_def inv_slugs_def
      inv_runs_def inv_active_def NewMemoryStore_def gm_list_def countActive_def
      countActiveForNamespace_def count_vals_def maxActiveRuns_def)

section \<open>The store as a state machine\<close>

text \<open>
  The state-changing operations with their arguments. The first arguments of an operation
  are the values it reads from the clock and from the id generator.
\<close>

datatype ts_op =
    OpEnsure string time string time
  | OpCreateNamespace time CreateNamespaceInput
  | OpCreateSession time CreateSessionInput
  | OpAppendEvent time AppendEventInput
  | OpAppendMessage string time AppendMessageInput
  | OpEnqueue time EnqueueTaskRunInput
  | OpRecord time TaskRunEventInput
  | OpClaim string time ClaimInput
  | OpRenew time RenewLeaseInput
  | OpCancel time CancelRunInput

fun ts_exec :: "ts_op \<Rightarrow> MemoryStore \<Rightarrow> MemoryStore" where
  "ts_exec (OpEnsure fresh clock acct now) s = fst (EnsurePersonalNamespace fresh clock acct now s)"
| "ts_exec (OpCreateNamespace now inp) s = fst (CreateNamespace now inp s)"
| "ts_exec (OpCreateSession now inp) s = fst (CreateSession now inp s)"
| "ts_exec (OpAppendEvent now inp) s = fst (AppendEvent now inp s)"
| "ts_exec (OpAppendMessage fresh now inp) s = fst (AppendMessage fresh now inp s)"
| "ts_exec (OpEnqueue now inp) s = fst (EnqueueTaskRun now inp s)"
| "ts_exec (OpRecord now inp) s = fst (RecordTaskRunEvent now inp s)"
| "ts_exec (OpClaim fresh clock inp) s = fst (ClaimNext fresh clock inp s)"
| "ts_exec (OpRenew now inp) s = fst (RenewLease now inp s)"
| "ts_exec (OpCancel now inp) s = fst (RequestCancel now inp s)"

lemma ts_exec_step:
  assumes "inv_ids s"
  shows "task_step s (ts_exec opn s)"
  using inv_idsD(3,4) [OF assms]
  by (cases opn) (simp_all add: CreateNamespace_def EnsurePersonalNamespace_step createNamespaceLocked_step
      CreateSession_step AppendEvent_step AppendMessage_step EnqueueTaskRun_step RecordTaskRunEvent_step
      ClaimNext_step RenewLease_step RequestCancel_step)

interpretation ts: invariant ts_exec NewMemoryStore ts_inv
proof unfold_locales
  show "ts_inv NewMemoryStore" by (rule ts_inv_init)
  show "ts_inv s \<Longrightarrow> ts_inv (ts_exec opn s)" for s opn
    by (rule ts_inv_step [OF ts_exec_step]) (simp_all add: ts_invD)
qed

text \<open>Logs only grow, and a finished run never changes again.\<close>

definition ts_le :: "MemoryStore \<Rightarrow> MemoryStore \<Rightarrow> bool" where
  "ts_le s s' \<longleftrightarrow>
     (\<forall>sid. take (length (gm_list (events s) sid)) (gm_list (events s') sid) = gm_list (events s) sid) \<and>
     (\<forall>k r. gm_get (taskRuns s) k = Some r \<longrightarrow>
        (\<exists>r'. gm_get (taskRuns s') k = Some r' \<and> tr_Fence r \<le> tr_Fence r' \<and>
           (runFinished (tr_State r) \<longrightarrow> r' = r) \<and> tr_SessionID r' = tr_SessionID r \<and>
           tr_AccountID r' = tr_AccountID r) \<and>
        gm_get (runRouting s') k = gm_get (runRouting s) k)"

lemma ts_le_refl: "ts_le s s"
  by (simp add: ts_le_def)

lemma take_prefix_iff: "take (length xs) ys = xs \<longleftrightarrow> (\<exists>zs. ys = xs @ zs)"
  by (metis append_eq_conv_conj append_take_drop_id)

lemma ts_le_trans:
  assumes "ts_le s t" and "ts_le t u"
  shows "ts_le s u"
proof -
  have "take (length (gm_list (events s) sid)) (gm_list (events u) sid) = gm_list (events s) sid" for sid
  proof -
    obtain xs ys where "gm_list (events t) sid = gm_list (events s) sid @ xs"
        "gm_list (events u) sid = gm_list (events t) sid @ ys"
      using assms unfolding ts_le_def take_prefix_iff by blast
    then show ?thesis by simp
  qed
  moreover have "\<exists>r'. gm_get (taskRuns u) k = Some r' \<and> tr_Fence r \<le> tr_Fence r' \<and>
      (runFinished (tr_State r) \<longrightarrow> r' = r) \<and> tr_SessionID r' = tr_SessionID r \<and>
      tr_AccountID r' = tr_AccountID r" "gm_get (runRouting u) k = gm_get (runRouting s) k"
    if r: "gm_get (taskRuns s) k = Some r" for k r
  proof -
    obtain r1 where r1: "gm_get (taskRuns t) k = Some r1" "tr_Fence r \<le> tr_Fence r1"
        "runFinished (tr_State r) \<longrightarrow> r1 = r" "tr_SessionID r1 = tr_SessionID r"
        "tr_AccountID r1 = tr_AccountID r" "gm_get (runRouting t) k = gm_get (runRouting s) k"
      using assms(1) r unfolding ts_le_def by blast
    obtain r2 where "gm_get (taskRuns u) k = Some r2" "tr_Fence r1 \<le> tr_Fence r2"
        "runFinished (tr_State r1) \<longrightarrow> r2 = r1" "tr_SessionID r2 = tr_SessionID r1"
        "tr_AccountID r2 = tr_AccountID r1" "gm_get (runRouting u) k = gm_get (runRouting t) k"
      using assms(2) r1(1) unfolding ts_le_def by blast
    then show "\<exists>r'. gm_get (taskRuns u) k = Some r' \<and> tr_Fence r \<le> tr_Fence r' \<and>
      (runFinished (tr_State r) \<longrightarrow> r' = r) \<and> tr_SessionID r' = tr_SessionID r \<and>
      tr_AccountID r' = tr_AccountID r" "gm_get (runRouting u) k = gm_get (runRouting s) k"
      using r1 by auto
  qed
  ultimately show ?thesis unfolding ts_le_def by blast
qed

lemma step_log_grows:
  assumes "task_step s s'"
  shows "take (length (gm_list (events s) sid)) (gm_list (events s') sid) = gm_list (events s) sid"
  using assms by (induction rule: task_step.induct) auto

lemma step_routing:
  assumes "task_step s s'" and "gm_get (taskRuns s) k = Some r"
  shows "gm_get (runRouting s') k = gm_get (runRouting s) k"
  using assms by (induction rule: task_step.induct) (auto simp: log_routing_def)

lemma ts_le_step:
  assumes "task_step s s'"
  shows "ts_le s s'"
  unfolding ts_le_def
proof (intro conjI allI impI)
  fix k r
  assume r: "gm_get (taskRuns s) k = Some r"
  then obtain r' where "gm_get (taskRuns s') k = Some r'" "r' = r \<or> run_step r r'"
    using step_run_from [OF assms] by blast
  then show "\<exists>r'. gm_get (taskRuns s') k = Some r' \<and> tr_Fence r \<le> tr_Fence r' \<and>
      (runFinished (tr_State r) \<longrightarrow> r' = r) \<and> tr_SessionID r' = tr_SessionID r \<and>
      tr_AccountID r' = tr_AccountID r"
    using run_step_fence(2) [of r r'] run_step_unfinished [of r r'] run_step_identity [of r r'] by auto
  show "gm_get (runRouting s') k = gm_get (runRouting s) k"
    by (rule step_routing [OF assms r])
qed (rule step_log_grows [OF assms])

interpretation ts_mono: monotone_store ts_exec NewMemoryStore ts_inv ts_le
proof unfold_locales
  show "ts_le s u" if "ts_le s t" "ts_le t u" for s t u
    using that by (rule ts_le_trans)
  show "ts_le s (ts_exec opn s)" if "ts_inv s" for s opn
    using that by (intro ts_le_step ts_exec_step ts_invD(1))
qed (rule ts_le_refl)

end
