(* ===== verification/Task_Sample.thy ===== *)
theory Task_Sample
  imports Task_Invariant
begin

text \<open>
  \<open>after_ops ops\<close> is the task-session store after any sequence of operations, successful or
  not, on an empty store. The rest of the theory is a sample of such a store, on which the
  properties are instantiated.
\<close>

definition after_ops :: "ts_op list \<Rightarrow> MemoryStore" where
  "after_ops ops = exec_all ts_exec ops NewMemoryStore"

lemma after_ops_inv [simp]: "ts_inv (after_ops ops)"
  unfolding after_ops_def by (rule ts.exec_all_inv [OF ts_inv_init])

lemma after_ops_le: "ts_le (after_ops ops) (exec_all ts_exec ops' (after_ops ops))"
  by (rule ts_mono.exec_all_le) simp

section \<open>A sample store\<close>

text \<open>One account with two namespaces, a session and three queued runs.\<close>

definition sample_message :: "string \<Rightarrow> AppendMessageInput" where
  "sample_message req =
     \<lparr>ami_AccountID = ''acct'', ami_SessionID = ''s1'', ami_ActorID = ''user'', ami_ClientRequestID = req,
      ami_Text = '' hello '', ami_Routing = [(''role'', GString ''coder''), (''attachments'', GInt 2)],
      ami_TaskRunID = [], ami_Priority = 0, ami_NotBefore = 0, ami_CreatedAt = 50\<rparr>"

definition sample_ops :: "ts_op list" where
  "sample_ops =
     [OpEnsure ''ns-a'' 10 ''acct'' 10,
      OpCreateNamespace 11 \<lparr>cni_ID = ''ns-b'', cni_AccountID = ''acct'', cni_Slug = ''team'',
        cni_DisplayName = ''Team'', cni_MaxActiveRuns = 1, cni_CreatedAt = 11\<rparr>,
      OpCreateSession 12 \<lparr>csi_ID = ''s1'', csi_AccountID = ''acct'', csi_NamespaceID = ''ns-a'',
        csi_Title = ''One'', csi_CreatedAt = 12\<rparr>,
      OpCreateSession 13 \<lparr>csi_ID = ''s2'', csi_AccountID = ''acct'', csi_NamespaceID = ''ns-b'',
        csi_Title = ''Two'', csi_CreatedAt = 13\<rparr>,
      OpEnqueue 20 \<lparr>eti_ID = ''r1'', eti_AccountID = ''acct'', eti_NamespaceID = ''ns-a'',
        eti_SessionID = ''s1'', eti_ClientRequestID = ''q1'', eti_Priority = 0, eti_NotBefore = 0,
        eti_CreatedAt = 20\<rparr>,
      OpEnqueue 21 \<lparr>eti_ID = ''r2'', eti_AccountID = ''acct'', eti_NamespaceID = ''ns-a'',
        eti_SessionID = ''s1'', eti_ClientRequestID = ''q2'', eti_Priority = 5, eti_NotBefore = 0,
        eti_CreatedAt = 21\<rparr>,
      OpEnqueue 22 \<lparr>eti_ID = ''r3'', eti_AccountID = ''acct'', eti_NamespaceID = ''ns-b'',
        eti_SessionID = ''s2'', eti_ClientRequestID = ''q3'', eti_Priority = 0, eti_NotBefore = 0,
        eti_CreatedAt = 22\<rparr>]"

definition sample_claim :: ClaimInput where
  "sample_claim = \<lparr>ci_AccountID = ''acct'', ci_WorkerID = ''w1'', ci_Now = 100, ci_MaxGlobalActive = 0,
     ci_LeaseTTL = 1000\<rparr>"

definition claimed_ops :: "ts_op list" where
  "claimed_ops = sample_ops @ [OpClaim ''tok'' 100 sample_claim]"

end
