(* ===== verification/Task_Properties.thy ===== *)
theory Task_Properties
  imports Task_Sample
begin

text \<open>
  The properties of the task-session store as a whole, and of claiming runs.
\<close>

section \<open>The store as a whole\<close>

text \<open>
  C3: Whatever operations clients and workers run, in any order, an account never has more
  than five active runs, and a namespace never more than its own limit, which is at most two.
\<close>

theorem task_active_bounded:
  "countActive (taskRuns (after_ops ops)) acct \<le> 5 \<and>
   countActiveForNamespace (taskRuns (after_ops ops)) acct nsID \<le> maxActiveRuns (after_ops ops) nsID \<and>
   maxActiveRuns (after_ops ops) nsID \<le> 2"
proof (intro conjI)
  have inv: "inv_active (after_ops ops)" "inv_slugs (after_ops ops)"
    by (simp_all add: ts_invD)
  show "countActive (taskRuns (after_ops ops)) acct \<le> 5"
    "countActiveForNamespace (taskRuns (after_ops ops)) acct nsID \<le> maxActiveRuns (after_ops ops) nsID"
    using inv(1) by (simp_all add: inv_active_def)
  show "maxActiveRuns (after_ops ops) nsID \<le> 2"
    using inv(2) by (simp add: maxActiveRuns_def inv_slugs_def split: option.split)
qed

text \<open>
  C10: After any operations, the event log of every session is numbered 1, 2, 3, ... without
  gap or repetition up to the session's \<open>LastEventSeq\<close>, which equals its snapshot version;
  an id without a session has no log.
\<close>

theorem task_log_contiguous:
  "case gm_get (sessions (after_ops ops)) sid of
     None \<Rightarrow> gm_list (events (after_ops ops)) sid = []
   | Some ses \<Rightarrow> map ev_Seq (gm_list (events (after_ops ops)) sid) = [1..ss_LastEventSeq ses] \<and>
       int (length (gm_list (events (after_ops ops)) sid)) = ss_LastEventSeq ses \<and>
       ss_SnapshotVer ses = ss_LastEventSeq ses"
proof (cases "gm_get (sessions (after_ops ops)) sid")
  case None
  then show ?thesis using ts_invD(2) [OF after_ops_inv [of ops]] by (simp add: inv_log_def)
next
  case (Some ses)
  then have "0 \<le> ss_LastEventSeq ses" "ss_SnapshotVer ses = ss_LastEventSeq ses"
      and log: "map ev_Seq (gm_list (events (after_ops ops)) sid) = [1..ss_LastEventSeq ses]"
    using ts_invD(2) [OF after_ops_inv [of ops]] by (simp_all add: inv_log_def)
  moreover have "length (gm_list (events (after_ops ops)) sid) = nat (ss_LastEventSeq ses)"
    using arg_cong [OF log, of length] by simp
  ultimately show ?thesis using Some by simp
qed

text \<open>
  C12: Every operation, on every branch, is one step of the abstract specification: it leaves
  the store alone, adds one namespace, session or queued run, appends consecutive events to
  one log together with at most one run change of the run life cycle, or claims or renews
  one run within the limits.
\<close>

theorem task_store_refines_spec:
  "task_step (after_ops ops) (ts_exec opn (after_ops ops))"
  by (rule ts_exec_step) (simp add: ts_invD)

text \<open>
  C13: Later operations never rewrite history: a session's log keeps its earlier events as a
  prefix, a run keeps its session and account, its fence never decreases, and a run that
  has completed, failed or been cancelled never changes again.
\<close>

theorem task_history_preserved:
  assumes "gm_get (taskRuns (after_ops ops)) k = Some r"
  shows "(\<exists>r'. gm_get (taskRuns (exec_all ts_exec ops' (after_ops ops))) k = Some r' \<and>
      tr_Fence r \<le> tr_Fence r' \<and> (runFinished (tr_State r) \<longrightarrow> r' = r) \<and>
      tr_SessionID r' = tr_SessionID r \<and> tr_AccountID r' = tr_AccountID r) \<and>
    take (length (gm_list (events (after_ops ops)) sid))
        (gm_list (events (exec_all ts_exec ops' (after_ops ops))) sid) = gm_list (events (after_ops ops)) sid"
  using after_ops_le [of ops ops'] assms unfolding ts_le_def by blast

theorem task_history_preserved_witness:
  "\<exists>r. gm_get (taskRuns (after_ops claimed_ops)) ''r2'' = Some r \<and> tr_State r = TaskRunRunning \<and>
     (\<exists>r'. gm_get (taskRuns (exec_all ts_exec [OpClaim ''t'' 101 sample_claim] (after_ops claimed_ops))) ''r2'' =
        Some r' \<and> tr_Fence r \<le> tr_Fence r')"
proof -
  have "(case gm_get (taskRuns (after_ops claimed_ops)) ''r2'' of None \<Rightarrow> False
      | Some r \<Rightarrow> tr_State r = TaskRunRunning)"
    by code_simp
  then obtain r where "gm_get (taskRuns (after_ops claimed_ops)) ''r2'' = Some r" "tr_State r = TaskRunRunning"
    by (auto split: option.splits)
  then show ?thesis
    using task_history_preserved [of claimed_ops "''r2''" r "[OpClaim ''t'' 101 sample_claim]"] by blast
qed

section \<open>Claiming\<close>

text \<open>
  C14: A claim returns a run that was queued and due, of the requested account, in a namespace
  below its limit and an account below its limit. No due run of the same namespace has a
  higher priority, or the same priority and an earlier creation. The run becomes running
  under a new fence and the given lease; every other run stays as it was.
\<close>

theorem claim_takes_best_run:
  assumes "ClaimNext fresh clock inp (after_ops ops) = (s', Inr run)"
  shows "\<exists>r. gm_get (taskRuns (after_ops ops)) (tr_ID run) = Some r \<and>
      due (ci_AccountID inp) (orNow (ci_Now inp) clock) r \<and>
      run = r\<lparr>tr_State := TaskRunRunning, tr_Attempt := tr_Attempt r + 1, tr_LeaseOwner := ci_WorkerID inp,
        tr_LeaseToken := fresh, tr_LeaseExpires := orNow (ci_Now inp) clock +
          (if ci_LeaseTTL inp \<le> 0 then Minute else ci_LeaseTTL inp),
        tr_Fence := tr_Fence r + 1, tr_UpdatedAt := orNow (ci_Now inp) clock\<rparr> \<and>
      countActive (taskRuns (after_ops ops)) (ci_AccountID inp) < defaultGlobalMaxActive \<and>
      countActiveForNamespace (taskRuns (after_ops ops)) (ci_AccountID inp) (tr_NamespaceID r) <
        maxActiveRuns (after_ops ops) (tr_NamespaceID r) \<and>
      (\<forall>q \<in> set (gm_vals (taskRuns (after_ops ops))). due (ci_AccountID inp) (orNow (ci_Now inp) clock) q \<longrightarrow>
        tr_NamespaceID q = tr_NamespaceID r \<longrightarrow>
        tr_Priority q < tr_Priority r \<or> tr_Priority q = tr_Priority r \<and> tr_CreatedAt r \<le> tr_CreatedAt q) \<and>
      (\<forall>k. gm_get (taskRuns s') k =
        (if k = tr_ID run then Some run else gm_get (taskRuns (after_ops ops)) k))"
proof -
  let ?s = "after_ops ops" and ?now = "orNow (ci_Now inp) clock"
  have now: "ci_Now (claim_defaults clock inp) = ?now"
    by (simp add: claim_defaults_def)
  obtain nsID r where limits: "countActive (taskRuns ?s) (ci_AccountID inp) < defaultGlobalMaxActive"
      "countActiveForNamespace (taskRuns ?s) (ci_AccountID inp) nsID < maxActiveRuns ?s nsID"
    and r: "oldestEligibleRun (taskRuns ?s) (ci_AccountID inp) nsID ?now = Some r"
    and run: "run = claimed fresh (claim_defaults clock inp) r"
    and s': "s' = ?s\<lparr>taskRuns := gm_put (tr_ID r) run (taskRuns ?s),
        lastClaimNamespace := gm_put (ci_AccountID inp) nsID (lastClaimNamespace ?s)\<rparr>"
    using ClaimNext_InrD [OF assms] claim_defaults_limit [of clock inp] unfolding now by (metis order.strict_trans2)
  note best = oldestEligibleRun_SomeD [OF r]
  have "gm_get (taskRuns ?s) (tr_ID r) = Some r"
    using best(1) ts_invD(1) [OF after_ops_inv [of ops]]
    by (metis gm_vals_get ids_okD(2) inv_idsD(3,4))
  with limits best run s' show ?thesis
    by (intro exI [of _ r]) (force simp: claimed_def claim_defaults_def preferred_def)
qed

theorem claim_takes_best_run_witness:
  "\<exists>s' run. ClaimNext ''tok'' 100 sample_claim (after_ops sample_ops) = (s', Inr run) \<and>
     tr_ID run = ''r2'' \<and> gm_get (taskRuns s') ''r2'' = Some run \<and> tr_Fence run = 1"
proof -
  have "outcome (ClaimNext ''tok'' 100 sample_claim (after_ops sample_ops))
      (\<lambda>run. tr_ID run = ''r2'' \<and> tr_Fence run = 1)"
    by code_simp
  then obtain s' run where run: "ClaimNext ''tok'' 100 sample_claim (after_ops sample_ops) = (s', Inr run)"
      "tr_ID run = ''r2''" "tr_Fence run = 1"
    by (rule outcomeE) blast
  then show ?thesis
    using claim_takes_best_run [OF run(1)] by auto
qed

text \<open>
  C19: A claim reports that there is nothing to do exactly when the account is at its limit
  or every due run of the account is in a namespace that is at its limit. So a due run
  with free capacity is never left waiting by a claim.
\<close>

theorem claim_progress:
  "snd (ClaimNext fresh clock inp (after_ops ops)) = Inl ErrNoEligibleTask \<longleftrightarrow>
     ci_MaxGlobalActive (claim_defaults clock inp) \<le> countActive (taskRuns (after_ops ops)) (ci_AccountID inp) \<or>
     (\<forall>r \<in> set (gm_vals (taskRuns (after_ops ops))). due (ci_AccountID inp) (orNow (ci_Now inp) clock) r \<longrightarrow>
        maxActiveRuns (after_ops ops) (tr_NamespaceID r) \<le>
          countActiveForNamespace (taskRuns (after_ops ops)) (ci_AccountID inp) (tr_NamespaceID r))"
proof -
  let ?s = "after_ops ops" and ?acct = "ci_AccountID inp" and ?now = "orNow (ci_Now inp) clock"
  let ?ids = "eligibleNamespaceIDs (taskRuns ?s) ?acct (namespaces ?s) ?now"
  let ?loop = "claim_loop ?s ?acct ?now (claim_order (claim_start (gm_str (lastClaimNamespace ?s) ?acct) ?ids) ?ids)"
  have elig: "tr_NamespaceID r \<in> set ?ids" if "r \<in> set (gm_vals (taskRuns ?s))" "due ?acct ?now r" for r
    using that inv_ownerD [OF ts_invD(4) [OF after_ops_inv [of ops]]]
      gm_vals_get [OF inv_idsD(3) [OF ts_invD(1) [OF after_ops_inv [of ops]]]]
    by (fastforce simp: eligibleNamespaceIDs_iff)
  have "?loop = None \<longleftrightarrow> (\<forall>i \<in> set ?ids. countActiveForNamespace (taskRuns ?s) ?acct i < maxActiveRuns ?s i \<longrightarrow>
      (\<forall>r \<in> set (gm_vals (taskRuns ?s)). \<not> (due ?acct ?now r \<and> tr_NamespaceID r = i)))"
    by (simp only: claim_loop_None_iff set_claim_order oldestEligibleRun_None_iff)
  also have "\<dots> \<longleftrightarrow> (\<forall>r \<in> set (gm_vals (taskRuns ?s)). due ?acct ?now r \<longrightarrow>
      maxActiveRuns ?s (tr_NamespaceID r) \<le> countActiveForNamespace (taskRuns ?s) ?acct (tr_NamespaceID r))"
    using elig unfolding linorder_not_less [symmetric] by blast
  finally have loop: "?loop = None \<longleftrightarrow> \<dots>" .
  have "snd (ClaimNext fresh clock inp ?s) = Inl ErrNoEligibleTask \<longleftrightarrow>
      ci_MaxGlobalActive (claim_defaults clock inp) \<le> countActive (taskRuns ?s) ?acct \<or> ?loop = None"
    by (auto simp: ClaimNext_def Let_def claim_defaults_def claim_order_def split: option.split)
  then show ?thesis unfolding loop .
qed

theorem claim_progress_witness:
  "snd (ClaimNext ''tok'' 100 sample_claim (after_ops sample_ops)) \<noteq> Inl ErrNoEligibleTask \<and>
   snd (ClaimNext ''tok'' 5 (sample_claim\<lparr>ci_Now := 5\<rparr>) (after_ops sample_ops)) = Inl ErrNoEligibleTask"
proof -
  have "ci_MaxGlobalActive (claim_defaults 100 sample_claim) = 5"
      "countActive (taskRuns (after_ops sample_ops)) (ci_AccountID sample_claim) = 0"
    by code_simp+
  moreover have "list_ex (\<lambda>r. due (ci_AccountID sample_claim) (orNow (ci_Now sample_claim) 100) r \<and>
      countActiveForNamespace (taskRuns (after_ops sample_ops)) (ci_AccountID sample_claim) (tr_NamespaceID r) <
        maxActiveRuns (after_ops sample_ops) (tr_NamespaceID r)) (gm_vals (taskRuns (after_ops sample_ops)))"
    by code_simp
  moreover have "list_all (\<lambda>r. \<not> due (ci_AccountID (sample_claim\<lparr>ci_Now := 5\<rparr>))
      (orNow (ci_Now (sample_claim\<lparr>ci_Now := 5\<rparr>)) 5) r) (gm_vals (taskRuns (after_ops sample_ops)))"
    by code_simp
  ultimately show ?thesis
    unfolding claim_progress list_ex_iff list_all_iff by force
qed

text \<open>
  C20: Claims take turns. If another namespace than the one served last has a due run and is
  below its limit, the next claim does not serve the last one again.
\<close>

theorem claim_round_robin:
  assumes "ClaimNext fresh clock inp (after_ops ops) = (s', Inr run)"
    and "other \<noteq> gm_str (lastClaimNamespace (after_ops ops)) (ci_AccountID inp)"
    and "q \<in> set (gm_vals (taskRuns (after_ops ops)))"
    and "due (ci_AccountID inp) (orNow (ci_Now inp) clock) q" and "tr_NamespaceID q = other"
    and "countActiveForNamespace (taskRuns (after_ops ops)) (ci_AccountID inp) other <
      maxActiveRuns (after_ops ops) other"
    and "gm_str (lastClaimNamespace (after_ops ops)) (ci_AccountID inp) \<noteq> []"
  shows "tr_NamespaceID run \<noteq> gm_str (lastClaimNamespace (after_ops ops)) (ci_AccountID inp)"
proof
  let ?s = "after_ops ops" and ?acct = "ci_AccountID inp" and ?now = "orNow (ci_Now inp) clock"
  let ?lst = "gm_str (lastClaimNamespace ?s) ?acct"
  let ?ids = "eligibleNamespaceIDs (taskRuns ?s) ?acct (namespaces ?s) ?now"
  have now: "ci_Now (claim_defaults clock inp) = ?now"
    by (simp add: claim_defaults_def)
  assume same: "tr_NamespaceID run = ?lst"
  obtain nsID r where loop: "claim_loop ?s ?acct ?now (claim_order (claim_start ?lst ?ids) ?ids) = Some (nsID, r)"
      and r: "oldestEligibleRun (taskRuns ?s) ?acct nsID ?now = Some r"
      and run: "run = claimed fresh (claim_defaults clock inp) r"
    using ClaimNext_InrD [OF assms(1)] unfolding Let_def now by metis
  have ns: "nsID = ?lst"
    using oldestEligibleRun_SomeD(3) [OF r] same run by simp
  obtain l m where lm: "claim_order (claim_start ?lst ?ids) ?ids = l @ ?lst # m"
      and skipped: "\<And>i. i \<in> set l \<Longrightarrow> countActiveForNamespace (taskRuns ?s) ?acct i < maxActiveRuns ?s i \<Longrightarrow>
        oldestEligibleRun (taskRuns ?s) ?acct i ?now = None"
    using loop unfolding ns by (rule claim_loop_SomeD) blast
  have "?lst \<in> set ?ids"
    using arg_cong [OF lm, of set] by (metis in_set_conv_decomp set_claim_order)
  then obtain ys where ys: "claim_order (claim_start ?lst ?ids) ?ids = ys @ [?lst]" "?lst \<notin> set ys"
    using claim_order_last distinct_eligible assms(7) by metis
  have "l = ys"
    using lm ys by (metis append_Cons append_eq_append_conv2 append_eq_Cons_conv append_self_conv
        butlast.simps(2) butlast_append butlast_snoc in_set_conv_decomp list.distinct(1) Un_iff set_append)
  have "maxActiveRuns ?s other > 0"
    using assms(6) by (simp add: countActiveForNamespace_def)
  then have "gm_has (namespaces ?s) other"
    by (auto simp: maxActiveRuns_def split: option.splits)
  then have "other \<in> set ?ids"
    using assms(3-5) by (auto simp: eligibleNamespaceIDs_iff)
  then have "other \<in> set l"
    using ys assms(2) \<open>l = ys\<close> by (metis Un_iff empty_iff insert_iff list.set(1) list.set(2) set_append set_claim_order)
  then show False
    using skipped assms(3-6) by (auto simp: oldestEligibleRun_None_iff)
qed

theorem claim_round_robin_witness:
  "gm_str (lastClaimNamespace (after_ops claimed_ops)) ''acct'' = ''ns-a'' \<and>
   (\<exists>s' run. ClaimNext ''tok2'' 101 sample_claim (after_ops claimed_ops) = (s', Inr run) \<and>
      tr_NamespaceID run \<noteq> ''ns-a'')"
proof -
  have last: "gm_str (lastClaimNamespace (after_ops claimed_ops)) (ci_AccountID sample_claim) = ''ns-a''"
    by code_simp
  have "outcome (ClaimNext ''tok2'' 101 sample_claim (after_ops claimed_ops)) (\<lambda>run. True)"
    by code_simp
  then obtain s' run where run: "ClaimNext ''tok2'' 101 sample_claim (after_ops claimed_ops) = (s', Inr run)"
    by (rule outcomeE) blast
  have q: "list_ex (\<lambda>q. due (ci_AccountID sample_claim) (orNow (ci_Now sample_claim) 101) q \<and>
      tr_NamespaceID q = ''ns-b'') (gm_vals (taskRuns (after_ops claimed_ops)))"
    by code_simp
  have cap: "countActiveForNamespace (taskRuns (after_ops claimed_ops)) (ci_AccountID sample_claim) ''ns-b'' <
      maxActiveRuns (after_ops claimed_ops) ''ns-b''"
    by code_simp
  show ?thesis
    using claim_round_robin [OF run, of "''ns-b''"] last q cap run
    by (auto simp: list_ex_iff sample_claim_def)
qed

end
