(* ===== verification/Task_Commands.thy ===== *)
theory Task_Commands
  imports Task_Sample
begin

text \<open>
  The properties of the commands of the task-session store: worker callbacks, leases,
  cancellation, messages, and the reads of a client.
\<close>

section \<open>Leases, callbacks and cancellation\<close>

lemma stateForRunEvent_trim [simp]: "stateForRunEvent (TrimSpace typ) st = stateForRunEvent typ st"
  by (simp add: stateForRunEvent_def)

lemma stateForRunEvent_finished:
  "stateForRunEvent typ TaskRunRunning = Inr (st, fin) \<Longrightarrow> fin = runFinished st"
  by (auto simp: stateForRunEvent_def Let_def runFinished_def split: if_splits)

text \<open>
  C34: A worker callback is accepted only with the run's current fence and lease token,
  before the lease expires, and for the account of the run. If it changes the store, the
  run was running and moves to the state of the event type, exactly one event is appended
  to its session's log, and every other run and every other log stays as it was.
\<close>

theorem callback_is_fenced:
  assumes "RecordTaskRunEvent now inp (after_ops ops) = (s', Inr res)"
  shows "\<exists>run. gm_get (taskRuns (after_ops ops)) (TrimSpace (tei_TaskRunID inp)) = Some run \<and>
     tr_AccountID run = TrimSpace (tei_AccountID inp) \<and> tr_Fence run = tei_Fence inp \<and>
     tr_LeaseToken run = TrimSpace (tei_LeaseToken inp) \<and> orNow (tei_CreatedAt inp) now < tr_LeaseExpires run \<and>
     (s' = after_ops ops \<or>
      tr_State run = TaskRunRunning \<and>
      stateForRunEvent (tei_Type inp) TaskRunRunning =
        Inr (tr_State (ter_TaskRun res), runFinished (tr_State (ter_TaskRun res))) \<and>
      gm_list (events s') (tr_SessionID run) = gm_list (events (after_ops ops)) (tr_SessionID run) @ [ter_Event res] \<and>
      (\<forall>k. k \<noteq> tr_SessionID run \<longrightarrow> gm_list (events s') k = gm_list (events (after_ops ops)) k) \<and>
      (\<forall>k. gm_get (taskRuns s') k =
         (if k = tr_ID run then Some (ter_TaskRun res) else gm_get (taskRuns (after_ops ops)) k)))"
  (is "?Q s' res")
proof -
  have "post (\<lambda>(s', r). \<forall>res. r = Inr res \<longrightarrow> ?Q s' res) (RecordTaskRunEvent now inp (after_ops ops))"
    unfolding RecordTaskRunEvent_def
    by (intro branches) (auto simp: post_def dest: stateForRunEvent_finished)
  then show ?thesis using assms by (simp add: post_def)
qed

definition sample_done :: TaskRunEventInput where
  "sample_done = \<lparr>tei_AccountID = ''acct'', tei_TaskRunID = ''r2'', tei_ActorID = ''w1'',
     tei_ClientRequestID = ''d1'', tei_Fence = 1, tei_LeaseToken = ''tok'', tei_Type = EventRunCompleted,
     tei_Payload = [(''summary'', GString ''done'')], tei_BridgeRef = ''b7'', tei_CreatedAt = 200\<rparr>"

theorem callback_is_fenced_witness:
  "\<exists>s' res. RecordTaskRunEvent 200 sample_done (after_ops claimed_ops) = (s', Inr res) \<and>
     (\<exists>run. gm_get (taskRuns (after_ops claimed_ops)) ''r2'' = Some run \<and> tr_Fence run = 1 \<and>
       tr_LeaseToken run = ''tok'' \<and> 200 < tr_LeaseExpires run) \<and>
     tr_State (ter_TaskRun res) = TaskRunComplete"
proof -
  have "outcome (RecordTaskRunEvent 200 sample_done (after_ops claimed_ops))
      (\<lambda>res. tr_State (ter_TaskRun res) = TaskRunComplete)"
    by code_simp
  then obtain s' res where res: "RecordTaskRunEvent 200 sample_done (after_ops claimed_ops) = (s', Inr res)"
      "tr_State (ter_TaskRun res) = TaskRunComplete"
    by (rule outcomeE) blast
  have inp: "TrimSpace (tei_TaskRunID sample_done) = ''r2''" "TrimSpace (tei_LeaseToken sample_done) = ''tok''"
      "tei_Fence sample_done = 1" "orNow (tei_CreatedAt sample_done) 200 = 200"
    by code_simp+
  show ?thesis
    using callback_is_fenced [OF res(1), unfolded inp] res by blast
qed

lemma cancel_request_of_lease [simp]:
  "cancel_request_of (r\<lparr>tr_LeaseExpires := x, tr_UpdatedAt := u\<rparr>) = cancel_request_of r"
  by (simp add: cancel_request_of_def fun_eq_iff)

lemma cancel_event_request:
  assumes "ev_Type (cancel_event run session inp) = EventRunCancelRequested"
  shows "tr_State run \<noteq> TaskRunQueued \<and> cancel_request_of run (cancel_event run session inp)"
  using assms by (simp add: cancel_event_def cancel_request_of_def cancelRequestedPayload_def is_string_def
      split: if_splits)

lemma RequestCancel_recorded:
  assumes "ts_inv s" and "RequestCancel now inp s = (s', Inr res)"
    and "ev_Type (ter_Event res) = EventRunCancelRequested"
    and "ev_SessionID (ter_Event res) = TrimSpace (cri_SessionID inp)"
  shows "gm_get (taskRuns s') (tr_ID (ter_TaskRun res)) = Some (ter_TaskRun res) \<and>
    cancel_request_of (ter_TaskRun res) (ter_Event res) \<and>
    ter_Event res \<in> set (gm_list (events s') (tr_SessionID (ter_TaskRun res)))"
  (is "?Q s' res")
proof -
  have stored: "gm_get (taskRuns s) (tr_ID r) = Some r" if "gm_get (taskRuns s) k = Some r" for k r
    using that ids_okD(2) [OF inv_idsD(4) [OF ts_invD(1) [OF assms(1)]] that] by simp
  have logged: "e \<in> set (gm_list (events s) (ev_SessionID e))" if "gm_get (eventByRequest s) k = Some e" for k e
    using that inv_requestsD [OF ts_invD(3) [OF assms(1)]] by blast
  have found: "x \<in> set xs \<and> P x" if "(if c then None else find P xs) = Some x" for c P xs and x :: Event
    using that find_SomeD [of P xs x] by (auto split: if_splits)
  have sid: "cri_SessionID i = TrimSpace (cri_SessionID inp)" if "normalizeCancel now inp = Inr i" for i
    using that by (auto simp: normalizeCancel_def Let_def split: if_splits)
  have "post (\<lambda>(s', r). \<forall>res. r = Inr res \<longrightarrow> ev_Type (ter_Event res) = EventRunCancelRequested \<longrightarrow>
      ev_SessionID (ter_Event res) = TrimSpace (cri_SessionID inp) \<longrightarrow> ?Q s' res) (RequestCancel now inp s)"
    unfolding RequestCancel_def
  proof (intro branches, simp_all add: post_def)
  qed (auto simp: cancel_request_of_def sid dest: stored logged cancel_event_request dest!: found)
  then show ?thesis using assms by (simp add: post_def)
qed

text \<open>
  Once a cancellation of a running run is recorded in its session, a worker that renews
  its lease on that run is told so, whatever happens in between. A renewal is accepted only
  from the owner of the lease, with the current fence and token and before the lease expires.
\<close>

theorem renewal_reports_cancel:
  assumes "RequestCancel now inp (after_ops ops) = (s1, Inr res)"
    and "ev_Type (ter_Event res) = EventRunCancelRequested"
    and "ev_SessionID (ter_Event res) = TrimSpace (cri_SessionID inp)"
    and "RenewLease now' inp' (exec_all ts_exec ops' s1) = (s2, Inr ren)"
    and "tr_ID (rlr_TaskRun ren) = tr_ID (ter_TaskRun res)"
  shows "rlr_CancelRequested ren \<and>
    (\<exists>run. gm_get (taskRuns (exec_all ts_exec ops' s1)) (tr_ID (ter_TaskRun res)) = Some run \<and>
       tr_State run = TaskRunRunning \<and> tr_Fence run = rli_Fence inp' \<and>
       tr_LeaseToken run = TrimSpace (rli_LeaseToken inp') \<and> tr_LeaseOwner run = TrimSpace (rli_WorkerID inp') \<and>
       orNow (rli_Now inp') now' < tr_LeaseExpires run)"
proof -
  let ?t = "exec_all ts_exec ops' s1" and ?id = "tr_ID (ter_TaskRun res)"
  note cancel = RequestCancel_recorded [OF after_ops_inv assms(1-3)]
  have inv1: "ts_inv s1"
    using ts.inv_step [OF after_ops_inv, of "OpCancel now inp" ops] assms(1) by simp
  have le: "ts_le s1 ?t" by (rule ts_mono.exec_all_le [OF inv1])
  have inv: "ts_inv ?t" by (rule ts.exec_all_inv [OF inv1])
  obtain run where run: "gm_get (taskRuns ?t) (tr_ID run) = Some run" "tr_State run = TaskRunRunning"
      "tr_Fence run = rli_Fence inp'" "tr_LeaseToken run = TrimSpace (rli_LeaseToken inp')"
      "tr_LeaseOwner run = TrimSpace (rli_WorkerID inp')" "orNow (rli_Now inp') now' < tr_LeaseExpires run"
      "tr_ID run = tr_ID (rlr_TaskRun ren)" "rlr_CancelRequested ren = cancelRequestedLocked run ?t"
    using assms(4) ids_okD(2) [OF inv_idsD(4) [OF ts_invD(1) [OF inv]]]
    by (auto simp: RenewLease_def normalizeRenew_def Let_def cancelRequestedLocked_def
        split: sum.splits option.splits if_splits)
  moreover have "tr_SessionID run = tr_SessionID (ter_TaskRun res)"
    using le cancel run(1,7) assms(5) unfolding ts_le_def by (metis option.inject)
  moreover have "ter_Event res \<in> set (gm_list (events ?t) (tr_SessionID (ter_TaskRun res)))"
    using le cancel unfolding ts_le_def by (metis in_set_takeD)
  ultimately show ?thesis
    using cancel assms(5) by (auto simp: cancelRequestedLocked_def list_ex_iff cancel_request_of_def)
qed

definition sample_cancel :: CancelRunInput where
  "sample_cancel = \<lparr>cri_AccountID = ''acct'', cri_SessionID = ''s1'', cri_TaskRunID = ''r2'',
     cri_ActorID = ''user'', cri_ClientRequestID = ''c1'', cri_CreatedAt = 150\<rparr>"

definition sample_renew :: RenewLeaseInput where
  "sample_renew = \<lparr>rli_AccountID = ''acct'', rli_TaskRunID = ''r2'', rli_WorkerID = ''w1'', rli_Fence = 1,
     rli_LeaseToken = ''tok'', rli_LeaseTTL = 20 * Second, rli_Now = 160\<rparr>"

theorem renewal_reports_cancel_witness:
  "\<exists>s1 res s2 ren. RequestCancel 150 sample_cancel (after_ops claimed_ops) = (s1, Inr res) \<and>
     RenewLease 160 sample_renew (exec_all ts_exec [] s1) = (s2, Inr ren) \<and> rlr_CancelRequested ren"
proof -
  let ?c = "RequestCancel 150 sample_cancel (after_ops claimed_ops)"
  have "outcome ?c (\<lambda>res. ev_Type (ter_Event res) = EventRunCancelRequested \<and> tr_ID (ter_TaskRun res) = ''r2'' \<and>
      ev_SessionID (ter_Event res) = TrimSpace (cri_SessionID sample_cancel))"
    by code_simp
  then obtain res where res: "?c = (fst ?c, Inr res)" "ev_Type (ter_Event res) = EventRunCancelRequested"
      "tr_ID (ter_TaskRun res) = ''r2''" "ev_SessionID (ter_Event res) = TrimSpace (cri_SessionID sample_cancel)"
    by (rule outcomeE) blast
  have "outcome (RenewLease 160 sample_renew (exec_all ts_exec [] (fst ?c))) (\<lambda>ren. tr_ID (rlr_TaskRun ren) = ''r2'')"
    by code_simp
  then obtain s2 ren where ren: "RenewLease 160 sample_renew (exec_all ts_exec [] (fst ?c)) = (s2, Inr ren)"
      "tr_ID (rlr_TaskRun ren) = ''r2''"
    by (rule outcomeE) blast
  then show ?thesis
    using renewal_reports_cancel [OF res(1,2,4) ren(1)] res ren by auto
qed

section \<open>Messages\<close>

text \<open>What a message that is not a replay does to the store.\<close>

lemma AppendMessage_new:
  assumes "AppendMessage fresh now inp s = (s', Inr res)" and "\<not> mcr_Existing res"
    and "gm_get (sessions s) (TrimSpace (ami_SessionID inp)) = Some session"
    and "NormalizeRouting (ami_Routing inp) = Inr routing"
  shows "TrimSpace (ami_AccountID inp) \<noteq> [] \<and> TrimSpace (ami_SessionID inp) \<noteq> [] \<and>
    TrimSpace (ami_ClientRequestID inp) \<noteq> [] \<and> TrimSpace (ami_Text inp) \<noteq> [] \<and>
    ss_AccountID session = TrimSpace (ami_AccountID inp) \<and>
    gm_get (taskRuns s) (tr_ID (mcr_TaskRun res)) = None \<and>
    tr_ID (mcr_TaskRun res) =
      (if TrimSpace (ami_TaskRunID inp) = [] then fresh else TrimSpace (ami_TaskRunID inp)) \<and>
    tr_AccountID (mcr_TaskRun res) = TrimSpace (ami_AccountID inp) \<and>
    tr_SessionID (mcr_TaskRun res) = TrimSpace (ami_SessionID inp) \<and>
    ev_Type (mcr_Message res) = EventMessageCreated \<and> ev_Type (mcr_Queued res) = EventRunQueued \<and>
    ev_Seq (mcr_Message res) = ss_LastEventSeq session + 1 \<and> ev_Seq (mcr_Queued res) = ss_LastEventSeq session + 2 \<and>
    messageEventPayload (TrimSpace (ami_Text inp)) (tr_ID (mcr_TaskRun res)) = Inr (ev_Payload (mcr_Message res)) \<and>
    (\<exists>c t. s' = s\<lparr>events := gm_put (TrimSpace (ami_SessionID inp))
        (gm_list (events s) (TrimSpace (ami_SessionID inp)) @ [mcr_Message res, mcr_Queued res]) (events s),
      eventByRequest := gm_put (requestKey (TrimSpace (ami_SessionID inp)) (TrimSpace (ami_ClientRequestID inp)))
        (mcr_Message res) (eventByRequest s),
      taskRuns := gm_put (tr_ID (mcr_TaskRun res)) (mcr_TaskRun res) (taskRuns s),
      runRouting := gm_put (tr_ID (mcr_TaskRun res)) routing (runRouting s),
      sessions := gm_put (ss_ID session) (session\<lparr>ss_LastEventSeq := mcr_LastEventSeq res,
        ss_SnapshotVer := mcr_SnapshotVer res, ss_Context := c, ss_UpdatedAt := t\<rparr>) (sessions s)\<rparr>)"
  (is "?Q s' res")
proof -
  have "post (\<lambda>(s', r). \<forall>res. r = Inr res \<longrightarrow> \<not> mcr_Existing res \<longrightarrow> ?Q s' res) (AppendMessage fresh now inp s)"
    unfolding AppendMessage_def
    by (intro branches, simp_all add: post_def assms(3,4)) blast
  from post_Inr [OF assms(1) this] assms(2) show ?thesis by blast
qed

lemma AppendMessage_existing:
  assumes "AppendMessage fresh now inp s = (s', Inr res)" and "mcr_Existing res"
  shows "s' = s \<and> AppendMessage fresh' now' inp s = (s, Inr res)" (is "?Q s' res")
proof -
  have "post (\<lambda>(s', r). \<forall>res. r = Inr res \<longrightarrow> mcr_Existing res \<longrightarrow> ?Q s' res) (AppendMessage fresh now inp s)"
    unfolding AppendMessage_def [of fresh now]
    by (intro branches) (simp_all add: post_def AppendMessage_def Let_def)
  from post_Inr [OF assms(1) this] assms(2) show ?thesis by blast
qed

lemma AppendMessage_InrD:
  assumes "AppendMessage fresh now inp s = (s', Inr res)"
  shows "(\<exists>session. gm_get (sessions s) (TrimSpace (ami_SessionID inp)) = Some session) \<and>
    (\<exists>routing. NormalizeRouting (ami_Routing inp) = Inr routing)" (is "?Q s' res")
proof -
  have "post (\<lambda>(s', r). \<forall>res. r = Inr res \<longrightarrow> ?Q s' res) (AppendMessage fresh now inp s)"
    unfolding AppendMessage_def by (intro branches) (simp_all add: post_def)
  from post_Inr [OF assms(1) this] show ?thesis .
qed

text \<open>An event with the next number is found behind the whole earlier log.\<close>

lemma find_next_event:
  assumes "map ev_Seq log = [1..n]" and "0 \<le> n" and "ev_Seq m = n + 1" and "ev_Seq q = n + 2" and "P q"
  shows "find (\<lambda>e. ev_Seq e = n + 2 \<and> P e) (log @ [m, q]) = Some q"
proof -
  have "ev_Seq e \<le> n" if "e \<in> set log" for e
    using that assms(1) by (metis atLeastAtMost_iff image_eqI list.set_map set_upto)
  then have "find (\<lambda>e. ev_Seq e = n + 2 \<and> P e) log = None"
    by (fastforce simp: find_None_iff)
  then have "find (\<lambda>e. ev_Seq e = n + 2 \<and> P e) (log @ xs) = find (\<lambda>e. ev_Seq e = n + 2 \<and> P e) xs" for xs
    by (induction log) (auto split: if_splits)
  then show ?thesis using assms(3-5) by simp
qed

lemma messageEventPayload_fields:
  assumes "messageEventPayload t rid = Inr p" and "TrimSpace rid = rid"
  shows "get_string p ''taskRunId'' = Some rid" "is_string p ''taskRunId'' rid"
    "get_string p ''text'' = Some (TrimSpace t)"
  using assms by (auto simp: messageEventPayload_def Let_def get_string_def is_string_def split: if_splits)

text \<open>
  Sending the same message command again, right after it was accepted, changes nothing
  and returns the same message, queued event and run, marked as existing. The id generator
  is only assumed to return ids without surrounding white space.
\<close>

theorem message_replay:
  assumes "AppendMessage fresh now inp (after_ops ops) = (s', Inr res)" and "TrimSpace fresh = fresh"
  shows "AppendMessage fresh' now' inp s' = (s', Inr (res\<lparr>mcr_Existing := True\<rparr>))"
proof (cases "mcr_Existing res")
  case True
  then show ?thesis
    using AppendMessage_existing [OF assms(1) True, of fresh' now'] by simp
next
  case False
  let ?s = "after_ops ops" and ?sid = "TrimSpace (ami_SessionID inp)" and ?rid = "tr_ID (mcr_TaskRun res)"
  obtain session routing where session: "gm_get (sessions ?s) ?sid = Some session"
      and routing: "NormalizeRouting (ami_Routing inp) = Inr routing"
    using AppendMessage_InrD [OF assms(1)] by blast
  note new = AppendMessage_new [OF assms(1) False session routing]
  have rid: "TrimSpace ?rid = ?rid"
    using new assms(2) by auto
  have id: "ss_ID session = ?sid"
    using ids_okD(1) [OF inv_idsD(4) [OF ts_invD(1) [OF after_ops_inv]] session] .
  have log: "map ev_Seq (gm_list (events ?s) ?sid) = [1..ss_LastEventSeq session]" "0 \<le> ss_LastEventSeq session"
    using ts_invD(2) [OF after_ops_inv [of ops]] session by (simp_all add: inv_log_def)
  have seq: "ev_Seq (mcr_Message res) + 1 = ss_LastEventSeq session + 2"
    using new by simp
  have find: "find (\<lambda>e. ev_Seq e = ev_Seq (mcr_Message res) + 1 \<and> ev_Type e = EventRunQueued)
      (gm_list (events ?s) ?sid @ [mcr_Message res, mcr_Queued res]) = Some (mcr_Queued res)"
    unfolding seq using new by (intro find_next_event log) auto
  obtain c t where s': "s' = ?s\<lparr>events := gm_put ?sid
        (gm_list (events ?s) ?sid @ [mcr_Message res, mcr_Queued res]) (events ?s),
      eventByRequest := gm_put (requestKey ?sid (TrimSpace (ami_ClientRequestID inp)))
        (mcr_Message res) (eventByRequest ?s),
      taskRuns := gm_put ?rid (mcr_TaskRun res) (taskRuns ?s),
      runRouting := gm_put ?rid routing (runRouting ?s),
      sessions := gm_put (ss_ID session) (session\<lparr>ss_LastEventSeq := mcr_LastEventSeq res,
        ss_SnapshotVer := mcr_SnapshotVer res, ss_Context := c, ss_UpdatedAt := t\<rparr>) (sessions ?s)\<rparr>"
    using new by blast
  have payload: "get_string (ev_Payload (mcr_Message res)) ''taskRunId'' = Some ?rid"
    using new rid messageEventPayload_fields(1) by blast
  have guards: "TrimSpace (ami_AccountID inp) \<noteq> []" "?sid \<noteq> []" "TrimSpace (ami_ClientRequestID inp) \<noteq> []"
      "TrimSpace (ami_Text inp) \<noteq> []" "ss_AccountID session = TrimSpace (ami_AccountID inp)"
    using new by blast+
  show ?thesis
    using guards payload id routing find by (simp add: s' AppendMessage_def Let_def)
qed

theorem message_replay_witness:
  "\<exists>s' res. AppendMessage ''run-1'' 50 (sample_message ''m1'') (after_ops sample_ops) = (s', Inr res) \<and>
     \<not> mcr_Existing res \<and>
     AppendMessage ''run-2'' 60 (sample_message ''m1'') s' = (s', Inr (res\<lparr>mcr_Existing := True\<rparr>))"
proof -
  have "outcome (AppendMessage ''run-1'' 50 (sample_message ''m1'') (after_ops sample_ops))
      (\<lambda>res. \<not> mcr_Existing res)"
    by code_simp
  then obtain s' res where res: "AppendMessage ''run-1'' 50 (sample_message ''m1'') (after_ops sample_ops) = (s', Inr res)"
      "\<not> mcr_Existing res"
    by (rule outcomeE) blast
  have "TrimSpace ''run-1'' = ''run-1''" by code_simp
  then show ?thesis
    using message_replay [OF res(1)] res by blast
qed

text \<open>What later operations keep of a stored run: its session, its account and its hints.\<close>

lemma ts_le_run:
  assumes "ts_le s t" and "gm_get (taskRuns s) k = Some r"
  obtains r' where "gm_get (taskRuns t) k = Some r'" "tr_SessionID r' = tr_SessionID r"
    "tr_AccountID r' = tr_AccountID r" "gm_get (runRouting t) k = gm_get (runRouting s) k"
  using assms unfolding ts_le_def by blast

lemma ts_le_log:
  assumes "ts_le s t"
  obtains rest where "gm_list (events t) sid = gm_list (events s) sid @ rest"
  using assms unfolding ts_le_def by (metis append_take_drop_id)

lemma find_skip: "\<forall>x \<in> set xs. \<not> P x \<Longrightarrow> find P (xs @ ys) = find P ys"
  by (induction xs) auto

text \<open>
  C35: A worker that asks for the message of a run gets the text (without surrounding white
  space) and the routing hints of the message command that created the run, whatever
  operations happen in between. The run id must be new to the session's log, which holds
  for a freshly generated id.
\<close>

theorem message_reaches_worker:
  assumes "AppendMessage fresh now inp (after_ops ops) = (s', Inr res)" and "\<not> mcr_Existing res"
    and "TrimSpace fresh = fresh" and "NormalizeRouting (ami_Routing inp) = Inr routing"
    and "\<forall>e \<in> set (gm_list (events (after_ops ops)) (TrimSpace (ami_SessionID inp))).
      \<not> is_string (ev_Payload e) ''taskRunId'' (tr_ID (mcr_TaskRun res))"
  shows "RunMessage_op (ami_AccountID inp) (tr_ID (mcr_TaskRun res)) (exec_all ts_exec ops' s') =
    Inr \<lparr>rm_Text = TrimSpace (ami_Text inp), rm_Routing = routing\<rparr>"
proof -
  let ?s = "after_ops ops" and ?sid = "TrimSpace (ami_SessionID inp)" and ?rid = "tr_ID (mcr_TaskRun res)"
  let ?t = "exec_all ts_exec ops' s'"
  let ?P = "\<lambda>e. ev_Type e = EventMessageCreated \<and> is_string (ev_Payload e) ''taskRunId'' ?rid"
  obtain session where session: "gm_get (sessions ?s) ?sid = Some session"
    using AppendMessage_InrD [OF assms(1)] by blast
  note new = AppendMessage_new [OF assms(1,2) session assms(4)]
  have rid: "TrimSpace ?rid = ?rid"
    using new assms(3) by auto
  have inv': "ts_inv s'"
    using ts.inv_step [OF after_ops_inv, of "OpAppendMessage fresh now inp" ops] assms(1) by simp
  have le: "ts_le s' ?t" by (rule ts_mono.exec_all_le [OF inv'])
  obtain c u where s': "s' = ?s\<lparr>events := gm_put ?sid
        (gm_list (events ?s) ?sid @ [mcr_Message res, mcr_Queued res]) (events ?s),
      eventByRequest := gm_put (requestKey ?sid (TrimSpace (ami_ClientRequestID inp)))
        (mcr_Message res) (eventByRequest ?s),
      taskRuns := gm_put ?rid (mcr_TaskRun res) (taskRuns ?s),
      runRouting := gm_put ?rid routing (runRouting ?s),
      sessions := gm_put (ss_ID session) (session\<lparr>ss_LastEventSeq := mcr_LastEventSeq res,
        ss_SnapshotVer := mcr_SnapshotVer res, ss_Context := c, ss_UpdatedAt := u\<rparr>) (sessions ?s)\<rparr>"
    using new by blast
  have run0: "tr_SessionID (mcr_TaskRun res) = ?sid"
      "tr_AccountID (mcr_TaskRun res) = TrimSpace (ami_AccountID inp)"
      "ev_Type (mcr_Message res) = EventMessageCreated"
      "messageEventPayload (TrimSpace (ami_Text inp)) ?rid = Inr (ev_Payload (mcr_Message res))"
    using new by blast+
  have "gm_get (taskRuns s') ?rid = Some (mcr_TaskRun res)" "gm_get (runRouting s') ?rid = Some routing"
    by (simp_all add: s')
  then obtain run where run: "gm_get (taskRuns ?t) ?rid = Some run" "tr_SessionID run = ?sid"
      "tr_AccountID run = TrimSpace (ami_AccountID inp)" "gm_get (runRouting ?t) ?rid = Some routing"
    using ts_le_run [OF le] run0(1,2) by metis
  have runID: "tr_ID run = ?rid"
    using ids_okD(2) [OF inv_idsD(4) [OF ts_invD(1) [OF ts.exec_all_inv [OF inv']]] run(1)] .
  obtain rest where rest: "gm_list (events ?t) ?sid = gm_list (events s') ?sid @ rest"
    by (rule ts_le_log [OF le])
  have "gm_list (events s') ?sid = gm_list (events ?s) ?sid @ [mcr_Message res, mcr_Queued res]"
    by (simp add: s')
  then have log: "gm_list (events ?t) ?sid = gm_list (events ?s) ?sid @ mcr_Message res # mcr_Queued res # rest"
    by (simp add: rest)
  note fields = messageEventPayload_fields [OF run0(4) rid]
  have "find ?P (gm_list (events ?t) ?sid) = Some (mcr_Message res)"
    unfolding log using run0(3) fields(2) assms(5) by (simp add: find_skip)
  then show ?thesis
    using run runID rid fields(3) by (simp add: RunMessage_op_def cloneMap_def gm_list_def)
qed

theorem message_reaches_worker_witness:
  "\<exists>s' res. AppendMessage ''run-1'' 50 (sample_message ''m1'') (after_ops sample_ops) = (s', Inr res) \<and>
     RunMessage_op ''acct'' (tr_ID (mcr_TaskRun res)) (exec_all ts_exec [OpClaim ''t'' 100 sample_claim] s') =
       Inr \<lparr>rm_Text = ''hello'', rm_Routing = [(''role'', GString ''coder''), (''attachments'', GInt 2)]\<rparr>"
proof -
  let ?m = "AppendMessage ''run-1'' 50 (sample_message ''m1'') (after_ops sample_ops)"
  let ?r = "[(''role'', GString ''coder''), (''attachments'', GInt 2)]"
  have "outcome ?m (\<lambda>res. \<not> mcr_Existing res)"
    by code_simp
  then obtain s' res where res: "?m = (s', Inr res)" "\<not> mcr_Existing res"
    by (rule outcomeE) blast
  have inp: "TrimSpace ''run-1'' = ''run-1''" "NormalizeRouting (ami_Routing (sample_message ''m1'')) = Inr ?r"
      "gm_list (events (after_ops sample_ops)) (TrimSpace (ami_SessionID (sample_message ''m1''))) = []"
      "TrimSpace (ami_Text (sample_message ''m1'')) = ''hello''" "ami_AccountID (sample_message ''m1'') = ''acct''"
    by code_simp+
  show ?thesis
    using message_reaches_worker [OF res inp(1,2), of "[OpClaim ''t'' 100 sample_claim]"] res(1)
    unfolding inp by auto
qed

end
