(* ===== verification/Task_Reads.thy ===== *)
theory Task_Reads
  imports Task_Sample
begin

text \<open>
  The properties of what clients of the task-session store read, of the validation of
  routing hints, and of the personal namespace.
\<close>

section \<open>Reading the log\<close>

lemma filter_after_drop:
  assumes "map f xs = [m..n]"
  shows "filter (\<lambda>x. \<not> f x \<le> a) xs = drop (nat (a - m + 1)) xs"
  using assms
proof (induction xs arbitrary: m)
  case Nil
  then show ?case by simp
next
  case (Cons x xs)
  then have "m \<le> n" by (metis list.distinct(1) list.simps(9) upto_Nil2 linorder_not_le)
  then have x: "f x = m" and xs: "map f xs = [m + 1..n]"
    using Cons.prems by (simp_all add: upto_rec1)
  have rest: "filter (\<lambda>x. \<not> f x \<le> a) xs = drop (nat (a - m)) xs"
    using Cons.IH [OF xs] by simp
  show ?case
  proof (cases "m \<le> a")
    case True
    then have "nat (a - m + 1) = Suc (nat (a - m))" by simp
    then show ?thesis using True x rest by simp
  next
    case False
    then show ?thesis using x rest by simp
  qed
qed

text \<open>
  The replay cursor of the event log is exact: a page of \<open>ListEvents\<close> is the run of at
  most \<open>limit\<close> events that directly follow the cursor, in order, with nothing left out, and
  only the account that owns the session gets it.
\<close>

theorem list_events_page:
  assumes "gm_get (sessions (after_ops ops)) (TrimSpace sid) = Some ses"
    and "0 \<le> cursor" and "1 \<le> limit" and "limit \<le> 500"
  shows "ListEvents acct sid cursor limit (after_ops ops) =
    (if ss_AccountID ses = TrimSpace acct
     then Inr (take (nat limit) (drop (nat cursor) (gm_list (events (after_ops ops)) (TrimSpace sid))))
     else Inl ErrAccountMismatch)"
proof -
  have log: "map ev_Seq (gm_list (events (after_ops ops)) (TrimSpace sid)) = [1..ss_LastEventSeq ses]"
    using ts_invD(2) [OF after_ops_inv [of ops]] assms(1) by (simp add: inv_log_def)
  have "ss_ID ses = TrimSpace sid"
    using ids_okD(1) [OF inv_idsD(4) [OF ts_invD(1) [OF after_ops_inv]] assms(1)] .
  then show ?thesis
    using assms filter_after_drop [OF log, of cursor] by (simp add: ListEvents_def Let_def)
qed

definition logged_ops :: "ts_op list" where
  "logged_ops = sample_ops @
     [OpAppendEvent 30 \<lparr>aei_AccountID = ''acct'', aei_SessionID = ''s1'', aei_ActorID = ''user'',
        aei_ClientRequestID = ''e1'', aei_Type = ''note'', aei_Payload = [], aei_CreatedAt = 30\<rparr>,
      OpAppendEvent 31 \<lparr>aei_AccountID = ''acct'', aei_SessionID = ''s1'', aei_ActorID = ''user'',
        aei_ClientRequestID = ''e2'', aei_Type = ''note'', aei_Payload = [], aei_CreatedAt = 31\<rparr>]"

theorem list_events_page_witness:
  "(case ListEvents ''acct'' ''s1'' 1 10 (after_ops logged_ops) of Inl _ \<Rightarrow> [] | Inr evs \<Rightarrow> map ev_Seq evs) = [2] \<and>
   ListEvents ''other'' ''s1'' 1 10 (after_ops logged_ops) = Inl ErrAccountMismatch"
proof -
  have "(case gm_get (sessions (after_ops logged_ops)) (TrimSpace ''s1'') of None \<Rightarrow> False
      | Some ses \<Rightarrow> ss_AccountID ses = ''acct'')"
    by code_simp
  then obtain ses where ses: "gm_get (sessions (after_ops logged_ops)) (TrimSpace ''s1'') = Some ses"
      "ss_AccountID ses = ''acct''"
    by (auto split: option.splits)
  have "map ev_Seq (take (nat 10) (drop (nat 1) (gm_list (events (after_ops logged_ops)) (TrimSpace ''s1'')))) = [2]"
      "TrimSpace ''acct'' = ''acct''" "TrimSpace ''other'' = ''other''"
    by code_simp+
  then show ?thesis
    using list_events_page [OF ses(1), of 1 10] ses(2) by simp
qed

section \<open>Isolation of accounts\<close>

lemma latest_run_SomeD:
  assumes "latest_run sid runs = Some r"
  shows "r \<in> set runs" "tr_SessionID r = sid"
  using prefer_later.select_SomeD(1,2) [OF assms [unfolded latest_run_def]] by auto

lemma snapshot_run_account:
  assumes "ts_inv s" and "gm_get (sessions s) k = Some ses"
    and "sn_TaskRun (snapshotFromMemoryState ses (taskRuns s)) = Some r"
  shows "tr_AccountID r = ss_AccountID ses"
proof -
  have "latest_run (ss_ID ses) (gm_vals (taskRuns s)) = Some r"
    using assms(3) by (simp add: snapshotFromMemoryState_def)
  note r = latest_run_SomeD [OF this]
  then obtain j where "gm_get (taskRuns s) j = Some r"
    using gm_vals_get [OF inv_idsD(3) [OF ts_invD(1) [OF assms(1)]]] by blast
  then obtain ses' where "gm_get (sessions s) (tr_SessionID r) = Some ses'" "ss_AccountID ses' = tr_AccountID r"
    using inv_ownerD(2) [OF ts_invD(4) [OF assms(1)]] by blast
  moreover have "ss_ID ses = k"
    using ids_okD(1) [OF inv_idsD(4) [OF ts_invD(1) [OF assms(1)]] assms(2)] .
  ultimately show ?thesis
    using r(2) assms(2) by simp
qed

text \<open>
  C36: Reads stay within the account. A session that \<open>GetSession\<close> returns has the account
  and the namespace asked for, the latest run in a snapshot belongs to the asking account,
  \<open>ListSessions\<close> only returns snapshots of the namespace asked for, and the namespaces of
  \<open>ListNamespaces\<close> are the account's own.
\<close>

theorem reads_are_isolated:
  "(case GetSession acct nsID sid (after_ops ops) of Inl _ \<Rightarrow> True
    | Inr ses \<Rightarrow> ss_AccountID ses = acct \<and> ss_NamespaceID ses = nsID) \<and>
   (case GetSnapshot acct sid (after_ops ops) of Inl _ \<Rightarrow> True
    | Inr sn \<Rightarrow> (case sn_TaskRun sn of None \<Rightarrow> True | Some r \<Rightarrow> tr_AccountID r = acct)) \<and>
   (case ListSessions acct nsID (after_ops ops) of Inl _ \<Rightarrow> True
    | Inr sns \<Rightarrow> list_all (\<lambda>sn. sn_NamespaceID sn = TrimSpace nsID \<and>
        (case sn_TaskRun sn of None \<Rightarrow> True | Some r \<Rightarrow> tr_AccountID r = TrimSpace acct)) sns) \<and>
   (case ListNamespaces acct (after_ops ops) of Inl _ \<Rightarrow> True
    | Inr nss \<Rightarrow> list_all (\<lambda>n. ns_AccountID n = TrimSpace acct) nss)"
proof (intro conjI)
  let ?s = "after_ops ops"
  note run = snapshot_run_account [OF after_ops_inv [of ops]]
  show "case GetSession acct nsID sid ?s of Inl _ \<Rightarrow> True
    | Inr ses \<Rightarrow> ss_AccountID ses = acct \<and> ss_NamespaceID ses = nsID"
    by (auto simp: GetSession_def split: sum.split option.split)
  show "case GetSnapshot acct sid ?s of Inl _ \<Rightarrow> True
    | Inr sn \<Rightarrow> (case sn_TaskRun sn of None \<Rightarrow> True | Some r \<Rightarrow> tr_AccountID r = acct)"
    by (auto simp: GetSnapshot_def dest: run split: option.split)
  have "tr_AccountID r = ss_AccountID ses"
    if "ses \<in> set (gm_vals (sessions ?s))" "sn_TaskRun (snapshotFromMemoryState ses (taskRuns ?s)) = Some r" for ses r
    using that run gm_vals_get [OF inv_idsD(2) [OF ts_invD(1) [OF after_ops_inv [of ops]]]] by blast
  then show "case ListSessions acct nsID ?s of Inl _ \<Rightarrow> True
    | Inr sns \<Rightarrow> list_all (\<lambda>sn. sn_NamespaceID sn = TrimSpace nsID \<and>
        (case sn_TaskRun sn of None \<Rightarrow> True | Some r \<Rightarrow> tr_AccountID r = TrimSpace acct)) sns"
    by (force simp: ListSessions_def Let_def list_all_iff snapshotFromMemoryState_def split: option.split)
  show "case ListNamespaces acct ?s of Inl _ \<Rightarrow> True
    | Inr nss \<Rightarrow> list_all (\<lambda>n. ns_AccountID n = TrimSpace acct) nss"
    by (auto simp: ListNamespaces_def Let_def list_all_iff)
qed

section \<open>The personal namespace\<close>

lemma namespace_kept: "gm_get (namespaces s) k = Some ns \<Longrightarrow> ts_inv s \<Longrightarrow>
  gm_get (namespaces (exec_all ts_exec ops s)) k = Some ns"
proof (induction ops arbitrary: s)
  case (Cons opn ops)
  then show ?case
    using step_namespace_from [OF ts_exec_step [OF ts_invD(1)]] ts.inv_step by (metis exec_all.simps(2))
qed simp

text \<open>
  The personal namespace of an account is created once. Asking for it again, after any
  other operations and with any clock and generated id, returns the same namespace and
  changes nothing.
\<close>

theorem personal_namespace_stable:
  assumes "EnsurePersonalNamespace fresh clock acct now (after_ops ops) = (s', Inr ns)"
  shows "EnsurePersonalNamespace fresh' clock' acct now' (exec_all ts_exec ops' s') =
    (exec_all ts_exec ops' s', Inr ns)"
proof -
  let ?acct = "TrimSpace acct" and ?t = "exec_all ts_exec ops' s'"
  have inv': "ts_inv s'"
    using ts.inv_step [OF after_ops_inv, of "OpEnsure fresh clock acct now" ops] assms by simp
  have ids: "k \<noteq> []" if "gm_get (namespaces s) k = Some n" "ts_inv s" for s k n
    using that ts_invD(5) by (auto simp: inv_slugs_def)
  have slug: "gm_get (gm_list (namespacesByAcct s) a) sl = Some k \<longleftrightarrow>
      (\<exists>n. gm_get (namespaces s) k = Some n \<and> ns_AccountID n = a \<and> ns_Slug n = sl)" if "ts_inv s" for s a sl k
    using ts_invD(5) [OF that] unfolding inv_slugs_def by blast
  have nonempty: "?acct \<noteq> []"
    using assms by (auto simp: EnsurePersonalNamespace_def Let_def)
  have "\<exists>k. gm_get (namespaces s') k = Some ns \<and> ns_AccountID ns = ?acct \<and> ns_Slug ns = NamespacePersonal"
  proof (cases "gm_str (gm_list (namespacesByAcct (after_ops ops)) ?acct) NamespacePersonal = []")
    case True
    then have "createNamespaceLocked clock
        \<lparr>cni_ID = fresh, cni_AccountID = ?acct, cni_Slug = NamespacePersonal, cni_DisplayName = ''Personal'',
         cni_MaxActiveRuns = defaultNamespaceMaxActive, cni_CreatedAt = now\<rparr> (after_ops ops) = (s', Inr ns)"
      using assms nonempty by (simp add: EnsurePersonalNamespace_def Let_def)
    moreover have "TrimSpace NamespacePersonal = NamespacePersonal" by code_simp
    ultimately show ?thesis
      by (auto simp: createNamespaceLocked_def Let_def split: if_splits)
  next
    case False
    then obtain k where "gm_get (gm_list (namespacesByAcct (after_ops ops)) ?acct) NamespacePersonal = Some k"
        "gm_str (gm_list (namespacesByAcct (after_ops ops)) ?acct) NamespacePersonal = k"
      by (auto simp: gm_str_def split: option.splits)
    then show ?thesis
      using slug [OF after_ops_inv, of ops ?acct NamespacePersonal k] assms nonempty False
      by (auto simp: EnsurePersonalNamespace_def Let_def)
  qed
  then obtain k where k: "gm_get (namespaces s') k = Some ns" "ns_AccountID ns = ?acct" "ns_Slug ns = NamespacePersonal"
    by blast
  have t: "gm_get (namespaces ?t) k = Some ns" "ts_inv ?t"
    using namespace_kept [OF k(1) inv'] ts.exec_all_inv [OF inv'] by blast+
  then have "gm_get (gm_list (namespacesByAcct ?t) ?acct) NamespacePersonal = Some k"
    using slug k(2,3) by blast
  then show ?thesis
    using t ids [OF t] nonempty by (simp add: EnsurePersonalNamespace_def Let_def gm_str_def)
qed

theorem personal_namespace_stable_witness:
  "\<exists>s' ns. EnsurePersonalNamespace ''id'' 1 ''bob'' 1 (after_ops sample_ops) = (s', Inr ns) \<and>
     EnsurePersonalNamespace ''id2'' 9 ''bob'' 9 (exec_all ts_exec [OpClaim ''t'' 100 sample_claim] s') =
       (exec_all ts_exec [OpClaim ''t'' 100 sample_claim] s', Inr ns)"
proof -
  have "outcome (EnsurePersonalNamespace ''id'' 1 ''bob'' 1 (after_ops sample_ops)) (\<lambda>ns. True)"
    by code_simp
  then obtain s' ns where "EnsurePersonalNamespace ''id'' 1 ''bob'' 1 (after_ops sample_ops) = (s', Inr ns)"
    by (rule outcomeE) blast
  then show ?thesis
    using personal_namespace_stable by blast
qed

section \<open>Routing hints\<close>

lemma length_strip: "length (strip ws s) \<le> length s"
  using strip_suffix [of s ws] by (metis le_add2 length_append)

lemma length_TrimSpace: "length (TrimSpace s) \<le> length s"
  unfolding TrimSpace_def using length_strip by (metis length_rev order_trans)

text \<open>A hint that was accepted is accepted again, unchanged.\<close>

lemma routing_entry_fixed:
  assumes "routing_entry key v = Inr (Some w)"
  shows "routing_entry key w = Inr (Some w)"
proof (cases "gm_get routingStrings key")
  case None
  then show ?thesis
    using assms by (auto simp: routing_entry_def split: if_splits gval.splits option.splits)
next
  case (Some limit)
  then obtain t where t: "v = GString t" "int (length t) \<le> limit" "TrimSpace t \<noteq> []" "w = GString (TrimSpace t)"
      "key \<in> set routingRefs \<longrightarrow> plainKey (TrimSpace t)"
    using assms by (auto simp: routing_entry_def Let_def split: if_splits gval.splits)
  then show ?thesis
    using Some length_TrimSpace [of t] by (auto simp: routing_entry_def Let_def)
qed

definition hint_ok :: "string \<times> gval \<Rightarrow> bool" where
  "hint_ok kv = (routing_entry (fst kv) (snd kv) = Inr (Some (snd kv)))"

lemma hint_okD:
  assumes "hint_ok (key, v)"
  shows "key \<in> set (map fst routingStrings @ routingBools @ [''attachments'']) \<and>
      (\<forall>t. v = GString t \<longrightarrow> t \<noteq> [] \<and> TrimSpace t = t) \<and>
      (key \<in> set routingRefs \<longrightarrow> (\<exists>t. v = GString t \<and> CHR ''/'' \<notin> set t \<and> backslash \<notin> set t)) \<and>
      (key = ''attachments'' \<longrightarrow> (\<exists>n. v = GInt n \<and> 0 \<le> n \<and> n \<le> 1000))"
proof (intro conjI)
  have e: "routing_entry key v = Inr (Some v)"
    using assms by (simp add: hint_ok_def)
  show "key \<in> set (map fst routingStrings @ routingBools @ [''attachments''])"
    by (rule routing_entry_ok(1) [OF e])
  show "\<forall>t. v = GString t \<longrightarrow> t \<noteq> [] \<and> TrimSpace t = t"
    using routing_entry_ok(2) [OF e] by blast
  show "key \<in> set routingRefs \<longrightarrow> (\<exists>t. v = GString t \<and> CHR ''/'' \<notin> set t \<and> backslash \<notin> set t)"
    using routing_entry_ok(3) [OF e] plainKey_no_separator by blast
  show "key = ''attachments'' \<longrightarrow> (\<exists>n. v = GInt n \<and> 0 \<le> n \<and> n \<le> 1000)"
    using e by (auto simp: routing_entry_def routingStrings_def routingBools_def split: if_splits option.splits)
qed

lemma NormalizeRouting_loop_ok:
  assumes "NormalizeRouting_loop acc input = Inr r" and "gm_wf acc" and "list_all hint_ok acc"
  shows "gm_wf r \<and> list_all hint_ok r"
  using assms
proof (induction acc input rule: NormalizeRouting_loop.induct)
  case (2 acc key v rest)
  show ?case
  proof (cases "routing_entry key v")
    case (Inr entry)
    show ?thesis
    proof (cases entry)
      case None
      then show ?thesis using 2 Inr by simp
    next
      case (Some w)
      have "hint_ok (key, w)"
        using Inr Some by (simp add: hint_ok_def routing_entry_fixed)
      moreover have "set (gm_put key w acc) \<subseteq> insert (key, w) (set acc)"
        by (induction acc) auto
      ultimately have "list_all hint_ok (gm_put key w acc)"
        using "2.prems"(3) by (auto simp: list_all_iff)
      then show ?thesis using 2 Inr Some by simp
    qed
  qed (use 2 in simp)
qed simp

lemma NormalizeRouting_loop_fixed:
  assumes "list_all hint_ok r" and "gm_wf (acc @ r)"
  shows "NormalizeRouting_loop acc r = Inr (acc @ r)"
  using assms
proof (induction r arbitrary: acc)
  case (Cons kv r)
  obtain k v where kv: "kv = (k, v)" by fastforce
  have "gm_get acc k = None"
    using Cons.prems(2) kv by (auto simp: map_of_eq_None_iff)
  then show ?case
    using Cons kv by (simp add: hint_ok_def gm_put_new)
qed simp

text \<open>
  Routing hints that pass validation only have the documented keys; every string is
  non-empty, trimmed and within its length limit, references contain neither a slash nor a
  backslash, the attachment count lies between 0 and 1000, and validating the result again
  returns it unchanged.
\<close>

theorem routing_hints_normalized:
  assumes "NormalizeRouting input = Inr r"
  shows "NormalizeRouting r = Inr r \<and>
    (\<forall>(key, v) \<in> set r. key \<in> set (map fst routingStrings @ routingBools @ [''attachments'']) \<and>
      (\<forall>t. v = GString t \<longrightarrow> t \<noteq> [] \<and> TrimSpace t = t) \<and>
      (key \<in> set routingRefs \<longrightarrow> (\<exists>t. v = GString t \<and> CHR ''/'' \<notin> set t \<and> backslash \<notin> set t)) \<and>
      (key = ''attachments'' \<longrightarrow> (\<exists>n. v = GInt n \<and> 0 \<le> n \<and> n \<le> 1000)))"
proof -
  have ok: "gm_wf r" "list_all hint_ok r"
    using NormalizeRouting_loop_ok [of "[]" input r] assms by (simp_all add: NormalizeRouting_def)
  have "NormalizeRouting r = Inr r"
    using NormalizeRouting_loop_fixed [OF ok(2), of "[]"] ok(1) by (simp add: NormalizeRouting_def)
  then show ?thesis
    using ok(2) hint_okD unfolding list_all_iff by blast
qed

theorem routing_hints_normalized_witness:
  "NormalizeRouting [(''role'', GString '' coder ''), (''workspace'', GString ''a.b''), (''attachments'', GInt 3)] =
     Inr [(''role'', GString ''coder''), (''workspace'', GString ''a.b''), (''attachments'', GInt 3)] \<and>
   NormalizeRouting [(''role'', GString ''coder''), (''workspace'', GString ''a.b''), (''attachments'', GInt 3)] =
     Inr [(''role'', GString ''coder''), (''workspace'', GString ''a.b''), (''attachments'', GInt 3)]"
proof -
  have "NormalizeRouting [(''role'', GString '' coder ''), (''workspace'', GString ''a.b''), (''attachments'', GInt 3)] =
     Inr [(''role'', GString ''coder''), (''workspace'', GString ''a.b''), (''attachments'', GInt 3)]"
    by code_simp
  from routing_hints_normalized [OF this] this show ?thesis by simp
qed

section \<open>Request ids with surrounding white space\<close>

definition padded_event :: AppendEventInput where
  "padded_event = \<lparr>aei_AccountID = ''acct'', aei_SessionID = ''s1'', aei_ActorID = ''user'',
     aei_ClientRequestID = '' e9 '', aei_Type = ''note'', aei_Payload = [], aei_CreatedAt = 30\<rparr>"

text \<open>
  A request id with surrounding white space is not idempotent for \<open>AppendEvent\<close>: the
  index is read with the id as given and written with the trimmed id, so the same request
  sent twice is recorded twice.
\<close>

theorem padded_request_recorded_twice:
  "map (\<lambda>e. (ev_Seq e, ev_ClientRequestID e))
     (gm_list (events (after_ops (sample_ops @ [OpAppendEvent 30 padded_event, OpAppendEvent 30 padded_event]))) ''s1'') =
   [(1, ''e9''), (2, ''e9'')]"
  by code_simp

end
