(* ===== verification/Store_Types.thy ===== *)
theory Store_Types
  imports Go_Values
begin

text \<open>
  The records of \<open>internal/store/store.go\<close> that the account part of \<open>memoryStore\<close> keeps, its
  errors, and the state itself. The maps \<open>byID\<close>, \<open>byEmail\<close> and \<open>byName\<close> hold pointers to the
  same \<open>User\<close> values, and several operations change a user through one of them, so users
  live in a heap: a pointer is an index into the list \<open>users\<close>.
\<close>

record User =
  us_ID :: string
  us_Name :: string
  us_Email :: string
  us_Level :: int
  us_Role :: string
  us_Groups :: "string list"
  us_Permissions :: "string list"
  us_EmailVerified :: bool
  us_PasswordHash :: string
  us_MFATOTPSecret :: string
  us_MFAEnabled :: bool
  us_MFASecretIssuedAt :: time
  us_MFAConfirmedAt :: time
  us_CreatedAt :: time
  us_UpdatedAt :: time
  us_Active :: bool
  us_ProxyUUID :: string
  us_ProxyUUIDExpiresAt :: "time option"
  us_SubscriptionValidFrom :: "time option"
  us_SubscriptionValidUntil :: "time option"
  us_LastActiveAt :: "time option"
  us_ArchivedAt :: "time option"

record Subscription =
  sb_ID :: string
  sb_UserID :: string
  sb_Provider :: string
  sb_PaymentMethod :: string
  sb_PaymentQRCode :: string
  sb_Kind :: string
  sb_PlanID :: string
  sb_ExternalID :: string
  sb_Status :: string
  sb_Meta :: gobject
  sb_CreatedAt :: time
  sb_UpdatedAt :: time
  sb_CancelledAt :: "time option"

record SubscriptionRecord =
  sr_PlanCode :: string
  sr_UserID :: string
  sr_SubscriptionType :: string
  sr_MonthlyQuotaBytes :: int
  sr_AnnualQuotaBytes :: int
  sr_FeeMinor :: int
  sr_PaymentStatus :: string
  sr_Note :: string
  sr_ValidFrom :: "time option"
  sr_ValidUntil :: "time option"
  sr_UpdatedAt :: time

record Identity =
  id_ID :: string
  id_UserID :: string
  id_Provider :: string
  id_ExternalID :: string
  id_CreatedAt :: time
  id_UpdatedAt :: time

record Agent =
  ag_ID :: string
  ag_Name :: string
  ag_Groups :: "string list"
  ag_Healthy :: bool
  ag_LastHeartbeat :: "time option"
  ag_ClientsCount :: int
  ag_SyncRevision :: string
  ag_CreatedAt :: time
  ag_UpdatedAt :: time

text \<open>A value of the details of an audit entry: a plain value, a point in time, a struct with its fields, a map of such values, or a pointer, \<open>None\<close> the nil one.\<close>

datatype detail =
    DVal gval | DTime time
  | DStruct "(string \<times> detail) list" | DMap "(string \<times> detail) list" | DPtr "detail option"

record AuditLog =
  al_UUID :: string
  al_Action :: string
  al_ActorUUID :: string
  al_Details :: "(string, detail) gomap option"
  al_CreatedAt :: time

text \<open>Reading a key of the details; a nil map has no keys.\<close>

definition al_get :: "AuditLog \<Rightarrow> string \<Rightarrow> detail option" where
  "al_get entry k = (case al_Details entry of None \<Rightarrow> None | Some d \<Rightarrow> gm_get d k)"

text \<open>\<open>value, _ := entry.Details[k].(string)\<close>\<close>

definition al_string :: "AuditLog \<Rightarrow> string \<Rightarrow> string" where
  "al_string entry k = (case al_get entry k of Some (DVal (GString v)) \<Rightarrow> v | _ \<Rightarrow> [])"

definition al_put :: "string \<Rightarrow> detail \<Rightarrow> AuditLog \<Rightarrow> AuditLog" where
  "al_put k v entry =
     entry\<lparr>al_Details := Some (gm_put k v (case al_Details entry of None \<Rightarrow> [] | Some d \<Rightarrow> d))\<rparr>"

record AuditLogFilter =
  af_ActionPrefix :: string
  af_ActorUUID :: string
  af_TargetUUID :: string
  af_Limit :: int
  af_Offset :: int

record sessionRecord =
  se_UserID :: string
  se_ExpiresAt :: time

record oauthExchangeRecord =
  oe_SessionToken :: string
  oe_SessionExpiresAt :: time
  oe_ExpiresAt :: time

text \<open>
  The errors of the store; \<open>ErrText\<close> is an error made with \<open>errors.New\<close> at the place of return,
  and \<open>GoPanic\<close> stands for a run-time panic (a nil dereference, an index out of range).
\<close>

datatype store_error =
    ErrEmailExists | ErrNameExists | ErrInvalidName | ErrUserNotFound
  | ErrUserArchiveUnsupported | ErrUserProtected | ErrUserAlreadyArchived | ErrUserArchiveReplayConflict
  | ErrAdminPlanGroupStale | ErrAdminPlanGroupReplay | ErrAdminPlanGroupPreview | ErrMFANotSupported
  | ErrSuperAdminCountingDisabled | ErrSubscriptionNotFound | ErrSessionNotFound
  | ErrReferralNotFound | ErrReferralSelf | ErrReferralAlreadyAttributed
  | ErrReferralSettlementUnavailable | ErrReferralSettlementRisk
  | ErrPasswordRecoveryInvalid | ErrPasswordRecoveryCooldown
  | ErrFinanceRecordNotFound | ErrFinanceIdempotencyConflict | ErrFinanceInvoiceAlreadyPaid
  | ErrFinanceRefundExceedsPayment | ErrFinanceOperationInProgress | ErrFinanceOperationNotRetryable
  | ErrReferralCampaignInvalid | ErrMFARecoveryCodeInvalid | ErrMFAResetConflict
  | ErrNetworkTeamNotFound | ErrNetworkWithdrawalRequired | ErrNetworkTeamFull
  | ErrTeamAgentNotFound | ErrTeamAgentConflict
  | ErrSubscriptionCooldown | ErrSubscriptionStateConflict | ErrSubscriptionChangePending
  | ErrSubscriptionQuotaConflict | ErrBillingPlanNotFound | ErrDuplicateLedgerEntry
  | ErrOverlayDeviceNotFound | ErrTenantNotFound | ErrTenantMembershipNotFound | ErrXWorkmateProfileNotFound
  | ErrText string
  | GoPanic

record user_store =
  allowSuperAdminCounting :: bool
  users :: "User list"
  byID :: "(string, nat) gomap"
  byEmail :: "(string, nat) gomap"
  byName :: "(string, nat) gomap"
  subscriptions :: "(string, (string, Subscription) gomap) gomap"
  subscriptionRecords :: "(string, SubscriptionRecord) gomap"
  identities :: "(string, Identity) gomap"
  agents :: "(string, Agent) gomap"
  loginSessions :: "(string, sessionRecord) gomap"
  oauthExchangeCodes :: "(string, oauthExchangeRecord) gomap"
  blacklistedEmails :: "(string, bool) gomap"
  auditLogs :: "AuditLog list"

definition newUserStore :: "bool \<Rightarrow> user_store" where
  "newUserStore allow =
     \<lparr>allowSuperAdminCounting = allow, users = [], byID = [], byEmail = [], byName = [],
      subscriptions = [], subscriptionRecords = [], identities = [], agents = [],
      loginSessions = [], oauthExchangeCodes = [], blacklistedEmails = [], auditLogs = []\<rparr>"

text \<open>The user behind a pointer of one of the indexes.\<close>

definition user_of :: "'z user_store_scheme \<Rightarrow> (string, nat) gomap \<Rightarrow> string \<Rightarrow> User option" where
  "user_of s ix k = (case gm_get ix k of None \<Rightarrow> None | Some a \<Rightarrow> Some (users s ! a))"

end
