(* ===== verification/Users.thy ===== *)
theory Users
  imports Store_Types
begin

text \<open>
  The account operations of \<open>memoryStore\<close> (\<open>internal/store/store.go\<close>): users and their three
  indexes, roles, subscriptions, identities, the blacklist, agents, login sessions, one-time
  exchange codes and the archive of users with its audit trail. Every generated id, every
  clock reading and the outcome of \<open>uuid.NewV7\<close> is an argument.
\<close>

type_synonym ('z, 'a) store_result = "'z user_store_scheme \<times> (store_error + 'a)"

section \<open>Roles and groups\<close>

abbreviation (input) LevelAdmin :: int where "LevelAdmin \<equiv> 0"
abbreviation (input) LevelOperator :: int where "LevelOperator \<equiv> 10"
abbreviation (input) LevelUser :: int where "LevelUser \<equiv> 20"
abbreviation RoleRoot :: string where "RoleRoot \<equiv> ''root''"
abbreviation RoleAdmin :: string where "RoleAdmin \<equiv> ''admin''"
abbreviation RoleOperator :: string where "RoleOperator \<equiv> ''operator''"
abbreviation RoleUser :: string where "RoleUser \<equiv> ''user''"
abbreviation RoleReadOnly :: string where "RoleReadOnly \<equiv> ''readonly''"

definition roleToLevel :: "(string, int) gomap" where
  "roleToLevel = [(RoleRoot, LevelAdmin), (RoleAdmin, LevelAdmin), (RoleOperator, LevelOperator),
     (RoleUser, LevelUser), (RoleReadOnly, LevelUser)]"

definition levelToRole :: "(int, string) gomap" where
  "levelToRole = [(LevelAdmin, RoleRoot), (LevelOperator, RoleOperator), (LevelUser, RoleUser)]"

definition IsRootRole :: "string \<Rightarrow> bool" where
  "IsRootRole role \<longleftrightarrow> ToLower (TrimSpace role) = RoleRoot"

definition IsAdminRole :: "string \<Rightarrow> bool" where
  "IsAdminRole role \<longleftrightarrow> ToLower (TrimSpace role) = RoleRoot \<or> ToLower (TrimSpace role) = RoleAdmin"

definition IsOperatorRole :: "string \<Rightarrow> bool" where
  "IsOperatorRole role \<longleftrightarrow> ToLower (TrimSpace role) = RoleOperator"

text \<open>The values without surrounding white space, in order, without blanks and repetitions.\<close>

fun normalize_loop :: "string list \<Rightarrow> string list \<Rightarrow> string list" where
  "normalize_loop seen [] = []"
| "normalize_loop seen (v # vs) =
     (let trimmed = TrimSpace v in
      if trimmed = [] \<or> trimmed \<in> set seen then normalize_loop seen vs
      else trimmed # normalize_loop (trimmed # seen) vs)"

definition normalizeStringSlice :: "string list \<Rightarrow> string list" where
  "normalizeStringSlice values = normalize_loop [] values"

definition cloneStringSlice :: "string list \<Rightarrow> string list" where
  "cloneStringSlice values = values"

definition normalizeUserRoleFields :: "User \<Rightarrow> User" where
  "normalizeUserRoleFields user =
     (let normalizedRole = ToLower (TrimSpace (us_Role user));
          user = (case gm_get roleToLevel normalizedRole of
                    Some level \<Rightarrow> user\<lparr>us_Role := normalizedRole, us_Level := level\<rparr>
                  | None \<Rightarrow>
                      (case gm_get levelToRole (us_Level user) of
                         Some role \<Rightarrow> user\<lparr>us_Role := role\<rparr>
                       | None \<Rightarrow> user\<lparr>us_Role := RoleUser, us_Level := LevelUser\<rparr>))
      in user\<lparr>us_Groups := normalizeStringSlice (us_Groups user),
              us_Permissions := normalizeStringSlice (us_Permissions user)\<rparr>)"

definition cloneUser :: "User \<Rightarrow> User" where
  "cloneUser user =
     normalizeUserRoleFields (user\<lparr>us_Groups := cloneStringSlice (us_Groups user),
       us_Permissions := cloneStringSlice (us_Permissions user)\<rparr>)"

text \<open>\<open>assignUser(dst, src)\<close>: the new value of \<open>*dst\<close>.\<close>

definition assignUser :: "User \<Rightarrow> User" where
  "assignUser src =
     normalizeUserRoleFields (src\<lparr>us_Groups := cloneStringSlice (us_Groups src),
       us_Permissions := cloneStringSlice (us_Permissions src)\<rparr>)"

abbreviation MonthlyFreeQuotaLimitGroup :: string where
  "MonthlyFreeQuotaLimitGroup \<equiv> ''segment:quota:free-3gb''"
abbreviation MonthlyPlusQuotaLimitGroup :: string where
  "MonthlyPlusQuotaLimitGroup \<equiv> ''segment:quota:plus-20gb''"
abbreviation MonthlyUnlimitedBetaQuotaGroup :: string where
  "MonthlyUnlimitedBetaQuotaGroup \<equiv> ''segment:quota:unlimited-beta''"
abbreviation SubscriptionUnlimitedOverrideGroup :: string where
  "SubscriptionUnlimitedOverrideGroup \<equiv> ''segment:subscription:unlimited''"
abbreviation SubscriptionListedGroup :: string where
  "SubscriptionListedGroup \<equiv> ''segment:subscription:listed''"

definition monthlyQuotaGroups :: "string list" where
  "monthlyQuotaGroups =
     [MonthlyUnlimitedBetaQuotaGroup, MonthlyPlusQuotaLimitGroup, MonthlyFreeQuotaLimitGroup]"

text \<open>The first group of the user that is a quota group; the empty string when there is none.\<close>

definition MonthlyQuotaGroup :: "User \<Rightarrow> string" where
  "MonthlyQuotaGroup user =
     (case find (\<lambda>g. TrimSpace g \<in> set monthlyQuotaGroups) (us_Groups user) of
        None \<Rightarrow> [] | Some g \<Rightarrow> TrimSpace g)"

definition IsMonthlyFreeQuotaLimitMember :: "User \<Rightarrow> bool" where
  "IsMonthlyFreeQuotaLimitMember user \<longleftrightarrow> MonthlyQuotaGroup user = MonthlyFreeQuotaLimitGroup"

text \<open>The midnight (UTC) that ends the day of a point in time.\<close>

definition next_midnight :: "time \<Rightarrow> time" where
  "next_midnight t = (t div (24 * Hour) + 1) * (24 * Hour)"

definition recurringGroups :: "string list" where
  "recurringGroups = [''segment:monthly'', ''segment:yearly'', ''segment:subscription:monthly'',
     ''segment:subscription:yearly'']"

definition HasSubscriptionUnlimitedOverride :: "User \<Rightarrow> time \<Rightarrow> bool" where
  "HasSubscriptionUnlimitedOverride user now =
     (if \<not> us_Active user \<or> us_ArchivedAt user \<noteq> None then False
      else if (case us_SubscriptionValidFrom user of Some f \<Rightarrow> now < f | None \<Rightarrow> False) then False
      else if (case us_SubscriptionValidUntil user of
                 Some end \<Rightarrow> \<not> now < next_midnight end | None \<Rightarrow> False) then False
      else SubscriptionListedGroup \<in> set (us_Groups user) \<and>
           SubscriptionUnlimitedOverrideGroup \<in> set (us_Groups user) \<and>
           (\<exists>g \<in> set (us_Groups user). g \<in> set recurringGroups) \<and>
           MonthlyQuotaGroup user = MonthlyPlusQuotaLimitGroup)"

definition IsMonthlyQuotaLimitMember :: "time \<Rightarrow> User \<Rightarrow> bool" where
  "IsMonthlyQuotaLimitMember now user =
     (if HasSubscriptionUnlimitedOverride user now then False
      else MonthlyQuotaGroup user = MonthlyFreeQuotaLimitGroup \<or>
           MonthlyQuotaGroup user = MonthlyPlusQuotaLimitGroup)"

abbreviation AgentFreeGrantGroupPrefix :: string where
  "AgentFreeGrantGroupPrefix \<equiv> ''agent:free-grant:''"

definition is_grant :: "string \<Rightarrow> bool" where
  "is_grant g \<longleftrightarrow> starts_with AgentFreeGrantGroupPrefix (TrimSpace g)"

definition WithoutAgentFreeGrantGroups :: "string list \<Rightarrow> string list" where
  "WithoutAgentFreeGrantGroups groups = filter (\<lambda>g. \<not> is_grant g) groups"

definition PreserveAgentFreeGrantGroups :: "string list \<Rightarrow> string list \<Rightarrow> string list" where
  "PreserveAgentFreeGrantGroups existing requested =
     filter (\<lambda>g. \<not> is_grant g) requested @ map TrimSpace (filter is_grant existing)"

abbreviation EmailOptionalRegistrationGroup :: string where
  "EmailOptionalRegistrationGroup \<equiv> ''account:registration:email-optional''"

definition AccountAccessVerified :: "User \<Rightarrow> bool" where
  "AccountAccessVerified user \<longleftrightarrow>
     us_EmailVerified user \<or> EmailOptionalRegistrationGroup \<in> set (us_Groups user)"

definition PreserveRegistrationGroups :: "string list \<Rightarrow> string list \<Rightarrow> string list" where
  "PreserveRegistrationGroups existing requested =
     PreserveAgentFreeGrantGroups existing
       (filter (\<lambda>g. g \<noteq> EmailOptionalRegistrationGroup) requested @
        (if EmailOptionalRegistrationGroup \<in> set existing then [EmailOptionalRegistrationGroup] else []))"

abbreviation subscriptionSourcePlanPrefix :: string where
  "subscriptionSourcePlanPrefix \<equiv> ''subscription:source-plan:''"

definition SubscriptionSourcePlan :: "string list \<Rightarrow> string" where
  "SubscriptionSourcePlan groups =
     (case find (starts_with subscriptionSourcePlanPrefix) groups of
        None \<Rightarrow> [] | Some g \<Rightarrow> ToUpper (drop (length subscriptionSourcePlanPrefix) g))"

definition WithSubscriptionSourcePlan :: "string list \<Rightarrow> string \<Rightarrow> string list" where
  "WithSubscriptionSourcePlan groups plan =
     filter (\<lambda>g. \<not> starts_with subscriptionSourcePlanPrefix g) groups @
     (if plan \<noteq> [] then [subscriptionSourcePlanPrefix @ ToLower plan] else [])"

definition isSuperAdmin :: "User \<Rightarrow> bool" where
  "isSuperAdmin user =
     (if \<not> IsAdminRole (us_Role user) \<and> us_Level user \<noteq> LevelAdmin then False
      else list_ex (\<lambda>p. TrimSpace p = ''*'') (us_Permissions user) \<and>
           list_ex (\<lambda>g. ToLower (TrimSpace g) = ''admin'') (us_Groups user))"

end
