(* ===== verification/User_Store.thy ===== *)
theory User_Store
  imports Users
begin

text \<open>
  The account operations of \<open>memoryStore\<close> in \<open>internal/store/store.go\<close>, \<open>account_access.go\<close> and
  \<open>audit_memory.go\<close>. An operation takes the ids \<open>uuid.NewString\<close> generates, the reading of the
  clock and the outcome of \<open>uuid.NewV7\<close> as arguments and returns the new state with an error
  or a result. Where the code writes the outcome back through its pointer argument, that
  value is the result.
\<close>

section \<open>Users\<close>

abbreviation put_user :: "nat \<Rightarrow> User \<Rightarrow> 'z user_store_scheme \<Rightarrow> 'z user_store_scheme" where
  "put_user a u s \<equiv> s\<lparr>users := (users s)[a := u]\<rparr>"

definition CreateUser ::
  "string \<Rightarrow> time \<Rightarrow> string + string \<Rightarrow> User \<Rightarrow> 'z user_store_scheme \<Rightarrow> ('z, User) store_result" where
  "CreateUser fresh now newV7 user s =
     (let loweredEmail = ToLower (TrimSpace (us_Email user));
          normalizedName = TrimSpace (us_Name user) in
      if normalizedName = [] then (s, Inl ErrInvalidName)
      else
        let user = normalizeUserRoleFields user in
        if gm_has (byEmail s) loweredEmail then (s, Inl ErrEmailExists)
        else if gm_has (byName s) (ToLower normalizedName) then (s, Inl ErrNameExists)
        else
          let userCopy = (if us_ID user = [] then user\<lparr>us_ID := fresh\<rparr> else user);
              userCopy = (if IsZero (us_CreatedAt userCopy)
                          then userCopy\<lparr>us_CreatedAt := now,
                                 us_UpdatedAt := (if IsZero (us_UpdatedAt userCopy) then now else us_UpdatedAt userCopy)\<rparr>
                          else userCopy);
              userCopy = (if IsZero (us_UpdatedAt userCopy) then userCopy\<lparr>us_UpdatedAt := now\<rparr> else userCopy);
              userCopy = userCopy\<lparr>us_Email := loweredEmail, us_Name := normalizedName\<rparr>;
              stored = normalizeUserRoleFields userCopy;
              stored = stored\<lparr>us_Groups := cloneStringSlice (us_Groups stored),
                              us_Permissions := cloneStringSlice (us_Permissions stored), us_Active := True\<rparr>
          in case (if TrimSpace (us_ProxyUUID stored) = [] then newV7 else Inr (us_ProxyUUID stored)) of
               Inl e \<Rightarrow> (s, Inl (ErrText e))
             | Inr proxy \<Rightarrow>
                 let stored = stored\<lparr>us_ProxyUUID := proxy\<rparr>;
                     a = length (users s)
                 in (s\<lparr>users := users s @ [stored],
                       byID := gm_put (us_ID userCopy) a (byID s),
                       byEmail := (if loweredEmail \<noteq> [] then gm_put loweredEmail a (byEmail s) else byEmail s),
                       byName := gm_put (ToLower normalizedName) a (byName s)\<rparr>,
                     Inr (assignUser stored)))"

definition GetUserByEmail :: "string \<Rightarrow> 'z user_store_scheme \<Rightarrow> store_error + User" where
  "GetUserByEmail email s =
     (case user_of s (byEmail s) (ToLower email) of
        None \<Rightarrow> Inl ErrUserNotFound | Some user \<Rightarrow> Inr (cloneUser user))"

definition GetUserByID :: "string \<Rightarrow> 'z user_store_scheme \<Rightarrow> store_error + User" where
  "GetUserByID uid s =
     (case user_of s (byID s) uid of
        None \<Rightarrow> Inl ErrUserNotFound | Some user \<Rightarrow> Inr (cloneUser user))"

definition GetUserByName :: "string \<Rightarrow> 'z user_store_scheme \<Rightarrow> store_error + User" where
  "GetUserByName name s =
     (let normalized = ToLower (TrimSpace name) in
      if normalized = [] then Inl ErrUserNotFound
      else case user_of s (byName s) normalized of
             None \<Rightarrow> Inl ErrUserNotFound | Some user \<Rightarrow> Inr (cloneUser user))"

text \<open>The value \<open>UpdateUser\<close> stores, for a given id of the network credential.\<close>

definition updated_user :: "time \<Rightarrow> User \<Rightarrow> User \<Rightarrow> string \<Rightarrow> User" where
  "updated_user now existing user proxy =
     (let updated = existing\<lparr>
            us_Name := TrimSpace (us_Name user),
            us_Email := ToLower (TrimSpace (us_Email user)),
            us_EmailVerified := us_EmailVerified user,
            us_PasswordHash := us_PasswordHash user,
            us_MFATOTPSecret := us_MFATOTPSecret user,
            us_MFAEnabled := us_MFAEnabled user,
            us_MFASecretIssuedAt := us_MFASecretIssuedAt user,
            us_MFAConfirmedAt := us_MFAConfirmedAt user,
            us_Level := us_Level user,
            us_Role := us_Role user,
            us_Groups := cloneStringSlice (PreserveAgentFreeGrantGroups (us_Groups existing) (us_Groups user)),
            us_Permissions := cloneStringSlice (us_Permissions user),
            us_Active := us_Active user,
            us_ProxyUUID := proxy,
            us_ProxyUUIDExpiresAt := us_ProxyUUIDExpiresAt user,
            us_SubscriptionValidFrom := us_SubscriptionValidFrom user,
            us_SubscriptionValidUntil := us_SubscriptionValidUntil user,
            us_LastActiveAt := us_LastActiveAt user,
            us_ArchivedAt := us_ArchivedAt user\<rparr>;
          updated = normalizeUserRoleFields updated
      in updated\<lparr>
           us_CreatedAt := (if IsZero (us_CreatedAt user) then us_CreatedAt existing else us_CreatedAt user),
           us_UpdatedAt := (if IsZero (us_UpdatedAt user) then now else us_UpdatedAt user)\<rparr>)"

definition UpdateUser ::
  "time \<Rightarrow> string + string \<Rightarrow> User \<Rightarrow> 'z user_store_scheme \<Rightarrow> ('z, User) store_result" where
  "UpdateUser now newV7 user s =
     (case user_of s (byID s) (us_ID user) of
        None \<Rightarrow> (s, Inl ErrUserNotFound)
      | Some existing \<Rightarrow>
          let normalizedName = TrimSpace (us_Name user);
              loweredEmail = ToLower (TrimSpace (us_Email user)) in
          if normalizedName = [] then (s, Inl ErrInvalidName)
          else
            let oldNameKey = ToLower (us_Name existing);
                newNameKey = ToLower normalizedName in
            if oldNameKey \<noteq> newNameKey \<and> gm_has (byName s) newNameKey then (s, Inl ErrNameExists)
            else
              let s = (if oldNameKey \<noteq> newNameKey then s\<lparr>byName := gm_del oldNameKey (byName s)\<rparr> else s);
                  oldEmailKey = ToLower (us_Email existing) in
              if oldEmailKey \<noteq> loweredEmail \<and> loweredEmail \<noteq> [] \<and> gm_has (byEmail s) loweredEmail
              then (s, Inl ErrEmailExists)
              else
                let s = (if oldEmailKey \<noteq> loweredEmail \<and> oldEmailKey \<noteq> []
                         then s\<lparr>byEmail := gm_del oldEmailKey (byEmail s)\<rparr> else s)
                in case (if TrimSpace (us_ProxyUUID user) = [] then newV7 else Inr (TrimSpace (us_ProxyUUID user))) of
                     Inl e \<Rightarrow> (s, Inl (ErrText e))
                   | Inr proxy \<Rightarrow>
                       let updated = updated_user now existing user proxy;
                           a = length (users s)
                       in (s\<lparr>users := users s @ [updated],
                             byID := gm_put (us_ID user) a (byID s),
                             byName := gm_put newNameKey a (byName s),
                             byEmail := (if loweredEmail \<noteq> [] then gm_put loweredEmail a (byEmail s) else byEmail s)\<rparr>,
                           Inr (assignUser updated)))"

definition CountSuperAdmins :: "'z user_store_scheme \<Rightarrow> store_error + int" where
  "CountSuperAdmins s =
     (if \<not> allowSuperAdminCounting s then Inl ErrSuperAdminCountingDisabled
      else Inr (int (length (filter (\<lambda>a. isSuperAdmin (users s ! a)) (gm_vals (byID s))))))"

definition ListUsers :: "'z user_store_scheme \<Rightarrow> User list" where
  "ListUsers s = sort_key us_CreatedAt (map (\<lambda>a. cloneUser (users s ! a)) (gm_vals (byID s)))"

abbreviation (input) MaxUserListPageSize :: int where "MaxUserListPageSize \<equiv> 500"

definition ListUsersPage :: "string \<Rightarrow> int \<Rightarrow> 'z user_store_scheme \<Rightarrow> store_error + User list" where
  "ListUsersPage afterID limit s =
     (if limit \<le> 0 \<or> limit > MaxUserListPageSize then Inl (ErrText ''user page limit is out of range'')
      else Inr (map (\<lambda>uid. cloneUser (users s ! the (gm_get (byID s) uid)))
                  (take (nat limit) (sort (filter (\<lambda>uid. afterID < uid) (map fst (byID s)))))))"

section \<open>Audit log\<close>

definition cloneAuditLog :: "AuditLog \<Rightarrow> AuditLog" where
  "cloneAuditLog entry =
     entry\<lparr>al_Details := Some (case al_Details entry of None \<Rightarrow> [] | Some d \<Rightarrow> d)\<rparr>"

definition InsertAuditLog ::
  "string \<Rightarrow> time \<Rightarrow> AuditLog option \<Rightarrow> 'z user_store_scheme \<Rightarrow> ('z, AuditLog) store_result" where
  "InsertAuditLog fresh now entry s =
     (case entry of
        None \<Rightarrow> (s, Inl (ErrText ''audit entry is required''))
      | Some entry \<Rightarrow>
          if TrimSpace (al_Action entry) = [] then (s, Inl (ErrText ''audit action is required''))
          else
            let entry = (if TrimSpace (al_UUID entry) = [] then entry\<lparr>al_UUID := fresh\<rparr> else entry);
                entry = (if IsZero (al_CreatedAt entry) then entry\<lparr>al_CreatedAt := now\<rparr> else entry)
            in (s\<lparr>auditLogs := auditLogs s @ [cloneAuditLog entry]\<rparr>, Inr entry))"

abbreviation (input) auditLogDefaultLimit :: int where "auditLogDefaultLimit \<equiv> 50"
abbreviation (input) auditLogMaxLimit :: int where "auditLogMaxLimit \<equiv> 200"

definition audit_matches :: "AuditLogFilter \<Rightarrow> AuditLog \<Rightarrow> bool" where
  "audit_matches f entry =
     (let prefix = TrimSpace (af_ActionPrefix f);
          actor = TrimSpace (af_ActorUUID f);
          target = TrimSpace (af_TargetUUID f) in
      \<not> (prefix \<noteq> [] \<and> \<not> starts_with prefix (al_Action entry)) \<and>
      \<not> (actor \<noteq> [] \<and> al_ActorUUID entry \<noteq> actor) \<and>
      \<not> (target \<noteq> [] \<and> al_string entry ''target_uuid'' \<noteq> target))"

definition ListAuditLogs :: "AuditLogFilter \<Rightarrow> 'z user_store_scheme \<Rightarrow> AuditLog list" where
  "ListAuditLogs f s =
     (let limit = (if af_Limit f \<le> 0 then auditLogDefaultLimit else af_Limit f);
          limit = (if limit > auditLogMaxLimit then auditLogMaxLimit else limit);
          offset = (if af_Offset f < 0 then 0 else af_Offset f);
          matched = map cloneAuditLog (filter (audit_matches f) (rev (auditLogs s))) in
      if offset \<ge> int (length matched) then []
      else take (nat limit) (drop (nat offset) matched))"

section \<open>Archiving and activation\<close>

abbreviation AuditActionUserArchive :: string where
  "AuditActionUserArchive \<equiv> ''account.user.archive''"

definition validateUserArchiveAudit :: "string \<Rightarrow> AuditLog option \<Rightarrow> store_error option" where
  "validateUserArchiveAudit userID audit =
     (case audit of
        None \<Rightarrow> Some (ErrText ''a user archive audit entry with an actor is required'')
      | Some audit \<Rightarrow>
          if TrimSpace (al_Action audit) \<noteq> AuditActionUserArchive \<or> TrimSpace (al_ActorUUID audit) = []
          then Some (ErrText ''a user archive audit entry with an actor is required'')
          else if al_Details audit = None then Some (ErrText ''user archive audit details are required'')
          else if TrimSpace (al_string audit ''target_uuid'') \<noteq> TrimSpace userID \<or>
                  TrimSpace (al_string audit ''reason'') = []
          then Some (ErrText ''user archive audit target and reason are required'')
          else None)"

definition archive_protected :: "User \<Rightarrow> bool" where
  "archive_protected user \<longleftrightarrow>
     IsAdminRole (us_Role user) \<or> us_Level user = LevelAdmin \<or>
     MonthlyQuotaGroup user = MonthlyPlusQuotaLimitGroup \<or>
     MonthlyQuotaGroup user = MonthlyUnlimitedBetaQuotaGroup"

definition live_subscription :: "Subscription \<Rightarrow> bool" where
  "live_subscription sub \<longleftrightarrow>
     sb_Status sub = ''active'' \<or> sb_Status sub = ''trialing'' \<or> sb_Status sub = ''past_due''"

definition archive_replay :: "string \<Rightarrow> string \<Rightarrow> AuditLog \<Rightarrow> bool" where
  "archive_replay uid requestID entry \<longleftrightarrow>
     al_Action entry = AuditActionUserArchive \<and>
     al_get entry ''target_uuid'' = Some (DVal (GString uid)) \<and>
     al_get entry ''request_id'' = Some (DVal (GString requestID))"

definition DeleteUser ::
  "string \<Rightarrow> string \<Rightarrow> time \<Rightarrow> string \<Rightarrow> AuditLog option \<Rightarrow> string \<Rightarrow> 'z user_store_scheme \<Rightarrow>
   ('z, AuditLog) store_result" where
  "DeleteUser transitionID fresh now uid auditArg requestID s =
     (case validateUserArchiveAudit uid auditArg of
        Some e \<Rightarrow> (s, Inl e)
      | None \<Rightarrow>
          let audit = the auditArg;
              requestID = TrimSpace requestID in
          case (if requestID \<noteq> [] then find (archive_replay uid requestID) (auditLogs s) else None) of
            Some existing \<Rightarrow>
              if al_ActorUUID existing \<noteq> al_ActorUUID audit \<or>
                 al_get existing ''reason'' \<noteq> al_get audit ''reason''
              then (s, Inl ErrUserArchiveReplayConflict)
              else (s, Inr (cloneAuditLog existing))
          | None \<Rightarrow>
              (case gm_get (byID s) uid of
                 None \<Rightarrow> (s, Inl ErrUserNotFound)
               | Some a \<Rightarrow>
                   let user = users s ! a in
                   if us_ArchivedAt user \<noteq> None then (s, Inl ErrUserAlreadyArchived)
                   else if archive_protected user then (s, Inl ErrUserProtected)
                   else if list_ex live_subscription (gm_vals (gm_list (subscriptions s) uid))
                   then (s, Inl ErrUserProtected)
                   else
                     let audit = (if TrimSpace (al_UUID audit) = [] then audit\<lparr>al_UUID := fresh\<rparr> else audit);
                         audit = audit\<lparr>al_CreatedAt := now\<rparr>;
                         audit = (if requestID \<noteq> [] then al_put ''request_id'' (DVal (GString requestID)) audit else audit);
                         audit = al_put ''transition_id'' (DVal (GString transitionID)) audit;
                         audit = al_put ''occurred_at'' (DTime now) audit;
                         s = put_user a (user\<lparr>us_Active := False, us_ArchivedAt := Some now, us_UpdatedAt := now\<rparr>) s
                     in (s\<lparr>auditLogs := auditLogs s @ [cloneAuditLog audit]\<rparr>, Inr audit)))"

definition activeStateAudit :: "string \<Rightarrow> time \<Rightarrow> string \<Rightarrow> string \<Rightarrow> bool \<Rightarrow> bool \<Rightarrow> AuditLog" where
  "activeStateAudit fresh now uid actor before active =
     \<lparr>al_UUID = fresh,
      al_Action = (if active then ''account.user.activated'' else ''account.user.deactivated''),
      al_ActorUUID = actor,
      al_Details = Some
        [(''targetAccountUuid'', DVal (GString uid)),
         (''before'', DVal (GMap [(''active'', GBool before)])),
         (''after'', DVal (GMap [(''active'', GBool active)])),
         (''method'', DVal (GString ''administrator''))],
      al_CreatedAt = now\<rparr>"

definition SetUserActiveWithAudit ::
  "store_error option \<Rightarrow> string \<Rightarrow> time \<Rightarrow> string \<Rightarrow> bool \<Rightarrow> string \<Rightarrow> 'z user_store_scheme \<Rightarrow>
   ('z, unit) store_result" where
  "SetUserActiveWithAudit ctxErr fresh now uid active actor s =
     (if TrimSpace actor = [] then (s, Inl (ErrText ''administrator actor required''))
      else case ctxErr of
        Some e \<Rightarrow> (s, Inl e)
      | None \<Rightarrow>
          (case gm_get (byID s) uid of
             None \<Rightarrow> (s, Inl ErrUserNotFound)
           | Some a \<Rightarrow>
               let user = users s ! a in
               if active \<and> us_ArchivedAt user \<noteq> None then (s, Inl ErrUserAlreadyArchived)
               else if us_Active user = active then (s, Inr ())
               else
                 let entry = activeStateAudit fresh now uid actor (us_Active user) active;
                     s = put_user a (user\<lparr>us_Active := active, us_UpdatedAt := al_CreatedAt entry\<rparr>) s
                 in (s\<lparr>auditLogs := auditLogs s @ [entry]\<rparr>, Inr ())))"

end
