(* ===== verification/User_Records.thy ===== *)
theory User_Records
  imports User_Store
begin

text \<open>
  The records of \<open>memoryStore\<close> that hang off an account or stand beside it
  (\<open>internal/store/store.go\<close>): subscriptions, identities, the e-mail blacklist, agents, login
  sessions and one-time exchange codes; and the operations of the account part as one
  state machine.
\<close>

section \<open>Subscriptions\<close>

definition cloneSubscriptionMeta :: "gobject \<Rightarrow> gobject" where
  "cloneSubscriptionMeta meta = meta"

definition cloneSubscription :: "Subscription \<Rightarrow> Subscription" where
  "cloneSubscription sub = sub\<lparr>sb_Meta := cloneSubscriptionMeta (sb_Meta sub)\<rparr>"

text \<open>\<open>assignSubscription(dst, src)\<close>: the new value of \<open>*dst\<close>.\<close>

definition assignSubscription :: "Subscription \<Rightarrow> Subscription" where
  "assignSubscription src = src\<lparr>sb_Meta := cloneSubscriptionMeta (sb_Meta src)\<rparr>"

definition UpsertSubscription ::
  "string \<Rightarrow> time \<Rightarrow> Subscription option \<Rightarrow> 'z user_store_scheme \<Rightarrow> ('z, Subscription) store_result" where
  "UpsertSubscription fresh now arg s =
     (case arg of
        None \<Rightarrow> (s, Inl (ErrText ''subscription is required''))
      | Some sub \<Rightarrow>
          let userID = TrimSpace (sb_UserID sub) in
          if userID = [] then (s, Inl ErrUserNotFound)
          else if \<not> gm_has (byID s) userID then (s, Inl ErrUserNotFound)
          else
            let s = (if gm_has (subscriptions s) userID then s
                     else s\<lparr>subscriptions := gm_put userID [] (subscriptions s)\<rparr>);
                userSubs = gm_list (subscriptions s) userID;
                key = TrimSpace (sb_ExternalID sub) in
            if key = [] then (s, Inl (ErrText ''external id is required''))
            else
              let sub = (if TrimSpace (sb_PaymentMethod sub) = []
                         then sub\<lparr>sb_PaymentMethod := TrimSpace (sb_Provider sub)\<rparr> else sub);
                  sub = sub\<lparr>sb_PaymentQRCode := TrimSpace (sb_PaymentQRCode sub)\<rparr>;
                  stored = (case gm_get userSubs key of
                              Some st \<Rightarrow> st
                            | None \<Rightarrow> \<lparr>sb_ID = fresh, sb_UserID = userID, sb_Provider = [], sb_PaymentMethod = [],
                                sb_PaymentQRCode = [], sb_Kind = [], sb_PlanID = [], sb_ExternalID = key,
                                sb_Status = [], sb_Meta = [], sb_CreatedAt = now, sb_UpdatedAt = zero_time,
                                sb_CancelledAt = None\<rparr>);
                  stored = stored\<lparr>sb_Provider := TrimSpace (sb_Provider sub),
                    sb_PaymentMethod := TrimSpace (sb_PaymentMethod sub),
                    sb_PaymentQRCode := TrimSpace (sb_PaymentQRCode sub),
                    sb_Kind := TrimSpace (sb_Kind sub),
                    sb_PlanID := TrimSpace (sb_PlanID sub),
                    sb_Status := TrimSpace (sb_Status sub),
                    sb_Meta := cloneSubscriptionMeta (sb_Meta sub),
                    sb_UpdatedAt := now\<rparr>;
                  stored = (case sb_CancelledAt sub of None \<Rightarrow> stored
                            | Some t \<Rightarrow> stored\<lparr>sb_CancelledAt := Some t\<rparr>)
              in (s\<lparr>subscriptions := gm_put userID (gm_put key stored userSubs) (subscriptions s)\<rparr>,
                  Inr (assignSubscription stored)))"

definition ListSubscriptionsByUser ::
  "string \<Rightarrow> 'z user_store_scheme \<Rightarrow> store_error + Subscription list" where
  "ListSubscriptionsByUser userID s =
     (let normalized = TrimSpace userID in
      if normalized = [] then Inl ErrUserNotFound
      else Inr (sort_key (\<lambda>sub. - sb_CreatedAt sub)
                  (map cloneSubscription (gm_vals (gm_list (subscriptions s) normalized)))))"

definition CancelSubscription ::
  "time \<Rightarrow> string \<Rightarrow> string \<Rightarrow> time \<Rightarrow> 'z user_store_scheme \<Rightarrow> ('z, Subscription) store_result" where
  "CancelSubscription now userID externalID cancelledAt s =
     (let userID = TrimSpace userID;
          key = TrimSpace externalID in
      if userID = [] then (s, Inl ErrUserNotFound)
      else case gm_get (subscriptions s) userID of
        None \<Rightarrow> (s, Inl ErrSubscriptionNotFound)
      | Some subs \<Rightarrow>
          (case gm_get subs key of
             None \<Rightarrow> (s, Inl ErrSubscriptionNotFound)
           | Some existing \<Rightarrow>
               let existing = existing\<lparr>sb_Status := ''cancelled'', sb_CancelledAt := Some cancelledAt,
                                       sb_UpdatedAt := now\<rparr>
               in (s\<lparr>subscriptions := gm_put userID (gm_put key existing subs) (subscriptions s)\<rparr>,
                   Inr (cloneSubscription existing))))"

definition with_plan_code :: "'z user_store_scheme \<Rightarrow> string \<Rightarrow> SubscriptionRecord \<Rightarrow> SubscriptionRecord" where
  "with_plan_code s userID r =
     (case user_of s (byID s) userID of
        None \<Rightarrow> r | Some u \<Rightarrow> r\<lparr>sr_PlanCode := SubscriptionSourcePlan (us_Groups u)\<rparr>)"

definition GetSubscriptionRecord ::
  "string \<Rightarrow> 'z user_store_scheme \<Rightarrow> store_error + SubscriptionRecord" where
  "GetSubscriptionRecord userID s =
     (case gm_get (subscriptionRecords s) userID of
        None \<Rightarrow> Inl ErrUserNotFound
      | Some r \<Rightarrow> Inr (with_plan_code s userID r))"

definition ListSubscriptionRecords :: "'z user_store_scheme \<Rightarrow> SubscriptionRecord list" where
  "ListSubscriptionRecords s =
     sort_key sr_UserID (map (\<lambda>r. with_plan_code s (sr_UserID r) r) (gm_vals (subscriptionRecords s)))"

section \<open>Identities and the blacklist\<close>

definition CreateIdentity ::
  "string \<Rightarrow> time \<Rightarrow> Identity \<Rightarrow> 'z user_store_scheme \<Rightarrow> ('z, Identity) store_result" where
  "CreateIdentity fresh now identity s =
     (let identity = (if id_ID identity = [] then identity\<lparr>id_ID := fresh\<rparr> else identity);
          identity = (if IsZero (id_CreatedAt identity) then identity\<lparr>id_CreatedAt := now\<rparr> else identity);
          identity = (if IsZero (id_UpdatedAt identity) then identity\<lparr>id_UpdatedAt := now\<rparr> else identity);
          key = id_Provider identity @ '':'' @ id_ExternalID identity in
      if gm_has (identities s) key then (s, Inl (ErrText ''identity already exists''))
      else (s\<lparr>identities := gm_put key identity (identities s)\<rparr>, Inr identity))"

definition AddToBlacklist :: "string \<Rightarrow> 'z user_store_scheme \<Rightarrow> 'z user_store_scheme" where
  "AddToBlacklist email s = s\<lparr>blacklistedEmails := gm_put (ToLower email) True (blacklistedEmails s)\<rparr>"

definition RemoveFromBlacklist :: "string \<Rightarrow> 'z user_store_scheme \<Rightarrow> 'z user_store_scheme" where
  "RemoveFromBlacklist email s = s\<lparr>blacklistedEmails := gm_del (ToLower email) (blacklistedEmails s)\<rparr>"

definition IsBlacklisted :: "string \<Rightarrow> 'z user_store_scheme \<Rightarrow> bool" where
  "IsBlacklisted email s = (gm_get (blacklistedEmails s) (ToLower email) = Some True)"

definition ListBlacklist :: "'z user_store_scheme \<Rightarrow> string list" where
  "ListBlacklist s = map fst (blacklistedEmails s)"

section \<open>Agents\<close>

definition UpsertAgent :: "time \<Rightarrow> Agent \<Rightarrow> 'z user_store_scheme \<Rightarrow> 'z user_store_scheme \<times> Agent" where
  "UpsertAgent now agent s =
     (let created = (case gm_get (agents s) (ag_ID agent) of None \<Rightarrow> now | Some a \<Rightarrow> ag_CreatedAt a);
          oldID = (case gm_get (agents s) (ag_ID agent) of None \<Rightarrow> ag_ID agent | Some a \<Rightarrow> ag_ID a);
          existing = agent\<lparr>ag_ID := oldID, ag_Groups := cloneStringSlice (ag_Groups agent),
                           ag_CreatedAt := created, ag_UpdatedAt := now\<rparr>
      in (s\<lparr>agents := gm_put (ag_ID agent) existing (agents s)\<rparr>, existing))"

definition GetAgent :: "string \<Rightarrow> 'z user_store_scheme \<Rightarrow> store_error + Agent" where
  "GetAgent aid s =
     (case gm_get (agents s) aid of
        None \<Rightarrow> Inl (ErrText ''agent not found'')
      | Some agent \<Rightarrow> Inr (agent\<lparr>ag_Groups := cloneStringSlice (ag_Groups agent)\<rparr>))"

definition ListAgents :: "'z user_store_scheme \<Rightarrow> Agent list" where
  "ListAgents s =
     sort_key ag_ID (map (\<lambda>agent. agent\<lparr>ag_Groups := cloneStringSlice (ag_Groups agent)\<rparr>) (gm_vals (agents s)))"

definition DeleteAgent :: "string \<Rightarrow> 'z user_store_scheme \<Rightarrow> 'z user_store_scheme" where
  "DeleteAgent aid s = s\<lparr>agents := gm_del aid (agents s)\<rparr>"

definition stale_agent :: "time \<Rightarrow> Agent \<Rightarrow> bool" where
  "stale_agent cutoff agent =
     (case ag_LastHeartbeat agent of None \<Rightarrow> True | Some t \<Rightarrow> t < cutoff)"

definition DeleteStaleAgents :: "time \<Rightarrow> duration \<Rightarrow> 'z user_store_scheme \<Rightarrow> 'z user_store_scheme \<times> int" where
  "DeleteStaleAgents now staleThreshold s =
     (let cutoff = now - staleThreshold;
          stale = filter (\<lambda>(k, agent). stale_agent cutoff agent) (agents s)
      in (s\<lparr>agents := filter (\<lambda>(k, agent). \<not> stale_agent cutoff agent) (agents s)\<rparr>, int (length stale)))"

section \<open>Login sessions and exchange codes\<close>

definition CreateSession_login ::
  "string \<Rightarrow> string \<Rightarrow> time \<Rightarrow> 'z user_store_scheme \<Rightarrow> 'z user_store_scheme" where
  "CreateSession_login token userID expiresAt s =
     s\<lparr>loginSessions := gm_put token \<lparr>se_UserID = userID, se_ExpiresAt = expiresAt\<rparr> (loginSessions s)\<rparr>"

definition GetSession_login :: "time \<Rightarrow> string \<Rightarrow> 'z user_store_scheme \<Rightarrow> store_error + string \<times> time" where
  "GetSession_login now token s =
     (case gm_get (loginSessions s) token of
        None \<Rightarrow> Inl ErrSessionNotFound
      | Some sess \<Rightarrow>
          if now > se_ExpiresAt sess then Inl ErrSessionNotFound
          else Inr (se_UserID sess, se_ExpiresAt sess))"

definition DeleteSession :: "string \<Rightarrow> 'z user_store_scheme \<Rightarrow> 'z user_store_scheme" where
  "DeleteSession token s = s\<lparr>loginSessions := gm_del token (loginSessions s)\<rparr>"

definition CreateOAuthExchangeCode ::
  "string \<Rightarrow> string \<Rightarrow> time \<Rightarrow> time \<Rightarrow> 'z user_store_scheme \<Rightarrow> 'z user_store_scheme" where
  "CreateOAuthExchangeCode code sessionToken sessionExpiresAt expiresAt s =
     s\<lparr>oauthExchangeCodes := gm_put (TrimSpace code)
         \<lparr>oe_SessionToken = sessionToken, oe_SessionExpiresAt = sessionExpiresAt, oe_ExpiresAt = expiresAt\<rparr>
         (oauthExchangeCodes s)\<rparr>"

text \<open>\<open>None\<close> is the return of \<open>false\<close>: no such code, or an expired one.\<close>

definition ConsumeOAuthExchangeCode ::
  "time \<Rightarrow> string \<Rightarrow> 'z user_store_scheme \<Rightarrow> 'z user_store_scheme \<times> (string \<times> time) option" where
  "ConsumeOAuthExchangeCode now code s =
     (let normalized = TrimSpace code in
      case gm_get (oauthExchangeCodes s) normalized of
        None \<Rightarrow> (s, None)
      | Some r \<Rightarrow>
          let s = s\<lparr>oauthExchangeCodes := gm_del normalized (oauthExchangeCodes s)\<rparr> in
          if now > oe_ExpiresAt r then (s, None)
          else (s, Some (oe_SessionToken r, oe_SessionExpiresAt r)))"

section \<open>The operations as a state machine\<close>

text \<open>
  The state-changing operations. \<open>uuid.NewV7\<close> fails only when the system has no source of
  randomness; in a run it succeeds and returns the given id.
\<close>

datatype user_op =
    OpCreateUser string time "string + string" User
  | OpUpdateUser time "string + string" User
  | OpInsertAuditLog string time "AuditLog option"
  | OpDeleteUser string string time string "AuditLog option" string
  | OpSetUserActive "store_error option" string time string bool string
  | OpUpsertSubscription string time "Subscription option"
  | OpCancelSubscription time string string time
  | OpCreateIdentity string time Identity
  | OpAddToBlacklist string
  | OpRemoveFromBlacklist string
  | OpUpsertAgent time Agent
  | OpDeleteAgent string
  | OpDeleteStaleAgents time duration
  | OpCreateSession string string time
  | OpDeleteSession string
  | OpCreateOAuthExchangeCode string string time time
  | OpConsumeOAuthExchangeCode time string

fun user_exec :: "user_op \<Rightarrow> 'z user_store_scheme \<Rightarrow> 'z user_store_scheme" where
  "user_exec (OpCreateUser fresh now v7 u) s = fst (CreateUser fresh now v7 u s)"
| "user_exec (OpUpdateUser now v7 u) s = fst (UpdateUser now v7 u s)"
| "user_exec (OpInsertAuditLog fresh now e) s = fst (InsertAuditLog fresh now e s)"
| "user_exec (OpDeleteUser tr fresh now i e req) s = fst (DeleteUser tr fresh now i e req s)"
| "user_exec (OpSetUserActive c fresh now i active actor) s =
     fst (SetUserActiveWithAudit c fresh now i active actor s)"
| "user_exec (OpUpsertSubscription fresh now sub) s = fst (UpsertSubscription fresh now sub s)"
| "user_exec (OpCancelSubscription now u ext t) s = fst (CancelSubscription now u ext t s)"
| "user_exec (OpCreateIdentity fresh now i) s = fst (CreateIdentity fresh now i s)"
| "user_exec (OpAddToBlacklist e) s = AddToBlacklist e s"
| "user_exec (OpRemoveFromBlacklist e) s = RemoveFromBlacklist e s"
| "user_exec (OpUpsertAgent now a) s = fst (UpsertAgent now a s)"
| "user_exec (OpDeleteAgent i) s = DeleteAgent i s"
| "user_exec (OpDeleteStaleAgents now d) s = fst (DeleteStaleAgents now d s)"
| "user_exec (OpCreateSession t u e) s = CreateSession_login t u e s"
| "user_exec (OpDeleteSession t) s = DeleteSession t s"
| "user_exec (OpCreateOAuthExchangeCode c t se e) s = CreateOAuthExchangeCode c t se e s"
| "user_exec (OpConsumeOAuthExchangeCode now c) s = fst (ConsumeOAuthExchangeCode now c s)"

end
