(* ===== verification/Finance_Json.thy ===== *)
theory Finance_Json
  imports User_Records
begin

text \<open>
  The JSON documents of finance operations (\<open>json.RawMessage\<close>), as far as the code looks into
  them: a message is empty, malformed, or a document. In a document \<open>GInt\<close> is an integer
  literal and \<open>GFloat\<close> any other number literal, standing for the \<open>float64\<close> it denotes; an
  object is the list of its members in the order of the text, so that repeated keys are
  visible.
\<close>

datatype rawmsg = RawEmpty | RawBad string | RawDoc gval

definition financeJSON :: "rawmsg \<Rightarrow> rawmsg" where
  "financeJSON raw = (case raw of RawEmpty \<Rightarrow> RawDoc (GMap []) | _ \<Rightarrow> raw)"

section \<open>Decoding into \<open>any\<close>\<close>

text \<open>The nearest multiple of \<open>2 ^ k\<close>, ties to the even multiple.\<close>

definition round_to :: "nat \<Rightarrow> int \<Rightarrow> int" where
  "round_to k m =
     (let q = m div 2 ^ k; r = m mod 2 ^ k in
      if 2 * r < 2 ^ k \<or> (2 * r = 2 ^ k \<and> even q) then q * 2 ^ k else (q + 1) * 2 ^ k)"

text \<open>The number of bits beyond the 53 of a \<open>float64\<close>.\<close>

function excess_bits :: "int \<Rightarrow> nat" where
  "excess_bits m = (if m < 2 ^ 53 then 0 else Suc (excess_bits (m div 2)))"
  by pat_completeness auto
termination
  by (relation "measure nat") auto

declare excess_bits.simps [simp del]

definition float_of_int :: "int \<Rightarrow> int" where
  "float_of_int n =
     (let m = round_to (excess_bits \<bar>n\<bar>) \<bar>n\<bar> in if n < 0 then - m else m)"

abbreviation (input) max_float :: int where "max_float \<equiv> (2 ^ 53 - 1) * 2 ^ 971"

text \<open>
  \<open>json.Unmarshal\<close> into an \<open>any\<close>: numbers become \<open>float64\<close> (a literal beyond its range is an
  error), the last of several equal keys counts, and the order of members is forgotten.
\<close>

fun last_wins :: "(string \<times> 'a) list \<Rightarrow> (string \<times> 'a) list" where
  "last_wins kvs = sort_key fst (foldl (\<lambda>m (k, v). gm_put k v m) [] kvs)"

fun decode_any :: "gval \<Rightarrow> gval option"
  and decode_list :: "gval list \<Rightarrow> gval list option"
  and decode_members :: "(string \<times> gval) list \<Rightarrow> (string \<times> gval) list option" where
  "decode_any GNil = Some GNil"
| "decode_any (GBool b) = Some (GBool b)"
| "decode_any (GString t) = Some (GString t)"
| "decode_any (GInt n) = (if \<bar>float_of_int n\<bar> \<le> max_float then Some (GInt (float_of_int n)) else None)"
| "decode_any (GFloat f) =
     (case f of FWhole n t \<Rightarrow> Some (GInt n) | FFrac t \<Rightarrow> Some (GFloat (FFrac t)) | _ \<Rightarrow> None)"
| "decode_any (GList xs) = map_option GList (decode_list xs)"
| "decode_any (GMap kvs) = map_option (\<lambda>m. GMap (last_wins m)) (decode_members kvs)"
| "decode_list [] = Some []"
| "decode_list (x # xs) =
     (case decode_any x of None \<Rightarrow> None | Some y \<Rightarrow> map_option ((#) y) (decode_list xs))"
| "decode_members [] = Some []"
| "decode_members ((k, v) # kvs) =
     (case decode_any v of None \<Rightarrow> None | Some y \<Rightarrow> map_option ((#) (k, y)) (decode_members kvs))"

definition decode_raw :: "rawmsg \<Rightarrow> gval option" where
  "decode_raw raw = (case raw of RawDoc d \<Rightarrow> decode_any d | _ \<Rightarrow> None)"

definition jsonEqual :: "rawmsg \<Rightarrow> rawmsg \<Rightarrow> bool" where
  "jsonEqual a b =
     (case decode_raw a of None \<Rightarrow> False
      | Some left \<Rightarrow> (case decode_raw b of None \<Rightarrow> False | Some right \<Rightarrow> left = right))"

section \<open>Decoding a refund request\<close>

text \<open>
  \<open>json.Unmarshal\<close> into a struct with the members \<open>amount_minor\<close> (\<open>int64\<close>) and \<open>currency\<close>
  (\<open>string\<close>): members match without regard to case, \<open>null\<close> leaves a member alone, a member of
  the wrong type is an error of the whole call, later members overwrite earlier ones.
  \<open>None\<close> is an error.
\<close>

fun decode_refund :: "(string \<times> gval) list \<Rightarrow> int \<times> string \<Rightarrow> (int \<times> string) option" where
  "decode_refund [] acc = Some acc"
| "decode_refund ((k, v) # kvs) (amount, currency) =
     (if ToLower k = ''amount_minor'' then
        (case v of
           GNil \<Rightarrow> decode_refund kvs (amount, currency)
         | GInt n \<Rightarrow> (if int64 n then decode_refund kvs (n, currency) else None)
         | _ \<Rightarrow> None)
      else if ToLower k = ''currency'' then
        (case v of
           GNil \<Rightarrow> decode_refund kvs (amount, currency)
         | GString t \<Rightarrow> decode_refund kvs (amount, t)
         | _ \<Rightarrow> None)
      else decode_refund kvs (amount, currency))"

definition refund_payload :: "rawmsg \<Rightarrow> (int \<times> string) option" where
  "refund_payload raw =
     (case raw of
        RawDoc (GMap kvs) \<Rightarrow> decode_refund kvs (0, [])
      | RawDoc GNil \<Rightarrow> Some (0, [])
      | _ \<Rightarrow> None)"

definition financeCurrency :: "string \<Rightarrow> string" where
  "financeCurrency currency = ToUpper (TrimSpace currency)"

definition validFinanceCurrency :: "string \<Rightarrow> bool" where
  "validFinanceCurrency currency \<longleftrightarrow>
     length currency = 3 \<and> list_all (char_between (CHR ''A'') (CHR ''Z'')) currency"

definition refund_request :: "rawmsg \<Rightarrow> (int \<times> string) option" where
  "refund_request raw =
     (case refund_payload raw of
        None \<Rightarrow> None
      | Some (amount, currency) \<Rightarrow>
          let currency = financeCurrency currency in
          if amount \<le> 0 \<or> \<not> validFinanceCurrency currency then None else Some (amount, currency))"

end
