(* ===== verification/Finance.thy ===== *)
theory Finance
  imports Finance_Json
begin

text \<open>
  The finance ledger of \<open>memoryStore\<close> (\<open>internal/store/finance_memory.go\<close>): invoices, payments,
  refunds and the retryable operations against a payment provider. Amounts are \<open>int64\<close> values
  in minor units, and sums wrap around. The state extends the account state, which the
  ledger reads. \<open>fresh\<close> arguments are ids of \<open>uuid.NewString\<close>, \<open>now\<close> arguments clock readings.
\<close>

section \<open>Records and state\<close>

record FinanceInvoice =
  fi_ID :: string
  fi_IdempotencyKey :: string
  fi_AccountUUID :: string
  fi_SubscriptionUUID :: string
  fi_Provider :: string
  fi_ProviderInvoiceID :: string
  fi_AmountMinor :: int
  fi_Currency :: string
  fi_Description :: string
  fi_IssuedAt :: time
  fi_DueAt :: "time option"
  fi_ServicePeriodStart :: "time option"
  fi_ServicePeriodEnd :: "time option"
  fi_CreatedAt :: time

record FinancePayment =
  fp_ID :: string
  fp_IdempotencyKey :: string
  fp_InvoiceID :: string
  fp_AccountUUID :: string
  fp_Provider :: string
  fp_ProviderPaymentID :: string
  fp_AmountMinor :: int
  fp_Currency :: string
  fp_PaidAt :: time
  fp_CreatedAt :: time

record FinanceRefund =
  fr_ID :: string
  fr_IdempotencyKey :: string
  fr_PaymentID :: string
  fr_Provider :: string
  fr_ProviderRefundID :: string
  fr_AmountMinor :: int
  fr_Currency :: string
  fr_Reason :: string
  fr_RefundedAt :: time
  fr_CreatedAt :: time

record FinanceOperation =
  fo_ID :: string
  fo_IdempotencyKey :: string
  fo_OperationType :: string
  fo_TargetType :: string
  fo_TargetID :: string
  fo_Provider :: string
  fo_ProviderOperationID :: string
  fo_Status :: string
  fo_AttemptCount :: int
  fo_NextAttemptAt :: "time option"
  fo_LastError :: string
  fo_Request :: rawmsg
  fo_Response :: rawmsg
  fo_CreatedAt :: time
  fo_UpdatedAt :: time

text \<open>
  The payload of an operation event: a message, or the text \<open>{"refund_uuid":...}\<close> that
  \<open>RecordFinanceRefund\<close> formats for a refund id.
\<close>

datatype finance_payload = PayRaw rawmsg | PayRefundUUID string

record FinanceOperationEvent =
  fe_ID :: string
  fe_OperationID :: string
  fe_Attempt :: int
  fe_EventType :: string
  fe_Status :: string
  fe_ProviderOperationID :: string
  fe_Payload :: finance_payload
  fe_Error :: string
  fe_OccurredAt :: time

abbreviation FinanceOperationPending :: string where "FinanceOperationPending \<equiv> ''pending''"
abbreviation FinanceOperationInProgress :: string where "FinanceOperationInProgress \<equiv> ''in_progress''"
abbreviation FinanceOperationSucceeded :: string where "FinanceOperationSucceeded \<equiv> ''succeeded''"
abbreviation FinanceOperationFailed :: string where "FinanceOperationFailed \<equiv> ''failed''"
abbreviation FinanceOperationReconciliationRequired :: string where
  "FinanceOperationReconciliationRequired \<equiv> ''reconcile_needed''"

record finance_store = user_store +
  financeInvoices :: "(string, FinanceInvoice) gomap"
  financeInvoiceKeys :: "(string, string) gomap"
  financePayments :: "(string, FinancePayment) gomap"
  financePaymentKeys :: "(string, string) gomap"
  financeRefunds :: "(string, FinanceRefund) gomap"
  financeRefundKeys :: "(string, string) gomap"
  financeOperations :: "(string, FinanceOperation) gomap"
  financeOperationKeys :: "(string, string) gomap"
  financeOperationEvents :: "(string, FinanceOperationEvent list) gomap"

definition newFinanceStore :: "bool \<Rightarrow> finance_store" where
  "newFinanceStore allow = user_store.extend (newUserStore allow)
     (finance_store.fields [] [] [] [] [] [] [] [] [])"

type_synonym ('z, 'a) finance_result = "'z finance_store_scheme \<times> (store_error + 'a)"

section \<open>Normalization\<close>

definition financeID :: "string \<Rightarrow> string \<Rightarrow> string" where
  "financeID fresh i = (if TrimSpace i = [] then fresh else TrimSpace i)"

definition financeProvider :: "string \<Rightarrow> string" where
  "financeProvider provider =
     (let provider = ToLower (TrimSpace provider) in if provider = [] then ''local'' else provider)"

definition sameOptionalTime :: "time option \<Rightarrow> time option \<Rightarrow> bool" where
  "sameOptionalTime a b \<longleftrightarrow> a = b"

definition financeRefundRequest :: "FinanceOperation \<Rightarrow> (int \<times> string) option" where
  "financeRefundRequest operation = refund_request (fo_Request operation)"

definition financeOperationReservesRefund :: "FinanceOperation \<Rightarrow> bool" where
  "financeOperationReservesRefund operation \<longleftrightarrow>
     fo_OperationType operation = ''refund'' \<and> fo_TargetType operation = ''payment'' \<and>
     (fo_Status operation = FinanceOperationPending \<or> fo_Status operation = FinanceOperationInProgress \<or>
      fo_Status operation = FinanceOperationSucceeded \<or>
      fo_Status operation = FinanceOperationReconciliationRequired)"

definition financeRefundAttemptExpired :: "time \<Rightarrow> FinanceOperation \<Rightarrow> bool" where
  "financeRefundAttemptExpired now operation \<longleftrightarrow>
     fo_Status operation = FinanceOperationInProgress \<and> fo_OperationType operation = ''refund'' \<and>
     starts_with ''subscription-refund:'' (fo_IdempotencyKey operation) \<and>
     now - fo_UpdatedAt operation > 2 * Minute"

definition financeRefundMatchesOperation :: "FinanceOperation \<Rightarrow> FinanceRefund \<Rightarrow> bool" where
  "financeRefundMatchesOperation operation refund =
     (case financeRefundRequest operation of
        None \<Rightarrow> False
      | Some (amount, currency) \<Rightarrow>
          financeOperationReservesRefund operation \<and> fo_TargetID operation = fr_PaymentID refund \<and>
          fo_Provider operation = fr_Provider refund \<and> amount = fr_AmountMinor refund \<and>
          currency = fr_Currency refund \<and> fr_ProviderRefundID refund \<noteq> [] \<and>
          (fo_ProviderOperationID operation = [] \<or> fo_ProviderOperationID operation = fr_ProviderRefundID refund))"

text \<open>
  The amount an operation contributes in the loops of \<open>RecordFinanceRefund\<close> and
  \<open>BeginFinanceOperation\<close>: an operation on the payment, under another key, that reserves a
  refund and has no refund fact yet.
\<close>

definition reserved_amount ::
  "(string, string) gomap \<Rightarrow> string \<Rightarrow> string \<Rightarrow> FinanceOperation \<Rightarrow> int" where
  "reserved_amount refundKeys key paymentID operation =
     (if financeOperationReservesRefund operation \<and> fo_TargetID operation = paymentID \<and>
         fo_IdempotencyKey operation \<noteq> key \<and> gm_str refundKeys (fo_IdempotencyKey operation) = []
      then (case financeRefundRequest operation of None \<Rightarrow> 0 | Some (amount, _) \<Rightarrow> amount)
      else 0)"

text \<open>The running total of two loops after each other.\<close>

definition total64 :: "int list \<Rightarrow> int list \<Rightarrow> int" where
  "total64 xs ys = sum64 (\<lambda>x. x) (xs @ ys)"

section \<open>Invoices\<close>

definition normalized_invoice :: "string \<Rightarrow> FinanceInvoice \<Rightarrow> FinanceInvoice" where
  "normalized_invoice fresh invoice = invoice\<lparr>
     fi_ID := financeID fresh (fi_ID invoice),
     fi_IdempotencyKey := TrimSpace (fi_IdempotencyKey invoice),
     fi_AccountUUID := TrimSpace (fi_AccountUUID invoice),
     fi_SubscriptionUUID := TrimSpace (fi_SubscriptionUUID invoice),
     fi_Provider := financeProvider (fi_Provider invoice),
     fi_Currency := financeCurrency (fi_Currency invoice),
     fi_ProviderInvoiceID := TrimSpace (fi_ProviderInvoiceID invoice),
     fi_Description := TrimSpace (fi_Description invoice)\<rparr>"

definition valid_period :: "FinanceInvoice \<Rightarrow> bool" where
  "valid_period invoice =
     (case (fi_ServicePeriodStart invoice, fi_ServicePeriodEnd invoice) of
        (None, None) \<Rightarrow> True | (Some a, Some b) \<Rightarrow> a < b | _ \<Rightarrow> False)"

definition same_invoice :: "bool \<Rightarrow> FinanceInvoice \<Rightarrow> FinanceInvoice \<Rightarrow> bool" where
  "same_invoice issuedAtProvided old copy \<longleftrightarrow>
     fi_AccountUUID old = fi_AccountUUID copy \<and> fi_SubscriptionUUID old = fi_SubscriptionUUID copy \<and>
     fi_Provider old = fi_Provider copy \<and> fi_ProviderInvoiceID old = fi_ProviderInvoiceID copy \<and>
     fi_AmountMinor old = fi_AmountMinor copy \<and> fi_Currency old = fi_Currency copy \<and>
     fi_Description old = fi_Description copy \<and> sameOptionalTime (fi_DueAt copy) (fi_DueAt old) \<and>
     \<not> (issuedAtProvided \<and> fi_IssuedAt copy \<noteq> fi_IssuedAt old)"

text \<open>The result is the flag for a new record and the new value of the argument.\<close>

definition CreateFinanceInvoice ::
  "string \<Rightarrow> time \<Rightarrow> time \<Rightarrow> FinanceInvoice option \<Rightarrow> 'z finance_store_scheme \<Rightarrow>
   ('z, bool \<times> FinanceInvoice) finance_result" where
  "CreateFinanceInvoice fresh now now' arg s =
     (case arg of None \<Rightarrow> (s, Inl ErrFinanceIdempotencyConflict) | Some invoice \<Rightarrow>
      if TrimSpace (fi_IdempotencyKey invoice) = [] \<or> TrimSpace (fi_AccountUUID invoice) = [] \<or>
         fi_AmountMinor invoice < 0
      then (s, Inl ErrFinanceIdempotencyConflict)
      else
        let copy = normalized_invoice fresh invoice;
            issuedAtProvided = (\<not> IsZero (fi_IssuedAt copy)) in
        if \<not> validFinanceCurrency (fi_Currency copy) then (s, Inl ErrFinanceIdempotencyConflict)
        else if \<not> valid_period copy then (s, Inl ErrFinanceIdempotencyConflict)
        else
          let copy = (if IsZero (fi_IssuedAt copy) then copy\<lparr>fi_IssuedAt := now\<rparr> else copy) in
          if \<not> gm_has (byID s) (fi_AccountUUID copy) then (s, Inl ErrFinanceRecordNotFound)
          else if fi_SubscriptionUUID copy \<noteq> [] \<and>
                  \<not> list_ex (\<lambda>sub. sb_ID sub = fi_SubscriptionUUID copy)
                       (gm_vals (gm_list (subscriptions s) (fi_AccountUUID copy)))
          then (s, Inl ErrFinanceRecordNotFound)
          else case gm_get (financeInvoiceKeys s) (fi_IdempotencyKey copy) of
            Some i \<Rightarrow>
              let old = the (gm_get (financeInvoices s) i) in
              if \<not> same_invoice issuedAtProvided old copy then (s, Inl ErrFinanceIdempotencyConflict)
              else if fi_ServicePeriodStart copy \<noteq> None \<and>
                      (fi_ServicePeriodStart old \<noteq> None \<or> fi_ServicePeriodEnd old \<noteq> None) \<and>
                      (\<not> sameOptionalTime (fi_ServicePeriodStart copy) (fi_ServicePeriodStart old) \<or>
                       \<not> sameOptionalTime (fi_ServicePeriodEnd copy) (fi_ServicePeriodEnd old))
              then (s, Inl ErrFinanceIdempotencyConflict)
              else
                let old' = (if fi_ServicePeriodStart copy \<noteq> None \<and>
                               \<not> (fi_ServicePeriodStart old \<noteq> None \<or> fi_ServicePeriodEnd old \<noteq> None)
                            then old\<lparr>fi_ServicePeriodStart := fi_ServicePeriodStart copy,
                                     fi_ServicePeriodEnd := fi_ServicePeriodEnd copy\<rparr> else old)
                in (s\<lparr>financeInvoices := gm_put i old' (financeInvoices s)\<rparr>,
                    Inr (False, invoice\<lparr>fi_ID := fi_ID old', fi_CreatedAt := fi_CreatedAt old',
                      fi_ServicePeriodStart := fi_ServicePeriodStart old',
                      fi_ServicePeriodEnd := fi_ServicePeriodEnd old'\<rparr>))
          | None \<Rightarrow>
              if gm_has (financeInvoices s) (fi_ID copy) then (s, Inl ErrFinanceIdempotencyConflict)
              else if fi_ProviderInvoiceID copy \<noteq> [] \<and>
                      list_ex (\<lambda>ex. fi_Provider ex = fi_Provider copy \<and>
                                    fi_ProviderInvoiceID ex = fi_ProviderInvoiceID copy)
                        (gm_vals (financeInvoices s))
              then (s, Inl ErrFinanceIdempotencyConflict)
              else
                let copy = copy\<lparr>fi_CreatedAt := now'\<rparr>
                in (s\<lparr>financeInvoices := gm_put (fi_ID copy) copy (financeInvoices s),
                      financeInvoiceKeys := gm_put (fi_IdempotencyKey copy) (fi_ID copy) (financeInvoiceKeys s)\<rparr>,
                    Inr (True, copy)))"

definition GetFinanceInvoice :: "string \<Rightarrow> 'z finance_store_scheme \<Rightarrow> store_error + FinanceInvoice" where
  "GetFinanceInvoice i s =
     (case gm_get (financeInvoices s) (TrimSpace i) of
        None \<Rightarrow> Inl ErrFinanceRecordNotFound | Some invoice \<Rightarrow> Inr invoice)"

definition ListFinanceInvoices ::
  "string \<Rightarrow> string \<Rightarrow> int \<Rightarrow> 'z finance_store_scheme \<Rightarrow> FinanceInvoice list" where
  "ListFinanceInvoices accountUUID subscriptionUUID limit s =
     limited limit (sort_key (\<lambda>i. - fi_CreatedAt i)
       (filter (\<lambda>i. \<not> (accountUUID \<noteq> [] \<and> fi_AccountUUID i \<noteq> accountUUID \<or>
                       subscriptionUUID \<noteq> [] \<and> fi_SubscriptionUUID i \<noteq> subscriptionUUID))
          (gm_vals (financeInvoices s))))"

section \<open>Payments\<close>

definition normalized_payment :: "string \<Rightarrow> FinancePayment \<Rightarrow> FinancePayment" where
  "normalized_payment fresh payment = payment\<lparr>
     fp_ID := financeID fresh (fp_ID payment),
     fp_IdempotencyKey := TrimSpace (fp_IdempotencyKey payment),
     fp_InvoiceID := TrimSpace (fp_InvoiceID payment),
     fp_AccountUUID := TrimSpace (fp_AccountUUID payment),
     fp_Provider := financeProvider (fp_Provider payment),
     fp_Currency := financeCurrency (fp_Currency payment),
     fp_ProviderPaymentID := TrimSpace (fp_ProviderPaymentID payment)\<rparr>"

definition RecordFinancePayment ::
  "string \<Rightarrow> time \<Rightarrow> time \<Rightarrow> FinancePayment option \<Rightarrow> 'z finance_store_scheme \<Rightarrow>
   ('z, bool \<times> FinancePayment) finance_result" where
  "RecordFinancePayment fresh now now' arg s =
     (case arg of None \<Rightarrow> (s, Inl ErrFinanceIdempotencyConflict) | Some payment \<Rightarrow>
      if TrimSpace (fp_IdempotencyKey payment) = [] \<or> fp_AmountMinor payment \<le> 0
      then (s, Inl ErrFinanceIdempotencyConflict)
      else
        let copy = normalized_payment fresh payment in
        if \<not> validFinanceCurrency (fp_Currency copy) then (s, Inl ErrFinanceIdempotencyConflict)
        else case gm_get (financePaymentKeys s) (fp_IdempotencyKey copy) of
          Some i \<Rightarrow>
            let old = the (gm_get (financePayments s) i) in
            if fp_InvoiceID old \<noteq> fp_InvoiceID copy \<or> fp_AmountMinor old \<noteq> fp_AmountMinor copy \<or>
               fp_Currency old \<noteq> fp_Currency copy \<or> fp_Provider old \<noteq> fp_Provider copy \<or>
               fp_ProviderPaymentID old \<noteq> fp_ProviderPaymentID copy \<or>
               \<not> IsZero (fp_PaidAt copy) \<and> fp_PaidAt copy \<noteq> fp_PaidAt old
            then (s, Inl ErrFinanceIdempotencyConflict)
            else (s, Inr (False, payment\<lparr>fp_ID := fp_ID old, fp_CreatedAt := fp_CreatedAt old\<rparr>))
        | None \<Rightarrow>
            (case gm_get (financeInvoices s) (fp_InvoiceID copy) of
               None \<Rightarrow> (s, Inl ErrFinanceIdempotencyConflict)
             | Some invoice \<Rightarrow>
                 if fi_AccountUUID invoice \<noteq> fp_AccountUUID copy \<or> fi_Currency invoice \<noteq> fp_Currency copy \<or>
                    fi_AmountMinor invoice \<noteq> fp_AmountMinor copy
                 then (s, Inl ErrFinanceIdempotencyConflict)
                 else if list_ex (\<lambda>ex. fp_InvoiceID ex = fp_InvoiceID copy) (gm_vals (financePayments s))
                 then (s, Inl ErrFinanceInvoiceAlreadyPaid)
                 else if gm_has (financePayments s) (fp_ID copy) then (s, Inl ErrFinanceIdempotencyConflict)
                 else if fp_ProviderPaymentID copy \<noteq> [] \<and>
                         list_ex (\<lambda>ex. fp_Provider ex = fp_Provider copy \<and>
                                       fp_ProviderPaymentID ex = fp_ProviderPaymentID copy)
                           (gm_vals (financePayments s))
                 then (s, Inl ErrFinanceIdempotencyConflict)
                 else
                   let copy = (if IsZero (fp_PaidAt copy) then copy\<lparr>fp_PaidAt := now\<rparr> else copy);
                       copy = copy\<lparr>fp_CreatedAt := now'\<rparr>
                   in (s\<lparr>financePayments := gm_put (fp_ID copy) copy (financePayments s),
                         financePaymentKeys := gm_put (fp_IdempotencyKey copy) (fp_ID copy) (financePaymentKeys s)\<rparr>,
                       Inr (True, copy))))"

definition ListFinancePayments :: "string \<Rightarrow> int \<Rightarrow> 'z finance_store_scheme \<Rightarrow> FinancePayment list" where
  "ListFinancePayments accountUUID limit s =
     limited limit (sort_key (\<lambda>p. - fp_CreatedAt p)
       (filter (\<lambda>p. \<not> (accountUUID \<noteq> [] \<and> fp_AccountUUID p \<noteq> accountUUID)) (gm_vals (financePayments s))))"

definition GetFinancePaymentByProvider ::
  "string \<Rightarrow> string \<Rightarrow> 'z finance_store_scheme \<Rightarrow> store_error + FinancePayment" where
  "GetFinancePaymentByProvider provider providerPaymentID s =
     (let provider = financeProvider provider; providerPaymentID = TrimSpace providerPaymentID in
      if providerPaymentID = [] then Inl ErrFinanceRecordNotFound
      else case find (\<lambda>p. fp_Provider p = provider \<and> fp_ProviderPaymentID p = providerPaymentID)
                  (gm_vals (financePayments s)) of
             None \<Rightarrow> Inl ErrFinanceRecordNotFound | Some payment \<Rightarrow> Inr payment)"

end
