(* ===== verification/Finance_Operations.thy ===== *)
theory Finance_Operations
  imports Finance
begin

text \<open>
  Refunds and provider operations of the finance ledger
  (\<open>internal/store/finance_memory.go\<close>), and the ledger as a state machine. The maps from
  idempotency keys to records never dangle, which is part of the invariant proved later;
  where the code dereferences the record found that way, the model uses \<open>the\<close>.
\<close>

section \<open>Refunds\<close>

definition normalized_refund :: "string \<Rightarrow> FinanceRefund \<Rightarrow> FinanceRefund" where
  "normalized_refund fresh refund = refund\<lparr>
     fr_ID := financeID fresh (fr_ID refund),
     fr_IdempotencyKey := TrimSpace (fr_IdempotencyKey refund),
     fr_PaymentID := TrimSpace (fr_PaymentID refund),
     fr_Provider := financeProvider (fr_Provider refund),
     fr_Currency := financeCurrency (fr_Currency refund),
     fr_ProviderRefundID := TrimSpace (fr_ProviderRefundID refund),
     fr_Reason := TrimSpace (fr_Reason refund)\<rparr>"

definition same_refund :: "FinanceRefund \<Rightarrow> FinanceRefund \<Rightarrow> bool" where
  "same_refund old copy \<longleftrightarrow>
     fr_PaymentID old = fr_PaymentID copy \<and> fr_AmountMinor old = fr_AmountMinor copy \<and>
     fr_Currency old = fr_Currency copy \<and> fr_Provider old = fr_Provider copy \<and>
     fr_ProviderRefundID old = fr_ProviderRefundID copy \<and> fr_Reason old = TrimSpace (fr_Reason copy) \<and>
     \<not> (\<not> IsZero (fr_RefundedAt copy) \<and> fr_RefundedAt copy \<noteq> fr_RefundedAt old)"

text \<open>The check of a refund against the operation that was started under the same key.\<close>

definition refund_contradicts :: "FinanceRefund \<Rightarrow> 'z finance_store_scheme \<Rightarrow> bool" where
  "refund_contradicts copy s =
     (case gm_get (financeOperationKeys s) (fr_IdempotencyKey copy) of
        None \<Rightarrow> False
      | Some operationID \<Rightarrow>
          \<not> financeRefundMatchesOperation (the (gm_get (financeOperations s) operationID)) copy \<or>
          list_ex (\<lambda>other. fo_ID other \<noteq> operationID \<and> fo_Provider other = fr_Provider copy \<and>
                           fo_OperationType other = ''refund'' \<and>
                           fo_ProviderOperationID other = fr_ProviderRefundID copy)
            (gm_vals (financeOperations s)))"

definition refund_total :: "FinanceRefund \<Rightarrow> 'z finance_store_scheme \<Rightarrow> int" where
  "refund_total copy s =
     total64
       (map (\<lambda>r. if fr_PaymentID r = fr_PaymentID copy then fr_AmountMinor r else 0) (gm_vals (financeRefunds s)))
       (map (reserved_amount (financeRefundKeys s) (fr_IdempotencyKey copy) (fr_PaymentID copy))
          (gm_vals (financeOperations s)))"

text \<open>Binding the provider's reference to the operation, with an event.\<close>

definition bind_refund :: "string \<Rightarrow> FinanceRefund \<Rightarrow> 'z finance_store_scheme \<Rightarrow> 'z finance_store_scheme" where
  "bind_refund freshEvent copy s =
     (let i = gm_str (financeOperationKeys s) (fr_IdempotencyKey copy) in
      if i = [] then s
      else
        let opn = (the (gm_get (financeOperations s) i))\<lparr>fo_ProviderOperationID := fr_ProviderRefundID copy\<rparr>;
            event = \<lparr>fe_ID = freshEvent, fe_OperationID = i, fe_Attempt = fo_AttemptCount opn,
              fe_EventType = ''refund_recorded'', fe_Status = fo_Status opn,
              fe_ProviderOperationID = fr_ProviderRefundID copy, fe_Payload = PayRefundUUID (fr_ID copy),
              fe_Error = [], fe_OccurredAt = fr_CreatedAt copy\<rparr>
        in s\<lparr>financeOperations := gm_put i opn (financeOperations s),
             financeOperationEvents :=
               gm_put i (gm_list (financeOperationEvents s) i @ [event]) (financeOperationEvents s)\<rparr>)"

definition RecordFinanceRefund ::
  "string \<Rightarrow> string \<Rightarrow> time \<Rightarrow> time \<Rightarrow> FinanceRefund option \<Rightarrow> 'z finance_store_scheme \<Rightarrow>
   ('z, bool \<times> FinanceRefund) finance_result" where
  "RecordFinanceRefund fresh freshEvent now now' arg s =
     (case arg of None \<Rightarrow> (s, Inl ErrFinanceIdempotencyConflict) | Some refund \<Rightarrow>
      if TrimSpace (fr_IdempotencyKey refund) = [] \<or> fr_AmountMinor refund \<le> 0
      then (s, Inl ErrFinanceIdempotencyConflict)
      else
        let copy = normalized_refund fresh refund in
        if \<not> validFinanceCurrency (fr_Currency copy) then (s, Inl ErrFinanceIdempotencyConflict)
        else case gm_get (financeRefundKeys s) (fr_IdempotencyKey copy) of
          Some i \<Rightarrow>
            let old = the (gm_get (financeRefunds s) i) in
            if \<not> same_refund old copy then (s, Inl ErrFinanceIdempotencyConflict)
            else (s, Inr (False, refund\<lparr>fr_ID := fr_ID old, fr_CreatedAt := fr_CreatedAt old\<rparr>))
        | None \<Rightarrow>
            if refund_contradicts copy s then (s, Inl ErrFinanceIdempotencyConflict)
            else case gm_get (financePayments s) (fr_PaymentID copy) of
              None \<Rightarrow> (s, Inl ErrFinanceRecordNotFound)
            | Some payment \<Rightarrow>
                if fp_Currency payment \<noteq> fr_Currency copy then (s, Inl ErrFinanceRecordNotFound)
                else if fr_AmountMinor copy > wrap64 (fp_AmountMinor payment - refund_total copy s)
                then (s, Inl ErrFinanceRefundExceedsPayment)
                else if gm_has (financeRefunds s) (fr_ID copy) then (s, Inl ErrFinanceIdempotencyConflict)
                else if fr_ProviderRefundID copy \<noteq> [] \<and>
                        list_ex (\<lambda>ex. fr_Provider ex = fr_Provider copy \<and>
                                      fr_ProviderRefundID ex = fr_ProviderRefundID copy)
                          (gm_vals (financeRefunds s))
                then (s, Inl ErrFinanceIdempotencyConflict)
                else
                  let copy = (if IsZero (fr_RefundedAt copy) then copy\<lparr>fr_RefundedAt := now\<rparr> else copy);
                      copy = copy\<lparr>fr_CreatedAt := now'\<rparr>;
                      s = s\<lparr>financeRefunds := gm_put (fr_ID copy) copy (financeRefunds s),
                            financeRefundKeys := gm_put (fr_IdempotencyKey copy) (fr_ID copy) (financeRefundKeys s)\<rparr>
                  in (bind_refund freshEvent copy s, Inr (True, copy)))"

definition ListFinanceRefunds :: "string \<Rightarrow> int \<Rightarrow> 'z finance_store_scheme \<Rightarrow> FinanceRefund list" where
  "ListFinanceRefunds accountUUID limit s =
     limited limit (sort_key (\<lambda>r. - fr_CreatedAt r)
       (filter (\<lambda>r. case gm_get (financePayments s) (fr_PaymentID r) of
                      None \<Rightarrow> False
                    | Some payment \<Rightarrow> \<not> (accountUUID \<noteq> [] \<and> fp_AccountUUID payment \<noteq> accountUUID))
          (gm_vals (financeRefunds s))))"

section \<open>Operations\<close>

definition normalized_operation :: "FinanceOperation \<Rightarrow> FinanceOperation" where
  "normalized_operation operation = operation\<lparr>
     fo_OperationType := TrimSpace (fo_OperationType operation),
     fo_TargetType := TrimSpace (fo_TargetType operation),
     fo_TargetID := TrimSpace (fo_TargetID operation),
     fo_Provider := financeProvider (fo_Provider operation),
     fo_Request := financeJSON (fo_Request operation)\<rparr>"

text \<open>The record of a first attempt, as it is before the attempt is counted.\<close>

definition first_attempt :: "string \<Rightarrow> time \<Rightarrow> string \<Rightarrow> FinanceOperation \<Rightarrow> FinanceOperation" where
  "first_attempt fresh now key operation = operation\<lparr>
     fo_ID := financeID fresh (fo_ID operation),
     fo_IdempotencyKey := key,
     fo_OperationType := TrimSpace (fo_OperationType operation),
     fo_TargetType := TrimSpace (fo_TargetType operation),
     fo_TargetID := TrimSpace (fo_TargetID operation),
     fo_Provider := financeProvider (fo_Provider operation),
     fo_Status := FinanceOperationPending,
     fo_Request := financeJSON (fo_Request operation),
     fo_Response := financeJSON RawEmpty,
     fo_CreatedAt := now\<rparr>"

text \<open>
  The record the attempt works on: an error, a finished operation that is returned as it is,
  or the record to continue with.
\<close>

datatype attempt = AttemptError store_error | AttemptDone FinanceOperation | AttemptGo FinanceOperation

definition attempt_record ::
  "string \<Rightarrow> time \<Rightarrow> time \<Rightarrow> string \<Rightarrow> FinanceOperation \<Rightarrow> 'z finance_store_scheme \<Rightarrow> attempt" where
  "attempt_record fresh now now' key operation s =
     (case gm_get (financeOperationKeys s) key of
        Some storedID \<Rightarrow>
          let stored = the (gm_get (financeOperations s) storedID) in
          if fo_OperationType stored \<noteq> fo_OperationType operation \<or>
             fo_TargetType stored \<noteq> fo_TargetType operation \<or>
             fo_TargetID stored \<noteq> fo_TargetID operation \<or> fo_Provider stored \<noteq> fo_Provider operation \<or>
             \<not> jsonEqual (fo_Request stored) (fo_Request operation)
          then AttemptError ErrFinanceIdempotencyConflict
          else if fo_Status stored = FinanceOperationInProgress \<and> \<not> financeRefundAttemptExpired now stored
          then AttemptError ErrFinanceOperationInProgress
          else if fo_Status stored = FinanceOperationSucceeded then AttemptDone stored
          else if fo_Status stored \<noteq> FinanceOperationPending \<and> fo_Status stored \<noteq> FinanceOperationFailed \<and>
                  fo_Status stored \<noteq> FinanceOperationReconciliationRequired \<and>
                  \<not> financeRefundAttemptExpired now stored
          then AttemptError ErrFinanceOperationNotRetryable
          else AttemptGo stored
      | None \<Rightarrow>
          let stored = first_attempt fresh now' key operation in
          if gm_has (financeOperations s) (fo_ID stored) then AttemptError ErrFinanceIdempotencyConflict
          else AttemptGo stored)"

definition begin_reserved :: "string \<Rightarrow> string \<Rightarrow> 'z finance_store_scheme \<Rightarrow> int" where
  "begin_reserved key paymentID s =
     total64
       (map (\<lambda>r. if fr_PaymentID r = paymentID \<and> fr_ID r \<noteq> gm_str (financeRefundKeys s) key
                 then fr_AmountMinor r else 0) (gm_vals (financeRefunds s)))
       (map (reserved_amount (financeRefundKeys s) key paymentID) (gm_vals (financeOperations s)))"

text \<open>The check of a refund operation against the payment; \<open>None\<close> lets it pass.\<close>

definition refund_check :: "string \<Rightarrow> string \<Rightarrow> int \<times> string \<Rightarrow> 'z finance_store_scheme \<Rightarrow> store_error option" where
  "refund_check key paymentID request s =
     (case gm_get (financePayments s) paymentID of
        None \<Rightarrow> Some ErrFinanceRecordNotFound
      | Some payment \<Rightarrow>
          if fp_Currency payment \<noteq> snd request then Some ErrFinanceRecordNotFound
          else if fst request > wrap64 (fp_AmountMinor payment - begin_reserved key (fp_ID payment) s)
          then Some ErrFinanceRefundExceedsPayment else None)"

text \<open>Counting and storing the attempt.\<close>

definition start_attempt ::
  "string \<Rightarrow> time \<Rightarrow> string \<Rightarrow> FinanceOperation \<Rightarrow> 'z finance_store_scheme \<Rightarrow>
   ('z, bool \<times> FinanceOperation) finance_result" where
  "start_attempt freshEvent now key stored s =
     (let stored = stored\<lparr>fo_AttemptCount := fo_AttemptCount stored + 1,
                          fo_Status := FinanceOperationInProgress, fo_UpdatedAt := now\<rparr>;
          event = \<lparr>fe_ID = freshEvent, fe_OperationID = fo_ID stored, fe_Attempt = fo_AttemptCount stored,
            fe_EventType = ''attempt_started'', fe_Status = FinanceOperationInProgress,
            fe_ProviderOperationID = [], fe_Payload = PayRaw (fo_Request stored), fe_Error = [],
            fe_OccurredAt = fo_UpdatedAt stored\<rparr>
      in (s\<lparr>financeOperationKeys := (if gm_has (financeOperationKeys s) key then financeOperationKeys s
                                     else gm_put key (fo_ID stored) (financeOperationKeys s)),
            financeOperations := gm_put (fo_ID stored) stored (financeOperations s),
            financeOperationEvents :=
              gm_put (fo_ID stored) (gm_list (financeOperationEvents s) (fo_ID stored) @ [event])
                (financeOperationEvents s)\<rparr>,
          Inr (True, stored)))"

definition BeginFinanceOperation ::
  "string \<Rightarrow> string \<Rightarrow> time \<Rightarrow> time \<Rightarrow> time \<Rightarrow> FinanceOperation option \<Rightarrow> 'z finance_store_scheme \<Rightarrow>
   ('z, bool \<times> FinanceOperation) finance_result" where
  "BeginFinanceOperation fresh freshEvent now now' now'' arg s =
     (case arg of None \<Rightarrow> (s, Inl ErrFinanceIdempotencyConflict) | Some operation \<Rightarrow>
      if TrimSpace (fo_IdempotencyKey operation) = [] \<or> TrimSpace (fo_OperationType operation) = []
      then (s, Inl ErrFinanceIdempotencyConflict)
      else
        let key = TrimSpace (fo_IdempotencyKey operation);
            operation = normalized_operation operation;
            isRefund = (fo_OperationType operation = ''refund'') in
        if isRefund \<and> (fo_TargetType operation \<noteq> ''payment'' \<or> fo_TargetID operation = [] \<or>
                       financeRefundRequest operation = None)
        then (s, Inl ErrFinanceIdempotencyConflict)
        else case attempt_record fresh now now' key operation s of
          AttemptError e \<Rightarrow> (s, Inl e)
        | AttemptDone stored \<Rightarrow> (s, Inr (False, stored))
        | AttemptGo stored \<Rightarrow>
            (case (if isRefund then refund_check key (fo_TargetID operation) (the (financeRefundRequest operation)) s
                   else None) of
               Some e \<Rightarrow> (s, Inl e)
             | None \<Rightarrow> start_attempt freshEvent now'' key stored s))"

definition CheckpointFinanceOperation ::
  "string \<Rightarrow> time \<Rightarrow> string \<Rightarrow> int \<Rightarrow> rawmsg \<Rightarrow> 'z finance_store_scheme \<Rightarrow> ('z, unit) finance_result" where
  "CheckpointFinanceOperation freshEvent now operationID expectedAttempt response s =
     (case gm_get (financeOperations s) operationID of
        None \<Rightarrow> (s, Inl ErrFinanceOperationNotRetryable)
      | Some opn \<Rightarrow>
          if fo_Status opn \<noteq> FinanceOperationInProgress \<or> fo_AttemptCount opn \<noteq> expectedAttempt
          then (s, Inl ErrFinanceOperationNotRetryable)
          else
            let opn = opn\<lparr>fo_Response := financeJSON response, fo_UpdatedAt := now\<rparr>;
                event = \<lparr>fe_ID = freshEvent, fe_OperationID = fo_ID opn, fe_Attempt = fo_AttemptCount opn,
                  fe_EventType = ''attempt_checkpoint'', fe_Status = fo_Status opn,
                  fe_ProviderOperationID = [], fe_Payload = PayRaw (financeJSON response), fe_Error = [],
                  fe_OccurredAt = fo_UpdatedAt opn\<rparr>
            in (s\<lparr>financeOperations := gm_put operationID opn (financeOperations s),
                  financeOperationEvents :=
                    gm_put (fo_ID opn) (gm_list (financeOperationEvents s) (fo_ID opn) @ [event])
                      (financeOperationEvents s)\<rparr>,
                Inr ()))"

definition FinishFinanceOperation ::
  "string \<Rightarrow> time \<Rightarrow> string \<Rightarrow> string \<Rightarrow> string \<Rightarrow> rawmsg \<Rightarrow> string option \<Rightarrow> time option \<Rightarrow> int option \<Rightarrow>
   'z finance_store_scheme \<Rightarrow> ('z, unit) finance_result" where
  "FinishFinanceOperation freshEvent now operationID status providerOperationID response operationErr
       nextAttemptAt expectedAttempt s =
     (if status \<noteq> FinanceOperationSucceeded \<and> status \<noteq> FinanceOperationFailed \<and>
         status \<noteq> FinanceOperationReconciliationRequired
      then (s, Inl ErrFinanceOperationNotRetryable)
      else case gm_get (financeOperations s) (TrimSpace operationID) of
        None \<Rightarrow> (s, Inl ErrFinanceRecordNotFound)
      | Some operation \<Rightarrow>
          if fo_Status operation \<noteq> FinanceOperationInProgress then (s, Inl ErrFinanceOperationNotRetryable)
          else if (case expectedAttempt of None \<Rightarrow> False | Some n \<Rightarrow> fo_AttemptCount operation \<noteq> n)
          then (s, Inl ErrFinanceOperationNotRetryable)
          else
            let providerOperationID = TrimSpace providerOperationID in
            if fo_ProviderOperationID operation \<noteq> [] \<and> providerOperationID \<noteq> [] \<and>
               providerOperationID \<noteq> fo_ProviderOperationID operation
            then (s, Inl ErrFinanceIdempotencyConflict)
            else
              let providerOperationID = (if fo_ProviderOperationID operation \<noteq> []
                                         then fo_ProviderOperationID operation else providerOperationID) in
              if providerOperationID \<noteq> [] \<and>
                 list_ex (\<lambda>ex. fo_ID ex \<noteq> fo_ID operation \<and> fo_Provider ex = fo_Provider operation \<and>
                               fo_OperationType ex = fo_OperationType operation \<and>
                               fo_ProviderOperationID ex = providerOperationID)
                   (gm_vals (financeOperations s))
              then (s, Inl ErrFinanceIdempotencyConflict)
              else
                let status = (if operationErr \<noteq> None \<and> status \<noteq> FinanceOperationReconciliationRequired
                              then FinanceOperationFailed else status);
                    operation = operation\<lparr>fo_Status := status, fo_ProviderOperationID := providerOperationID,
                      fo_Response := financeJSON response, fo_NextAttemptAt := nextAttemptAt,
                      fo_LastError := (case operationErr of None \<Rightarrow> [] | Some e \<Rightarrow> e),
                      fo_UpdatedAt := now\<rparr>;
                    event = \<lparr>fe_ID = freshEvent, fe_OperationID = fo_ID operation,
                      fe_Attempt = fo_AttemptCount operation, fe_EventType = ''attempt_'' @ status,
                      fe_Status = status, fe_ProviderOperationID = fo_ProviderOperationID operation,
                      fe_Payload = PayRaw (financeJSON response), fe_Error = fo_LastError operation,
                      fe_OccurredAt = fo_UpdatedAt operation\<rparr>
                in (s\<lparr>financeOperations := gm_put (TrimSpace operationID) operation (financeOperations s),
                      financeOperationEvents :=
                        gm_put (fo_ID operation)
                          (gm_list (financeOperationEvents s) (fo_ID operation) @ [event])
                          (financeOperationEvents s)\<rparr>,
                    Inr ()))"

definition GetFinanceOperation :: "string \<Rightarrow> 'z finance_store_scheme \<Rightarrow> store_error + FinanceOperation" where
  "GetFinanceOperation idempotencyKey s =
     (case gm_get (financeOperationKeys s) (TrimSpace idempotencyKey) of
        None \<Rightarrow> Inl ErrFinanceRecordNotFound
      | Some i \<Rightarrow>
          let copy = the (gm_get (financeOperations s) i)
          in Inr (copy\<lparr>fo_Request := financeJSON (fo_Request copy), fo_Response := financeJSON (fo_Response copy)\<rparr>))"

definition needs_reconciliation :: "(string, string) gomap \<Rightarrow> FinanceOperation \<Rightarrow> bool" where
  "needs_reconciliation refundKeys operation \<longleftrightarrow>
     fo_Status operation = FinanceOperationPending \<or> fo_Status operation = FinanceOperationInProgress \<or>
     fo_Status operation = FinanceOperationFailed \<or>
     fo_Status operation = FinanceOperationReconciliationRequired \<or>
     fo_OperationType operation = ''refund'' \<and> fo_Status operation = FinanceOperationSucceeded \<and>
     gm_str refundKeys (fo_IdempotencyKey operation) = []"

definition ListFinanceOperationsForReconciliation :: "int \<Rightarrow> 'z finance_store_scheme \<Rightarrow> FinanceOperation list" where
  "ListFinanceOperationsForReconciliation limit s =
     limited limit (sort_key fo_UpdatedAt
       (map (\<lambda>copy. copy\<lparr>fo_Request := financeJSON (fo_Request copy), fo_Response := financeJSON (fo_Response copy)\<rparr>)
          (filter (needs_reconciliation (financeRefundKeys s)) (gm_vals (financeOperations s)))))"

definition clone_payload :: "finance_payload \<Rightarrow> finance_payload" where
  "clone_payload p = (case p of PayRaw r \<Rightarrow> PayRaw (financeJSON r) | PayRefundUUID i \<Rightarrow> PayRefundUUID i)"

definition ListFinanceOperationEvents ::
  "string \<Rightarrow> 'z finance_store_scheme \<Rightarrow> store_error + FinanceOperationEvent list" where
  "ListFinanceOperationEvents operationID s =
     (if \<not> gm_has (financeOperations s) (TrimSpace operationID) then Inl ErrFinanceRecordNotFound
      else Inr (map (\<lambda>e. e\<lparr>fe_Payload := clone_payload (fe_Payload e)\<rparr>)
                  (gm_list (financeOperationEvents s) (TrimSpace operationID))))"

section \<open>The ledger as a state machine\<close>

datatype finance_op =
    OpUser user_op
  | OpInvoice string time time "FinanceInvoice option"
  | OpPayment string time time "FinancePayment option"
  | OpRefund string string time time "FinanceRefund option"
  | OpBegin string string time time time "FinanceOperation option"
  | OpCheckpoint string time string int rawmsg
  | OpFinish string time string string string rawmsg "string option" "time option" "int option"

fun finance_exec :: "finance_op \<Rightarrow> 'z finance_store_scheme \<Rightarrow> 'z finance_store_scheme" where
  "finance_exec (OpUser opn) s = user_exec opn s"
| "finance_exec (OpInvoice f n n' a) s = fst (CreateFinanceInvoice f n n' a s)"
| "finance_exec (OpPayment f n n' a) s = fst (RecordFinancePayment f n n' a s)"
| "finance_exec (OpRefund f g n n' a) s = fst (RecordFinanceRefund f g n n' a s)"
| "finance_exec (OpBegin f g n n' n'' a) s = fst (BeginFinanceOperation f g n n' n'' a s)"
| "finance_exec (OpCheckpoint g n i k r) s = fst (CheckpointFinanceOperation g n i k r s)"
| "finance_exec (OpFinish g n i st p r e t k) s = fst (FinishFinanceOperation g n i st p r e t k s)"

end
