(* ===== verification/Referral.thy ===== *)
theory Referral
  imports Finance_Operations
begin

text \<open>
  The referral program of \<open>memoryStore\<close> (\<open>internal/store/referral_memory.go\<close>,
  \<open>referral_campaign.go\<close>, \<open>referral_plan.go\<close>, \<open>referral_invoice_verification.go\<close>): codes,
  attributions, rewards, payment risks, settlements, campaign revisions and verified
  invoices. The state extends the ledger, which \<open>ReferralExtensionEnd\<close> reads.
\<close>

section \<open>Records and state\<close>

record ReferralCode =
  rc_UserUUID :: string
  rc_Code :: string
  rc_CreatedAt :: time

record ReferralAttribution =
  ra_ID :: string
  ra_ReferrerUUID :: string
  ra_InviteeUUID :: string
  ra_Code :: string
  ra_CreatedAt :: time

record ReferralReward =
  rw_ID :: string
  rw_ReferralID :: string
  rw_ProviderInvoiceID :: string
  rw_ReferrerUUID :: string
  rw_InviteeUUID :: string
  rw_PlanID :: string
  rw_ProductSlug :: string
  rw_PaidMinor :: int
  rw_RewardMinor :: int
  rw_Currency :: string
  rw_PaidAt :: time
  rw_EligibleAt :: time
  rw_AnnualDays :: int
  rw_Status :: string
  rw_CreatedAt :: time
  rw_ReferralCreatedAt :: time
  rw_InviteeEmail :: string

record ReferralPaymentRisk =
  rk_SourceKey :: string
  rk_ProviderInvoiceID :: string
  rk_Type :: string
  rk_Reason :: string
  rk_OccurredAt :: time

record ReferralSettlement =
  rs_ID :: string
  rs_ReferrerUUID :: string
  rs_Currency :: string
  rs_Status :: string
  rs_AmountMinor :: int
  rs_PayoutReference :: string
  rs_Reason :: string
  rs_RequestedAt :: time
  rs_CompletedAt :: "time option"

record SubscriptionExtension =
  sx_ID :: string
  sx_RewardID :: string
  sx_ReferralID :: string
  sx_UserUUID :: string
  sx_SubscriptionUUID :: string
  sx_Days :: int
  sx_EffectiveFrom :: time
  sx_EffectiveUntil :: time
  sx_Status :: string
  sx_CreatedAt :: time

record ReferralCurrencySummary =
  cs_Currency :: string
  cs_EarnedMinor :: int
  cs_PendingMinor :: int
  cs_EligibleMinor :: int
  cs_SettledMinor :: int
  cs_ReversedMinor :: int

record ReferralSummary =
  sm_SuccessfulInvites :: int
  sm_AwardedDays :: int
  sm_CashByCurrency :: "ReferralCurrencySummary list"

record ReferralCampaign =
  ca_Revision :: int
  ca_Enabled :: bool
  ca_StartsAt :: "time option"
  ca_EndsAt :: "time option"
  ca_EffectiveAt :: time
  ca_ActorUUID :: string
  ca_Reason :: string

record ReferralInvoiceVerification =
  iv_InvoiceID :: string
  iv_ProviderPriceID :: string
  iv_PlanID :: string
  iv_ProductSlug :: string

record referral_store = finance_store +
  referralInvoiceProofs :: "(string, ReferralInvoiceVerification) gomap"
  referralCampaigns :: "ReferralCampaign list"
  referralRewardCampaigns :: "(string, ReferralCampaign) gomap"
  referralCodes :: "(string, ReferralCode) gomap"
  referralCodesByValue :: "(string, string) gomap"
  referralsByInvitee :: "(string, ReferralAttribution) gomap"
  referralRewards :: "(string, ReferralReward) gomap"
  referralRewardByInvoice :: "(string, string) gomap"
  referralRisks :: "(string, ReferralPaymentRisk) gomap"
  referralSettlements :: "(string, ReferralSettlement) gomap"
  referralExtensions :: "(string, SubscriptionExtension) gomap"

type_synonym ('z, 'a) referral_result = "'z referral_store_scheme \<times> (store_error + 'a)"

text \<open>
  Midnight (UTC) of a date of the Gregorian calendar, by the number of days since
  January 1 of year 1.
\<close>

definition days_before_month :: "int list" where
  "days_before_month = [0, 31, 59, 90, 120, 151, 181, 212, 243, 273, 304, 334]"

definition leap_year :: "int \<Rightarrow> bool" where
  "leap_year y \<longleftrightarrow> 4 dvd y \<and> (\<not> 100 dvd y \<or> 400 dvd y)"

definition date_utc :: "int \<Rightarrow> nat \<Rightarrow> int \<Rightarrow> time" where
  "date_utc y m d =
     (let p = y - 1;
          days = 365 * p + p div 4 - p div 100 + p div 400 + days_before_month ! (m - 1) +
            (if 2 < m \<and> leap_year y then 1 else 0) + (d - 1)
      in days * (24 * Hour))"

section \<open>Campaigns\<close>

definition defaultReferralCampaign :: ReferralCampaign where
  "defaultReferralCampaign =
     \<lparr>ca_Revision = 1, ca_Enabled = True,
      ca_StartsAt = Some (date_utc 2026 10 13 - 8 * Hour), ca_EndsAt = Some (date_utc 2027 1 1 - 8 * Hour),
      ca_EffectiveAt = date_utc 1970 1 1, ca_ActorUUID = [], ca_Reason = ''initial XConnect campaign defaults''\<rparr>"

definition newReferralStore :: "bool \<Rightarrow> referral_store" where
  "newReferralStore allow = finance_store.extend (newFinanceStore allow)
     (referral_store.fields [] [defaultReferralCampaign] [] [] [] [] [] [] [] [] [])"

definition campaign_active :: "ReferralCampaign \<Rightarrow> time \<Rightarrow> bool" where
  "campaign_active c t \<longleftrightarrow> ca_Enabled c \<and>
     (case ca_StartsAt c of None \<Rightarrow> True | Some a \<Rightarrow> \<not> t < a) \<and> (case ca_EndsAt c of None \<Rightarrow> True | Some b \<Rightarrow> t < b)"

definition validateReferralCampaign :: "ReferralCampaign option \<Rightarrow> bool" where
  "validateReferralCampaign arg =
     (case arg of None \<Rightarrow> False
      | Some c \<Rightarrow>
          \<not> (TrimSpace (ca_Reason c) = [] \<or> 500 < int (length (TrimSpace (ca_Reason c))) \<or>
             (case (ca_StartsAt c, ca_EndsAt c) of (Some a, Some b) \<Rightarrow> \<not> a < b | _ \<Rightarrow> False)))"

definition later_campaign :: "ReferralCampaign \<Rightarrow> ReferralCampaign \<Rightarrow> bool" where
  "later_campaign c selected \<longleftrightarrow>
     ca_EffectiveAt c > ca_EffectiveAt selected \<or>
     ca_EffectiveAt c = ca_EffectiveAt selected \<and> ca_Revision c > ca_Revision selected"

definition referralCampaignAt :: "time \<Rightarrow> 'z referral_store_scheme \<Rightarrow> ReferralCampaign option" where
  "referralCampaignAt t s = select (\<lambda>c. \<not> ca_EffectiveAt c > t) later_campaign (referralCampaigns s)"

definition GetReferralCampaign :: "time \<Rightarrow> 'z referral_store_scheme \<Rightarrow> store_error + ReferralCampaign" where
  "GetReferralCampaign t s = (case referralCampaignAt t s of None \<Rightarrow> Inl ErrReferralNotFound | Some c \<Rightarrow> Inr c)"

definition ConfigureReferralCampaign ::
  "time \<Rightarrow> ReferralCampaign option \<Rightarrow> 'z referral_store_scheme \<Rightarrow> ('z, ReferralCampaign) referral_result" where
  "ConfigureReferralCampaign now input s =
     (if \<not> validateReferralCampaign input then (s, Inl ErrReferralCampaignInvalid)
      else if referralCampaigns s = [] then (s, Inl GoPanic)
      else
        let lastCampaign = last (referralCampaigns s);
            c = (the input)\<lparr>
              ca_Revision := int (length (referralCampaigns s)) + 1,
              ca_EffectiveAt := (if \<not> now > ca_EffectiveAt lastCampaign
                                 then ca_EffectiveAt lastCampaign + Microsecond else now),
              ca_Reason := TrimSpace (ca_Reason (the input)),
              ca_ActorUUID := TrimSpace (ca_ActorUUID (the input))\<rparr>
        in (s\<lparr>referralCampaigns := referralCampaigns s @ [c]\<rparr>, Inr c))"

definition GetReferralRewardCampaign :: "string \<Rightarrow> 'z referral_store_scheme \<Rightarrow> store_error + ReferralCampaign" where
  "GetReferralRewardCampaign rewardID s =
     (case gm_get (referralRewardCampaigns s) rewardID of None \<Rightarrow> Inl ErrReferralNotFound | Some c \<Rightarrow> Inr c)"

section \<open>Codes and attributions\<close>

definition EnsureReferralCode ::
  "time \<Rightarrow> string \<Rightarrow> string \<Rightarrow> 'z referral_store_scheme \<Rightarrow> ('z, ReferralCode) referral_result" where
  "EnsureReferralCode now userUUID candidate s =
     (let userUUID = TrimSpace userUUID; candidate = ToUpper (TrimSpace candidate) in
      case gm_get (referralCodes s) userUUID of
        Some old \<Rightarrow> (s, Inr old)
      | None \<Rightarrow>
          if \<not> gm_has (byID s) userUUID \<or> candidate = [] then (s, Inl ErrUserNotFound)
          else if gm_str (referralCodesByValue s) candidate \<noteq> [] \<and>
                  gm_str (referralCodesByValue s) candidate \<noteq> userUUID
          then (s, Inl ErrReferralAlreadyAttributed)
          else
            let code = \<lparr>rc_UserUUID = userUUID, rc_Code = candidate, rc_CreatedAt = now\<rparr>
            in (s\<lparr>referralCodes := gm_put userUUID code (referralCodes s),
                  referralCodesByValue := gm_put candidate userUUID (referralCodesByValue s)\<rparr>, Inr code))"

definition GetReferralCode :: "string \<Rightarrow> 'z referral_store_scheme \<Rightarrow> store_error + ReferralCode" where
  "GetReferralCode code s =
     (let owner = gm_str (referralCodesByValue s) (ToUpper (TrimSpace code)) in
      if owner = [] then Inl ErrReferralNotFound
      else case gm_get (referralCodes s) owner of None \<Rightarrow> Inl GoPanic | Some code \<Rightarrow> Inr code)"

definition CreateReferralAttribution ::
  "string \<Rightarrow> time \<Rightarrow> string \<Rightarrow> string \<Rightarrow> time \<Rightarrow> 'z referral_store_scheme \<Rightarrow> ('z, unit) referral_result" where
  "CreateReferralAttribution fresh now code inviteeUUID createdAt s =
     (let code = ToUpper (TrimSpace code); inviteeUUID = TrimSpace inviteeUUID;
          referrerUUID = gm_str (referralCodesByValue s) code in
      if referrerUUID = [] \<or> \<not> gm_has (byID s) inviteeUUID then (s, Inl ErrReferralNotFound)
      else if referrerUUID = inviteeUUID then (s, Inl ErrReferralSelf)
      else if gm_has (referralsByInvitee s) inviteeUUID then (s, Inl ErrReferralAlreadyAttributed)
      else
        let createdAt = (if IsZero createdAt then now else createdAt)
        in (s\<lparr>referralsByInvitee := gm_put inviteeUUID
               \<lparr>ra_ID = fresh, ra_ReferrerUUID = referrerUUID, ra_InviteeUUID = inviteeUUID, ra_Code = code,
                ra_CreatedAt = createdAt\<rparr> (referralsByInvitee s)\<rparr>, Inr ()))"

definition GetReferralReferrer :: "string \<Rightarrow> 'z referral_store_scheme \<Rightarrow> store_error + string" where
  "GetReferralReferrer inviteeUUID s =
     (case gm_get (referralsByInvitee s) (TrimSpace inviteeUUID) of
        None \<Rightarrow> Inl ErrReferralNotFound | Some referral \<Rightarrow> Inr (ra_ReferrerUUID referral))"

text \<open>The keys of a user are removed again when the attribution of a new account fails.\<close>

definition forget_user :: "string \<Rightarrow> 'z user_store_scheme \<Rightarrow> 'z user_store_scheme" where
  "forget_user i s =
     (case user_of s (byID s) i of
        None \<Rightarrow> s
      | Some stored \<Rightarrow> s\<lparr>byEmail := gm_del (ToLower (us_Email stored)) (byEmail s),
                          byName := gm_del (ToLower (us_Name stored)) (byName s),
                          byID := gm_del i (byID s)\<rparr>)"

definition CreateUserWithReferral ::
  "string \<Rightarrow> string \<Rightarrow> time \<Rightarrow> time \<Rightarrow> string + string \<Rightarrow> User \<Rightarrow> string \<Rightarrow> 'z referral_store_scheme \<Rightarrow>
   ('z, User) referral_result" where
  "CreateUserWithReferral fresh fresh' now now' newV7 user referralCode s =
     (case CreateUser fresh now newV7 user s of
        (s, Inl e) \<Rightarrow> (s, Inl e)
      | (s, Inr user) \<Rightarrow>
          (case CreateReferralAttribution fresh' now' referralCode (us_ID user) (us_CreatedAt user) s of
             (s, Inl e) \<Rightarrow> (forget_user (us_ID user) s, Inl e)
           | (s, Inr _) \<Rightarrow> (s, Inr user)))"

section \<open>Rewards and risks\<close>

definition isXConnectReferralPlan :: "string \<Rightarrow> bool" where
  "isXConnectReferralPlan planID \<longleftrightarrow>
     ToUpper (TrimSpace planID) \<in> {''PRO-MONTHLY'', ''PRO-YEARLY'', ''PRO-MONTHLY-V2'', ''PRO-YEARLY-V2''}"

definition isXConnectAnnualReferralPlan :: "string \<Rightarrow> bool" where
  "isXConnectAnnualReferralPlan planID \<longleftrightarrow> ToUpper (TrimSpace planID) \<in> {''PRO-YEARLY'', ''PRO-YEARLY-V2''}"

definition CreateReferralReward ::
  "string \<Rightarrow> time \<Rightarrow> time \<Rightarrow> ReferralReward option \<Rightarrow> 'z referral_store_scheme \<Rightarrow>
   ('z, bool \<times> ReferralReward) referral_result" where
  "CreateReferralReward fresh now now' arg s =
     (case arg of None \<Rightarrow> (s, Inl ErrReferralNotFound) | Some reward \<Rightarrow>
      if rw_ProviderInvoiceID reward = [] \<or> rw_PaidMinor reward \<le> 0 \<or>
         rw_RewardMinor reward \<noteq> rw_PaidMinor reward div 10 \<or> rw_Currency reward = [] \<or>
         rw_ProductSlug reward \<noteq> ''xconnect'' \<or> \<not> isXConnectReferralPlan (rw_PlanID reward)
      then (s, Inl ErrReferralNotFound)
      else
        let prior = gm_str (referralRewardByInvoice s) (rw_ProviderInvoiceID reward) in
        if prior \<noteq> [] then (s, Inr (False, reward\<lparr>rw_ID := prior\<rparr>))
        else case gm_get (referralsByInvitee s) (rw_InviteeUUID reward) of
          None \<Rightarrow> (s, Inl ErrReferralNotFound)
        | Some referral \<Rightarrow>
            if rw_ReferrerUUID reward \<noteq> [] \<and> ra_ReferrerUUID referral \<noteq> rw_ReferrerUUID reward
            then (s, Inl ErrReferralNotFound)
            else
              let reward = reward\<lparr>rw_ReferrerUUID := ra_ReferrerUUID referral\<rparr> in
              if list_ex (\<lambda>old. rw_InviteeUUID old = rw_InviteeUUID reward) (gm_vals (referralRewards s))
              then (s, Inr (False, reward))
              else if list_ex (\<lambda>risk. rk_ProviderInvoiceID risk = rw_ProviderInvoiceID reward) (gm_vals (referralRisks s))
              then (s, Inr (False, reward))
              else
                let paidAt = (if IsZero (rw_PaidAt reward) then now else rw_PaidAt reward);
                    copy = reward\<lparr>rw_ID := fresh, rw_ReferralID := ra_ID referral,
                      rw_ReferralCreatedAt := ra_CreatedAt referral, rw_PaidAt := paidAt,
                      rw_EligibleAt := paidAt + 7 * 24 * Hour,
                      rw_Status := (if rw_Status reward = [] then ''pending'' else rw_Status reward),
                      rw_CreatedAt := now'\<rparr>
                in case referralCampaignAt (rw_PaidAt copy) s of
                     None \<Rightarrow> (s, Inl ErrReferralNotFound)
                   | Some campaign \<Rightarrow>
                       (s\<lparr>referralRewardCampaigns := gm_put (rw_ID copy) campaign (referralRewardCampaigns s),
                          referralRewards := gm_put (rw_ID copy) copy (referralRewards s),
                          referralRewardByInvoice :=
                            gm_put (rw_ProviderInvoiceID copy) (rw_ID copy) (referralRewardByInvoice s)\<rparr>,
                        Inr (True, copy)))"

text \<open>
  The inner loop over the settlements: a pending settlement of the referrer and the currency of
  the reward \<open>i\<close> is put on hold.
\<close>

definition hold_settlement ::
  "ReferralPaymentRisk \<Rightarrow> string \<Rightarrow> ReferralReward list \<Rightarrow> ReferralSettlement \<Rightarrow> ReferralSettlement" where
  "hold_settlement risk i rewards settlement =
     (if rs_Status settlement \<noteq> ''pending_review'' then settlement
      else if list_ex (\<lambda>reward. rw_ID reward = i \<and> rw_ReferrerUUID reward = rs_ReferrerUUID settlement \<and>
                                rw_Currency reward = rs_Currency settlement) rewards
      then settlement\<lparr>rs_Reason := ''payment risk hold: '' @ rk_Type risk\<rparr>
      else settlement)"

definition RecordReferralRisk ::
  "ReferralPaymentRisk \<Rightarrow> 'z referral_store_scheme \<Rightarrow> ('z, unit) referral_result" where
  "RecordReferralRisk risk s =
     (if TrimSpace (rk_SourceKey risk) = [] \<or> TrimSpace (rk_ProviderInvoiceID risk) = []
      then (s, Inl (ErrText ''referral risk source and invoice are required''))
      else if (case gm_get (referralRisks s) (rk_SourceKey risk) of
                 None \<Rightarrow> False | Some old \<Rightarrow> rk_ProviderInvoiceID old \<noteq> rk_ProviderInvoiceID risk)
      then (s, Inl ErrFinanceIdempotencyConflict)
      else
        let s = s\<lparr>referralRisks := gm_put (rk_SourceKey risk) risk (referralRisks s)\<rparr>;
            i = gm_str (referralRewardByInvoice s) (rk_ProviderInvoiceID risk) in
        if i = [] then (s, Inr ())
        else case gm_get (referralRewards s) i of
          None \<Rightarrow> (s, Inl GoPanic)
        | Some reward \<Rightarrow>
            let s = s\<lparr>referralRewards := gm_put i (reward\<lparr>rw_Status := ''reversed''\<rparr>) (referralRewards s)\<rparr>
            in (s\<lparr>referralSettlements :=
                   map (\<lambda>(k, st). (k, hold_settlement risk i (gm_vals (referralRewards s)) st))
                     (referralSettlements s)\<rparr>, Inr ()))"

definition ListReferralRewards :: "string \<Rightarrow> int \<Rightarrow> 'z referral_store_scheme \<Rightarrow> ReferralReward list" where
  "ListReferralRewards referrerUUID limit s =
     limited limit (sort_key (\<lambda>r. - rw_CreatedAt r)
       (map (\<lambda>r. case user_of s (byID s) (rw_InviteeUUID r) of
                   None \<Rightarrow> r | Some invitee \<Rightarrow> r\<lparr>rw_InviteeEmail := us_Email invitee\<rparr>)
          (filter (\<lambda>r. rw_ReferrerUUID r = referrerUUID) (gm_vals (referralRewards s)))))"

definition ReverseReferralReward ::
  "string \<Rightarrow> string \<Rightarrow> 'z referral_store_scheme \<Rightarrow> ('z, unit) referral_result" where
  "ReverseReferralReward rewardID sourceKey s =
     (if gm_str (referralRewardByInvoice s) (''source:'' @ sourceKey) \<noteq> [] then (s, Inr ())
      else case gm_get (referralRewards s) (TrimSpace rewardID) of
        None \<Rightarrow> (s, Inl ErrReferralNotFound)
      | Some reward \<Rightarrow>
          if rw_Status reward = ''reversed'' then (s, Inr ())
          else (s\<lparr>referralRewards := gm_put (TrimSpace rewardID) (reward\<lparr>rw_Status := ''reversed''\<rparr>)
                    (referralRewards s)\<rparr>, Inr ()))"

section \<open>Summary\<close>

definition summary_row :: "string \<Rightarrow> (string, ReferralCurrencySummary) gomap \<Rightarrow> ReferralCurrencySummary" where
  "summary_row currency m =
     (case gm_get m currency of
        Some row \<Rightarrow> row
      | None \<Rightarrow> \<lparr>cs_Currency = currency, cs_EarnedMinor = 0, cs_PendingMinor = 0, cs_EligibleMinor = 0,
                 cs_SettledMinor = 0, cs_ReversedMinor = 0\<rparr>)"

type_synonym summary_state = "int \<times> (string, ReferralCurrencySummary) gomap"

definition summary_reward :: "string \<Rightarrow> time \<Rightarrow> summary_state \<Rightarrow> ReferralReward \<Rightarrow> summary_state" where
  "summary_reward referrerUUID now st reward =
     (let (invites, m) = st in
      if rw_ReferrerUUID reward \<noteq> referrerUUID then (invites, m)
      else
        let row = summary_row (rw_Currency reward) m; minor = rw_RewardMinor reward in
        if rw_Status reward = ''reversed''
        then (invites, gm_put (rw_Currency reward) (row\<lparr>cs_ReversedMinor := wrap64 (cs_ReversedMinor row + minor)\<rparr>) m)
        else
          let row = row\<lparr>cs_EarnedMinor := wrap64 (cs_EarnedMinor row + minor)\<rparr>;
              row = (if rw_Status reward = ''pending'' \<and> rw_EligibleAt reward > now
                     then row\<lparr>cs_PendingMinor := wrap64 (cs_PendingMinor row + minor)\<rparr>
                     else if rw_Status reward = ''pending'' \<or> rw_Status reward = ''eligible''
                     then row\<lparr>cs_EligibleMinor := wrap64 (cs_EligibleMinor row + minor)\<rparr> else row)
          in (invites + 1, gm_put (rw_Currency reward) row m))"

definition summary_settlement :: "string \<Rightarrow> summary_state \<Rightarrow> ReferralSettlement \<Rightarrow> summary_state" where
  "summary_settlement referrerUUID st settlement =
     (let (invites, m) = st in
      if rs_ReferrerUUID settlement \<noteq> referrerUUID then (invites, m)
      else
        let row = summary_row (rs_Currency settlement) m; minor = rs_AmountMinor settlement;
            row = (if rs_Status settlement = ''paid''
                   then row\<lparr>cs_SettledMinor := wrap64 (cs_SettledMinor row + minor)\<rparr> else row);
            row = (if rs_Status settlement = ''pending_review''
                   then row\<lparr>cs_EligibleMinor := wrap64 (cs_EligibleMinor row - minor)\<rparr> else row)
        in (invites, gm_put (rs_Currency settlement) row m))"

definition GetReferralSummary :: "string \<Rightarrow> time \<Rightarrow> 'z referral_store_scheme \<Rightarrow> ReferralSummary" where
  "GetReferralSummary referrerUUID now s =
     (let st = foldl (summary_reward referrerUUID now) (0, []) (gm_vals (referralRewards s));
          days = sum64 sx_Days (filter (\<lambda>ext. sx_UserUUID ext = referrerUUID \<and> sx_Status ext = ''applied'')
                   (gm_vals (referralExtensions s)));
          (invites, byCurrency) = foldl (summary_settlement referrerUUID) st (gm_vals (referralSettlements s))
      in \<lparr>sm_SuccessfulInvites = invites, sm_AwardedDays = days, sm_CashByCurrency = gm_vals byCurrency\<rparr>)"

section \<open>Settlements\<close>

definition ListReferralSettlements :: "string \<Rightarrow> int \<Rightarrow> 'z referral_store_scheme \<Rightarrow> ReferralSettlement list" where
  "ListReferralSettlements referrerUUID limit s =
     limited limit (sort_key (\<lambda>item. - rs_RequestedAt item)
       (filter (\<lambda>item. rs_ReferrerUUID item = referrerUUID) (gm_vals (referralSettlements s))))"

text \<open>The rewards whose amounts a request collects, and the settlements that reserve them.\<close>

definition settles :: "string \<Rightarrow> string \<Rightarrow> ReferralSettlement \<Rightarrow> bool" where
  "settles referrerUUID currency settlement \<longleftrightarrow>
     rs_ReferrerUUID settlement = referrerUUID \<and> rs_Currency settlement = currency \<and>
     (rs_Status settlement = ''pending_review'' \<or> rs_Status settlement = ''paid'')"

definition collectable :: "string \<Rightarrow> string \<Rightarrow> time \<Rightarrow> 'z referral_store_scheme \<Rightarrow> ReferralReward \<Rightarrow> bool" where
  "collectable referrerUUID currency now s reward \<longleftrightarrow>
     \<not> (rw_ReferrerUUID reward \<noteq> referrerUUID \<or> rw_Currency reward \<noteq> currency \<or>
        rw_Status reward = ''reversed'' \<or> rw_EligibleAt reward > now) \<and>
     \<not> gm_has (referralRisks s) (rw_ProviderInvoiceID reward) \<and>
     \<not> list_ex (settles referrerUUID currency) (gm_vals (referralSettlements s))"

definition RequestReferralSettlement ::
  "string \<Rightarrow> string \<Rightarrow> string \<Rightarrow> time \<Rightarrow> 'z referral_store_scheme \<Rightarrow> ('z, ReferralSettlement) referral_result" where
  "RequestReferralSettlement fresh referrerUUID currency now s =
     (let currency = ToUpper (TrimSpace currency);
          amount = sum64 rw_RewardMinor (filter (collectable referrerUUID currency now s) (gm_vals (referralRewards s))) in
      if amount \<le> 0 then (s, Inl ErrReferralSettlementUnavailable)
      else
        let item = \<lparr>rs_ID = fresh, rs_ReferrerUUID = referrerUUID, rs_Currency = currency,
              rs_Status = ''pending_review'', rs_AmountMinor = amount, rs_PayoutReference = [], rs_Reason = [],
              rs_RequestedAt = now, rs_CompletedAt = None\<rparr>
        in (s\<lparr>referralSettlements := gm_put (rs_ID item) item (referralSettlements s)\<rparr>, Inr item))"

definition same_account :: "ReferralReward \<Rightarrow> ReferralSettlement \<Rightarrow> bool" where
  "same_account reward item \<longleftrightarrow> rw_ReferrerUUID reward = rs_ReferrerUUID item \<and> rw_Currency reward = rs_Currency item"

definition CompleteReferralSettlement ::
  "string \<Rightarrow> string \<Rightarrow> time \<Rightarrow> 'z referral_store_scheme \<Rightarrow> ('z, ReferralSettlement) referral_result" where
  "CompleteReferralSettlement settlementID payoutReference now s =
     (case gm_get (referralSettlements s) (TrimSpace settlementID) of
        None \<Rightarrow> (s, Inl ErrReferralSettlementUnavailable)
      | Some item \<Rightarrow>
          if TrimSpace payoutReference = [] then (s, Inl ErrReferralSettlementUnavailable)
          else if rs_Status item = ''paid'' \<and> rs_PayoutReference item = TrimSpace payoutReference then (s, Inr item)
          else if rs_Status item \<noteq> ''pending_review'' then (s, Inl ErrReferralSettlementUnavailable)
          else if list_ex (\<lambda>reward. \<not> (same_account reward item \<and> rw_EligibleAt reward > now) \<and>
                                    same_account reward item \<and> rw_Status reward = ''reversed'')
                    (gm_vals (referralRewards s))
          then (s, Inl ErrReferralSettlementRisk)
          else
            let item = item\<lparr>rs_Status := ''paid'', rs_PayoutReference := TrimSpace payoutReference,
                            rs_CompletedAt := Some now\<rparr>
            in (s\<lparr>referralSettlements := gm_put (TrimSpace settlementID) item (referralSettlements s)\<rparr>, Inr item))"

definition ReconcileReferralSettlement ::
  "string \<Rightarrow> string \<Rightarrow> string \<Rightarrow> time \<Rightarrow> 'z referral_store_scheme \<Rightarrow> ('z, ReferralSettlement) referral_result" where
  "ReconcileReferralSettlement settlementID payoutReference reason now s =
     (case gm_get (referralSettlements s) (TrimSpace settlementID) of
        None \<Rightarrow> (s, Inl ErrReferralSettlementUnavailable)
      | Some item \<Rightarrow>
          if TrimSpace payoutReference = [] \<or> TrimSpace reason = []
          then (s, Inl ErrReferralSettlementUnavailable)
          else if rs_Status item = ''paid'' \<and> rs_PayoutReference item = TrimSpace payoutReference then (s, Inr item)
          else if rs_Status item \<noteq> ''pending_review'' \<and> rs_Status item \<noteq> ''rejected''
          then (s, Inl ErrReferralSettlementUnavailable)
          else if rs_Status item = ''pending_review'' \<and>
                  \<not> list_ex (\<lambda>reward. same_account reward item \<and> rw_Status reward = ''reversed'')
                      (gm_vals (referralRewards s))
          then (s, Inl ErrReferralSettlementUnavailable)
          else
            let item = item\<lparr>rs_Status := ''paid'', rs_PayoutReference := TrimSpace payoutReference,
                  rs_Reason := TrimSpace (rs_Reason item @ ''; reconciled actual payment: '' @ reason),
                  rs_CompletedAt := Some now\<rparr>
            in (s\<lparr>referralSettlements := gm_put (TrimSpace settlementID) item (referralSettlements s)\<rparr>, Inr item))"

definition RejectReferralSettlement ::
  "string \<Rightarrow> string \<Rightarrow> time \<Rightarrow> 'z referral_store_scheme \<Rightarrow> ('z, ReferralSettlement) referral_result" where
  "RejectReferralSettlement settlementID reason now s =
     (case gm_get (referralSettlements s) (TrimSpace settlementID) of
        None \<Rightarrow> (s, Inl ErrReferralSettlementUnavailable)
      | Some item \<Rightarrow>
          if rs_Status item \<noteq> ''pending_review'' \<or> rs_PayoutReference item \<noteq> [] \<or> TrimSpace reason = []
          then (s, Inl ErrReferralSettlementUnavailable)
          else
            let item = item\<lparr>rs_Status := ''rejected'', rs_Reason := TrimSpace reason, rs_CompletedAt := Some now\<rparr>
            in (s\<lparr>referralSettlements := gm_put (TrimSpace settlementID) item (referralSettlements s)\<rparr>, Inr item))"

section \<open>Verified invoices and subscription extensions\<close>

definition ListSubscriptionExtensions :: "string \<Rightarrow> int \<Rightarrow> 'z referral_store_scheme \<Rightarrow> SubscriptionExtension list" where
  "ListSubscriptionExtensions userUUID limit s =
     limited limit (sort_key (\<lambda>item. - sx_CreatedAt item)
       (filter (\<lambda>item. sx_UserUUID item = userUUID) (gm_vals (referralExtensions s))))"

definition extension_invoice :: "string \<Rightarrow> 'z referral_store_scheme \<Rightarrow> FinanceInvoice \<Rightarrow> bool" where
  "extension_invoice subscriptionUUID s invoice \<longleftrightarrow>
     fi_SubscriptionUUID invoice = subscriptionUUID \<and> fi_Provider invoice = ''stripe'' \<and>
     (case (fi_ServicePeriodStart invoice, fi_ServicePeriodEnd invoice) of (Some a, Some b) \<Rightarrow> a < b | _ \<Rightarrow> False) \<and>
     (fi_Description invoice = ''Verified XConnect subscription invoice'' \<or>
      fi_Description invoice = ''Verified XConnect inviter subscription invoice'' \<or>
      (case gm_get (referralInvoiceProofs s) (fi_ID invoice) of None \<Rightarrow> False | Some v \<Rightarrow> iv_InvoiceID v \<noteq> []))"

definition invoice_paid :: "'z referral_store_scheme \<Rightarrow> FinanceInvoice \<Rightarrow> bool" where
  "invoice_paid s invoice \<longleftrightarrow>
     list_ex (\<lambda>payment. fp_InvoiceID payment = fi_ID invoice \<and> fp_Provider payment = ''stripe'' \<and>
        \<not> list_ex (\<lambda>refund. fr_PaymentID refund = fp_ID payment) (gm_vals (financeRefunds s)) \<and>
        \<not> list_ex (\<lambda>risk. rk_ProviderInvoiceID risk = fi_ProviderInvoiceID invoice) (gm_vals (referralRisks s)))
       (gm_vals (financePayments s))"

definition later_end :: "'z referral_store_scheme \<Rightarrow> string \<Rightarrow> time \<Rightarrow> FinanceInvoice \<Rightarrow> time" where
  "later_end s subscriptionUUID base invoice =
     (if extension_invoice subscriptionUUID s invoice \<and> invoice_paid s invoice \<and>
         (IsZero base \<or> the (fi_ServicePeriodEnd invoice) > base)
      then the (fi_ServicePeriodEnd invoice) else base)"

definition ReferralExtensionEnd :: "string \<Rightarrow> 'z referral_store_scheme \<Rightarrow> time" where
  "ReferralExtensionEnd subscriptionUUID s =
     (let base = foldl (later_end s subscriptionUUID) zero_time (gm_vals (financeInvoices s));
          days = sum64 sx_Days (filter (\<lambda>item. sx_SubscriptionUUID item = subscriptionUUID \<and> sx_Status item = ''applied'')
                   (gm_vals (referralExtensions s)))
      in if IsZero base then zero_time else base + wrap64 (wrap64 (days * 24) * Hour))"

definition validReferralInvoiceVerification :: "ReferralInvoiceVerification option \<Rightarrow> bool" where
  "validReferralInvoiceVerification arg =
     (case arg of None \<Rightarrow> False
      | Some v \<Rightarrow> TrimSpace (iv_InvoiceID v) \<noteq> [] \<and> TrimSpace (iv_ProviderPriceID v) \<noteq> [] \<and>
                  iv_ProductSlug v = ''xconnect'' \<and> isXConnectReferralPlan (iv_PlanID v))"

definition VerifyReferralInvoice ::
  "ReferralInvoiceVerification option \<Rightarrow> 'z referral_store_scheme \<Rightarrow> ('z, unit) referral_result" where
  "VerifyReferralInvoice arg s =
     (case arg of None \<Rightarrow> (s, Inl ErrReferralNotFound) | Some v \<Rightarrow>
        if \<not> validReferralInvoiceVerification arg then (s, Inl ErrReferralNotFound)
        else if \<not> gm_has (financeInvoices s) (iv_InvoiceID v) then (s, Inl ErrReferralNotFound)
        else case gm_get (referralInvoiceProofs s) (iv_InvoiceID v) of
          Some old \<Rightarrow> if old \<noteq> v then (s, Inl ErrFinanceIdempotencyConflict) else (s, Inr ())
        | None \<Rightarrow> (s\<lparr>referralInvoiceProofs := gm_put (iv_InvoiceID v) v (referralInvoiceProofs s)\<rparr>, Inr ()))"

section \<open>The referral program as a state machine\<close>

text \<open>
  \<open>CreateUserWithReferral\<close> takes the mutex once for the account, once for the attribution and
  once to forget the account again, so its three parts are separate steps.
\<close>

datatype referral_op =
    OpFinance finance_op
  | OpForgetUser string
  | OpEnsureCode time string string
  | OpAttribute string time string string time
  | OpReward string time time "ReferralReward option"
  | OpRisk ReferralPaymentRisk
  | OpReverse string string
  | OpRequest string string string time
  | OpComplete string string time
  | OpReconcile string string string time
  | OpReject string string time
  | OpCampaign time "ReferralCampaign option"
  | OpVerify "ReferralInvoiceVerification option"

fun referral_exec :: "referral_op \<Rightarrow> 'z referral_store_scheme \<Rightarrow> 'z referral_store_scheme" where
  "referral_exec (OpFinance opn) s = finance_exec opn s"
| "referral_exec (OpForgetUser i) s = forget_user i s"
| "referral_exec (OpEnsureCode n u c) s = fst (EnsureReferralCode n u c s)"
| "referral_exec (OpAttribute f n c i t) s = fst (CreateReferralAttribution f n c i t s)"
| "referral_exec (OpReward f n n' a) s = fst (CreateReferralReward f n n' a s)"
| "referral_exec (OpRisk r) s = fst (RecordReferralRisk r s)"
| "referral_exec (OpReverse i k) s = fst (ReverseReferralReward i k s)"
| "referral_exec (OpRequest f u c n) s = fst (RequestReferralSettlement f u c n s)"
| "referral_exec (OpComplete i p n) s = fst (CompleteReferralSettlement i p n s)"
| "referral_exec (OpReconcile i p r n) s = fst (ReconcileReferralSettlement i p r n s)"
| "referral_exec (OpReject i r n) s = fst (RejectReferralSettlement i r n s)"
| "referral_exec (OpCampaign n a) s = fst (ConfigureReferralCampaign n a s)"
| "referral_exec (OpVerify a) s = fst (VerifyReferralInvoice a s)"

end
