(* ===== verification/Finance_Amounts.thy ===== *)
theory Finance_Amounts
  imports Finance_Operations
begin

text \<open>
  What two refund requests that \<open>jsonEqual\<close> takes for equal have in common. Numbers are
  compared as \<open>float64\<close> values, so the amounts agree below \<open>2 ^ 53\<close>; members are compared as
  an unordered map, so they agree only when no two members of a request denote the same
  field.
\<close>

section \<open>Integers as floating-point numbers\<close>

lemma float_of_int_small: "0 \<le> n \<Longrightarrow> n < 2 ^ 53 \<Longrightarrow> float_of_int n = n"
  by (simp add: float_of_int_def excess_bits.simps round_to_def Let_def)

lemma excess_bits_large:
  assumes "2 ^ 53 \<le> m"
  shows "1 \<le> excess_bits m \<and> 2 ^ 52 \<le> m div 2 ^ excess_bits m"
  using assms
proof (induction m rule: excess_bits.induct)
  case (1 m)
  have step: "excess_bits m = Suc (excess_bits (m div 2))"
    using "1.prems" by (simp add: excess_bits.simps [of m])
  have div: "m div 2 ^ Suc k = m div 2 div 2 ^ k" for k :: nat
    by (simp add: zdiv_zmult2_eq)
  show ?case
  proof (cases "m div 2 < 2 ^ 53")
    case True
    then have "excess_bits (m div 2) = 0" by (simp add: excess_bits.simps)
    then show ?thesis using "1.prems" by (simp add: step)
  next
    case False
    then show ?thesis using "1.IH" "1.prems" by (simp only: step div) simp
  qed
qed

lemma round_to_ge: "m div 2 ^ k * 2 ^ k \<le> round_to k m"
  by (simp add: round_to_def Let_def algebra_simps)

lemma float_of_int_large:
  assumes "2 ^ 53 \<le> n" shows "2 ^ 53 \<le> float_of_int n"
proof -
  let ?k = "excess_bits n"
  note b = excess_bits_large [OF assms]
  have "(2 :: int) ^ 1 \<le> 2 ^ ?k"
    using b by (intro power_increasing) simp_all
  then have "(2 :: int) ^ 52 * 2 \<le> n div 2 ^ ?k * 2 ^ ?k"
    using b by (intro mult_mono) simp_all
  also have "\<dots> \<le> round_to ?k n" by (rule round_to_ge)
  also have "\<dots> = float_of_int n"
    using assms by (simp add: float_of_int_def)
  finally show ?thesis by simp
qed

lemma float_of_int_inject:
  assumes "float_of_int x = float_of_int y" "0 < x" "0 < y" "y < 2 ^ 53"
  shows "x = y"
proof -
  have y: "float_of_int y = y" using assms by (simp add: float_of_int_small)
  then have "x < 2 ^ 53" using float_of_int_large [of x] assms(1,4) by linarith
  then show ?thesis using assms(1,2) y by (simp add: float_of_int_small)
qed

section \<open>Equal requests\<close>

definition unambiguous :: "rawmsg \<Rightarrow> bool" where
  "unambiguous raw = (case raw of RawDoc (GMap kvs) \<Rightarrow> distinct (map (\<lambda>kv. ToLower (fst kv)) kvs) | _ \<Rightarrow> True)"

lemma unambiguous_financeJSON [simp]: "unambiguous (financeJSON r) = unambiguous r"
  by (cases r) (simp_all add: financeJSON_def unambiguous_def)

lemma financeJSON_idem [simp]: "financeJSON (financeJSON r) = financeJSON r"
  by (cases r) (simp_all add: financeJSON_def)

lemma decode_refund_amount:
  "decode_refund kvs (a, c) = Some (x, d) \<Longrightarrow> x = a \<or> (\<exists>k. (k, GInt x) \<in> set kvs \<and> ToLower k = ''amount_minor'')"
proof (induction kvs arbitrary: a c)
  case (Cons kv kvs)
  obtain k v where kv: "kv = (k, v)" by force
  have "\<exists>a' c'. decode_refund kvs (a', c') = Some (x, d) \<and>
      (a' = a \<or> (v = GInt a' \<and> ToLower k = ''amount_minor''))"
    using Cons.prems by (auto simp: kv split: if_splits gval.splits)
  then obtain a' c' where d: "decode_refund kvs (a', c') = Some (x, d)"
    and a': "a' = a \<or> (v = GInt a' \<and> ToLower k = ''amount_minor'')" by blast
  from Cons.IH [OF d] a' show ?case unfolding kv by fastforce
qed simp

lemma refund_request_amount:
  assumes "refund_request raw = Some (x, c)"
  obtains kvs k where "raw = RawDoc (GMap kvs)" "(k, GInt x) \<in> set kvs" "ToLower k = ''amount_minor''" "0 < x"
proof -
  obtain d where p: "refund_payload raw = Some (x, d)" "0 < x"
    using assms by (auto simp: refund_request_def Let_def split: option.splits if_splits)
  then obtain kvs where kvs: "raw = RawDoc (GMap kvs)" "decode_refund kvs (0, []) = Some (x, d)"
    by (auto simp: refund_payload_def split: rawmsg.splits gval.splits)
  with decode_refund_amount [OF kvs(2)] p(2) that show ?thesis by auto
qed

lemma decode_members_keys: "decode_members kvs = Some m \<Longrightarrow> map fst m = map fst kvs"
  by (induction kvs arbitrary: m) (auto split: option.splits)

lemma decode_members_mem:
  "decode_members kvs = Some m \<Longrightarrow> (k, GInt x) \<in> set kvs \<Longrightarrow> (k, GInt (float_of_int x)) \<in> set m"
  by (induction kvs arbitrary: m) (auto split: option.splits if_splits)

lemma foldl_put_distinct:
  "distinct (map fst (acc @ kvs)) \<Longrightarrow> foldl (\<lambda>m (k, v). gm_put k v m) acc kvs = acc @ kvs"
proof (induction kvs arbitrary: acc)
  case (Cons kv kvs)
  have "gm_get acc (fst kv) = None"
    using Cons.prems by (auto simp: map_of_eq_None_iff)
  then show ?case
    using Cons.IH [of "acc @ [kv]"] Cons.prems by (cases kv) (simp add: gm_put_new)
qed simp

lemma set_last_wins: "distinct (map fst kvs) \<Longrightarrow> set (last_wins kvs) = set kvs"
  using foldl_put_distinct [of "[]" kvs] by simp

declare last_wins.simps [simp del]

lemma distinct_folded: "distinct (map (\<lambda>kv. ToLower (fst kv)) kvs) \<Longrightarrow> distinct (map fst kvs)"
  by (induction kvs) (auto simp: image_iff)

lemma equal_requests_equal_amounts:
  assumes "jsonEqual a b" "unambiguous a" "unambiguous b"
    and "refund_request a = Some (x, c)" "refund_request b = Some (y, d)" "y < 2 ^ 53"
  shows "x = y"
proof -
  obtain as k where a: "a = RawDoc (GMap as)" "(k, GInt x) \<in> set as" "ToLower k = ''amount_minor''" "0 < x"
    using refund_request_amount [OF assms(4)] .
  obtain bs l where b: "b = RawDoc (GMap bs)" "(l, GInt y) \<in> set bs" "ToLower l = ''amount_minor''" "0 < y"
    using refund_request_amount [OF assms(5)] .
  obtain ma mb where m: "decode_members as = Some ma" "decode_members bs = Some mb" "last_wins ma = last_wins mb"
    using assms(1) a(1) b(1) by (auto simp: jsonEqual_def decode_raw_def split: option.splits)
  have da: "distinct (map (\<lambda>kv. ToLower (fst kv)) as)" and db: "distinct (map (\<lambda>kv. ToLower (fst kv)) bs)"
    using assms(2,3) a(1) b(1) by (simp_all add: unambiguous_def)
  have keys: "map fst ma = map fst as" "map fst mb = map fst bs"
    using decode_members_keys m by simp_all
  have "set ma = set mb"
    using set_last_wins [of ma] set_last_wins [of mb] m(3) keys distinct_folded [OF da] distinct_folded [OF db] by simp
  then have mem: "(k, GInt (float_of_int x)) \<in> set mb" "(l, GInt (float_of_int y)) \<in> set mb"
    using decode_members_mem [OF m(1) a(2)] decode_members_mem [OF m(2) b(2)] by simp_all
  have "map (\<lambda>kv. ToLower (fst kv)) mb = map (\<lambda>kv. ToLower (fst kv)) bs"
    using arg_cong [OF keys(2), of "map ToLower"] by (simp add: comp_def)
  then have "distinct (map (\<lambda>kv. ToLower (fst kv)) mb)"
    using db by simp
  then have "inj_on (\<lambda>kv. ToLower (fst kv)) (set mb)"
    by (simp only: distinct_map)
  then have "(k, GInt (float_of_int x)) = (l, GInt (float_of_int y))"
    by (rule inj_onD) (use mem a(3) b(3) in simp_all)
  then show ?thesis
    using float_of_int_inject a(4) b(4) assms(6) by simp
qed

end
