(* ===== verification/User_Invariant.thy ===== *)
theory User_Invariant
  imports User_Records
begin

text \<open>
  The invariant of the account part of \<open>memoryStore\<close>: the three indexes point to existing
  users that carry the index key, every user with an e-mail address is found by it, and
  every stored user is in the normal form of \<open>normalizeUserRoleFields\<close>. Every operation keeps
  it, and the audit log only grows.
\<close>

section \<open>Normal form of roles and groups\<close>

lemma normalize_loop_props:
  "distinct (normalize_loop seen vs) \<and> (\<forall>v \<in> set (normalize_loop seen vs). v \<notin> set seen \<and> v \<noteq> [] \<and> TrimSpace v = v)"
proof (induction vs arbitrary: seen)
  case (Cons v vs)
  show ?case
    using Cons.IH [of seen] Cons.IH [of "TrimSpace v # seen"]
    by (cases "TrimSpace v = [] \<or> TrimSpace v \<in> set seen") (simp_all add: Let_def, blast?)
qed simp

lemma normalize_loop_fixed:
  "distinct vs \<Longrightarrow> \<forall>v \<in> set vs. v \<notin> set seen \<and> v \<noteq> [] \<and> TrimSpace v = v \<Longrightarrow> normalize_loop seen vs = vs"
proof (induction vs arbitrary: seen)
  case (Cons v vs)
  have "normalize_loop (v # seen) vs = vs"
    by (rule Cons.IH) (use Cons.prems in auto)
  then show ?case
    using Cons.prems by (simp add: Let_def)
qed simp

lemma normalizeStringSlice_idem [simp]:
  "normalizeStringSlice (normalizeStringSlice vs) = normalizeStringSlice vs"
  unfolding normalizeStringSlice_def
  by (rule normalize_loop_fixed) (use normalize_loop_props [of "[]" vs] in auto)

definition role_normal :: "User \<Rightarrow> bool" where
  "role_normal u \<longleftrightarrow> gm_get roleToLevel (us_Role u) = Some (us_Level u) \<and>
     normalizeStringSlice (us_Groups u) = us_Groups u \<and>
     normalizeStringSlice (us_Permissions u) = us_Permissions u"

lemma roleToLevel_key:
  assumes "gm_get roleToLevel r = Some l" shows "ToLower (TrimSpace r) = r"
proof -
  have "r \<in> {RoleRoot, RoleAdmin, RoleOperator, RoleUser, RoleReadOnly}"
    using assms by (auto simp: roleToLevel_def split: if_splits)
  moreover have "ToLower (TrimSpace RoleRoot) = RoleRoot" "ToLower (TrimSpace RoleAdmin) = RoleAdmin"
    "ToLower (TrimSpace RoleOperator) = RoleOperator" "ToLower (TrimSpace RoleUser) = RoleUser"
    "ToLower (TrimSpace RoleReadOnly) = RoleReadOnly"
    by code_simp+
  ultimately show ?thesis by auto
qed

lemma role_normal_normalize [simp]: "role_normal (normalizeUserRoleFields u)"
  by (auto simp: role_normal_def normalizeUserRoleFields_def Let_def roleToLevel_def levelToRole_def
      split: option.splits if_splits)

lemma normalize_role_normal: "role_normal u \<Longrightarrow> normalizeUserRoleFields u = u"
  using roleToLevel_key [of "us_Role u" "us_Level u"]
  by (simp add: role_normal_def normalizeUserRoleFields_def Let_def)

lemma cloneUser_normal [simp]: "role_normal u \<Longrightarrow> cloneUser u = u"
  by (simp add: cloneUser_def cloneStringSlice_def normalize_role_normal)

lemma assignUser_normal [simp]: "role_normal u \<Longrightarrow> assignUser u = u"
  by (simp add: assignUser_def cloneStringSlice_def normalize_role_normal)

text \<open>Normalization touches only the role, the level, the groups and the permissions.\<close>

lemma normalize_keeps [simp]:
  "us_ID (normalizeUserRoleFields u) = us_ID u"
  "us_Name (normalizeUserRoleFields u) = us_Name u"
  "us_Email (normalizeUserRoleFields u) = us_Email u"
  "us_CreatedAt (normalizeUserRoleFields u) = us_CreatedAt u"
  "us_UpdatedAt (normalizeUserRoleFields u) = us_UpdatedAt u"
  "us_ProxyUUID (normalizeUserRoleFields u) = us_ProxyUUID u"
  "us_Groups (normalizeUserRoleFields u) = normalizeStringSlice (us_Groups u)"
  by (simp_all add: normalizeUserRoleFields_def Let_def split: option.splits)

lemma role_normal_update [simp]:
  "role_normal (u\<lparr>us_ID := a\<rparr>) = role_normal u"
  "role_normal (u\<lparr>us_Active := b\<rparr>) = role_normal u"
  "role_normal (u\<lparr>us_ArchivedAt := t\<rparr>) = role_normal u"
  "role_normal (u\<lparr>us_UpdatedAt := n\<rparr>) = role_normal u"
  "role_normal (u\<lparr>us_CreatedAt := n\<rparr>) = role_normal u"
  "role_normal (u\<lparr>us_ProxyUUID := p\<rparr>) = role_normal u"
  by (simp_all add: role_normal_def)

lemma updated_user_simps [simp]:
  "us_ID (updated_user now ex u p) = us_ID ex"
  "us_Name (updated_user now ex u p) = TrimSpace (us_Name u)"
  "us_Email (updated_user now ex u p) = ToLower (TrimSpace (us_Email u))"
  "us_Groups (updated_user now ex u p) =
     normalizeStringSlice (PreserveAgentFreeGrantGroups (us_Groups ex) (us_Groups u))"
  "role_normal (updated_user now ex u p)"
  by (simp_all add: updated_user_def Let_def cloneStringSlice_def)

section \<open>The invariant\<close>

definition index_ok :: "(User \<Rightarrow> string) \<Rightarrow> User list \<Rightarrow> (string, nat) gomap \<Rightarrow> bool" where
  "index_ok key us ix \<longleftrightarrow> gm_wf ix \<and>
     (\<forall>k a. gm_get ix k = Some a \<longrightarrow> a < length us \<and> key (us ! a) = k)"

abbreviation name_key :: "User \<Rightarrow> string" where
  "name_key u \<equiv> ToLower (us_Name u)"

definition email_found :: "'z user_store_scheme \<Rightarrow> bool" where
  "email_found s \<longleftrightarrow> (\<forall>k a. gm_get (byID s) k = Some a \<longrightarrow> us_Email (users s ! a) \<noteq> [] \<longrightarrow>
     gm_get (byEmail s) (us_Email (users s ! a)) = Some a)"

definition user_normal :: "User \<Rightarrow> bool" where
  "user_normal u \<longleftrightarrow> role_normal u \<and> ToLower (us_Email u) = us_Email u \<and> TrimSpace (us_Name u) = us_Name u"

definition user_inv :: "'z user_store_scheme \<Rightarrow> bool" where
  "user_inv s \<longleftrightarrow> index_ok us_ID (users s) (byID s) \<and> index_ok us_Email (users s) (byEmail s) \<and>
     index_ok name_key (users s) (byName s) \<and> gm_get (byEmail s) [] = None \<and>
     list_all user_normal (users s)"

lemma user_invD:
  assumes "user_inv s"
  shows "index_ok us_ID (users s) (byID s)" "index_ok us_Email (users s) (byEmail s)"
    "index_ok name_key (users s) (byName s)" "gm_get (byEmail s) [] = None"
    "list_all user_normal (users s)"
  using assms by (simp_all add: user_inv_def)

lemma email_foundD:
  "email_found s \<Longrightarrow> gm_get (byID s) k = Some a \<Longrightarrow> us_Email (users s ! a) \<noteq> [] \<Longrightarrow>
   gm_get (byEmail s) (us_Email (users s ! a)) = Some a"
  by (simp add: email_found_def)

lemma index_okD:
  "index_ok key us ix \<Longrightarrow> gm_get ix k = Some a \<Longrightarrow> a < length us"
  "index_ok key us ix \<Longrightarrow> gm_get ix k = Some a \<Longrightarrow> key (us ! a) = k"
  by (auto simp: index_ok_def)

lemma index_okI:
  "gm_wf ix \<Longrightarrow> (\<And>k a. gm_get ix k = Some a \<Longrightarrow> a < length us \<and> key (us ! a) = k) \<Longrightarrow> index_ok key us ix"
  by (simp add: index_ok_def)

lemma index_ok_append [simp]: "index_ok key us ix \<Longrightarrow> index_ok key (us @ [u]) ix"
  by (rule index_okI) (simp add: index_ok_def, frule (1) index_okD(1), drule (1) index_okD(2), simp add: nth_append)

lemma index_ok_put:
  assumes "index_ok key us ix" "key u = k"
  shows "index_ok key (us @ [u]) (gm_put k (length us) ix)"
proof (rule index_okI)
  show "gm_wf (gm_put k (length us) ix)"
    using assms(1) by (simp add: index_ok_def)
  show "a < length (us @ [u]) \<and> key ((us @ [u]) ! a) = k'"
    if "gm_get (gm_put k (length us) ix) k' = Some a" for k' a
    using that index_okD [OF assms(1), of k' a] assms(2) by (auto simp: nth_append split: if_splits)
qed

lemma index_ok_del [simp]: "index_ok key us ix \<Longrightarrow> index_ok key us (gm_del k ix)"
  by (rule index_okI) (auto simp: index_ok_def split: if_splits)

lemma key_update: "key u = key (us ! a) \<Longrightarrow> key (us[a := u] ! b) = key (us ! b)"
  by (cases "a < length us") (auto simp: nth_list_update list_update_beyond)

lemma index_ok_update:
  assumes "index_ok key us ix" "key u = key (us ! a)"
  shows "index_ok key (us[a := u]) ix"
  using assms(1) by (simp add: index_ok_def key_update [of key, OF assms(2)])

lemma user_inv_at:
  assumes "user_inv s" "gm_get (byID s) k = Some a"
  shows "a < length (users s)" "us_ID (users s ! a) = k" "user_normal (users s ! a)"
  using index_okD [OF user_invD(1) [OF assms(1)] assms(2)] user_invD(5) [OF assms(1)]
  by (simp_all add: list_all_length)

lemma user_inv_init: "user_inv (newUserStore allow)"
  by (simp add: user_inv_def newUserStore_def index_ok_def)

text \<open>An operation that leaves the users and their indexes alone keeps the invariant.\<close>

lemma user_inv_cong:
  "users s' = users s \<Longrightarrow> byID s' = byID s \<Longrightarrow> byEmail s' = byEmail s \<Longrightarrow> byName s' = byName s \<Longrightarrow>
   user_inv s' = user_inv s"
  by (simp add: user_inv_def)

lemma user_inv_fields [simp]:
  "user_inv (s\<lparr>auditLogs := v1\<rparr>) = user_inv s"
  "user_inv (s\<lparr>subscriptions := v2\<rparr>) = user_inv s"
  "user_inv (s\<lparr>identities := v3\<rparr>) = user_inv s"
  "user_inv (s\<lparr>blacklistedEmails := v4\<rparr>) = user_inv s"
  "user_inv (s\<lparr>agents := v5\<rparr>) = user_inv s"
  "user_inv (s\<lparr>loginSessions := v6\<rparr>) = user_inv s"
  "user_inv (s\<lparr>oauthExchangeCodes := v7\<rparr>) = user_inv s"
  by (simp_all add: user_inv_def)

lemma user_inv_forget:
  assumes "user_inv s"
  shows "user_inv (s\<lparr>byName := gm_del k (byName s)\<rparr>)" "user_inv (s\<lparr>byEmail := gm_del e (byEmail s)\<rparr>)"
    "user_inv (s\<lparr>byName := gm_del k (byName s), byEmail := gm_del e (byEmail s)\<rparr>)"
  using assms by (simp_all add: user_inv_def)

text \<open>So does changing a user in place, as long as its keys stay.\<close>

lemma user_inv_put_user:
  assumes "user_inv s" "user_normal u" "us_ID u = us_ID (users s ! a)"
    "us_Email u = us_Email (users s ! a)" "us_Name u = us_Name (users s ! a)"
  shows "user_inv (put_user a u s)"
proof -
  note inv = user_invD [OF assms(1)]
  have "list_all user_normal ((users s)[a := u])"
    using inv(5) assms(2) by (auto simp: list_all_iff dest!: set_update_subset_insert [THEN subsetD])
  then show ?thesis
    using inv assms(3-5) by (simp add: user_inv_def index_ok_update)
qed

lemma email_found_put_user:
  "email_found s \<Longrightarrow> us_Email u = us_Email (users s ! a) \<Longrightarrow> email_found (put_user a u s)"
  by (simp add: email_found_def key_update [of us_Email])

section \<open>Preservation\<close>

text \<open>Storing a new user value: the common end of \<open>CreateUser\<close> and \<open>UpdateUser\<close>.\<close>

definition store_user :: "User \<Rightarrow> 'z user_store_scheme \<Rightarrow> 'z user_store_scheme" where
  "store_user u s = s\<lparr>users := users s @ [u], byID := gm_put (us_ID u) (length (users s)) (byID s),
     byEmail := (if us_Email u \<noteq> [] then gm_put (us_Email u) (length (users s)) (byEmail s) else byEmail s),
     byName := gm_put (name_key u) (length (users s)) (byName s)\<rparr>"

lemma user_inv_store:
  assumes "index_ok us_ID (users s) (byID s)" "index_ok us_Email (users s) (byEmail s)"
    "index_ok name_key (users s) (byName s)" "gm_get (byEmail s) [] = None" "list_all user_normal (users s)"
    and "user_normal u"
  shows "user_inv (store_user u s)"
  using assms index_ok_put [OF assms(2), of u] by (simp add: user_inv_def store_user_def index_ok_put)

text \<open>\<open>s\<close> is the store with the old address of the user already removed.\<close>

lemma email_found_store:
  assumes "index_ok us_ID (users s) (byID s)"
    and found: "\<And>k a. gm_get (byID s) k = Some a \<Longrightarrow> k \<noteq> us_ID u \<Longrightarrow> us_Email (users s ! a) \<noteq> [] \<Longrightarrow>
      us_Email (users s ! a) \<noteq> us_Email u \<and> gm_get (byEmail s) (us_Email (users s ! a)) = Some a"
  shows "email_found (store_user u s)" (is "email_found ?s")
proof -
  have "gm_get (byEmail ?s) (us_Email (users ?s ! a)) = Some a"
    if "gm_get (byID ?s) k = Some a" "us_Email (users ?s ! a) \<noteq> []" for k a
  proof (cases "k = us_ID u")
    case True
    then show ?thesis using that by (auto simp: store_user_def)
  next
    case False
    then have k: "gm_get (byID s) k = Some a" using that(1) by (simp add: store_user_def)
    have "users ?s ! a = users s ! a"
      using index_okD(1) [OF assms(1) k] by (simp add: store_user_def nth_append)
    then show ?thesis using found [OF k False] that(2) by (simp add: store_user_def)
  qed
  then show ?thesis unfolding email_found_def by blast
qed

text \<open>What \<open>CreateUser\<close> does to the users and their indexes.\<close>

lemma CreateUser_shape:
  "fst (CreateUser fresh now v7 u s) = s \<or>
   (\<exists>w. user_normal w \<and> gm_get (byEmail s) (us_Email w) = None \<and> fst (CreateUser fresh now v7 u s) = store_user w s)"
proof -
  have "post (\<lambda>(s', r). s' = s \<or> (\<exists>w. user_normal w \<and> gm_get (byEmail s) (us_Email w) = None \<and> s' = store_user w s))
    (CreateUser fresh now v7 u s)"
    unfolding CreateUser_def
  proof (intro branches)
    fix loweredEmail normalizedName user userCopy1 userCopy2 userCopy3 userCopy4 stored1 stored2 proxy stored3 a
    assume e: "loweredEmail = ToLower (TrimSpace (us_Email u))"
      and n: "normalizedName = TrimSpace (us_Name u)"
      and fresh_email: "\<not> gm_has (byEmail s) loweredEmail"
      and c4: "userCopy4 = userCopy3\<lparr>us_Email := loweredEmail, us_Name := normalizedName\<rparr>"
      and s1: "stored1 = normalizeUserRoleFields userCopy4"
      and s2: "stored2 = stored1\<lparr>us_Groups := cloneStringSlice (us_Groups stored1),
        us_Permissions := cloneStringSlice (us_Permissions stored1), us_Active := True\<rparr>"
      and s3: "stored3 = stored2\<lparr>us_ProxyUUID := proxy\<rparr>"
      and a: "a = length (users s)"
    have s2': "stored2 = stored1\<lparr>us_Active := True\<rparr>"
      by (cases stored1) (simp add: s2 cloneStringSlice_def)
    have st: "us_ID stored3 = us_ID userCopy4" "us_Email stored3 = loweredEmail"
      "name_key stored3 = ToLower normalizedName" "user_normal stored3"
      using e n by (simp_all add: s3 s2' s1 c4 user_normal_def)
    show "post (\<lambda>(s', r). s' = s \<or> (\<exists>w. user_normal w \<and> gm_get (byEmail s) (us_Email w) = None \<and> s' = store_user w s))
      (s\<lparr>users := users s @ [stored3], byID := gm_put (us_ID userCopy4) a (byID s),
         byEmail := (if loweredEmail \<noteq> [] then gm_put loweredEmail a (byEmail s) else byEmail s),
         byName := gm_put (ToLower normalizedName) a (byName s)\<rparr>, Inr (assignUser stored3))"
      using st fresh_email unfolding post_def a by (auto simp: store_user_def intro!: exI [of _ stored3])
  qed (simp_all add: post_def)
  then show ?thesis by (cases "CreateUser fresh now v7 u s") (simp add: post_def)
qed

lemma CreateUser_inv: "user_inv s \<Longrightarrow> user_inv (fst (CreateUser fresh now v7 u s))"
  using CreateUser_shape [of fresh now v7 u s] user_inv_store [of s] user_invD [of s] by auto

lemma CreateUser_found:
  assumes "user_inv s" "email_found s" shows "email_found (fst (CreateUser fresh now v7 u s))"
proof -
  have "email_found (store_user w s)" if "gm_get (byEmail s) (us_Email w) = None" for w
    using that by (intro email_found_store user_invD(1) [OF assms(1)]) (auto dest!: email_foundD [OF assms(2)])
  then show ?thesis using CreateUser_shape [of fresh now v7 u s] assms(2) by auto
qed

text \<open>
  What \<open>UpdateUser\<close> does: it replaces the user, whose old address may be removed first; or it
  fails, and may have removed the old name, and when no id could be generated also the old address.
\<close>

definition replaced_user :: "string \<Rightarrow> User \<Rightarrow> 'z user_store_scheme \<Rightarrow> 'z user_store_scheme \<Rightarrow> bool" where
  "replaced_user i w s s2 \<longleftrightarrow> (\<exists>b. gm_get (byID s) i = Some b \<and> us_ID w = i \<and> user_normal w \<and>
     (us_Email (users s ! b) = us_Email w \<or> us_Email w = [] \<or> gm_get (byEmail s) (us_Email w) = None) \<and>
     users s2 = users s \<and> byID s2 = byID s \<and> index_ok name_key (users s) (byName s2) \<and>
     (byEmail s2 = byEmail s \<or> byEmail s2 = gm_del (us_Email (users s ! b)) (byEmail s)))"

definition id_failed :: "string + string \<Rightarrow> User \<Rightarrow> bool" where
  "id_failed v7 u \<longleftrightarrow> TrimSpace (us_ProxyUUID u) = [] \<and> (case v7 of Inl _ \<Rightarrow> True | Inr _ \<Rightarrow> False)"

lemma UpdateUser_shape:
  assumes "user_inv s"
  shows "(\<exists>w s2. replaced_user (us_ID u) w s s2 \<and> fst (UpdateUser now v7 u s) = store_user w s2) \<or>
    user_inv (fst (UpdateUser now v7 u s)) \<and> users (fst (UpdateUser now v7 u s)) = users s \<and>
      byID (fst (UpdateUser now v7 u s)) = byID s \<and>
      (byEmail (fst (UpdateUser now v7 u s)) = byEmail s \<or> id_failed v7 u)"
proof -
  let ?Q = "\<lambda>s'. (\<exists>w s2. replaced_user (us_ID u) w s s2 \<and> s' = store_user w s2) \<or>
    user_inv s' \<and> users s' = users s \<and> byID s' = byID s \<and> (byEmail s' = byEmail s \<or> id_failed v7 u)"
  have "post (\<lambda>(s', r). ?Q s') (UpdateUser now v7 u s)"
    unfolding UpdateUser_def
  proof (intro branches)
    fix existing normalizedName loweredEmail oldNameKey newNameKey s1 oldEmailKey s2
    assume ex: "user_of s (byID s) (us_ID u) = Some existing"
      and n: "normalizedName = TrimSpace (us_Name u)" "newNameKey = ToLower normalizedName"
      and e: "loweredEmail = ToLower (TrimSpace (us_Email u))" "oldEmailKey = ToLower (us_Email existing)"
      and s1: "s1 = (if oldNameKey \<noteq> newNameKey then s\<lparr>byName := gm_del oldNameKey (byName s)\<rparr> else s)"
      and free: "\<not> (oldEmailKey \<noteq> loweredEmail \<and> loweredEmail \<noteq> [] \<and> gm_has (byEmail s1) loweredEmail)"
      and s2: "s2 = (if oldEmailKey \<noteq> loweredEmail \<and> oldEmailKey \<noteq> []
        then s1\<lparr>byEmail := gm_del oldEmailKey (byEmail s1)\<rparr> else s1)"
    obtain b where b: "gm_get (byID s) (us_ID u) = Some b" "existing = users s ! b"
      using ex by (auto simp: user_of_def split: option.splits)
    note at = user_inv_at [OF assms b(1), folded b(2)]
    have old: "oldEmailKey = us_Email existing"
      using at(3) e(2) by (simp add: user_normal_def)
    show "post (\<lambda>(s', r). ?Q s') (s2, Inl (ErrText e))"
      if "(if TrimSpace (us_ProxyUUID u) = [] then v7 else Inr (TrimSpace (us_ProxyUUID u))) = Inl e" for e
      using that assms by (auto simp: post_def s1 s2 id_failed_def user_inv_forget split: if_splits)
    fix proxy updated a
    assume up: "updated = updated_user now existing u proxy" and a: "a = length (users s2)"
    have keys: "us_ID updated = us_ID u" "us_Email updated = loweredEmail" "name_key updated = newNameKey"
      "user_normal updated"
      using at(2) by (simp_all add: up n e user_normal_def)
    have "replaced_user (us_ID u) updated s s2"
      using b keys free old user_invD(3) [OF assms] by (auto simp: replaced_user_def s1 s2 split: if_splits)
    then show "post (\<lambda>(s', r). ?Q s')
      (s2\<lparr>users := users s2 @ [updated], byID := gm_put (us_ID u) a (byID s2),
         byName := gm_put newNameKey a (byName s2),
         byEmail := (if loweredEmail \<noteq> [] then gm_put loweredEmail a (byEmail s2) else byEmail s2)\<rparr>,
       Inr (assignUser updated))"
      using keys unfolding post_def a by (auto simp: store_user_def intro!: exI [of _ updated] exI [of _ s2])
  qed (use assms in \<open>simp_all add: post_def user_inv_forget split: if_splits\<close>)
  then show ?thesis by (cases "UpdateUser now v7 u s") (simp add: post_def)
qed

lemma UpdateUser_inv:
  assumes "user_inv s" shows "user_inv (fst (UpdateUser now v7 u s))"
proof -
  have "user_inv (store_user w s2)" if "replaced_user i w s s2" for i w s2
    using that user_invD [OF assms] by (intro user_inv_store) (auto simp: replaced_user_def)
  then show ?thesis using UpdateUser_shape [OF assms, of u now v7] by auto
qed

lemma UpdateUser_email_free:
  assumes "user_inv s" "email_found s" "gm_get (byID s) i = Some b" "us_Email (users s ! b) = old"
    and new: "old = new \<or> new = [] \<or> gm_get (byEmail s) new = None"
    and k: "gm_get (byID s) k = Some a" "k \<noteq> i" "us_Email (users s ! a) \<noteq> []"
  shows "us_Email (users s ! a) \<noteq> new \<and> us_Email (users s ! a) \<noteq> old \<and>
    gm_get (byEmail s) (us_Email (users s ! a)) = Some a"
proof -
  have found: "gm_get (byEmail s) (us_Email (users s ! a)) = Some a"
    using email_foundD [OF assms(2)] k by simp
  have "us_Email (users s ! a) \<noteq> old"
  proof
    assume eq: "us_Email (users s ! a) = old"
    then have "gm_get (byEmail s) old = Some b"
      using email_foundD [OF assms(2,3)] assms(4) k(3) by simp
    then have "a = b" using found eq by simp
    then show False
      using user_inv_at(2) [OF assms(1) k(1)] user_inv_at(2) [OF assms(1,3)] k(2) by simp
  qed
  then show ?thesis using found new k(3) by auto
qed

lemma UpdateUser_found:
  assumes "user_inv s" "email_found s" "\<not> id_failed v7 u"
  shows "email_found (fst (UpdateUser now v7 u s))"
proof -
  have "email_found (store_user w s2)" if r: "replaced_user i w s s2" for i w s2
  proof -
    obtain b where b: "gm_get (byID s) i = Some b" "us_ID w = i"
      "us_Email (users s ! b) = us_Email w \<or> us_Email w = [] \<or> gm_get (byEmail s) (us_Email w) = None"
      "users s2 = users s" "byID s2 = byID s"
      "byEmail s2 = byEmail s \<or> byEmail s2 = gm_del (us_Email (users s ! b)) (byEmail s)"
      using r unfolding replaced_user_def by blast
    have "us_Email (users s2 ! a) \<noteq> us_Email w \<and> gm_get (byEmail s2) (us_Email (users s2 ! a)) = Some a"
      if "gm_get (byID s2) k = Some a" "k \<noteq> us_ID w" "us_Email (users s2 ! a) \<noteq> []" for k a
      using UpdateUser_email_free [OF assms(1,2) b(1) refl b(3), of k a] that b(2,4-6) by auto
    then show ?thesis using user_invD(1) [OF assms(1)] b(4,5) by (intro email_found_store) simp_all
  qed
  moreover have "email_found s'" if "users s' = users s" "byID s' = byID s" "byEmail s' = byEmail s" for s'
    using that assms(2) by (simp add: email_found_def)
  ultimately show ?thesis using UpdateUser_shape [OF assms(1), of u now v7] assms(3) by auto
qed

lemma DeleteUser_inv:
  assumes "user_inv s" shows "user_inv (fst (DeleteUser tr fresh now i e req s))"
proof -
  have "post (\<lambda>(s', r). user_inv s') (DeleteUser tr fresh now i e req s)"
    unfolding DeleteUser_def
  proof (intro branches)
    fix requestID a user and audit :: AuditLog and s1 :: "'a user_store_scheme"
    assume a: "gm_get (byID s) i = Some a" "user = users s ! a"
      and s1: "s1 = put_user a (user\<lparr>us_Active := False, us_ArchivedAt := Some now, us_UpdatedAt := now\<rparr>) s"
    have "user_inv s1"
      unfolding s1 by (rule user_inv_put_user [OF assms]) (use user_inv_at(3) [OF assms a(1)] a(2) in \<open>simp_all add: user_normal_def\<close>)
    then show "post (\<lambda>(s', r). user_inv s') (s1\<lparr>auditLogs := auditLogs s1 @ [cloneAuditLog audit]\<rparr>, Inr audit)"
      by (simp add: post_def)
  qed (use assms in \<open>simp_all add: post_def\<close>)
  then show ?thesis by (simp add: post_def split: prod.splits)
qed

lemma SetUserActiveWithAudit_inv:
  assumes "user_inv s" shows "user_inv (fst (SetUserActiveWithAudit c fresh now i active actor s))"
proof -
  have "post (\<lambda>(s', r). user_inv s') (SetUserActiveWithAudit c fresh now i active actor s)"
    unfolding SetUserActiveWithAudit_def
  proof (intro branches)
    fix a user and entry :: AuditLog and s1 :: "'a user_store_scheme"
    assume a: "gm_get (byID s) i = Some a" "user = users s ! a"
      and s1: "s1 = put_user a (user\<lparr>us_Active := active, us_UpdatedAt := al_CreatedAt entry\<rparr>) s"
    have "user_inv s1"
      unfolding s1 by (rule user_inv_put_user [OF assms]) (use user_inv_at(3) [OF assms a(1)] a(2) in \<open>simp_all add: user_normal_def\<close>)
    then show "post (\<lambda>(s', r). user_inv s') (s1\<lparr>auditLogs := auditLogs s1 @ [entry]\<rparr>, Inr ())"
      by (simp add: post_def)
  qed (use assms in \<open>simp_all add: post_def\<close>)
  then show ?thesis by (simp add: post_def split: prod.splits)
qed

text \<open>The other operations do not touch users or indexes.\<close>

lemma InsertAuditLog_inv: "user_inv s \<Longrightarrow> user_inv (fst (InsertAuditLog fresh now e s))"
  by (simp add: InsertAuditLog_def Let_def split: option.split)

lemma UpsertSubscription_inv: "user_inv s \<Longrightarrow> user_inv (fst (UpsertSubscription fresh now sub s))"
  by (simp add: UpsertSubscription_def Let_def split: option.split)

lemma CancelSubscription_inv: "user_inv s \<Longrightarrow> user_inv (fst (CancelSubscription now u ext t s))"
  by (simp add: CancelSubscription_def Let_def split: option.split)

lemma CreateIdentity_inv: "user_inv s \<Longrightarrow> user_inv (fst (CreateIdentity fresh now i s))"
  by (simp add: CreateIdentity_def Let_def)

lemma ConsumeOAuthExchangeCode_inv: "user_inv s \<Longrightarrow> user_inv (fst (ConsumeOAuthExchangeCode now c s))"
  by (simp add: ConsumeOAuthExchangeCode_def Let_def split: option.split)

lemmas record_defs = AddToBlacklist_def RemoveFromBlacklist_def UpsertAgent_def DeleteAgent_def
  DeleteStaleAgents_def CreateSession_login_def DeleteSession_def CreateOAuthExchangeCode_def

lemmas user_op_inv = CreateUser_inv UpdateUser_inv DeleteUser_inv SetUserActiveWithAudit_inv
  InsertAuditLog_inv UpsertSubscription_inv CancelSubscription_inv CreateIdentity_inv
  ConsumeOAuthExchangeCode_inv

text \<open>The account operations leave the other parts of the store alone.\<close>

lemma user_exec_more [simp]: "user_store.more (user_exec opn s) = user_store.more s"
  by (cases opn) (simp_all add: CreateUser_def UpdateUser_def InsertAuditLog_def DeleteUser_def
      SetUserActiveWithAudit_def UpsertSubscription_def CancelSubscription_def CreateIdentity_def
      ConsumeOAuthExchangeCode_def record_defs Let_def split: sum.split option.split)

lemma user_inv_step: "user_inv s \<Longrightarrow> user_inv (user_exec opn s)"
  by (cases opn) (simp_all add: user_op_inv record_defs Let_def)

interpretation usr: invariant user_exec "newUserStore allow" user_inv
  by unfold_locales (rule user_inv_init, rule user_inv_step)

section \<open>Addresses are found\<close>

text \<open>
  The address of every account is in the index, as long as no update fails because
  \<open>uuid.NewV7\<close> returns an error.
\<close>

definition ids_generated :: "user_op \<Rightarrow> bool" where
  "ids_generated opn = (case opn of OpUpdateUser _ v7 u \<Rightarrow> \<not> id_failed v7 u | _ \<Rightarrow> True)"

lemma email_found_cong:
  "users s' = users s \<Longrightarrow> byID s' = byID s \<Longrightarrow> byEmail s' = byEmail s \<Longrightarrow> email_found s' = email_found s"
  by (simp add: email_found_def)

lemma email_found_fields [simp]:
  "email_found (s\<lparr>auditLogs := v1\<rparr>) = email_found s"
  "email_found (s\<lparr>subscriptions := v2\<rparr>) = email_found s"
  "email_found (s\<lparr>identities := v3\<rparr>) = email_found s"
  "email_found (s\<lparr>blacklistedEmails := v4\<rparr>) = email_found s"
  "email_found (s\<lparr>agents := v5\<rparr>) = email_found s"
  "email_found (s\<lparr>loginSessions := v6\<rparr>) = email_found s"
  "email_found (s\<lparr>oauthExchangeCodes := v7\<rparr>) = email_found s"
  by (simp_all add: email_found_def)

lemma DeleteUser_found:
  assumes "email_found s" shows "email_found (fst (DeleteUser tr fresh now i e req s))"
proof (rule post_fst)
  show "post (\<lambda>(s', r). email_found s') (DeleteUser tr fresh now i e req s)"
    unfolding DeleteUser_def by (intro branches) (use assms in \<open>simp_all add: post_def email_found_put_user\<close>)
qed

lemma SetUserActiveWithAudit_found:
  assumes "email_found s" shows "email_found (fst (SetUserActiveWithAudit c fresh now i active actor s))"
proof (rule post_fst)
  show "post (\<lambda>(s', r). email_found s') (SetUserActiveWithAudit c fresh now i active actor s)"
    unfolding SetUserActiveWithAudit_def by (intro branches) (use assms in \<open>simp_all add: post_def email_found_put_user\<close>)
qed

lemma record_found:
  assumes "email_found s"
  shows "email_found (fst (InsertAuditLog fresh now e s))" "email_found (fst (UpsertSubscription fresh now sub s))"
    "email_found (fst (CancelSubscription now u ext t s))" "email_found (fst (CreateIdentity fresh now i s))"
    "email_found (fst (ConsumeOAuthExchangeCode now c s))"
  using assms by (simp_all add: InsertAuditLog_def UpsertSubscription_def CancelSubscription_def CreateIdentity_def
      ConsumeOAuthExchangeCode_def Let_def split: option.split)

lemma email_found_step:
  "user_inv s \<Longrightarrow> email_found s \<Longrightarrow> ids_generated opn \<Longrightarrow> email_found (user_exec opn s)"
  by (cases opn) (simp_all add: ids_generated_def CreateUser_found UpdateUser_found DeleteUser_found
      SetUserActiveWithAudit_found record_found record_defs Let_def)

interpretation usr_found: guarded_invariant user_exec "newUserStore allow" "\<lambda>s. user_inv s \<and> email_found s" ids_generated
  by unfold_locales
    (simp_all add: user_inv_init user_inv_step email_found_step, simp add: email_found_def newUserStore_def)

section \<open>The audit log only grows\<close>

definition audit_le :: "'z user_store_scheme \<Rightarrow> 'z user_store_scheme \<Rightarrow> bool" where
  "audit_le s s' \<longleftrightarrow> (\<exists>new. auditLogs s' = auditLogs s @ new)"

lemma audit_le_same: "auditLogs s' = auditLogs s \<Longrightarrow> audit_le s s'"
  by (simp add: audit_le_def)

lemma audit_le_snoc: "auditLogs s' = auditLogs s @ [e] \<Longrightarrow> audit_le s s'"
  by (auto simp: audit_le_def)

lemma CreateUser_audit: "auditLogs (fst (CreateUser fresh now v7 u s)) = auditLogs s"
  by (simp add: CreateUser_def Let_def split: sum.split)

lemma UpdateUser_audit: "auditLogs (fst (UpdateUser now v7 u s)) = auditLogs s"
  by (simp add: UpdateUser_def Let_def split: sum.split option.split)

lemma InsertAuditLog_audit: "audit_le s (fst (InsertAuditLog fresh now e s))"
  by (auto simp: InsertAuditLog_def Let_def audit_le_def split: option.split)

lemma DeleteUser_audit: "audit_le s (fst (DeleteUser tr fresh now i e req s))"
proof -
  have "post (\<lambda>(s', r). audit_le s s') (DeleteUser tr fresh now i e req s)"
    unfolding DeleteUser_def by (intro branches) (auto simp: post_def audit_le_def)
  then show ?thesis by (simp add: post_def split: prod.splits)
qed

lemma SetUserActiveWithAudit_audit: "audit_le s (fst (SetUserActiveWithAudit c fresh now i active actor s))"
proof -
  have "post (\<lambda>(s', r). audit_le s s') (SetUserActiveWithAudit c fresh now i active actor s)"
    unfolding SetUserActiveWithAudit_def by (intro branches) (auto simp: post_def audit_le_def)
  then show ?thesis by (simp add: post_def split: prod.splits)
qed

lemma record_audit:
  "auditLogs (fst (UpsertSubscription fresh now sub s)) = auditLogs s"
  "auditLogs (fst (CancelSubscription now u ext t s)) = auditLogs s"
  "auditLogs (fst (CreateIdentity fresh now i s)) = auditLogs s"
  "auditLogs (fst (ConsumeOAuthExchangeCode now c s)) = auditLogs s"
  by (simp_all add: UpsertSubscription_def CancelSubscription_def CreateIdentity_def
      ConsumeOAuthExchangeCode_def Let_def split: option.split)

lemma audit_le_step: "audit_le s (user_exec opn s)"
  by (cases opn) (simp_all add: CreateUser_audit UpdateUser_audit InsertAuditLog_audit DeleteUser_audit
      SetUserActiveWithAudit_audit record_audit record_defs Let_def audit_le_same)

interpretation usr_mono: monotone_store user_exec "newUserStore allow" user_inv audit_le
  by unfold_locales (auto simp: audit_le_def intro: audit_le_step [unfolded audit_le_def])

text \<open>The account store after any sequence of operations, successful or not.\<close>

definition after_users :: "bool \<Rightarrow> user_op list \<Rightarrow> user_store" where
  "after_users allow ops = exec_all user_exec ops (newUserStore allow)"

lemma after_users_inv [simp]: "user_inv (after_users allow ops)"
  unfolding after_users_def by (rule usr.exec_all_inv [OF user_inv_init])

lemma after_users_found: "list_all ids_generated ops \<Longrightarrow> email_found (after_users allow ops)"
  unfolding after_users_def using usr_found.guarded_run [OF usr_found.guarded_init] by blast

end
