(* ===== verification/Finance_Invariant.thy ===== *)
theory Finance_Invariant
  imports Finance_Amounts User_Invariant
begin

text \<open>
  The invariant of the ledger: ids and idempotency keys agree, refunds and refund operations
  refer to existing payments, and for every payment the recorded refunds and the amounts
  held by operations that may still refund never exceed the payment. It holds for runs in
  which payments stay below \<open>2 ^ 53\<close> minor units and requests are unambiguous.
\<close>

section \<open>Committed amounts\<close>

definition held :: "(string, string) gomap \<Rightarrow> string \<Rightarrow> FinanceOperation \<Rightarrow> int" where
  "held refundKeys p opn =
     (if financeOperationReservesRefund opn \<and> fo_TargetID opn = p \<and> gm_str refundKeys (fo_IdempotencyKey opn) = []
      then (case financeRefundRequest opn of None \<Rightarrow> 0 | Some (amount, _) \<Rightarrow> amount) else 0)"

definition refunded_of :: "string \<Rightarrow> FinanceRefund \<Rightarrow> int" where
  "refunded_of p r = (if fr_PaymentID r = p then fr_AmountMinor r else 0)"

definition refunded :: "'z finance_store_scheme \<Rightarrow> string \<Rightarrow> int" where
  "refunded s p = sum_list (map (refunded_of p) (gm_vals (financeRefunds s)))"

definition held_total :: "'z finance_store_scheme \<Rightarrow> string \<Rightarrow> int" where
  "held_total s p = sum_list (map (held (financeRefundKeys s) p) (gm_vals (financeOperations s)))"

definition committed :: "'z finance_store_scheme \<Rightarrow> string \<Rightarrow> int" where
  "committed s p = refunded s p + held_total s p"

lemma reserved_held: "reserved_amount rk key p opn = (if fo_IdempotencyKey opn = key then 0 else held rk p opn)"
  by (simp add: reserved_amount_def held_def)

lemma held_put: "i \<noteq> [] \<Longrightarrow> held (gm_put key i rk) p opn = reserved_amount rk key p opn"
  by (simp add: reserved_amount_def held_def)

lemma refund_request_pos: "refund_request raw = Some (x, c) \<Longrightarrow> 0 < x"
  by (auto elim: refund_request_amount)

lemma held_nonneg [simp]: "0 \<le> held rk p opn"
  by (auto simp: held_def financeRefundRequest_def split: option.split dest: refund_request_pos)

lemma reserved_le_held: "reserved_amount rk key p opn \<le> held rk p opn"
  by (simp add: reserved_held)

lemma reserved_nonneg [simp]: "0 \<le> reserved_amount rk key p opn"
  by (simp add: reserved_held)

lemma sum_list_0_all: "(\<And>x. x \<in> set xs \<Longrightarrow> f x = 0) \<Longrightarrow> sum_list (map f xs) = 0" for f :: "'a \<Rightarrow> int"
  by (induction xs) auto

lemma total64_exact:
  assumes "\<forall>x \<in> set xs. 0 \<le> x" "\<forall>y \<in> set ys. 0 \<le> y" "sum_list xs + sum_list ys < 2 ^ 63"
  shows "total64 xs ys = sum_list xs + sum_list ys"
  using sum64_exact [of "xs @ ys" "\<lambda>x. x"] assms by (auto simp: total64_def)

section \<open>The invariant\<close>

definition payments_ok :: "'z finance_store_scheme \<Rightarrow> bool" where
  "payments_ok s \<longleftrightarrow> (\<forall>k p. gm_get (financePayments s) k = Some p \<longrightarrow>
     fp_ID p = k \<and> 0 < fp_AmountMinor p \<and> fp_AmountMinor p < 2 ^ 53)"

definition refunds_ok :: "'z finance_store_scheme \<Rightarrow> bool" where
  "refunds_ok s \<longleftrightarrow> gm_wf (financeRefunds s) \<and>
     (\<forall>k r. gm_get (financeRefunds s) k = Some r \<longrightarrow>
        fr_ID r = k \<and> k \<noteq> [] \<and> 0 < fr_AmountMinor r \<and> gm_has (financePayments s) (fr_PaymentID r)) \<and>
     (\<forall>key k. gm_get (financeRefundKeys s) key = Some k \<longrightarrow> k \<noteq> [])"

definition operation_ok :: "(string, FinancePayment) gomap \<Rightarrow> FinanceOperation \<Rightarrow> bool" where
  "operation_ok payments opn \<longleftrightarrow>
     (fo_OperationType opn = ''refund'' \<longrightarrow> fo_TargetType opn = ''payment'' \<and> gm_has payments (fo_TargetID opn) \<and>
        financeRefundRequest opn \<noteq> None \<and> unambiguous (fo_Request opn))"

definition operations_ok :: "'z finance_store_scheme \<Rightarrow> bool" where
  "operations_ok s \<longleftrightarrow> gm_wf (financeOperations s) \<and>
     (\<forall>k opn. gm_get (financeOperations s) k = Some opn \<longrightarrow>
        fo_ID opn = k \<and> gm_get (financeOperationKeys s) (fo_IdempotencyKey opn) = Some k \<and>
        operation_ok (financePayments s) opn) \<and>
     (\<forall>key k. gm_get (financeOperationKeys s) key = Some k \<longrightarrow> k \<noteq> [] \<and>
        (\<exists>opn. gm_get (financeOperations s) k = Some opn \<and> fo_IdempotencyKey opn = key))"

definition amounts_ok :: "'z finance_store_scheme \<Rightarrow> bool" where
  "amounts_ok s \<longleftrightarrow> (\<forall>k p. gm_get (financePayments s) k = Some p \<longrightarrow> committed s k \<le> fp_AmountMinor p)"

definition finance_inv :: "'z finance_store_scheme \<Rightarrow> bool" where
  "finance_inv s \<longleftrightarrow> payments_ok s \<and> refunds_ok s \<and> operations_ok s \<and> amounts_ok s"

lemma finance_invD:
  assumes "finance_inv s"
  shows "payments_ok s" "refunds_ok s" "operations_ok s" "amounts_ok s"
  using assms by (simp_all add: finance_inv_def)

lemma payments_okD:
  "payments_ok s \<Longrightarrow> gm_get (financePayments s) k = Some p \<Longrightarrow> fp_ID p = k \<and> 0 < fp_AmountMinor p \<and> fp_AmountMinor p < 2 ^ 53"
  by (simp add: payments_ok_def)

lemma refunds_okD:
  assumes "refunds_ok s"
  shows "gm_wf (financeRefunds s)"
    "gm_get (financeRefunds s) k = Some r \<Longrightarrow>
       fr_ID r = k \<and> k \<noteq> [] \<and> 0 < fr_AmountMinor r \<and> gm_has (financePayments s) (fr_PaymentID r)"
    "gm_get (financeRefundKeys s) key = Some k \<Longrightarrow> k \<noteq> []"
  using assms unfolding refunds_ok_def by blast+

lemma operations_okD:
  assumes "operations_ok s"
  shows "gm_wf (financeOperations s)"
    "gm_get (financeOperations s) k = Some opn \<Longrightarrow>
       fo_ID opn = k \<and> gm_get (financeOperationKeys s) (fo_IdempotencyKey opn) = Some k \<and>
       operation_ok (financePayments s) opn"
    "gm_get (financeOperationKeys s) key = Some k \<Longrightarrow> k \<noteq> []"
    "gm_get (financeOperationKeys s) key = Some k \<Longrightarrow>
       \<exists>opn. gm_get (financeOperations s) k = Some opn \<and> fo_IdempotencyKey opn = key"
  using assms unfolding operations_ok_def by blast+

lemma refunds_okI:
  assumes "gm_wf (financeRefunds s)"
    "\<And>k r. gm_get (financeRefunds s) k = Some r \<Longrightarrow>
       fr_ID r = k \<and> k \<noteq> [] \<and> 0 < fr_AmountMinor r \<and> gm_has (financePayments s) (fr_PaymentID r)"
    "\<And>key k. gm_get (financeRefundKeys s) key = Some k \<Longrightarrow> k \<noteq> []"
  shows "refunds_ok s"
  unfolding refunds_ok_def using assms by blast

lemma operations_okI:
  assumes "gm_wf (financeOperations s)"
    "\<And>k opn. gm_get (financeOperations s) k = Some opn \<Longrightarrow>
       fo_ID opn = k \<and> gm_get (financeOperationKeys s) (fo_IdempotencyKey opn) = Some k \<and>
       operation_ok (financePayments s) opn"
    "\<And>key k. gm_get (financeOperationKeys s) key = Some k \<Longrightarrow>
       k \<noteq> [] \<and> (\<exists>opn. gm_get (financeOperations s) k = Some opn \<and> fo_IdempotencyKey opn = key)"
  shows "operations_ok s"
  unfolding operations_ok_def using assms by blast

lemma operation_ok_mono:
  "operation_ok ps opn \<Longrightarrow> (\<And>k. gm_has ps k \<Longrightarrow> gm_has ps' k) \<Longrightarrow> operation_ok ps' opn"
  unfolding operation_ok_def by blast

lemma ledger_cong:
  "financePayments s' = financePayments s \<Longrightarrow> payments_ok s' = payments_ok s"
  "financePayments s' = financePayments s \<Longrightarrow> financeOperations s' = financeOperations s \<Longrightarrow>
   financeOperationKeys s' = financeOperationKeys s \<Longrightarrow> operations_ok s' = operations_ok s"
  by (simp_all only: payments_ok_def operations_ok_def)

lemma amounts_okD:
  "amounts_ok s \<Longrightarrow> gm_get (financePayments s) k = Some p \<Longrightarrow> committed s k \<le> fp_AmountMinor p"
  by (simp add: amounts_ok_def)

lemma refund_value:
  assumes "refunds_ok s" "r \<in> set (gm_vals (financeRefunds s))"
  shows "fr_ID r \<noteq> [] \<and> 0 < fr_AmountMinor r \<and> gm_has (financePayments s) (fr_PaymentID r)"
  using assms gm_vals_get [OF refunds_okD(1) [OF assms(1)]] refunds_okD(2) [OF assms(1)] by metis

lemma operation_value:
  "operations_ok s \<Longrightarrow> opn \<in> set (gm_vals (financeOperations s)) \<Longrightarrow> \<exists>k. gm_get (financeOperations s) k = Some opn"
  by (rule gm_vals_get [THEN iffD1]) (rule operations_okD(1))

lemma refunded_nonneg: "refunds_ok s \<Longrightarrow> 0 \<le> refunded s p"
  unfolding refunded_def by (intro sum_list_nonneg, clarsimp simp: refunded_of_def)
    (force dest: refund_value)

lemma held_total_nonneg: "0 \<le> held_total s p"
  unfolding held_total_def by (rule sum_list_nonneg) auto

lemma reserved_sum_le:
  "sum_list (map (reserved_amount (financeRefundKeys s) key p) (gm_vals (financeOperations s))) \<le> held_total s p"
  unfolding held_total_def by (rule sum_list_mono) (rule reserved_le_held)

text \<open>Both loops that check a refund compute the exact total.\<close>

lemma loop_total:
  assumes "refunds_ok s" "committed s p < 2 ^ 63"
    and "\<And>r. r \<in> set (gm_vals (financeRefunds s)) \<Longrightarrow> 0 \<le> f r \<and> f r \<le> refunded_of p r"
  shows "total64 (map f (gm_vals (financeRefunds s)))
      (map (reserved_amount (financeRefundKeys s) key p) (gm_vals (financeOperations s))) =
    sum_list (map f (gm_vals (financeRefunds s))) +
    sum_list (map (reserved_amount (financeRefundKeys s) key p) (gm_vals (financeOperations s)))"
proof (rule total64_exact)
  have "sum_list (map f (gm_vals (financeRefunds s))) \<le> refunded s p"
    unfolding refunded_def by (rule sum_list_mono) (use assms(3) in blast)
  then show "sum_list (map f (gm_vals (financeRefunds s))) +
    sum_list (map (reserved_amount (financeRefundKeys s) key p) (gm_vals (financeOperations s))) < 2 ^ 63"
    using reserved_sum_le [of s key p] assms(2) by (simp add: committed_def)
qed (use assms(3) in auto)

text \<open>The amounts held by all operations but the one under a key.\<close>

lemma reserved_sum:
  assumes "operations_ok s" "gm_get (financeOperations s) k = Some opn"
  shows "sum_list (map (reserved_amount rk (fo_IdempotencyKey opn) p) (gm_vals (financeOperations s))) =
    sum_list (map (held rk p) (gm_vals (financeOperations s))) - held rk p opn"
proof -
  note ok = operations_okD [OF assms(1)]
  have "sum_list (map (\<lambda>x. held rk p x - reserved_amount rk (fo_IdempotencyKey opn) p x) (gm_vals (financeOperations s))) =
      held rk p opn"
  proof -
    obtain l r where m: "financeOperations s = l @ (k, opn) # r" and k: "k \<notin> fst ` set l" "k \<notin> fst ` set r"
      by (rule gm_put_split [OF assms(2) ok(1)])
    have "held rk p x - reserved_amount rk (fo_IdempotencyKey opn) p x = 0" if "(k', x) \<in> set (l @ r)" for k' x
    proof -
      have "(k', x) \<in> set (financeOperations s)"
        using that m by auto
      then have "gm_get (financeOperations s) k' = Some x"
        using ok(1) by simp
      moreover have "k' \<noteq> k"
        using that k by (auto simp: image_iff)
      ultimately have "fo_IdempotencyKey x \<noteq> fo_IdempotencyKey opn"
        using ok(2) [of k' x] ok(2) [OF assms(2)] by auto
      then show ?thesis by (simp add: reserved_held)
    qed
    then have "sum_list (map (\<lambda>x. held rk p x - reserved_amount rk (fo_IdempotencyKey opn) p x) (gm_vals l)) = 0"
      "sum_list (map (\<lambda>x. held rk p x - reserved_amount rk (fo_IdempotencyKey opn) p x) (gm_vals r)) = 0"
      by (intro sum_list_0_all; force)+
    then show ?thesis
      unfolding m by (simp add: reserved_held)
  qed
  then show ?thesis
    unfolding sum_list_subtractf by linarith
qed

lemma reserved_sum_absent:
  assumes "operations_ok s" "gm_get (financeOperationKeys s) key = None"
  shows "sum_list (map (reserved_amount rk key p) (gm_vals (financeOperations s))) =
    sum_list (map (held rk p) (gm_vals (financeOperations s)))"
proof -
  have "fo_IdempotencyKey x \<noteq> key" if "x \<in> set (gm_vals (financeOperations s))" for x
    using that gm_vals_get [OF operations_okD(1) [OF assms(1)]] operations_okD(2) [OF assms(1)] assms(2)
    by fastforce
  then show ?thesis
    by (intro arg_cong [of _ _ sum_list] map_cong) (simp_all add: reserved_held)
qed

section \<open>Payments and other operations\<close>

text \<open>An operation that changes neither payments, refunds nor operations keeps the invariant.\<close>

definition same_ledger :: "'z finance_store_scheme \<Rightarrow> 'z finance_store_scheme \<Rightarrow> bool" where
  "same_ledger s s' \<longleftrightarrow> financePayments s' = financePayments s \<and> financeRefunds s' = financeRefunds s \<and>
     financeRefundKeys s' = financeRefundKeys s \<and> financeOperations s' = financeOperations s \<and>
     financeOperationKeys s' = financeOperationKeys s"

lemmas finance_inv_defs = payments_ok_def refunds_ok_def operations_ok_def amounts_ok_def committed_def
  refunded_def held_total_def

lemma same_ledger_inv:
  assumes "same_ledger s s'" "finance_inv s" shows "finance_inv s'"
  using assms(2) assms(1) [unfolded same_ledger_def]
  unfolding finance_inv_def finance_inv_defs by presburger

lemma CreateFinanceInvoice_same: "same_ledger s (fst (CreateFinanceInvoice f n n' a s))"
proof -
  have "post (\<lambda>(s', r). same_ledger s s') (CreateFinanceInvoice f n n' a s)"
    unfolding CreateFinanceInvoice_def by (intro branches) (simp_all add: post_def same_ledger_def)
  then show ?thesis by (simp add: post_def split: prod.splits)
qed

lemma finance_fields_more:
  "user_store.more s = user_store.more s' \<Longrightarrow> same_ledger s s'" for s s' :: "'z finance_store_scheme"
  by (cases s; cases s') (simp add: same_ledger_def)

lemma user_exec_same: "same_ledger s (user_exec opn s)"
  by (rule finance_fields_more) simp

text \<open>Nothing is committed against a payment that does not exist.\<close>

lemma committed_absent:
  assumes "refunds_ok s" "operations_ok s" "gm_get (financePayments s) k = None"
  shows "committed s k = 0"
proof -
  have "refunded_of k r = 0" if "r \<in> set (gm_vals (financeRefunds s))" for r
    using refund_value [OF assms(1) that] assms(3) by (auto simp: refunded_of_def)
  moreover have "held (financeRefundKeys s) k opn = 0" if opn: "opn \<in> set (gm_vals (financeOperations s))" for opn
  proof -
    obtain i where "gm_get (financeOperations s) i = Some opn"
      using operation_value [OF assms(2) opn] ..
    from operations_okD(2) [OF assms(2) this] assms(3) show ?thesis
      by (auto simp: operation_ok_def held_def financeOperationReservesRefund_def)
  qed
  ultimately show ?thesis
    by (simp add: committed_def refunded_def held_total_def sum_list_0_all)
qed

lemma finance_inv_new_payment:
  assumes "finance_inv s" "gm_get (financePayments s) (fp_ID p) = None" "0 < fp_AmountMinor p" "fp_AmountMinor p < 2 ^ 53"
  shows "finance_inv (s\<lparr>financePayments := gm_put (fp_ID p) p (financePayments s), financePaymentKeys := ks\<rparr>)"
    (is "finance_inv ?s")
proof -
  note inv = finance_invD [OF assms(1)]
  have same: "committed ?s k = committed s k" for k
    by (simp add: committed_def refunded_def held_total_def)
  have "payments_ok ?s"
    using inv(1) assms(3,4) by (simp add: payments_ok_def)
  moreover have has: "gm_has (financePayments ?s) k" if "gm_has (financePayments s) k" for k
    using that by simp
  have "refunds_ok ?s"
  proof (rule refunds_okI)
    show "fr_ID r = k \<and> k \<noteq> [] \<and> 0 < fr_AmountMinor r \<and> gm_has (financePayments ?s) (fr_PaymentID r)"
      if "gm_get (financeRefunds ?s) k = Some r" for k r
      using refunds_okD(2) [OF inv(2), of k r] that has by simp
  qed (use refunds_okD(1,3) [OF inv(2)] in simp_all)
  moreover have "operations_ok ?s"
  proof (rule operations_okI)
    show "fo_ID opn = k \<and> gm_get (financeOperationKeys ?s) (fo_IdempotencyKey opn) = Some k \<and>
        operation_ok (financePayments ?s) opn"
      if "gm_get (financeOperations ?s) k = Some opn" for k opn
    proof -
      have "operation_ok (financePayments ?s) opn" if "operation_ok (financePayments s) opn"
        using that has by (rule operation_ok_mono)
      then show ?thesis
        using operations_okD(2) [OF inv(3), of k opn] that by simp
    qed
    show "k \<noteq> [] \<and> (\<exists>opn. gm_get (financeOperations ?s) k = Some opn \<and> fo_IdempotencyKey opn = key)"
      if "gm_get (financeOperationKeys ?s) key = Some k" for key k
      using operations_okD(3,4) [OF inv(3), of key k] that by (simp del: map_of_eq_Some_iff)
  qed (use operations_okD(1) [OF inv(3)] in simp)
  moreover have "amounts_ok ?s"
    using inv(4) committed_absent [OF inv(2,3) assms(2)] assms(3)
    by (simp add: amounts_ok_def same)
  ultimately show ?thesis by (simp add: finance_inv_def)
qed

lemma RecordFinancePayment_inv:
  assumes "finance_inv s" "\<And>p. a = Some p \<Longrightarrow> fp_AmountMinor p < 2 ^ 53"
  shows "finance_inv (fst (RecordFinancePayment f n n' a s))"
proof -
  have "post (\<lambda>(s', r). finance_inv s') (RecordFinancePayment f n n' a s)"
    unfolding RecordFinancePayment_def
  proof (intro branches)
    fix payment copy1 copy2 copy3
    assume a: "a = Some payment" "\<not> (TrimSpace (fp_IdempotencyKey payment) = [] \<or> fp_AmountMinor payment \<le> 0)"
      and c: "copy1 = normalized_payment f payment" "\<not> gm_has (financePayments s) (fp_ID copy1)"
      "copy2 = (if IsZero (fp_PaidAt copy1) then copy1\<lparr>fp_PaidAt := n\<rparr> else copy1)"
      "copy3 = copy2\<lparr>fp_CreatedAt := n'\<rparr>"
    have "fp_ID copy3 = fp_ID copy1" "fp_AmountMinor copy3 = fp_AmountMinor payment"
      by (simp_all add: c(1,3,4) normalized_payment_def)
    with finance_inv_new_payment [OF assms(1), of copy3] assms(2) [OF a(1)] a(2) c(2)
    show "post (\<lambda>(s', r). finance_inv s')
      (s\<lparr>financePayments := gm_put (fp_ID copy3) copy3 (financePayments s),
         financePaymentKeys := gm_put (fp_IdempotencyKey copy3) (fp_ID copy3) (financePaymentKeys s)\<rparr>, Inr (True, copy3))"
      by (simp add: post_def)
  qed (use assms(1) in \<open>simp_all add: post_def\<close>)
  then show ?thesis by (simp add: post_def split: prod.splits)
qed

section \<open>Changing one operation\<close>

lemma held_total_put:
  assumes "operations_ok s"
    and "(\<exists>old. gm_get (financeOperations s) k = Some old \<and> fo_IdempotencyKey old = fo_IdempotencyKey opn) \<or>
      (gm_get (financeOperations s) k = None \<and> gm_get (financeOperationKeys s) (fo_IdempotencyKey opn) = None)"
  shows "sum_list (map (held rk p) (gm_vals (gm_put k opn (financeOperations s)))) =
    sum_list (map (reserved_amount rk (fo_IdempotencyKey opn) p) (gm_vals (financeOperations s))) + held rk p opn"
  using assms(2)
proof (elim disjE exE conjE)
  fix old
  assume old: "gm_get (financeOperations s) k = Some old" "fo_IdempotencyKey old = fo_IdempotencyKey opn"
  show ?thesis
    using sum_put_old [OF old(1) operations_okD(1) [OF assms(1)], of "held rk p" opn]
      reserved_sum [OF assms(1) old(1), of rk p] old(2) by simp
next
  assume new: "gm_get (financeOperations s) k = None" "gm_get (financeOperationKeys s) (fo_IdempotencyKey opn) = None"
  show ?thesis
    using sum_put_new [OF new(1), of "held rk p" opn] reserved_sum_absent [OF assms(1) new(2), of rk p] by simp
qed

lemma operations_ok_put:
  assumes "operations_ok s" "fo_ID opn = k" "k \<noteq> []" "operation_ok (financePayments s) opn"
    and s': "financePayments s' = financePayments s" "financeOperations s' = gm_put k opn (financeOperations s)"
    and "(\<exists>old. gm_get (financeOperations s) k = Some old \<and> fo_IdempotencyKey old = fo_IdempotencyKey opn \<and>
        financeOperationKeys s' = financeOperationKeys s) \<or>
      (gm_get (financeOperations s) k = None \<and> gm_get (financeOperationKeys s) (fo_IdempotencyKey opn) = None \<and>
        financeOperationKeys s' = gm_put (fo_IdempotencyKey opn) k (financeOperationKeys s))"
  shows "operations_ok s'"
  using assms(7)
proof (elim disjE exE conjE)
  note ok = operations_okD [OF assms(1)]
  fix old
  assume old: "gm_get (financeOperations s) k = Some old" "fo_IdempotencyKey old = fo_IdempotencyKey opn"
    and keys: "financeOperationKeys s' = financeOperationKeys s"
  show ?thesis
  proof (rule operations_okI)
    show "fo_ID x = i \<and> gm_get (financeOperationKeys s') (fo_IdempotencyKey x) = Some i \<and> operation_ok (financePayments s') x"
      if "gm_get (financeOperations s') i = Some x" for i x
      using that ok(2) [of i x] ok(2) [OF old(1)] old(2) assms(2,4)
      by (cases "i = k") (simp_all add: s' keys)
    show "i \<noteq> [] \<and> (\<exists>x. gm_get (financeOperations s') i = Some x \<and> fo_IdempotencyKey x = key)"
      if "gm_get (financeOperationKeys s') key = Some i" for key i
      using that ok(3,4) [of key i] old by (cases "i = k") (auto simp: s' keys simp del: map_of_eq_Some_iff)
  qed (use ok(1) s' in simp)
next
  note ok = operations_okD [OF assms(1)]
  assume new: "gm_get (financeOperations s) k = None" "gm_get (financeOperationKeys s) (fo_IdempotencyKey opn) = None"
    and keys: "financeOperationKeys s' = gm_put (fo_IdempotencyKey opn) k (financeOperationKeys s)"
  show ?thesis
  proof (rule operations_okI)
    show "fo_ID x = i \<and> gm_get (financeOperationKeys s') (fo_IdempotencyKey x) = Some i \<and> operation_ok (financePayments s') x"
      if "gm_get (financeOperations s') i = Some x" for i x
      using that ok(2) [of i x] new(2) assms(2,4) by (cases "i = k") (auto simp: s' keys simp del: map_of_eq_Some_iff)
    show "i \<noteq> [] \<and> (\<exists>x. gm_get (financeOperations s') i = Some x \<and> fo_IdempotencyKey x = key)"
      if "gm_get (financeOperationKeys s') key = Some i" for key i
      using that ok(3,4) [of key i] new assms(3)
      by (cases "key = fo_IdempotencyKey opn") (auto simp: s' keys simp del: map_of_eq_Some_iff)
  qed (use ok(1) s' in simp)
qed

lemma finance_inv_put_operation:
  assumes "finance_inv s" "fo_ID opn = k" "k \<noteq> []" "operation_ok (financePayments s) opn"
    and s': "financePayments s' = financePayments s" "financeRefunds s' = financeRefunds s"
      "financeRefundKeys s' = financeRefundKeys s" "financeOperations s' = gm_put k opn (financeOperations s)"
    and keys: "(\<exists>old. gm_get (financeOperations s) k = Some old \<and> fo_IdempotencyKey old = fo_IdempotencyKey opn \<and>
        financeOperationKeys s' = financeOperationKeys s) \<or>
      (gm_get (financeOperations s) k = None \<and> gm_get (financeOperationKeys s) (fo_IdempotencyKey opn) = None \<and>
        financeOperationKeys s' = gm_put (fo_IdempotencyKey opn) k (financeOperationKeys s))"
    and bound: "\<And>i p. gm_get (financePayments s) i = Some p \<Longrightarrow>
      refunded s i + sum_list (map (reserved_amount (financeRefundKeys s) (fo_IdempotencyKey opn) i)
        (gm_vals (financeOperations s))) + held (financeRefundKeys s) i opn \<le> fp_AmountMinor p"
  shows "finance_inv s'"
proof -
  note inv = finance_invD [OF assms(1)]
  have "committed s' i = refunded s i + sum_list (map (reserved_amount (financeRefundKeys s) (fo_IdempotencyKey opn) i)
        (gm_vals (financeOperations s))) + held (financeRefundKeys s) i opn" for i
    using held_total_put [OF inv(3), of k opn "financeRefundKeys s" i] keys
    by (auto simp: committed_def refunded_def held_total_def s')
  then have "amounts_ok s'"
    using bound by (simp add: amounts_ok_def s')
  moreover have "payments_ok s'" "refunds_ok s'"
    using inv(1,2) by (simp_all add: payments_ok_def refunds_ok_def s')
  ultimately show ?thesis
    using operations_ok_put [OF inv(3) assms(2-4) s'(1,4) keys] by (simp add: finance_inv_def)
qed

text \<open>An existing operation may change as long as it does not hold more than before.\<close>

lemma finance_inv_update_operation:
  assumes "finance_inv s" "gm_get (financeOperations s) k = Some old"
    and same: "fo_ID opn = fo_ID old" "fo_IdempotencyKey opn = fo_IdempotencyKey old"
      "operation_ok (financePayments s) opn"
    and less: "\<And>i. held (financeRefundKeys s) i opn \<le> held (financeRefundKeys s) i old"
    and s': "financePayments s' = financePayments s" "financeRefunds s' = financeRefunds s"
      "financeRefundKeys s' = financeRefundKeys s" "financeOperations s' = gm_put k opn (financeOperations s)"
      "financeOperationKeys s' = financeOperationKeys s"
  shows "finance_inv s'"
proof (rule finance_inv_put_operation [OF assms(1) _ _ same(3) s'(1-4)])
  note inv = finance_invD [OF assms(1)]
  note ok = operations_okD [OF inv(3)]
  show "fo_ID opn = k" using ok(2) [OF assms(2)] same(1) by simp
  show "k \<noteq> []" using ok(2) [OF assms(2)] ok(3) by blast
  show "(\<exists>old. gm_get (financeOperations s) k = Some old \<and> fo_IdempotencyKey old = fo_IdempotencyKey opn \<and>
        financeOperationKeys s' = financeOperationKeys s) \<or>
      (gm_get (financeOperations s) k = None \<and> gm_get (financeOperationKeys s) (fo_IdempotencyKey opn) = None \<and>
        financeOperationKeys s' = gm_put (fo_IdempotencyKey opn) k (financeOperationKeys s))"
    using assms(2) same(2) s'(5) by simp
  show "refunded s i + sum_list (map (reserved_amount (financeRefundKeys s) (fo_IdempotencyKey opn) i)
        (gm_vals (financeOperations s))) + held (financeRefundKeys s) i opn \<le> fp_AmountMinor p"
    if "gm_get (financePayments s) i = Some p" for i p
    using amounts_okD [OF inv(4) that] reserved_sum [OF inv(3) assms(2), of "financeRefundKeys s" i] less [of i] same(2)
    by (simp add: committed_def held_total_def)
qed

end
