(* ===== verification/Finance_Steps.thy ===== *)
theory Finance_Steps
  imports Finance_Invariant
begin

text \<open>
  Every operation of the ledger keeps its invariant, under conditions on its arguments that
  \<open>Finance_Properties\<close> collects in \<open>finance_op_ok\<close>.
\<close>

section \<open>Finishing and checkpointing\<close>

lemma held_same:
  assumes "fo_OperationType opn = fo_OperationType old" "fo_TargetType opn = fo_TargetType old"
    "fo_TargetID opn = fo_TargetID old" "fo_IdempotencyKey opn = fo_IdempotencyKey old"
    "fo_Request opn = fo_Request old"
    and "fo_Status opn = fo_Status old \<or> fo_Status old = FinanceOperationInProgress"
  shows "held rk i opn \<le> held rk i old"
proof (cases "financeOperationReservesRefund opn")
  case True
  then have "financeOperationReservesRefund old"
    using assms by (auto simp: financeOperationReservesRefund_def)
  then show ?thesis using assms True by (simp add: held_def financeRefundRequest_def)
next
  case False
  then have "held rk i opn = 0" by (simp add: held_def)
  then show ?thesis by simp
qed

lemma operation_ok_same:
  "operation_ok ps old \<Longrightarrow> fo_OperationType opn = fo_OperationType old \<Longrightarrow> fo_TargetType opn = fo_TargetType old \<Longrightarrow>
   fo_TargetID opn = fo_TargetID old \<Longrightarrow> fo_Request opn = fo_Request old \<Longrightarrow> operation_ok ps opn"
  by (simp add: operation_ok_def financeRefundRequest_def)

lemma finance_inv_touch_operation:
  assumes "finance_inv s" "gm_get (financeOperations s) k = Some old"
    and "fo_ID opn = fo_ID old" "fo_IdempotencyKey opn = fo_IdempotencyKey old"
      "fo_OperationType opn = fo_OperationType old" "fo_TargetType opn = fo_TargetType old"
      "fo_TargetID opn = fo_TargetID old" "fo_Request opn = fo_Request old"
      "fo_Status opn = fo_Status old \<or> fo_Status old = FinanceOperationInProgress"
  shows "finance_inv (s\<lparr>financeOperations := gm_put k opn (financeOperations s), financeOperationEvents := evs\<rparr>)"
proof (rule finance_inv_update_operation [OF assms(1-4)])
  show "operation_ok (financePayments s) opn"
    using operations_okD(2) [OF finance_invD(3) [OF assms(1)] assms(2)] operation_ok_same assms(5-8) by blast
  show "held (financeRefundKeys s) i opn \<le> held (financeRefundKeys s) i old" for i
    by (rule held_same) (use assms in simp_all)
qed simp_all

lemma CheckpointFinanceOperation_inv:
  assumes "finance_inv s" shows "finance_inv (fst (CheckpointFinanceOperation g n i k r s))"
proof -
  have "post (\<lambda>(s', r). finance_inv s') (CheckpointFinanceOperation g n i k r s)"
    unfolding CheckpointFinanceOperation_def
    by (intro branches) (use assms in \<open>simp_all add: post_def finance_inv_touch_operation\<close>)
  then show ?thesis by (simp add: post_def split: prod.splits)
qed

lemma FinishFinanceOperation_inv:
  assumes "finance_inv s" shows "finance_inv (fst (FinishFinanceOperation g n i st p r e t k s))"
proof -
  have "post (\<lambda>(s', r). finance_inv s') (FinishFinanceOperation g n i st p r e t k s)"
    unfolding FinishFinanceOperation_def
    by (intro branches) (use assms in \<open>simp_all add: post_def finance_inv_touch_operation\<close>)
  then show ?thesis by (simp add: post_def split: prod.splits)
qed

section \<open>Recording a refund\<close>

lemma bind_refund_inv:
  assumes "finance_inv s" shows "finance_inv (bind_refund g copy s)"
proof (cases "gm_str (financeOperationKeys s) (fr_IdempotencyKey copy) = []")
  case True
  then show ?thesis using assms by (simp add: bind_refund_def)
next
  case False
  then obtain i where i: "gm_get (financeOperationKeys s) (fr_IdempotencyKey copy) = Some i"
    "gm_str (financeOperationKeys s) (fr_IdempotencyKey copy) = i"
    by (cases "gm_get (financeOperationKeys s) (fr_IdempotencyKey copy)") (simp_all add: gm_str_def)
  then obtain opn where "gm_get (financeOperations s) i = Some opn"
    using operations_okD(4) [OF finance_invD(3) [OF assms] i(1)] by blast
  then show ?thesis
    using False assms i(2) by (simp add: bind_refund_def Let_def finance_inv_touch_operation)
qed

lemma finance_inv_new_refund:
  assumes "finance_inv s" "gm_get (financeRefunds s) (fr_ID r) = None" "fr_ID r \<noteq> []" "0 < fr_AmountMinor r"
    and pay: "gm_get (financePayments s) (fr_PaymentID r) = Some p"
    and guard: "fr_AmountMinor r \<le> wrap64 (fp_AmountMinor p - refund_total r s)"
  shows "finance_inv (s\<lparr>financeRefunds := gm_put (fr_ID r) r (financeRefunds s),
    financeRefundKeys := gm_put (fr_IdempotencyKey r) (fr_ID r) (financeRefundKeys s)\<rparr>)" (is "finance_inv ?s")
proof -
  note inv = finance_invD [OF assms(1)]
  let ?res = "\<lambda>i. sum_list (map (reserved_amount (financeRefundKeys s) (fr_IdempotencyKey r) i) (gm_vals (financeOperations s)))"
  have res: "?res i \<le> held_total s i" for i by (rule reserved_sum_le)
  have res0: "0 \<le> ?res i" for i by (rule sum_list_nonneg) auto
  have bound: "committed s (fr_PaymentID r) \<le> fp_AmountMinor p" "fp_AmountMinor p < 2 ^ 53"
    using amounts_okD [OF inv(4) pay] payments_okD [OF inv(1) pay] by simp_all
  have "refund_total r s = refunded s (fr_PaymentID r) + ?res (fr_PaymentID r)"
    unfolding refund_total_def refunded_def refunded_of_def
    by (rule loop_total [OF inv(2)]) (use bound refund_value [OF inv(2)] in \<open>auto simp: refunded_of_def less_imp_le\<close>)
  moreover have "int64 (fp_AmountMinor p - (refunded s (fr_PaymentID r) + ?res (fr_PaymentID r)))"
    using bound res [of "fr_PaymentID r"] res0 [of "fr_PaymentID r"] refunded_nonneg [OF inv(2), of "fr_PaymentID r"]
    by (simp add: int64_def committed_def)
  ultimately have fits: "fr_AmountMinor r + refunded s (fr_PaymentID r) + ?res (fr_PaymentID r) \<le> fp_AmountMinor p"
    using guard by simp
  have com: "committed ?s i = refunded s i + refunded_of i r + ?res i" for i
    using sum_put_new [OF assms(2), of "refunded_of i" r]
    by (simp add: committed_def refunded_def held_total_def held_put [OF assms(3)] cong: map_cong)
  have "amounts_ok ?s"
    unfolding amounts_ok_def
  proof (intro allI impI)
    fix i q assume q: "gm_get (financePayments ?s) i = Some q"
    show "committed ?s i \<le> fp_AmountMinor q"
    proof (cases "i = fr_PaymentID r")
      case True
      then show ?thesis using q pay fits by (simp add: com refunded_of_def)
    next
      case False
      then have "committed ?s i = refunded s i + ?res i" by (simp add: com refunded_of_def)
      moreover have "refunded s i + held_total s i \<le> fp_AmountMinor q"
        using q amounts_okD [OF inv(4), of i q] by (simp add: committed_def)
      ultimately show ?thesis using res [of i] by linarith
    qed
  qed
  moreover have "refunds_ok ?s"
  proof (rule refunds_okI)
    show "fr_ID x = k \<and> k \<noteq> [] \<and> 0 < fr_AmountMinor x \<and> gm_has (financePayments ?s) (fr_PaymentID x)"
      if "gm_get (financeRefunds ?s) k = Some x" for k x
      using that refunds_okD(2) [OF inv(2), of k x] assms(3,4) pay by (cases "k = fr_ID r") simp_all
    show "k \<noteq> []" if "gm_get (financeRefundKeys ?s) key = Some k" for key k
      using that refunds_okD(3) [OF inv(2), of key k] assms(3) by (cases "key = fr_IdempotencyKey r") simp_all
  qed (use refunds_okD(1) [OF inv(2)] in simp)
  moreover have "payments_ok ?s" "operations_ok ?s"
    using inv(1,3) by (simp_all add: ledger_cong [where s = s and s' = ?s])
  ultimately show ?thesis by (simp add: finance_inv_def)
qed

lemma financeID_nonempty: "fresh \<noteq> [] \<Longrightarrow> financeID fresh i \<noteq> []"
  by (simp add: financeID_def)

lemma refund_total_cong:
  "fr_PaymentID r = fr_PaymentID r' \<Longrightarrow> fr_IdempotencyKey r = fr_IdempotencyKey r' \<Longrightarrow> refund_total r s = refund_total r' s"
  by (simp add: refund_total_def)

lemma RecordFinanceRefund_inv:
  assumes "finance_inv s" "f \<noteq> []"
  shows "finance_inv (fst (RecordFinanceRefund f g n n' a s))"
proof -
  have "post (\<lambda>(s', r). finance_inv s') (RecordFinanceRefund f g n n' a s)"
    unfolding RecordFinanceRefund_def
  proof (intro branches)
    fix refund copy1 payment copy2 copy3 s1
    assume a: "a = Some refund" "\<not> (TrimSpace (fr_IdempotencyKey refund) = [] \<or> fr_AmountMinor refund \<le> 0)"
      and c1: "copy1 = normalized_refund f refund"
      and pay: "gm_get (financePayments s) (fr_PaymentID copy1) = Some payment"
      and guard: "\<not> fr_AmountMinor copy1 > wrap64 (fp_AmountMinor payment - refund_total copy1 s)"
      and fresh: "\<not> gm_has (financeRefunds s) (fr_ID copy1)"
      and c2: "copy2 = (if IsZero (fr_RefundedAt copy1) then copy1\<lparr>fr_RefundedAt := n\<rparr> else copy1)"
      and c3: "copy3 = copy2\<lparr>fr_CreatedAt := n'\<rparr>"
      and s1: "s1 = s\<lparr>financeRefunds := gm_put (fr_ID copy3) copy3 (financeRefunds s),
        financeRefundKeys := gm_put (fr_IdempotencyKey copy3) (fr_ID copy3) (financeRefundKeys s)\<rparr>"
    have c: "fr_ID copy3 = fr_ID copy1" "fr_PaymentID copy3 = fr_PaymentID copy1"
      "fr_IdempotencyKey copy3 = fr_IdempotencyKey copy1" "fr_AmountMinor copy3 = fr_AmountMinor copy1"
      "fr_AmountMinor copy1 = fr_AmountMinor refund" "fr_ID copy1 \<noteq> []"
      using assms(2) by (simp_all add: c3 c2 c1 normalized_refund_def financeID_nonempty)
    have "finance_inv s1"
      unfolding s1 by (rule finance_inv_new_refund [OF assms(1), where p = payment])
        (use a(2) pay guard fresh c refund_total_cong [of copy3 copy1 s] in simp_all)
    then show "post (\<lambda>(s', r). finance_inv s') (bind_refund g copy3 s1, Inr (True, copy3))"
      by (simp add: post_def bind_refund_inv)
  qed (use assms(1) in \<open>simp_all add: post_def\<close>)
  then show ?thesis by (simp add: post_def split: prod.splits)
qed

section \<open>Starting an attempt\<close>

text \<open>What \<open>attempt_record\<close> hands to the rest of \<open>BeginFinanceOperation\<close>.\<close>

lemma attempt_recordD:
  assumes "attempt_record fresh now now' key opn s = AttemptGo stored" "operations_ok s"
  shows "fo_IdempotencyKey stored = key \<and>
    ((gm_get (financeOperationKeys s) key = Some (fo_ID stored) \<and> gm_get (financeOperations s) (fo_ID stored) = Some stored \<and>
      fo_OperationType stored = fo_OperationType opn \<and> fo_TargetType stored = fo_TargetType opn \<and>
      fo_TargetID stored = fo_TargetID opn \<and> jsonEqual (fo_Request stored) (fo_Request opn)) \<or>
     (gm_get (financeOperationKeys s) key = None \<and> gm_get (financeOperations s) (fo_ID stored) = None \<and>
      stored = first_attempt fresh now' key opn))"
proof (cases "gm_get (financeOperationKeys s) key")
  case None
  then show ?thesis
    using assms(1) by (auto simp: attempt_record_def Let_def first_attempt_def split: if_splits)
next
  case (Some i)
  then obtain old where old: "gm_get (financeOperations s) i = Some old" "fo_IdempotencyKey old = key"
    using operations_okD(4) [OF assms(2) Some] by blast
  then have "fo_ID old = i"
    using operations_okD(2) [OF assms(2)] by blast
  with Some old show ?thesis
    using assms(1) by (simp add: attempt_record_def Let_def split: if_splits)
qed

lemma first_attempt_fields:
  "fo_ID (first_attempt f n key opn) = financeID f (fo_ID opn)"
  "fo_OperationType (first_attempt f n key (normalized_operation a)) = fo_OperationType (normalized_operation a)"
  "fo_TargetType (first_attempt f n key (normalized_operation a)) = fo_TargetType (normalized_operation a)"
  "fo_TargetID (first_attempt f n key (normalized_operation a)) = fo_TargetID (normalized_operation a)"
  "fo_Request (first_attempt f n key (normalized_operation a)) = fo_Request (normalized_operation a)"
  by (simp_all add: first_attempt_def normalized_operation_def)

text \<open>What the check of a refund operation guarantees for its payment.\<close>

lemma refund_checkD:
  assumes "finance_inv s" "refund_check key pid (amount, cur) s = None" "gm_str (financeRefundKeys s) key = []"
  shows "\<exists>p. gm_get (financePayments s) pid = Some p \<and> amount < 2 ^ 53 \<and>
    refunded s pid + sum_list (map (reserved_amount (financeRefundKeys s) key pid) (gm_vals (financeOperations s))) +
      amount \<le> fp_AmountMinor p"
proof -
  note inv = finance_invD [OF assms(1)]
  let ?res = "sum_list (map (reserved_amount (financeRefundKeys s) key pid) (gm_vals (financeOperations s)))"
  obtain p where p: "gm_get (financePayments s) pid = Some p"
    and guard: "amount \<le> wrap64 (fp_AmountMinor p - begin_reserved key (fp_ID p) s)"
    using assms(2) by (auto simp: refund_check_def split: option.splits if_splits)
  have pd: "fp_ID p = pid" "fp_AmountMinor p < 2 ^ 53" "committed s pid \<le> fp_AmountMinor p"
    using payments_okD [OF inv(1) p] amounts_okD [OF inv(4) p] by simp_all
  have "map (\<lambda>r. if fr_PaymentID r = pid \<and> fr_ID r \<noteq> gm_str (financeRefundKeys s) key then fr_AmountMinor r else 0)
      (gm_vals (financeRefunds s)) = map (refunded_of pid) (gm_vals (financeRefunds s))"
    using refund_value [OF inv(2)] assms(3) by (intro map_cong) (auto simp: refunded_of_def)
  moreover have "total64 (map (refunded_of pid) (gm_vals (financeRefunds s)))
      (map (reserved_amount (financeRefundKeys s) key pid) (gm_vals (financeOperations s))) = refunded s pid + ?res"
    unfolding refunded_def by (rule loop_total [OF inv(2)])
      (use pd refund_value [OF inv(2)] in \<open>auto simp: refunded_of_def less_imp_le\<close>)
  ultimately have "begin_reserved key pid s = refunded s pid + ?res"
    by (simp only: begin_reserved_def)
  moreover have "0 \<le> ?res" by (rule sum_list_nonneg) auto
  moreover note reserved_sum_le [of s key pid] refunded_nonneg [OF inv(2), of pid]
  ultimately show ?thesis
    using guard p pd by (simp add: committed_def int64_def)
qed

lemma start_attempt_inv:
  assumes inv: "finance_inv s" and key: "fo_IdempotencyKey stored = key" and nonempty: "fo_ID stored \<noteq> []"
    and keys: "(gm_get (financeOperationKeys s) key = Some (fo_ID stored) \<and> gm_get (financeOperations s) (fo_ID stored) = Some stored) \<or>
      (gm_get (financeOperationKeys s) key = None \<and> gm_get (financeOperations s) (fo_ID stored) = None)"
    and ok: "operation_ok (financePayments s) stored"
    and bound: "fo_OperationType stored = ''refund'' \<Longrightarrow> gm_str (financeRefundKeys s) key = [] \<Longrightarrow>
      (\<exists>p amount cur. gm_get (financePayments s) (fo_TargetID stored) = Some p \<and>
        financeRefundRequest stored = Some (amount, cur) \<and>
        refunded s (fo_TargetID stored) + sum_list (map (reserved_amount (financeRefundKeys s) key (fo_TargetID stored))
          (gm_vals (financeOperations s))) + amount \<le> fp_AmountMinor p)"
  shows "finance_inv (fst (start_attempt g n key stored s))"
proof -
  let ?new = "stored\<lparr>fo_AttemptCount := fo_AttemptCount stored + 1, fo_Status := FinanceOperationInProgress, fo_UpdatedAt := n\<rparr>"
  let ?s = "fst (start_attempt g n key stored s)"
  have "refunded s i + sum_list (map (reserved_amount (financeRefundKeys s) (fo_IdempotencyKey ?new) i)
        (gm_vals (financeOperations s))) + held (financeRefundKeys s) i ?new \<le> fp_AmountMinor p"
    if p: "gm_get (financePayments s) i = Some p" for i p
  proof (cases "fo_OperationType stored = ''refund'' \<and> fo_TargetID stored = i \<and> gm_str (financeRefundKeys s) key = []")
    case True
    then show ?thesis
      using bound p key ok by (auto simp: held_def financeRefundRequest_def operation_ok_def financeOperationReservesRefund_def)
  next
    case False
    then have "held (financeRefundKeys s) i ?new = 0"
      using key by (auto simp: held_def financeOperationReservesRefund_def)
    then show ?thesis
      using reserved_sum_le [of s key i] amounts_okD [OF finance_invD(4) [OF inv] p] key by (simp add: committed_def)
  qed
  moreover have "operation_ok (financePayments s) ?new"
    using ok by (rule operation_ok_same) simp_all
  ultimately show ?thesis
    using keys key nonempty
    by (intro finance_inv_put_operation [OF inv, of ?new "fo_ID stored" ?s])
      (auto simp: start_attempt_def Let_def simp del: map_of_eq_Some_iff)
qed

lemma BeginFinanceOperation_inv:
  assumes "finance_inv s" "f \<noteq> []" "\<And>opn. a = Some opn \<Longrightarrow> unambiguous (fo_Request opn)"
  shows "finance_inv (fst (BeginFinanceOperation f g n n' n'' a s))"
proof -
  note inv = finance_invD [OF assms(1)]
  have go: "finance_inv (fst (start_attempt g n'' key stored s))"
    if a: "a = Some arg" and opn: "opn = normalized_operation arg" and isr: "isRefund = (fo_OperationType opn = ''refund'')"
      and valid: "\<not> (isRefund \<and> (fo_TargetType opn \<noteq> ''payment'' \<or> fo_TargetID opn = [] \<or> financeRefundRequest opn = None))"
      and go: "attempt_record f n n' key opn s = AttemptGo stored"
      and chk: "(if isRefund then refund_check key (fo_TargetID opn) (the (financeRefundRequest opn)) s else None) = None"
    for arg opn isRefund key stored
  proof -
    note d = attempt_recordD [OF go inv(3)]
    have un: "unambiguous (fo_Request opn)"
      using assms(3) [OF a] by (simp add: opn normalized_operation_def)
    have same: "fo_OperationType stored = fo_OperationType opn" "fo_TargetType stored = fo_TargetType opn"
      "fo_TargetID stored = fo_TargetID opn" "jsonEqual (fo_Request stored) (fo_Request opn) \<or> fo_Request stored = fo_Request opn"
      using d by (elim conjE disjE; simp add: opn first_attempt_fields)+
    have pay: "gm_has (financePayments s) (fo_TargetID opn)" if isRefund
      using chk that by (auto simp: refund_check_def split: option.splits)
    have ok: "operation_ok (financePayments s) stored"
      using d
    proof (elim conjE disjE)
      assume "gm_get (financeOperations s) (fo_ID stored) = Some stored"
      then show ?thesis using operations_okD(2) [OF inv(3)] by blast
    next
      assume "stored = first_attempt f n' key opn"
      then have "fo_Request stored = fo_Request opn"
        by (simp add: opn first_attempt_fields)
      then show ?thesis
        using valid pay un same isr by (auto simp: operation_ok_def financeRefundRequest_def)
    qed
    have "fo_ID stored \<noteq> []"
      using d operations_okD(3) [OF inv(3), of key] assms(2)
      by (elim conjE disjE) (simp_all add: first_attempt_fields financeID_nonempty)
    moreover have "\<exists>p amount cur. gm_get (financePayments s) (fo_TargetID stored) = Some p \<and>
        financeRefundRequest stored = Some (amount, cur) \<and>
        refunded s (fo_TargetID stored) + sum_list (map (reserved_amount (financeRefundKeys s) key (fo_TargetID stored))
          (gm_vals (financeOperations s))) + amount \<le> fp_AmountMinor p"
      if r: "fo_OperationType stored = ''refund''" and nofact: "gm_str (financeRefundKeys s) key = []"
    proof -
      have isRefund using r same(1) isr by simp
      then obtain amount cur where req: "financeRefundRequest opn = Some (amount, cur)"
        using valid by auto
      obtain amount' cur' where req': "financeRefundRequest stored = Some (amount', cur')"
        using ok r by (auto simp: operation_ok_def)
      obtain p where p: "gm_get (financePayments s) (fo_TargetID opn) = Some p" "amount < 2 ^ 53"
        "refunded s (fo_TargetID opn) + sum_list (map (reserved_amount (financeRefundKeys s) key (fo_TargetID opn))
          (gm_vals (financeOperations s))) + amount \<le> fp_AmountMinor p"
        using refund_checkD [OF assms(1) _ nofact, of "fo_TargetID opn" amount cur] chk \<open>isRefund\<close> req by auto
      have "amount' = amount"
        using same(4)
      proof
        assume "jsonEqual (fo_Request stored) (fo_Request opn)"
        moreover have "unambiguous (fo_Request stored)"
          using ok r by (simp add: operation_ok_def)
        ultimately show ?thesis
          using equal_requests_equal_amounts un req req' p(2) by (simp add: financeRefundRequest_def)
      qed (use req req' in \<open>simp add: financeRefundRequest_def\<close>)
      with p req' same(3) show ?thesis by auto
    qed
    ultimately show ?thesis
      using d ok by (intro start_attempt_inv [OF assms(1)]) auto
  qed
  show ?thesis
    using assms(1) go unfolding BeginFinanceOperation_def Let_def
    by (auto split: option.splits attempt.splits)
qed

end
