(* ===== verification/User_Properties.thy ===== *)
theory User_Properties
  imports User_Invariant
begin

text \<open>
  What the account store promises: addresses identify accounts, stored accounts are well
  typed, a created account is found by each of its keys, an update that fails can forget the old name or
  address, and updates keep the system-owned grant markers.
\<close>

section \<open>Lookups in a reachable store\<close>

lemma user_ofD:
  assumes "user_of s ix k = Some u"
  obtains a where "gm_get ix k = Some a" "u = users s ! a"
  using assms by (auto simp: user_of_def split: option.splits)

lemma GetUserByID_iff:
  assumes "user_inv s"
  shows "GetUserByID i s = Inr u \<longleftrightarrow> (\<exists>a. gm_get (byID s) i = Some a \<and> u = users s ! a)"
  using user_inv_at(3) [OF assms]
  by (auto simp: GetUserByID_def user_of_def user_normal_def split: option.split)

lemma GetUserByID_normal: "user_inv s \<Longrightarrow> GetUserByID i s = Inr u \<Longrightarrow> user_normal u \<and> us_ID u = i"
  using user_inv_at by (auto simp: GetUserByID_iff)

text \<open>
  C37: An e-mail address identifies an account: an account with an address is the one that
  \<open>GetUserByEmail\<close> returns for it, and no other account has the same address. This holds after
  any sequence of operations in which no update needs an id that \<open>uuid.NewV7\<close> fails to
  generate. Such an update is excluded because it has removed the old address from the index when
  it returns the error.
\<close>

theorem email_identifies_account:
  assumes "list_all ids_generated ops"
    and "GetUserByID i (after_users allow ops) = Inr u" and "us_Email u \<noteq> []"
  shows "GetUserByEmail (us_Email u) (after_users allow ops) = Inr u \<and>
    (\<forall>j v. GetUserByID j (after_users allow ops) = Inr v \<longrightarrow> us_Email v = us_Email u \<longrightarrow> j = i)"
proof -
  let ?s = "after_users allow ops"
  note inv = after_users_inv [of allow ops] and email = email_foundD [OF after_users_found [OF assms(1)]]
  obtain a where a: "gm_get (byID ?s) i = Some a" "u = users ?s ! a"
    using assms(2) GetUserByID_iff [OF inv] by blast
  have found: "gm_get (byEmail ?s) (us_Email u) = Some a"
    using email [OF a(1)] a(2) assms(3) by simp
  have "j = i" if v: "GetUserByID j ?s = Inr v" "us_Email v = us_Email u" for j v
  proof -
    obtain b where b: "gm_get (byID ?s) j = Some b" "v = users ?s ! b"
      using v(1) GetUserByID_iff [OF inv] by blast
    have "gm_get (byEmail ?s) (us_Email u) = Some b"
      using email [OF b(1)] b(2) v(2) assms(3) by simp
    then show ?thesis
      using found user_inv_at(2) [OF inv a(1)] user_inv_at(2) [OF inv b(1)] by simp
  qed
  moreover have "user_normal u"
    using user_inv_at(3) [OF inv a(1)] a(2) by simp
  ultimately show ?thesis
    using found a(2) by (simp add: GetUserByEmail_def user_of_def user_normal_def)
qed

definition sample_user :: "string \<Rightarrow> string \<Rightarrow> string \<Rightarrow> User" where
  "sample_user i name email =
     \<lparr>us_ID = i, us_Name = name, us_Email = email, us_Level = 20, us_Role = ''user'', us_Groups = [],
      us_Permissions = [], us_EmailVerified = False, us_PasswordHash = [], us_MFATOTPSecret = [],
      us_MFAEnabled = False, us_MFASecretIssuedAt = 0, us_MFAConfirmedAt = 0, us_CreatedAt = 5,
      us_UpdatedAt = 5, us_Active = True, us_ProxyUUID = ''p'', us_ProxyUUIDExpiresAt = None,
      us_SubscriptionValidFrom = None, us_SubscriptionValidUntil = None, us_LastActiveAt = None,
      us_ArchivedAt = None\<rparr>"

definition sample_users :: "user_op list" where
  "sample_users =
     [OpCreateUser ''f1'' 10 (Inr ''v1'') (sample_user ''u1'' ''Ann'' '' A@x.io ''),
      OpCreateUser ''f2'' 11 (Inr ''v2'') (sample_user ''u2'' ''Bob'' ''b@x.io'')]"

theorem email_identifies_account_witness:
  "GetUserByEmail ''a@x.io'' (after_users False sample_users) =
     Inr (sample_user ''u1'' ''Ann'' ''a@x.io'')"
proof -
  have "list_all ids_generated sample_users"
    "GetUserByID ''u1'' (after_users False sample_users) = Inr (sample_user ''u1'' ''Ann'' ''a@x.io'')"
    "us_Email (sample_user ''u1'' ''Ann'' ''a@x.io'') \<noteq> []"
    by code_simp+
  from email_identifies_account [OF this] show ?thesis by (simp add: sample_user_def)
qed

lemma normalized_slice:
  assumes "normalizeStringSlice vs = vs" shows "distinct vs \<and> (\<forall>v \<in> set vs. v \<noteq> [] \<and> TrimSpace v = v)"
  using normalize_loop_props [of "[]" vs] assms unfolding normalizeStringSlice_def by simp

text \<open>
  C33: Stored accounts are well typed. After any sequence of operations an account that is found by
  its id carries that id, a known role and the level that belongs to the role; its groups
  and permissions are trimmed, not empty and without repetitions, its e-mail address is in
  lower case and its name trimmed; and returning a normalized copy changes nothing.
\<close>

theorem stored_users_well_typed:
  assumes "GetUserByID i (after_users allow ops) = Inr u"
  shows "us_ID u = i \<and> gm_get roleToLevel (us_Role u) = Some (us_Level u) \<and>
    distinct (us_Groups u) \<and> distinct (us_Permissions u) \<and>
    (\<forall>g \<in> set (us_Groups u) \<union> set (us_Permissions u). g \<noteq> [] \<and> TrimSpace g = g) \<and>
    ToLower (us_Email u) = us_Email u \<and> TrimSpace (us_Name u) = us_Name u \<and> cloneUser u = u"
proof -
  let ?s = "after_users allow ops"
  from assms obtain a where a: "gm_get (byID ?s) i = Some a" "u = users ?s ! a"
    using GetUserByID_iff [OF after_users_inv] by blast
  have n: "us_ID u = i" "user_normal u" using user_inv_at [OF after_users_inv a(1)] a(2) by simp_all
  then have r: "role_normal u" by (simp add: user_normal_def)
  with n normalized_slice [of "us_Groups u"] normalized_slice [of "us_Permissions u"]
  show ?thesis by (auto simp: role_normal_def user_normal_def cloneUser_normal)
qed

theorem stored_users_well_typed_witness:
  "\<exists>u. GetUserByID ''u1'' (after_users False sample_users) = Inr u \<and> gm_get roleToLevel (us_Role u) = Some (us_Level u)"
proof -
  have g: "GetUserByID ''u1'' (after_users False sample_users) = Inr (sample_user ''u1'' ''Ann'' ''a@x.io'')" by code_simp
  from stored_users_well_typed [OF this] g show ?thesis by blast
qed

section \<open>Creating an account\<close>

lemma CreateUser_InrD:
  assumes "CreateUser fresh now v7 u s = (s', Inr v)"
  shows "role_normal v \<and> ToLower (us_Email v) = us_Email v \<and> TrimSpace (us_Name v) = us_Name v \<and> us_Name v \<noteq> [] \<and>
    users s' = users s @ [v] \<and> byID s' = gm_put (us_ID v) (length (users s)) (byID s) \<and>
    gm_get (byName s') (ToLower (us_Name v)) = Some (length (users s)) \<and>
    (us_Email v \<noteq> [] \<longrightarrow> gm_get (byEmail s') (us_Email v) = Some (length (users s)))" (is "?Q s' v")
proof -
  have "post (\<lambda>(s', r). \<forall>v. r = Inr v \<longrightarrow> ?Q s' v) (CreateUser fresh now v7 u s)"
    unfolding CreateUser_def
  proof (intro branches)
    fix loweredEmail normalizedName user userCopy1 userCopy2 userCopy3 userCopy4 stored1 stored2 proxy stored3 a
    assume n: "normalizedName = TrimSpace (us_Name u)" "\<not> normalizedName = []"
      and e: "loweredEmail = ToLower (TrimSpace (us_Email u))"
      and c4: "userCopy4 = userCopy3\<lparr>us_Email := loweredEmail, us_Name := normalizedName\<rparr>"
      and s1: "stored1 = normalizeUserRoleFields userCopy4"
      and s2: "stored2 = stored1\<lparr>us_Groups := cloneStringSlice (us_Groups stored1),
        us_Permissions := cloneStringSlice (us_Permissions stored1), us_Active := True\<rparr>"
      and s3: "stored3 = stored2\<lparr>us_ProxyUUID := proxy\<rparr>"
      and a: "a = length (users s)"
    have s2': "stored2 = stored1\<lparr>us_Active := True\<rparr>"
      by (cases stored1) (simp add: s2 cloneStringSlice_def)
    have st: "role_normal stored3" "us_ID stored3 = us_ID userCopy4" "us_Email stored3 = loweredEmail"
      "us_Name stored3 = normalizedName"
      by (simp_all add: s3 s2' s1 c4)
    show "post (\<lambda>(s', r). \<forall>v. r = Inr v \<longrightarrow> ?Q s' v)
      (s\<lparr>users := users s @ [stored3], byID := gm_put (us_ID userCopy4) a (byID s),
         byEmail := (if loweredEmail \<noteq> [] then gm_put loweredEmail a (byEmail s) else byEmail s),
         byName := gm_put (ToLower normalizedName) a (byName s)\<rparr>, Inr (assignUser stored3))"
      using n e st by (simp add: post_def a)
  qed (simp_all add: post_def)
  from post_Inr [OF assms this] show ?thesis .
qed

text \<open>
  A created account can be read back by its id, by its name and, when it has one, by its
  e-mail address, exactly as \<open>CreateUser\<close> returned it, and no account with another id changes.
\<close>

theorem create_then_lookup:
  assumes "CreateUser fresh now v7 u (after_users allow ops) = (s', Inr v)"
  shows "GetUserByID (us_ID v) s' = Inr v \<and> GetUserByName (us_Name v) s' = Inr v \<and>
    (us_Email v \<noteq> [] \<longrightarrow> GetUserByEmail (us_Email v) s' = Inr v) \<and>
    (\<forall>j. j \<noteq> us_ID v \<longrightarrow> GetUserByID j s' = GetUserByID j (after_users allow ops))"
proof -
  let ?s = "after_users allow ops"
  note d = CreateUser_InrD [OF assms]
  have "GetUserByID j s' = GetUserByID j ?s" if "j \<noteq> us_ID v" for j
    using d that user_inv_at(1) [OF after_users_inv, of allow ops j]
    by (cases "gm_get (byID ?s) j") (simp_all add: GetUserByID_def user_of_def nth_append)
  with d show ?thesis
    by (simp add: GetUserByID_def GetUserByName_def GetUserByEmail_def user_of_def Let_def)
qed

theorem create_then_lookup_witness:
  "\<exists>(s' :: user_store) v. us_Email v = ''c@x.io'' \<and> GetUserByEmail ''c@x.io'' s' = Inr v \<and> GetUserByName ''Cy'' s' = Inr v"
proof -
  have "outcome (CreateUser ''f3'' 12 (Inr ''v3'') (sample_user [] '' Cy '' ''C@x.io'') (after_users False sample_users))
    (\<lambda>v. us_Email v = ''c@x.io'' \<and> us_Name v = ''Cy'')"
    by code_simp
  then obtain s' v where
    "CreateUser ''f3'' 12 (Inr ''v3'') (sample_user [] '' Cy '' ''C@x.io'') (after_users False sample_users) = (s', Inr v)"
    and v: "us_Email v = ''c@x.io''" "us_Name v = ''Cy''"
    by (rule outcomeE) blast
  from create_then_lookup [OF this(1)] have "GetUserByEmail ''c@x.io'' s' = Inr v" "GetUserByName ''Cy'' s' = Inr v"
    unfolding v by simp_all
  with v(1) show ?thesis by blast
qed

section \<open>A failed update\<close>

text \<open>
  \<open>UpdateUser\<close> removes the old name from the index before it checks the new e-mail address.
  When an update that also renames the account is refused because the address is taken, the
  account is unchanged but can no longer be found by its name.
\<close>

theorem refused_update_loses_name:
  assumes "GetUserByID (us_ID u) (after_users allow ops) = Inr v"
    and "UpdateUser now v7 u (after_users allow ops) = (s', Inl ErrEmailExists)"
    and "ToLower (TrimSpace (us_Name u)) \<noteq> ToLower (us_Name v)"
  shows "GetUserByID (us_ID u) s' = Inr v \<and> GetUserByName (us_Name v) s' = Inl ErrUserNotFound"
proof -
  let ?s = "after_users allow ops"
  obtain a where a: "gm_get (byID ?s) (us_ID u) = Some a" "v = users ?s ! a"
    using assms(1) GetUserByID_iff [OF after_users_inv] by blast
  have norm: "user_normal v"
    using GetUserByID_normal [OF after_users_inv assms(1)] by simp
  have "s' = ?s\<lparr>byName := gm_del (ToLower (us_Name v)) (byName ?s)\<rparr>"
    using assms(2,3) a
    by (auto simp: UpdateUser_def user_of_def Let_def split: if_splits sum.splits)
  then show ?thesis
    using a norm by (simp add: GetUserByID_def GetUserByName_def user_of_def Let_def user_normal_def)
qed

theorem refused_update_loses_name_witness:
  "\<exists>s'. UpdateUser 20 (Inr ''v'') (sample_user ''u1'' ''Anna'' ''b@x.io'') (after_users False sample_users) =
      (s', Inl ErrEmailExists) \<and> GetUserByName ''Ann'' s' = Inl ErrUserNotFound"
proof -
  let ?u = "sample_user ''u1'' ''Anna'' ''b@x.io''" and ?v = "sample_user ''u1'' ''Ann'' ''a@x.io''"
  let ?r = "UpdateUser 20 (Inr ''v'') ?u (after_users False sample_users)"
  have get: "GetUserByID (us_ID ?u) (after_users False sample_users) = Inr ?v"
    and new: "ToLower (TrimSpace (us_Name ?u)) \<noteq> ToLower (us_Name ?v)"
    and name: "us_Name ?v = ''Ann''"
    by code_simp+
  have "snd ?r = Inl ErrEmailExists" by code_simp
  then have "?r = (fst ?r, Inl ErrEmailExists)" by (simp add: prod_eq_iff)
  with refused_update_loses_name [OF get this new] name show ?thesis by auto
qed

text \<open>
  It also removes the old address before it generates a missing id. When \<open>uuid.NewV7\<close> fails in
  an update that changes the address, the account keeps its address but is not found by it.
\<close>

theorem failed_update_loses_address:
  assumes "GetUserByID (us_ID u) (after_users allow ops) = Inr v"
    and "UpdateUser now (Inl e) u (after_users allow ops) = (s', Inl (ErrText e))"
    and "us_Email v \<noteq> []" and "ToLower (TrimSpace (us_Email u)) \<noteq> us_Email v"
  shows "GetUserByID (us_ID u) s' = Inr v \<and> GetUserByEmail (us_Email v) s' = Inl ErrUserNotFound"
proof -
  let ?s = "after_users allow ops"
  obtain a where a: "gm_get (byID ?s) (us_ID u) = Some a" "v = users ?s ! a"
    using assms(1) GetUserByID_iff [OF after_users_inv] by blast
  have norm: "user_normal v"
    using GetUserByID_normal [OF after_users_inv assms(1)] by simp
  then have "users s' = users ?s \<and> byID s' = byID ?s \<and> gm_get (byEmail s') (us_Email v) = None"
    using assms(2-4) a
    by (auto simp: UpdateUser_def user_of_def user_normal_def Let_def split: if_splits sum.splits)
  then show ?thesis
    using a norm by (simp add: GetUserByID_def GetUserByEmail_def user_of_def user_normal_def)
qed

theorem failed_update_loses_address_witness:
  "\<exists>s'. UpdateUser 20 (Inl ''no entropy'') ((sample_user ''u1'' ''Ann'' ''n@x.io'')\<lparr>us_ProxyUUID := []\<rparr>)
      (after_users False sample_users) = (s', Inl (ErrText ''no entropy'')) \<and>
    GetUserByEmail ''a@x.io'' s' = Inl ErrUserNotFound"
proof -
  let ?u = "(sample_user ''u1'' ''Ann'' ''n@x.io'')\<lparr>us_ProxyUUID := []\<rparr>" and ?v = "sample_user ''u1'' ''Ann'' ''a@x.io''"
  let ?r = "UpdateUser 20 (Inl ''no entropy'') ?u (after_users False sample_users)"
  have get: "GetUserByID (us_ID ?u) (after_users False sample_users) = Inr ?v"
    and new: "us_Email ?v \<noteq> []" "ToLower (TrimSpace (us_Email ?u)) \<noteq> us_Email ?v"
    and email: "us_Email ?v = ''a@x.io''"
    by code_simp+
  have "snd ?r = Inl (ErrText ''no entropy'')" by code_simp
  then have "?r = (fst ?r, Inl (ErrText ''no entropy''))" by (simp add: prod_eq_iff)
  with failed_update_loses_address [OF get this new] email show ?thesis by auto
qed

section \<open>Grant markers\<close>

lemma is_grant_TrimSpace [simp]: "is_grant (TrimSpace g) = is_grant g"
  by (simp add: is_grant_def)

lemma normalize_no_grants:
  "list_all (\<lambda>g. \<not> is_grant g) req \<Longrightarrow> list_all (\<lambda>g. \<not> is_grant g) seen \<Longrightarrow> distinct gs \<Longrightarrow>
   \<forall>g \<in> set gs. is_grant g \<and> g \<noteq> [] \<and> TrimSpace g = g \<Longrightarrow>
   filter is_grant (normalize_loop seen (req @ gs)) = gs"
proof (induction req arbitrary: seen)
  case Nil
  have "\<forall>v \<in> set gs. v \<notin> set seen \<and> v \<noteq> [] \<and> TrimSpace v = v"
    using Nil.prems by (auto simp: list_all_iff)
  then have "normalize_loop seen gs = gs"
    by (rule normalize_loop_fixed [OF Nil.prems(3)])
  then show ?case using Nil.prems(4) by (simp add: filter_id_conv)
next
  case (Cons r req)
  show ?case
    using Cons.IH [of seen] Cons.IH [of "TrimSpace r # seen"] Cons.prems by (simp add: Let_def)
qed

lemma normalized_groups:
  assumes "normalizeStringSlice gs = gs"
  shows "distinct gs" "\<forall>g \<in> set gs. g \<noteq> [] \<and> TrimSpace g = g"
  using normalize_loop_props [of "[]" gs] assms by (auto simp: normalizeStringSlice_def)

lemma grants_preserved:
  assumes "normalizeStringSlice ex = ex"
  shows "filter is_grant (normalizeStringSlice (PreserveAgentFreeGrantGroups ex req)) = filter is_grant ex"
proof -
  note n = normalized_groups [OF assms]
  have "map TrimSpace (filter is_grant ex) = filter is_grant ex"
    using n(2) by (intro map_idI) simp
  then show ?thesis
    unfolding normalizeStringSlice_def PreserveAgentFreeGrantGroups_def
    using n by (subst normalize_no_grants) (auto simp: list_all_iff)
qed

lemma UpdateUser_InrD:
  assumes "UpdateUser now v7 u s = (s', Inr v)"
  shows "\<exists>ex proxy. user_of s (byID s) (us_ID u) = Some ex \<and> v = updated_user now ex u proxy" (is "?Q s' v")
proof -
  have "post (\<lambda>(s', r). \<forall>v. r = Inr v \<longrightarrow> ?Q s' v) (UpdateUser now v7 u s)"
    unfolding UpdateUser_def by (intro branches) (auto simp: post_def)
  from post_Inr [OF assms this] show ?thesis .
qed

text \<open>
  A generic update can neither add, change nor remove a temporary grant: the markers with
  the prefix \<open>agent:free-grant:\<close> among the groups after \<open>UpdateUser\<close> are exactly those before,
  whatever groups the request carries.
\<close>

theorem update_keeps_grants:
  assumes "GetUserByID (us_ID u) (after_users allow ops) = Inr ex"
    and "UpdateUser now v7 u (after_users allow ops) = (s', Inr v)"
  shows "filter is_grant (us_Groups v) = filter is_grant (us_Groups ex)"
proof -
  obtain proxy where "v = updated_user now ex u proxy"
    using UpdateUser_InrD [OF assms(2)] assms(1) GetUserByID_iff [OF after_users_inv]
    by (auto simp: user_of_def split: option.splits)
  moreover have "normalizeStringSlice (us_Groups ex) = us_Groups ex"
    using GetUserByID_normal [OF after_users_inv assms(1)] by (simp add: user_normal_def role_normal_def)
  ultimately show ?thesis by (simp add: grants_preserved)
qed

definition granted_users :: "user_op list" where
  "granted_users =
     [OpCreateUser ''f1'' 10 (Inr ''v1'')
        ((sample_user ''u1'' ''Ann'' ''a@x.io'')\<lparr>us_Groups := [''team'', ''agent:free-grant:n1:e'']\<rparr>)]"

theorem update_keeps_grants_witness:
  "\<exists>s' v. UpdateUser 20 (Inr ''v'') ((sample_user ''u1'' ''Ann'' ''a@x.io'')\<lparr>us_Groups := [''agent:free-grant:n2:x'']\<rparr>)
      (after_users False granted_users) = (s', Inr v) \<and> filter is_grant (us_Groups v) = [''agent:free-grant:n1:e'']"
proof -
  let ?u = "(sample_user ''u1'' ''Ann'' ''a@x.io'')\<lparr>us_Groups := [''agent:free-grant:n2:x'']\<rparr>"
  let ?ex = "(sample_user ''u1'' ''Ann'' ''a@x.io'')\<lparr>us_Groups := [''team'', ''agent:free-grant:n1:e'']\<rparr>"
  have get: "GetUserByID (us_ID ?u) (after_users False granted_users) = Inr ?ex"
    and before: "filter is_grant (us_Groups ?ex) = [''agent:free-grant:n1:e'']"
    by code_simp+
  have "outcome (UpdateUser 20 (Inr ''v'') ?u (after_users False granted_users)) (\<lambda>v. True)"
    by code_simp
  then obtain s' v where "UpdateUser 20 (Inr ''v'') ?u (after_users False granted_users) = (s', Inr v)"
    by (rule outcomeE) blast
  with update_keeps_grants [OF get this] before show ?thesis by auto
qed

end
