(* ===== verification/User_Lifecycle.thy ===== *)
theory User_Lifecycle
  imports User_Properties
begin

text \<open>
  Archiving accounts, the audit trail, paging through users, and one-time exchange codes.
\<close>

section \<open>Archiving\<close>

lemma al_get_put [simp]: "al_get (al_put k v e) k' = (if k' = k then Some v else al_get e k')"
  by (auto simp: al_get_def al_put_def split: option.split)

lemma al_get_update [simp]:
  "al_get (e\<lparr>al_UUID := x\<rparr>) k = al_get e k" "al_get (e\<lparr>al_CreatedAt := t\<rparr>) k = al_get e k"
  "al_get (cloneAuditLog e) k = al_get e k"
  by (simp_all add: al_get_def cloneAuditLog_def split: option.split)

lemma al_fields [simp]:
  "al_Action (al_put k v e) = al_Action e" "al_ActorUUID (al_put k v e) = al_ActorUUID e"
  "al_Action (cloneAuditLog e) = al_Action e" "al_ActorUUID (cloneAuditLog e) = al_ActorUUID e"
  "cloneAuditLog (cloneAuditLog e) = cloneAuditLog e"
  by (simp_all add: al_put_def cloneAuditLog_def)

text \<open>What \<open>DeleteUser\<close> has done when it succeeds: it replayed an entry, or archived the account.\<close>

definition archived_now ::
  "string \<Rightarrow> time \<Rightarrow> string \<Rightarrow> 'z user_store_scheme \<Rightarrow> 'z user_store_scheme \<Rightarrow> AuditLog \<Rightarrow> bool" where
  "archived_now req now i s s' en \<longleftrightarrow>
     (req \<noteq> [] \<longrightarrow> find (archive_replay i req) (auditLogs s) = None) \<and>
     (\<exists>a. gm_get (byID s) i = Some a \<and> us_ArchivedAt (users s ! a) = None \<and>
       \<not> archive_protected (users s ! a) \<and> \<not> list_ex live_subscription (gm_vals (gm_list (subscriptions s) i)) \<and>
       s' = s\<lparr>users := (users s)[a := (users s ! a)\<lparr>us_Active := False, us_ArchivedAt := Some now, us_UpdatedAt := now\<rparr>],
              auditLogs := auditLogs s @ [cloneAuditLog en]\<rparr>)"

lemma archived_nowD:
  assumes "archived_now req now i s s' en"
  shows "auditLogs s' = auditLogs s @ [cloneAuditLog en]"
    "req \<noteq> [] \<Longrightarrow> find (archive_replay i req) (auditLogs s) = None"
  using assms unfolding archived_now_def by (elim conjE exE, simp)+

lemma DeleteUser_InrD:
  assumes "DeleteUser tr fresh now i (Some au) req s = (s', Inr en)"
  shows "(s' = s \<and> TrimSpace req \<noteq> [] \<and>
      (\<exists>ex. find (archive_replay i (TrimSpace req)) (auditLogs s) = Some ex \<and> en = cloneAuditLog ex \<and>
        al_ActorUUID ex = al_ActorUUID au \<and> al_get ex ''reason'' = al_get au ''reason'')) \<or>
    (archived_now (TrimSpace req) now i s s' en \<and> al_Action en = al_Action au \<and>
      al_ActorUUID en = al_ActorUUID au \<and>
      (\<forall>k. k \<notin> {''request_id'', ''transition_id'', ''occurred_at''} \<longrightarrow> al_get en k = al_get au k) \<and>
      (TrimSpace req \<noteq> [] \<longrightarrow> al_get en ''request_id'' = Some (DVal (GString (TrimSpace req)))))"
    (is "?Q s' en")
proof -
  have "post (\<lambda>(s', r). \<forall>en. r = Inr en \<longrightarrow> ?Q s' en) (DeleteUser tr fresh now i (Some au) req s)"
    unfolding DeleteUser_def
    by (intro branches) (auto simp: post_def archived_now_def split: if_splits)
  from post_Inr [OF assms this] show ?thesis .
qed

text \<open>
  Archiving is guarded and local. When \<open>DeleteUser\<close> succeeds and is not the replay of an
  earlier request, the account was not archived, is not an administrator, has no paid or
  unlimited quota and no live subscription; it is now inactive and archived at the time of
  the call; no other account changes; and the audit log has exactly one new entry.
\<close>

theorem archive_is_guarded:
  assumes "DeleteUser tr fresh now i (Some au) req (after_users allow ops) = (s', Inr en)"
    and "s' \<noteq> after_users allow ops"
    and "GetUserByID i (after_users allow ops) = Inr u"
  shows "us_ArchivedAt u = None \<and> \<not> IsAdminRole (us_Role u) \<and> us_Level u \<noteq> LevelAdmin \<and>
    MonthlyQuotaGroup u \<noteq> MonthlyPlusQuotaLimitGroup \<and> MonthlyQuotaGroup u \<noteq> MonthlyUnlimitedBetaQuotaGroup \<and>
    \<not> list_ex live_subscription (gm_vals (gm_list (subscriptions (after_users allow ops)) i)) \<and>
    GetUserByID i s' = Inr (u\<lparr>us_Active := False, us_ArchivedAt := Some now, us_UpdatedAt := now\<rparr>) \<and>
    (\<forall>j. j \<noteq> i \<longrightarrow> GetUserByID j s' = GetUserByID j (after_users allow ops)) \<and>
    auditLogs s' = auditLogs (after_users allow ops) @ [cloneAuditLog en]"
proof -
  let ?s = "after_users allow ops"
  note inv = after_users_inv [of allow ops]
  obtain a where a: "gm_get (byID ?s) i = Some a" "u = users ?s ! a"
    using assms(3) GetUserByID_iff [OF inv] by blast
  have ar: "archived_now (TrimSpace req) now i ?s s' en"
    using DeleteUser_InrD [OF assms(1)] assms(2) by blast
  then have s': "s' = ?s\<lparr>users := (users ?s)[a := u\<lparr>us_Active := False, us_ArchivedAt := Some now, us_UpdatedAt := now\<rparr>],
      auditLogs := auditLogs ?s @ [cloneAuditLog en]\<rparr>"
    and g: "us_ArchivedAt u = None" "\<not> archive_protected u"
      "\<not> list_ex live_subscription (gm_vals (gm_list (subscriptions ?s) i))"
    using a by (auto simp: archived_now_def)
  have norm: "user_normal u" "a < length (users ?s)"
    using user_inv_at [OF inv a(1)] a(2) by simp_all
  have "GetUserByID j s' = GetUserByID j ?s" if "j \<noteq> i" for j
  proof (cases "gm_get (byID ?s) j")
    case (Some b)
    then have "b \<noteq> a"
      using that user_inv_at(2) [OF inv a(1)] user_inv_at(2) [OF inv Some] by auto
    then show ?thesis using Some by (simp add: GetUserByID_def user_of_def s')
  qed (simp add: GetUserByID_def user_of_def s')
  moreover have "GetUserByID i s' = Inr (u\<lparr>us_Active := False, us_ArchivedAt := Some now, us_UpdatedAt := now\<rparr>)"
    using a norm by (simp add: GetUserByID_def user_of_def s' user_normal_def)
  ultimately show ?thesis
    using g by (simp add: archive_protected_def s')
qed

lemma find_append_None: "find P xs = None \<Longrightarrow> find P (xs @ ys) = find P ys"
  by (induction xs) (auto split: if_splits)

lemma find_append_Some: "find P xs = Some x \<Longrightarrow> find P (xs @ ys) = Some x"
  by (induction xs) (auto split: if_splits)

text \<open>
  An archive request with a request key can be retried safely. After it succeeded, and after
  any further operations, sending it again with the same account, actor and reason changes
  nothing and returns the audit entry of the first time.
\<close>

theorem archive_replay_stable:
  assumes "DeleteUser tr fresh now i (Some au) req (after_users allow ops) = (s', Inr en)"
    and "TrimSpace req \<noteq> []" and "al_Action au = AuditActionUserArchive"
    and "al_get au ''target_uuid'' = Some (DVal (GString i))"
    and "validateUserArchiveAudit i (Some au') = None"
    and "al_ActorUUID au' = al_ActorUUID au" and "al_get au' ''reason'' = al_get au ''reason''"
  shows "DeleteUser tr' fresh' now' i (Some au') req (exec_all user_exec ops' s') =
    (exec_all user_exec ops' s', Inr (cloneAuditLog en))"
proof -
  let ?s = "after_users allow ops" and ?t = "exec_all user_exec ops' s'" and ?req = "TrimSpace req"
  have "\<exists>ex. find (archive_replay i ?req) (auditLogs s') = Some ex \<and> cloneAuditLog ex = cloneAuditLog en \<and>
      al_ActorUUID ex = al_ActorUUID au \<and> al_get ex ''reason'' = al_get au ''reason''"
    using DeleteUser_InrD [OF assms(1)]
  proof
    assume new: "archived_now ?req now i ?s s' en \<and> al_Action en = al_Action au \<and>
      al_ActorUUID en = al_ActorUUID au \<and>
      (\<forall>k. k \<notin> {''request_id'', ''transition_id'', ''occurred_at''} \<longrightarrow> al_get en k = al_get au k) \<and>
      (?req \<noteq> [] \<longrightarrow> al_get en ''request_id'' = Some (DVal (GString ?req)))"
    have "find (archive_replay i ?req) (auditLogs ?s) = None" "auditLogs s' = auditLogs ?s @ [cloneAuditLog en]"
      using archived_nowD [OF conjunct1 [OF new]] assms(2) by blast+
    moreover have "archive_replay i ?req (cloneAuditLog en)" "al_get en ''reason'' = al_get au ''reason''"
      using new assms(2-4) by (simp_all add: archive_replay_def)
    ultimately show ?thesis
      using new by (simp add: find_append_None)
  next
    assume "s' = ?s \<and> ?req \<noteq> [] \<and>
      (\<exists>ex. find (archive_replay i ?req) (auditLogs ?s) = Some ex \<and> en = cloneAuditLog ex \<and>
        al_ActorUUID ex = al_ActorUUID au \<and> al_get ex ''reason'' = al_get au ''reason'')"
    then obtain ex where "s' = ?s" "find (archive_replay i ?req) (auditLogs ?s) = Some ex" "en = cloneAuditLog ex"
      "al_ActorUUID ex = al_ActorUUID au" "al_get ex ''reason'' = al_get au ''reason''" by blast
    then show ?thesis by (intro exI [of _ ex]) simp
  qed
  then obtain ex where ex: "find (archive_replay i ?req) (auditLogs s') = Some ex" "cloneAuditLog ex = cloneAuditLog en"
    "al_ActorUUID ex = al_ActorUUID au" "al_get ex ''reason'' = al_get au ''reason''" by blast
  have "user_inv s'"
    using DeleteUser_inv [OF after_users_inv, of tr fresh now i "Some au" req allow ops] assms(1) by simp
  then obtain new where "auditLogs ?t = auditLogs s' @ new"
    using usr_mono.exec_all_le [of s' ops'] by (auto simp: audit_le_def)
  then have "find (archive_replay i ?req) (auditLogs ?t) = Some ex"
    using ex(1) by (simp add: find_append_Some)
  then show ?thesis
    using assms(2,5-7) ex by (simp add: DeleteUser_def Let_def)
qed

definition archive_entry :: AuditLog where
  "archive_entry = \<lparr>al_UUID = [], al_Action = ''account.user.archive'', al_ActorUUID = ''op'',
     al_Details = Some [(''target_uuid'', DVal (GString ''u1'')), (''reason'', DVal (GString ''left''))],
     al_CreatedAt = 0\<rparr>"

theorem archive_is_guarded_witness:
  "\<exists>s' en. DeleteUser ''t1'' ''a1'' 30 ''u1'' (Some archive_entry) ''r1'' (after_users False sample_users) = (s', Inr en) \<and>
     auditLogs s' = auditLogs (after_users False sample_users) @ [cloneAuditLog en]"
proof -
  let ?s = "after_users False sample_users"
  have get: "GetUserByID ''u1'' ?s = Inr (sample_user ''u1'' ''Ann'' ''a@x.io'')" by code_simp
  have "outcome (DeleteUser ''t1'' ''a1'' 30 ''u1'' (Some archive_entry) ''r1'' ?s) (\<lambda>en. True)" by code_simp
  then obtain s' en where del: "DeleteUser ''t1'' ''a1'' 30 ''u1'' (Some archive_entry) ''r1'' ?s = (s', Inr en)"
    by (rule outcomeE) blast
  have "length (auditLogs (fst (DeleteUser ''t1'' ''a1'' 30 ''u1'' (Some archive_entry) ''r1'' ?s))) = 1"
    "length (auditLogs ?s) = 0"
    by code_simp+
  then have "s' \<noteq> ?s" using del by auto
  from archive_is_guarded [OF del this get] del show ?thesis by blast
qed

theorem archive_replay_stable_witness:
  "\<exists>s' en. DeleteUser ''t1'' ''a1'' 30 ''u1'' (Some archive_entry) ''r1'' (after_users False sample_users) = (s', Inr en) \<and>
     DeleteUser ''t2'' ''a2'' 99 ''u1'' (Some archive_entry) ''r1'' (exec_all user_exec [OpDeleteSession ''x''] s') =
       (exec_all user_exec [OpDeleteSession ''x''] s', Inr (cloneAuditLog en))"
proof -
  let ?s = "after_users False sample_users"
  have "outcome (DeleteUser ''t1'' ''a1'' 30 ''u1'' (Some archive_entry) ''r1'' ?s) (\<lambda>en. True)" by code_simp
  then obtain s' en where del: "DeleteUser ''t1'' ''a1'' 30 ''u1'' (Some archive_entry) ''r1'' ?s = (s', Inr en)"
    by (rule outcomeE) blast
  have h: "TrimSpace ''r1'' \<noteq> []" "al_Action archive_entry = AuditActionUserArchive"
    "al_get archive_entry ''target_uuid'' = Some (DVal (GString ''u1''))"
    "validateUserArchiveAudit ''u1'' (Some archive_entry) = None"
    by code_simp+
  from archive_replay_stable [OF del h refl refl] del show ?thesis by blast
qed

section \<open>Exchange codes\<close>

definition creates_code :: "string \<Rightarrow> user_op \<Rightarrow> bool" where
  "creates_code code opn = (case opn of OpCreateOAuthExchangeCode c _ _ _ \<Rightarrow> TrimSpace c = TrimSpace code | _ \<Rightarrow> False)"

lemma codes_kept:
  "oauthExchangeCodes (fst (CreateUser fresh now v7 u s)) = oauthExchangeCodes s"
  "oauthExchangeCodes (fst (UpdateUser now v7 u s)) = oauthExchangeCodes s"
  "oauthExchangeCodes (fst (InsertAuditLog fresh now e s)) = oauthExchangeCodes s"
  "oauthExchangeCodes (fst (DeleteUser tr fresh now i e req s)) = oauthExchangeCodes s"
  "oauthExchangeCodes (fst (SetUserActiveWithAudit c fresh now i active actor s)) = oauthExchangeCodes s"
  "oauthExchangeCodes (fst (UpsertSubscription fresh now sub s)) = oauthExchangeCodes s"
  "oauthExchangeCodes (fst (CancelSubscription now u' ext t s)) = oauthExchangeCodes s"
  "oauthExchangeCodes (fst (CreateIdentity fresh now i' s)) = oauthExchangeCodes s"
  by (simp_all add: CreateUser_def UpdateUser_def InsertAuditLog_def DeleteUser_def SetUserActiveWithAudit_def
      UpsertSubscription_def CancelSubscription_def CreateIdentity_def Let_def split: sum.split option.split)

lemma code_gone_step:
  "gm_get (oauthExchangeCodes s) (TrimSpace code) = None \<Longrightarrow> \<not> creates_code code opn \<Longrightarrow>
   gm_get (oauthExchangeCodes (user_exec opn s)) (TrimSpace code) = None"
  by (cases opn) (simp_all add: codes_kept record_defs creates_code_def ConsumeOAuthExchangeCode_def Let_def
      split: option.split)

lemma code_gone:
  "gm_get (oauthExchangeCodes s) (TrimSpace code) = None \<Longrightarrow> list_all (\<lambda>opn. \<not> creates_code code opn) ops \<Longrightarrow>
   gm_get (oauthExchangeCodes (exec_all user_exec ops s)) (TrimSpace code) = None"
  by (induction ops arbitrary: s) (simp_all add: code_gone_step)

text \<open>
  An exchange code works once. After any attempt to consume it, successful or expired, no
  later attempt gets a session from it, whatever happens in between, unless the same code
  is issued again. A successful attempt is not later than the expiry of the code.
\<close>

theorem exchange_code_single_use:
  assumes "ConsumeOAuthExchangeCode now code s = (s', r)"
    and "list_all (\<lambda>opn. \<not> creates_code code opn) ops"
  shows "snd (ConsumeOAuthExchangeCode now' code (exec_all user_exec ops s')) = None \<and>
    (r \<noteq> None \<longrightarrow> (\<exists>rec. gm_get (oauthExchangeCodes s) (TrimSpace code) = Some rec \<and> now \<le> oe_ExpiresAt rec \<and>
       r = Some (oe_SessionToken rec, oe_SessionExpiresAt rec)))"
proof -
  have "gm_get (oauthExchangeCodes s') (TrimSpace code) = None"
    using assms(1) by (auto simp: ConsumeOAuthExchangeCode_def Let_def split: option.splits if_splits)
  from code_gone [OF this assms(2)] show ?thesis
    using assms(1) by (auto simp: ConsumeOAuthExchangeCode_def Let_def split: option.splits if_splits)
qed

theorem exchange_code_single_use_witness:
  "snd (ConsumeOAuthExchangeCode 6 ''c'' (exec_all user_exec [OpDeleteSession ''x'']
     (fst (ConsumeOAuthExchangeCode 5 '' c '' (after_users False [OpCreateOAuthExchangeCode ''c'' ''tok'' 100 10]))))) = None \<and>
   snd (ConsumeOAuthExchangeCode 5 '' c '' (after_users False [OpCreateOAuthExchangeCode ''c'' ''tok'' 100 10])) = Some (''tok'', 100)"
proof -
  let ?s = "after_users False [OpCreateOAuthExchangeCode ''c'' ''tok'' 100 10]"
  let ?p = "ConsumeOAuthExchangeCode 5 ''c'' ?s"
  have ops: "list_all (\<lambda>opn. \<not> creates_code ''c'' opn) [OpDeleteSession ''x'']" by code_simp
  have same: "ConsumeOAuthExchangeCode 5 '' c '' ?s = ?p" "snd ?p = Some (''tok'', 100)" by code_simp+
  from exchange_code_single_use [OF surjective_pairing [of ?p] ops, of 6] same show ?thesis by simp
qed

section \<open>Paging\<close>

definition audit_matched :: "AuditLogFilter \<Rightarrow> 'z user_store_scheme \<Rightarrow> AuditLog list" where
  "audit_matched f s = map cloneAuditLog (filter (audit_matches f) (rev (auditLogs s)))"

lemma audit_matches_offset [simp]: "audit_matches (f\<lparr>af_Offset := n\<rparr>) = audit_matches f"
  by (simp add: audit_matches_def fun_eq_iff)

lemma take_Suc_page: "take (Suc n * l) xs = take (n * l) xs @ take l (drop (n * l) xs)"
  using take_add [of "n * l" l xs] by (simp add: add.commute)

text \<open>
  Paging through the audit log loses and repeats nothing. For a page size from 1 to 200, the
  first \<open>n\<close> pages together are the first \<open>n * limit\<close> matching entries, newest first.
\<close>

theorem audit_pages_complete:
  assumes "1 \<le> af_Limit f" and "af_Limit f \<le> 200"
  shows "concat (map (\<lambda>p. ListAuditLogs (f\<lparr>af_Offset := int p * af_Limit f\<rparr>) s) [0..<n]) =
    take (n * nat (af_Limit f)) (audit_matched f s)"
proof (induction n)
  case (Suc n)
  have nn: "nat (int n * af_Limit f) = n * nat (af_Limit f)"
    using assms(1) by (simp add: nat_mult_distrib)
  have le: "int m \<le> int n * af_Limit f \<longleftrightarrow> m \<le> n * nat (af_Limit f)" for m
    using assms(1) by (simp add: nn [symmetric] le_nat_iff)
  have "ListAuditLogs (f\<lparr>af_Offset := int n * af_Limit f\<rparr>) s =
      take (nat (af_Limit f)) (drop (n * nat (af_Limit f)) (audit_matched f s))"
    using assms by (auto simp: ListAuditLogs_def Let_def audit_matched_def nn le mult_less_0_iff)
  then show ?case
    using Suc.IH by (simp only: take_Suc_page) simp
qed simp

theorem audit_pages_complete_witness:
  "concat (map (\<lambda>p. ListAuditLogs \<lparr>af_ActionPrefix = [], af_ActorUUID = [], af_TargetUUID = [], af_Limit = 2,
      af_Offset = int p * 2\<rparr> (after_users False [OpInsertAuditLog ''e1'' 1 (Some archive_entry)])) [0..<3]) =
   take 6 (audit_matched \<lparr>af_ActionPrefix = [], af_ActorUUID = [], af_TargetUUID = [], af_Limit = 2, af_Offset = 0\<rparr>
     (after_users False [OpInsertAuditLog ''e1'' 1 (Some archive_entry)]))"
  using audit_pages_complete [of "\<lparr>af_ActionPrefix = [], af_ActorUUID = [], af_TargetUUID = [], af_Limit = 2, af_Offset = 0\<rparr>"
      "after_users False [OpInsertAuditLog ''e1'' 1 (Some archive_entry)]" 3]
  by simp

end
