(* ===== verification/Finance_Properties.thy ===== *)
theory Finance_Properties
  imports Finance_Steps User_Lifecycle
begin

text \<open>
  What the finance ledger promises in every run: refunds stay within the payment, and recorded
  payments and refunds are immutable, and a payment is safe to send again.
\<close>

section \<open>Refunds stay within the payment\<close>

text \<open>
  The condition on the arguments of a run: \<open>uuid.NewString\<close> returns non-empty ids, payments are
  below \<open>2 ^ 53\<close> minor units (so that amounts survive the comparison as \<open>float64\<close>), and no two
  members of a request denote the same field.
\<close>

definition finance_op_ok :: "finance_op \<Rightarrow> bool" where
  "finance_op_ok opn =
     (case opn of
        OpPayment f _ _ a \<Rightarrow> (case a of None \<Rightarrow> True | Some p \<Rightarrow> fp_AmountMinor p < 2 ^ 53)
      | OpRefund f _ _ _ _ \<Rightarrow> f \<noteq> []
      | OpBegin f _ _ _ _ a \<Rightarrow> f \<noteq> [] \<and> (case a of None \<Rightarrow> True | Some x \<Rightarrow> unambiguous (fo_Request x))
      | _ \<Rightarrow> True)"

lemma newFinanceStore_fields [simp]:
  "financeInvoices (newFinanceStore allow) = []" "financeInvoiceKeys (newFinanceStore allow) = []"
  "financePayments (newFinanceStore allow) = []" "financePaymentKeys (newFinanceStore allow) = []"
  "financeRefunds (newFinanceStore allow) = []" "financeRefundKeys (newFinanceStore allow) = []"
  "financeOperations (newFinanceStore allow) = []" "financeOperationKeys (newFinanceStore allow) = []"
  "financeOperationEvents (newFinanceStore allow) = []"
  by (simp_all add: newFinanceStore_def user_store.defs finance_store.defs newUserStore_def)

lemma finance_inv_init: "finance_inv (newFinanceStore allow)"
  by (simp add: finance_inv_def payments_ok_def refunds_ok_def operations_ok_def amounts_ok_def)

lemma finance_inv_step:
  assumes "finance_inv s" "finance_op_ok opn" shows "finance_inv (finance_exec opn s)"
proof (cases opn)
  case (OpUser u)
  then show ?thesis using same_ledger_inv [OF user_exec_same assms(1)] by simp
next
  case (OpInvoice f n n' a)
  then show ?thesis using same_ledger_inv [OF CreateFinanceInvoice_same assms(1)] by simp
next
  case (OpPayment f n n' a)
  then show ?thesis using RecordFinancePayment_inv [OF assms(1), of a] assms(2)
    by (cases a) (simp_all add: finance_op_ok_def)
next
  case (OpRefund f g n n' a)
  then show ?thesis using RecordFinanceRefund_inv [OF assms(1)] assms(2) by (simp add: finance_op_ok_def)
next
  case (OpBegin f g n n' n'' a)
  then show ?thesis using BeginFinanceOperation_inv [OF assms(1), of f a] assms(2)
    by (cases a) (simp_all add: finance_op_ok_def)
qed (simp_all add: CheckpointFinanceOperation_inv FinishFinanceOperation_inv assms(1))

interpretation fin: guarded_invariant finance_exec "newFinanceStore allow" finance_inv finance_op_ok
  by unfold_locales (rule finance_inv_init, rule finance_inv_step)

definition after_finance :: "bool \<Rightarrow> finance_op list \<Rightarrow> finance_store" where
  "after_finance allow ops = exec_all finance_exec ops (newFinanceStore allow)"

lemma after_finance_inv: "list_all finance_op_ok ops \<Longrightarrow> finance_inv (after_finance allow ops)"
  unfolding after_finance_def by (rule fin.guarded_run [OF finance_inv_init])

text \<open>
  C1: No payment is refunded beyond its amount. After any run with payments below \<open>2 ^ 53\<close> minor
  units and unambiguous requests, the refunds recorded for a payment, together with the
  amounts held by refund operations that may still be paid out, are at most the payment;
  the wrap-around of the \<open>int64\<close> totals in the code never plays a role.
\<close>

theorem refunds_within_payment:
  assumes "list_all finance_op_ok ops"
    and "gm_get (financePayments (after_finance allow ops)) k = Some p"
  shows "refunded (after_finance allow ops) k + held_total (after_finance allow ops) k \<le> fp_AmountMinor p \<and>
    0 \<le> held_total (after_finance allow ops) k"
  using amounts_okD [OF finance_invD(4) [OF after_finance_inv [OF assms(1)]] assms(2)] held_total_nonneg
  by (simp add: committed_def)

definition sample_invoice :: FinanceInvoice where
  "sample_invoice = \<lparr>fi_ID = ''i1'', fi_IdempotencyKey = ''ik'', fi_AccountUUID = ''u1'', fi_SubscriptionUUID = [],
     fi_Provider = [], fi_ProviderInvoiceID = [], fi_AmountMinor = 10, fi_Currency = ''eur'', fi_Description = [],
     fi_IssuedAt = 7, fi_DueAt = None, fi_ServicePeriodStart = None, fi_ServicePeriodEnd = None, fi_CreatedAt = 0\<rparr>"

definition sample_payment :: FinancePayment where
  "sample_payment = \<lparr>fp_ID = ''p1'', fp_IdempotencyKey = ''pk'', fp_InvoiceID = ''i1'', fp_AccountUUID = ''u1'',
     fp_Provider = [], fp_ProviderPaymentID = [], fp_AmountMinor = 10, fp_Currency = ''eur'', fp_PaidAt = 8,
     fp_CreatedAt = 0\<rparr>"

definition sample_refund :: "string \<Rightarrow> int \<Rightarrow> FinanceRefund" where
  "sample_refund key amount = \<lparr>fr_ID = [], fr_IdempotencyKey = key, fr_PaymentID = ''p1'', fr_Provider = [],
     fr_ProviderRefundID = ''x'' @ key, fr_AmountMinor = amount, fr_Currency = ''eur'', fr_Reason = [],
     fr_RefundedAt = 9, fr_CreatedAt = 0\<rparr>"

definition sample_operation :: "string \<Rightarrow> (string \<times> gval) list \<Rightarrow> FinanceOperation" where
  "sample_operation key members = \<lparr>fo_ID = [], fo_IdempotencyKey = key, fo_OperationType = ''refund'',
     fo_TargetType = ''payment'', fo_TargetID = ''p1'', fo_Provider = [], fo_ProviderOperationID = [],
     fo_Status = [], fo_AttemptCount = 0, fo_NextAttemptAt = None, fo_LastError = [],
     fo_Request = RawDoc (GMap (members @ [(''currency'', GString ''eur'')])), fo_Response = RawEmpty,
     fo_CreatedAt = 0, fo_UpdatedAt = 0\<rparr>"

definition paid_ops :: "finance_op list" where
  "paid_ops =
     [OpUser (OpCreateUser ''f1'' 10 (Inr ''v1'') (sample_user ''u1'' ''Ann'' ''a@x.io'')),
      OpInvoice ''f2'' 11 11 (Some sample_invoice), OpPayment ''f3'' 12 12 (Some sample_payment)]"

definition refunded_ops :: "finance_op list" where
  "refunded_ops = paid_ops @
     [OpBegin ''o1'' ''e1'' 13 13 13 (Some (sample_operation ''k1'' [(''amount_minor'', GInt 6)])),
      OpRefund ''r2'' ''e2'' 14 14 (Some (sample_refund ''k2'' 3))]"

definition payment_totals :: "string \<Rightarrow> finance_store \<Rightarrow> int \<times> int \<times> bool" where
  "payment_totals k s = (refunded s k, held_total s k, gm_has (financePayments s) k)"

theorem refunds_within_payment_witness:
  "\<exists>p. gm_get (financePayments (after_finance False refunded_ops)) ''p1'' = Some p \<and>
     refunded (after_finance False refunded_ops) ''p1'' = 3 \<and> held_total (after_finance False refunded_ops) ''p1'' = 6 \<and>
     refunded (after_finance False refunded_ops) ''p1'' + held_total (after_finance False refunded_ops) ''p1''
       \<le> fp_AmountMinor p"
proof -
  let ?s = "after_finance False refunded_ops"
  have ok: "list_all finance_op_ok refunded_ops" by code_simp
  have "payment_totals ''p1'' ?s = (3, 6, True)" by code_simp
  then have v: "refunded ?s ''p1'' = 3" "held_total ?s ''p1'' = 6" "gm_has (financePayments ?s) ''p1''"
    by (simp_all add: payment_totals_def)
  then obtain p where p: "gm_get (financePayments ?s) ''p1'' = Some p" by blast
  from refunds_within_payment [OF ok p] v p show ?thesis by blast
qed

section \<open>Facts are immutable\<close>

text \<open>Every recorded payment and refund, and every key, is still there unchanged.\<close>

definition kept :: "('k, 'v) gomap \<Rightarrow> ('k, 'v) gomap \<Rightarrow> bool" where
  "kept m m' \<longleftrightarrow> (\<forall>k v. gm_get m k = Some v \<longrightarrow> gm_get m' k = Some v)"

lemma kept_refl [simp]: "kept m m"
  by (simp add: kept_def)

lemma kept_trans: "kept a b \<Longrightarrow> kept b c \<Longrightarrow> kept a c"
  by (simp add: kept_def)

lemma kept_put [simp]: "gm_get m k = None \<Longrightarrow> kept m (gm_put k v m)"
  by (auto simp: kept_def)

definition facts_le :: "'z finance_store_scheme \<Rightarrow> 'z finance_store_scheme \<Rightarrow> bool" where
  "facts_le s s' \<longleftrightarrow> kept (financePayments s) (financePayments s') \<and> kept (financePaymentKeys s) (financePaymentKeys s') \<and>
     kept (financeRefunds s) (financeRefunds s') \<and> kept (financeRefundKeys s) (financeRefundKeys s')"

lemma bind_refund_facts [simp]:
  "financePayments (bind_refund g c s) = financePayments s" "financePaymentKeys (bind_refund g c s) = financePaymentKeys s"
  "financeRefunds (bind_refund g c s) = financeRefunds s" "financeRefundKeys (bind_refund g c s) = financeRefundKeys s"
  "byID (bind_refund g c s) = byID s" "financeInvoices (bind_refund g c s) = financeInvoices s"
  by (simp_all add: bind_refund_def Let_def)

lemma facts_le_step: "facts_le s (finance_exec opn s)"
proof (cases opn)
  case (OpUser x)
  have "financePaymentKeys (user_exec x s) = financePaymentKeys s"
    by (cases x) (simp_all add: CreateUser_def UpdateUser_def InsertAuditLog_def DeleteUser_def
      SetUserActiveWithAudit_def UpsertSubscription_def CancelSubscription_def CreateIdentity_def
      ConsumeOAuthExchangeCode_def record_defs Let_def split: sum.split option.split)
  then show ?thesis using user_exec_same [of s x] OpUser by (simp add: facts_le_def same_ledger_def)
next
  case (OpInvoice f n n' a)
  have "post (\<lambda>(s', r). facts_le s s') (CreateFinanceInvoice f n n' a s)"
    unfolding CreateFinanceInvoice_def by (intro branches) (simp_all add: post_def facts_le_def)
  then show ?thesis using OpInvoice by (simp add: post_fst)
next
  case (OpPayment f n n' a)
  have "post (\<lambda>(s', r). facts_le s s') (RecordFinancePayment f n n' a s)"
    unfolding RecordFinancePayment_def by (intro branches) (simp_all add: post_def facts_le_def)
  then show ?thesis using OpPayment by (simp add: post_fst)
next
  case (OpRefund f g n n' a)
  have "post (\<lambda>(s', r). facts_le s s') (RecordFinanceRefund f g n n' a s)"
    unfolding RecordFinanceRefund_def by (intro branches) (simp_all add: post_def facts_le_def)
  then show ?thesis using OpRefund by (simp add: post_fst)
next
  case (OpBegin f g n n' n'' a)
  then show ?thesis
    by (auto simp: BeginFinanceOperation_def start_attempt_def facts_le_def Let_def split: option.split attempt.split)
next
  case (OpCheckpoint g n i k r)
  have "post (\<lambda>(s', r). facts_le s s') (CheckpointFinanceOperation g n i k r s)"
    unfolding CheckpointFinanceOperation_def by (intro branches) (simp_all add: post_def facts_le_def)
  then show ?thesis using OpCheckpoint by (simp add: post_fst)
next
  case (OpFinish g n i st p r e t k)
  have "post (\<lambda>(s', r). facts_le s s') (FinishFinanceOperation g n i st p r e t k s)"
    unfolding FinishFinanceOperation_def by (intro branches) (simp_all add: post_def facts_le_def)
  then show ?thesis using OpFinish by (simp add: post_fst)
qed

lemma facts_le_trans: "facts_le s t \<Longrightarrow> facts_le t u \<Longrightarrow> facts_le s u"
  unfolding facts_le_def by (blast intro: kept_trans)

interpretation fin_facts: monotone_store finance_exec "newFinanceStore allow" "\<lambda>_. True" facts_le
  by unfold_locales (simp_all add: facts_le_step, simp add: facts_le_def, rule facts_le_trans)

text \<open>What a call that records a new payment has checked and stored.\<close>

definition payment_recorded ::
  "string \<Rightarrow> time \<Rightarrow> FinancePayment \<Rightarrow> 'z finance_store_scheme \<Rightarrow> 'z finance_store_scheme \<Rightarrow> FinancePayment \<Rightarrow> bool" where
  "payment_recorded f n' p s s' q \<longleftrightarrow>
     TrimSpace (fp_IdempotencyKey p) \<noteq> [] \<and> 0 < fp_AmountMinor p \<and>
     validFinanceCurrency (financeCurrency (fp_Currency p)) \<and>
     (\<exists>t. q = (normalized_payment f p)\<lparr>fp_PaidAt := t, fp_CreatedAt := n'\<rparr> \<and> (fp_PaidAt p = 0 \<or> t = fp_PaidAt p)) \<and>
     s' = s\<lparr>financePayments := gm_put (fp_ID q) q (financePayments s),
            financePaymentKeys := gm_put (TrimSpace (fp_IdempotencyKey p)) (fp_ID q) (financePaymentKeys s)\<rparr>"

lemma RecordFinancePayment_recorded:
  assumes "RecordFinancePayment f n n' (Some p) s = (s', Inr (True, q))"
  shows "payment_recorded f n' p s s' q"
proof -
  have "post (\<lambda>(s', r). \<forall>x. r = Inr x \<longrightarrow> (fst x \<longrightarrow> payment_recorded f n' p s s' (snd x)))
    (RecordFinancePayment f n n' (Some p) s)"
    unfolding RecordFinancePayment_def
  proof (intro branches)
    fix payment copy1 copy2 copy3
    assume p: "Some p = Some payment" "\<not> (TrimSpace (fp_IdempotencyKey payment) = [] \<or> fp_AmountMinor payment \<le> 0)"
      and c: "copy1 = normalized_payment f payment" "\<not> \<not> validFinanceCurrency (fp_Currency copy1)"
      "copy2 = (if IsZero (fp_PaidAt copy1) then copy1\<lparr>fp_PaidAt := n\<rparr> else copy1)"
      "copy3 = copy2\<lparr>fp_CreatedAt := n'\<rparr>"
    let ?t = "if IsZero (fp_PaidAt p) then n else fp_PaidAt p"
    have "copy3 = (normalized_payment f p)\<lparr>fp_PaidAt := ?t, fp_CreatedAt := n'\<rparr>"
      using p(1) by (cases p) (simp add: c normalized_payment_def)
    moreover have "fp_IdempotencyKey copy3 = TrimSpace (fp_IdempotencyKey p)" "fp_Currency copy1 = financeCurrency (fp_Currency p)"
      using p(1) by (simp_all add: c normalized_payment_def)
    ultimately have "payment_recorded f n' p s (s\<lparr>financePayments := gm_put (fp_ID copy3) copy3 (financePayments s),
         financePaymentKeys := gm_put (fp_IdempotencyKey copy3) (fp_ID copy3) (financePaymentKeys s)\<rparr>) copy3"
      using p c(2) unfolding payment_recorded_def by (intro conjI exI [of _ ?t]) simp_all
    then show "post (\<lambda>(s', r). \<forall>x. r = Inr x \<longrightarrow> (fst x \<longrightarrow> payment_recorded f n' p s s' (snd x)))
      (s\<lparr>financePayments := gm_put (fp_ID copy3) copy3 (financePayments s),
         financePaymentKeys := gm_put (fp_IdempotencyKey copy3) (fp_ID copy3) (financePaymentKeys s)\<rparr>, Inr (True, copy3))"
      by (simp add: post_def)
  qed (simp_all add: post_def)
  from post_Inr [OF assms this] show ?thesis by simp
qed

lemma RecordFinancePayment_newD:
  assumes "RecordFinancePayment f n n' (Some p) s = (s', Inr (True, q))"
  shows "\<exists>t. gm_get (financePayments s') (fp_ID q) = Some q \<and>
    gm_get (financePaymentKeys s') (TrimSpace (fp_IdempotencyKey p)) = Some (fp_ID q) \<and>
    TrimSpace (fp_IdempotencyKey p) \<noteq> [] \<and> 0 < fp_AmountMinor p \<and>
    validFinanceCurrency (financeCurrency (fp_Currency p)) \<and>
    q = (normalized_payment f p)\<lparr>fp_PaidAt := t, fp_CreatedAt := n'\<rparr> \<and> (fp_PaidAt p = 0 \<or> t = fp_PaidAt p)"
proof -
  note rec = RecordFinancePayment_recorded [OF assms, unfolded payment_recorded_def]
  then obtain t where "q = (normalized_payment f p)\<lparr>fp_PaidAt := t, fp_CreatedAt := n'\<rparr>" "fp_PaidAt p = 0 \<or> t = fp_PaidAt p"
    by blast
  moreover have "gm_get (financePayments s') (fp_ID q) = Some q"
    "gm_get (financePaymentKeys s') (TrimSpace (fp_IdempotencyKey p)) = Some (fp_ID q)"
    using rec by (elim conjE; simp)+
  ultimately show ?thesis
    using rec by blast
qed

text \<open>
  Payments are immutable facts and recording one is idempotent. Once a payment is recorded,
  then after any further operations it is still stored unchanged, and sending the same
  payment again records nothing and returns the id and creation time of the first time.
\<close>

theorem payment_replay:
  fixes s :: finance_store
  assumes "RecordFinancePayment f n n' (Some p) s = (s', Inr (True, q))"
  shows "gm_get (financePayments (exec_all finance_exec ops s')) (fp_ID q) = Some q \<and>
    RecordFinancePayment f2 n2 n2' (Some p) (exec_all finance_exec ops s') =
      (exec_all finance_exec ops s', Inr (False, p\<lparr>fp_ID := fp_ID q, fp_CreatedAt := fp_CreatedAt q\<rparr>))"
proof -
  let ?t = "exec_all finance_exec ops s'" and ?key = "TrimSpace (fp_IdempotencyKey p)"
  from RecordFinancePayment_newD [OF assms] obtain t where
      q: "gm_get (financePayments s') (fp_ID q) = Some q" "gm_get (financePaymentKeys s') ?key = Some (fp_ID q)"
    and ok: "?key \<noteq> []" "0 < fp_AmountMinor p" "validFinanceCurrency (financeCurrency (fp_Currency p))"
    and eq: "q = (normalized_payment f p)\<lparr>fp_PaidAt := t, fp_CreatedAt := n'\<rparr>" "fp_PaidAt p = 0 \<or> t = fp_PaidAt p"
    by blast
  have le: "facts_le s' ?t" by (rule fin_facts.exec_all_le) simp
  have t: "gm_get (financePayments ?t) (fp_ID q) = Some q" "gm_get (financePaymentKeys ?t) ?key = Some (fp_ID q)"
    using le q by (auto simp: facts_le_def kept_def)
  have "fp_InvoiceID q = TrimSpace (fp_InvoiceID p)" "fp_AmountMinor q = fp_AmountMinor p"
    "fp_Currency q = financeCurrency (fp_Currency p)" "fp_Provider q = financeProvider (fp_Provider p)"
    "fp_ProviderPaymentID q = TrimSpace (fp_ProviderPaymentID p)" "fp_PaidAt q = t"
    by (simp_all add: eq(1) normalized_payment_def)
  with t ok eq(2) show ?thesis
    by (auto simp: RecordFinancePayment_def normalized_payment_def Let_def)
qed

theorem payment_replay_witness:
  "\<exists>s' q. RecordFinancePayment ''f3'' 12 12 (Some sample_payment) (after_finance False (take 2 paid_ops)) = (s', Inr (True, q)) \<and>
     gm_get (financePayments (exec_all finance_exec [OpUser (OpDeleteSession ''x'')] s')) (fp_ID q) = Some q"
proof -
  have "outcome (RecordFinancePayment ''f3'' 12 12 (Some sample_payment) (after_finance False (take 2 paid_ops))) fst"
    by code_simp
  then obtain s' v where r: "RecordFinancePayment ''f3'' 12 12 (Some sample_payment) (after_finance False (take 2 paid_ops)) = (s', Inr v)"
    and "fst v" by (rule outcomeE) blast
  then obtain q where "v = (True, q)" by (cases v) simp
  with payment_replay [of "''f3''" 12 12 sample_payment "after_finance False (take 2 paid_ops)" s' q
      "[OpUser (OpDeleteSession ''x'')]"] r show ?thesis by blast
qed

section \<open>The ledger does not touch the components built on it\<close>

lemma finance_more_user: "user_store.more s = user_store.more s' \<Longrightarrow> finance_store.more s = finance_store.more s'"
  for s s' :: "'z finance_store_scheme"
  by (cases s; cases s') simp

lemma finance_exec_more [simp]: "finance_store.more (finance_exec opn s) = finance_store.more s"
proof (cases opn)
  case (OpUser x)
  then show ?thesis using finance_more_user [OF user_exec_more] by simp
next
  case (OpInvoice f n n' a)
  have "post (\<lambda>(s', r). finance_store.more s' = finance_store.more s) (CreateFinanceInvoice f n n' a s)"
    unfolding CreateFinanceInvoice_def by (intro branches) (simp_all add: post_def)
  from post_fst [OF this] show ?thesis using OpInvoice by simp
next
  case (OpPayment f n n' a)
  have "post (\<lambda>(s', r). finance_store.more s' = finance_store.more s) (RecordFinancePayment f n n' a s)"
    unfolding RecordFinancePayment_def by (intro branches) (simp_all add: post_def)
  from post_fst [OF this] show ?thesis using OpPayment by simp
next
  case (OpRefund f g n n' a)
  have "post (\<lambda>(s', r). finance_store.more s' = finance_store.more s) (RecordFinanceRefund f g n n' a s)"
    unfolding RecordFinanceRefund_def by (intro branches) (simp_all add: post_def bind_refund_def Let_def)
  from post_fst [OF this] show ?thesis using OpRefund by simp
next
  case (OpBegin f g n n' n'' a)
  then show ?thesis
    by (auto simp: BeginFinanceOperation_def start_attempt_def Let_def split: option.split attempt.split)
next
  case (OpCheckpoint g n i k r)
  have "post (\<lambda>(s', r). finance_store.more s' = finance_store.more s) (CheckpointFinanceOperation g n i k r s)"
    unfolding CheckpointFinanceOperation_def by (intro branches) (simp_all add: post_def)
  from post_fst [OF this] show ?thesis using OpCheckpoint by simp
next
  case (OpFinish g n i st p r e t k)
  have "post (\<lambda>(s', r). finance_store.more s' = finance_store.more s) (FinishFinanceOperation g n i st p r e t k s)"
    unfolding FinishFinanceOperation_def by (intro branches) (simp_all add: post_def)
  from post_fst [OF this] show ?thesis using OpFinish by simp
qed

end
