(* ===== verification/Referral_Invariant.thy ===== *)
theory Referral_Invariant
  imports Referral Finance_Properties
begin

text \<open>
  The invariant of the referral program: one reward per invitee and per invoice, owed to the
  account that invited, reversed as soon as its invoice has a payment risk; codes, attributions
  and settlements that agree with each other; campaign revisions in the order of time.
\<close>

section \<open>The ledger does not touch the program\<close>

lemma referral_fields_more:
  fixes s s' :: "'z referral_store_scheme"
  assumes "finance_store.more s = finance_store.more s'"
  shows "referralInvoiceProofs s = referralInvoiceProofs s'" "referralCampaigns s = referralCampaigns s'"
    "referralRewardCampaigns s = referralRewardCampaigns s'" "referralCodes s = referralCodes s'"
    "referralCodesByValue s = referralCodesByValue s'" "referralsByInvitee s = referralsByInvitee s'"
    "referralRewards s = referralRewards s'" "referralRewardByInvoice s = referralRewardByInvoice s'"
    "referralRisks s = referralRisks s'" "referralSettlements s = referralSettlements s'"
    "referralExtensions s = referralExtensions s'"
  using assms by (cases s; cases s'; simp)+

lemmas finance_exec_referral [simp] = referral_fields_more [OF finance_exec_more]

lemma forget_user_referral [simp]:
  fixes s :: "'z referral_store_scheme"
  shows "referralCampaigns (forget_user i s) = referralCampaigns s"
    "referralCodes (forget_user i s) = referralCodes s" "referralCodesByValue (forget_user i s) = referralCodesByValue s"
    "referralsByInvitee (forget_user i s) = referralsByInvitee s" "referralRewards (forget_user i s) = referralRewards s"
    "referralRewardByInvoice (forget_user i s) = referralRewardByInvoice s" "referralRisks (forget_user i s) = referralRisks s"
    "referralSettlements (forget_user i s) = referralSettlements s"
  by (simp_all add: forget_user_def split: option.split)

section \<open>Rewards\<close>

definition attributed :: "(string, ReferralAttribution) gomap \<Rightarrow> string \<Rightarrow> string \<Rightarrow> bool" where
  "attributed refs i u \<longleftrightarrow> (\<exists>a. gm_get refs i = Some a \<and> ra_ReferrerUUID a = u)"

definition reward_ok ::
  "(string, string) gomap \<Rightarrow> (string, ReferralAttribution) gomap \<Rightarrow> string \<Rightarrow> ReferralReward \<Rightarrow> bool" where
  "reward_ok bi refs k r \<longleftrightarrow> rw_ID r = k \<and> k \<noteq> [] \<and> gm_get bi (rw_ProviderInvoiceID r) = Some k \<and>
     0 < rw_PaidMinor r \<and> rw_RewardMinor r = rw_PaidMinor r div 10 \<and>
     rw_EligibleAt r = rw_PaidAt r + 7 * 24 * Hour \<and> attributed refs (rw_InviteeUUID r) (rw_ReferrerUUID r)"

abbreviation one_reward :: "(string, ReferralReward) gomap \<Rightarrow> bool" where
  "one_reward rw \<equiv> unique_by (\<lambda>_. True) rw_InviteeUUID rw"

definition rewards_ok ::
  "(string, ReferralReward) gomap \<Rightarrow> (string, string) gomap \<Rightarrow> (string, ReferralAttribution) gomap \<Rightarrow> bool" where
  "rewards_ok rw bi refs \<longleftrightarrow> gm_wf rw \<and> (\<forall>k r. gm_get rw k = Some r \<longrightarrow> reward_ok bi refs k r) \<and>
     (\<forall>i k. gm_get bi i = Some k \<longrightarrow> (\<exists>r. gm_get rw k = Some r \<and> rw_ProviderInvoiceID r = i)) \<and> one_reward rw"

lemma rewards_okD:
  assumes "rewards_ok rw bi refs"
  shows "gm_wf rw" "gm_get rw k = Some r \<Longrightarrow> reward_ok bi refs k r"
    "gm_get bi i = Some k \<Longrightarrow> \<exists>r. gm_get rw k = Some r \<and> rw_ProviderInvoiceID r = i" "one_reward rw"
  using assms unfolding rewards_ok_def by blast+

lemma invoice_free:
  assumes "rewards_ok rw bi refs" "gm_str bi i = []" shows "gm_get bi i = None"
proof (rule ccontr)
  assume "gm_get bi i \<noteq> None"
  then obtain k where k: "gm_get bi i = Some k" by blast
  then obtain r where "gm_get rw k = Some r" using rewards_okD(3) [OF assms(1)] by blast
  then have "k \<noteq> []" using rewards_okD(2) [OF assms(1)] by (simp add: reward_ok_def)
  with k assms(2) show False by (simp add: gm_str_def)
qed

lemma rewards_ok_add:
  assumes ok: "rewards_ok rw bi refs" and new: "gm_get rw f = None" "gm_get bi (rw_ProviderInvoiceID r) = None"
    and r: "reward_ok (gm_put (rw_ProviderInvoiceID r) f bi) refs f r"
    and one: "\<And>k r'. gm_get rw k = Some r' \<Longrightarrow> rw_InviteeUUID r' \<noteq> rw_InviteeUUID r"
  shows "rewards_ok (gm_put f r rw) (gm_put (rw_ProviderInvoiceID r) f bi) refs"
  unfolding rewards_ok_def
proof (intro conjI allI impI)
  let ?bi = "gm_put (rw_ProviderInvoiceID r) f bi"
  show "gm_wf (gm_put f r rw)" using rewards_okD(1) [OF ok] by simp
  show "reward_ok ?bi refs k r'" if k: "gm_get (gm_put f r rw) k = Some r'" for k r'
  proof (cases "k = f")
    case True
    then show ?thesis using k r by simp
  next
    case False
    then have "reward_ok bi refs k r'" using k rewards_okD(2) [OF ok] by simp
    then show ?thesis using new(2) by (auto simp: reward_ok_def)
  qed
  show "\<exists>r'. gm_get (gm_put f r rw) k = Some r' \<and> rw_ProviderInvoiceID r' = i" if "gm_get ?bi i = Some k" for i k
  proof (cases "i = rw_ProviderInvoiceID r")
    case False
    then have "gm_get bi i = Some k" using that by simp
    then obtain r' where r': "gm_get rw k = Some r'" "rw_ProviderInvoiceID r' = i"
      using rewards_okD(3) [OF ok] by blast
    then have "k \<noteq> f" using new(1) by auto
    with r' show ?thesis by simp
  qed (use that in simp)
  show "one_reward (gm_put f r rw)"
    by (rule unique_by_put [OF rewards_okD(4) [OF ok]]) (use one in blast)
qed

lemma rewards_ok_status:
  assumes ok: "rewards_ok rw bi refs" and k: "gm_get rw k = Some r"
  shows "rewards_ok (gm_put k (r\<lparr>rw_Status := x\<rparr>) rw) bi refs"
  unfolding rewards_ok_def
proof (intro conjI allI impI)
  show "gm_wf (gm_put k (r\<lparr>rw_Status := x\<rparr>) rw)" using rewards_okD(1) [OF ok] by simp
  show "reward_ok bi refs k' r'" if "gm_get (gm_put k (r\<lparr>rw_Status := x\<rparr>) rw) k' = Some r'" for k' r'
    using that rewards_okD(2) [OF ok k] rewards_okD(2) [OF ok, of k' r']
    by (auto simp: reward_ok_def split: if_splits)
  show "\<exists>r'. gm_get (gm_put k (r\<lparr>rw_Status := x\<rparr>) rw) k' = Some r' \<and> rw_ProviderInvoiceID r' = i"
    if "gm_get bi i = Some k'" for i k'
    using rewards_okD(3) [OF ok that] k by (cases "k' = k") auto
  show "one_reward (gm_put k (r\<lparr>rw_Status := x\<rparr>) rw)"
    by (rule unique_by_replace [OF rewards_okD(4) [OF ok] k]) simp
qed

lemma rewards_ok_attribute:
  assumes "rewards_ok rw bi refs" "gm_get refs i = None" shows "rewards_ok rw bi (gm_put i a refs)"
proof -
  have "reward_ok bi (gm_put i a refs) k r" if "gm_get rw k = Some r" for k r
    using rewards_okD(2) [OF assms(1) that] assms(2) by (auto simp: reward_ok_def attributed_def)
  then show ?thesis using assms(1) unfolding rewards_ok_def by blast
qed

section \<open>Risks, codes, attributions, settlements, campaigns\<close>

definition risks_ok :: "(string, ReferralPaymentRisk) gomap \<Rightarrow> (string, ReferralReward) gomap \<Rightarrow> bool" where
  "risks_ok risks rw \<longleftrightarrow> (\<forall>src x k r. gm_get risks src = Some x \<longrightarrow> gm_get rw k = Some r \<longrightarrow>
     rw_ProviderInvoiceID r = rk_ProviderInvoiceID x \<longrightarrow> rw_Status r = ''reversed'')"

definition codes_ok :: "(string, ReferralCode) gomap \<Rightarrow> (string, string) gomap \<Rightarrow> bool" where
  "codes_ok codes bv \<longleftrightarrow> (\<forall>v u. gm_get bv v = Some u \<longrightarrow> (\<exists>c. gm_get codes u = Some c \<and> rc_Code c = v))"

definition attributions_ok :: "(string, ReferralAttribution) gomap \<Rightarrow> bool" where
  "attributions_ok refs \<longleftrightarrow> (\<forall>i a. gm_get refs i = Some a \<longrightarrow>
     ra_InviteeUUID a = i \<and> ra_ReferrerUUID a \<noteq> i \<and> ra_ReferrerUUID a \<noteq> [])"

definition reward_total :: "(string, ReferralReward) gomap \<Rightarrow> string \<Rightarrow> string \<Rightarrow> int" where
  "reward_total rw u c =
     sum_list (map rw_RewardMinor (filter (\<lambda>r. rw_ReferrerUUID r = u \<and> rw_Currency r = c) (gm_vals rw)))"

definition settlements_ok :: "(string, ReferralSettlement) gomap \<Rightarrow> (string, ReferralReward) gomap \<Rightarrow> bool" where
  "settlements_ok st rw \<longleftrightarrow> gm_wf st \<and> (\<forall>k x. gm_get st k = Some x \<longrightarrow>
     0 < rs_AmountMinor x \<and> rs_AmountMinor x \<le> reward_total rw (rs_ReferrerUUID x) (rs_Currency x))"

definition campaigns_ok :: "ReferralCampaign list \<Rightarrow> bool" where
  "campaigns_ok cs \<longleftrightarrow> cs \<noteq> [] \<and> sorted_wrt (\<lambda>a b. ca_EffectiveAt a < ca_EffectiveAt b) cs \<and>
     map ca_Revision cs = map int [1 ..< length cs + 1]"

definition referral_inv :: "'z referral_store_scheme \<Rightarrow> bool" where
  "referral_inv s \<longleftrightarrow>
     rewards_ok (referralRewards s) (referralRewardByInvoice s) (referralsByInvitee s) \<and>
     risks_ok (referralRisks s) (referralRewards s) \<and> codes_ok (referralCodes s) (referralCodesByValue s) \<and>
     attributions_ok (referralsByInvitee s) \<and> settlements_ok (referralSettlements s) (referralRewards s) \<and>
     campaigns_ok (referralCampaigns s)"

lemma referral_invD:
  assumes "referral_inv s"
  shows "rewards_ok (referralRewards s) (referralRewardByInvoice s) (referralsByInvitee s)"
    "risks_ok (referralRisks s) (referralRewards s)" "codes_ok (referralCodes s) (referralCodesByValue s)"
    "attributions_ok (referralsByInvitee s)" "settlements_ok (referralSettlements s) (referralRewards s)"
    "campaigns_ok (referralCampaigns s)"
  using assms by (simp_all add: referral_inv_def)

text \<open>An id of \<open>uuid.NewString\<close> is not empty and not in use.\<close>

definition referral_allowed :: "'z referral_store_scheme \<Rightarrow> referral_op \<Rightarrow> bool" where
  "referral_allowed s opn =
     (case opn of
        OpReward f _ _ _ \<Rightarrow> f \<noteq> [] \<and> \<not> gm_has (referralRewards s) f
      | OpRequest f _ _ _ \<Rightarrow> f \<noteq> [] \<and> \<not> gm_has (referralSettlements s) f
      | _ \<Rightarrow> True)"

lemma risks_okD:
  "risks_ok risks rw \<Longrightarrow> gm_get risks src = Some x \<Longrightarrow> gm_get rw k = Some r \<Longrightarrow>
   rw_ProviderInvoiceID r = rk_ProviderInvoiceID x \<Longrightarrow> rw_Status r = ''reversed''"
  unfolding risks_ok_def by blast

lemma risks_ok_reverse:
  "risks_ok risks rw \<Longrightarrow> gm_get rw k = Some r \<Longrightarrow> risks_ok risks (gm_put k (r\<lparr>rw_Status := ''reversed''\<rparr>) rw)"
  unfolding risks_ok_def by (auto split: if_splits)

lemma not_list_ex_vals: "\<not> list_ex P (gm_vals m) \<Longrightarrow> gm_get m k = Some v \<Longrightarrow> \<not> P v"
  using gm_get_vals [of m k v] by (auto simp: list_ex_iff)

text \<open>The exact total of the rewards of an account grows with a reward and ignores its status.\<close>

lemma reward_total_add:
  "gm_get rw f = None \<Longrightarrow> 0 \<le> rw_RewardMinor r \<Longrightarrow> reward_total rw u c \<le> reward_total (gm_put f r rw) u c"
  by (simp add: reward_total_def gm_put_new)

lemma reward_total_status:
  assumes "gm_wf rw" "gm_get rw k = Some r"
  shows "reward_total (gm_put k (r\<lparr>rw_Status := x\<rparr>) rw) u c = reward_total rw u c"
proof -
  obtain a b where m: "rw = a @ (k, r) # b" and put: "gm_put k (r\<lparr>rw_Status := x\<rparr>) rw = a @ (k, r\<lparr>rw_Status := x\<rparr>) # b"
    by (rule gm_put_split [OF assms(2,1)])
  show ?thesis unfolding put unfolding m by (simp add: reward_total_def)
qed

lemma settlements_ok_mono:
  "settlements_ok st rw \<Longrightarrow> (\<And>u c. reward_total rw u c \<le> reward_total rw' u c) \<Longrightarrow> settlements_ok st rw'"
  unfolding settlements_ok_def by (meson order_trans)

lemma settlements_ok_put:
  "settlements_ok st rw \<Longrightarrow> 0 < rs_AmountMinor x \<Longrightarrow>
   rs_AmountMinor x \<le> reward_total rw (rs_ReferrerUUID x) (rs_Currency x) \<Longrightarrow> settlements_ok (gm_put k x st) rw"
  unfolding settlements_ok_def by (simp del: map_of_eq_Some_iff)

lemma settlements_okD:
  assumes "settlements_ok st rw"
  shows "gm_wf st" "gm_get st k = Some x \<Longrightarrow> 0 < rs_AmountMinor x"
    "gm_get st k = Some x \<Longrightarrow> rs_AmountMinor x \<le> reward_total rw (rs_ReferrerUUID x) (rs_Currency x)"
  using assms unfolding settlements_ok_def by blast+

end
