(* ===== verification/Referral_Steps.thy ===== *)
theory Referral_Steps
  imports Referral_Invariant
begin

text \<open>
  Every operation keeps the invariant of the referral program, and every operation but the
  reconciliation of a rejected settlement keeps at most one open or paid settlement per
  account and currency.
\<close>

section \<open>Codes, attributions, rewards and risks\<close>

lemma codes_ok_put:
  assumes "codes_ok codes bv" "gm_get codes u = None" shows "codes_ok (gm_put u c codes) (gm_put (rc_Code c) u bv)"
proof -
  have "\<exists>d. gm_get (gm_put u c codes) w = Some d \<and> rc_Code d = v" if "gm_get (gm_put (rc_Code c) u bv) v = Some w" for v w
  proof (cases "v = rc_Code c")
    case False
    then have "gm_get bv v = Some w" using that by simp
    then obtain d where "gm_get codes w = Some d" "rc_Code d = v" using assms(1) unfolding codes_ok_def by blast
    then show ?thesis using assms(2) by auto
  qed (use that in simp)
  then show ?thesis by (simp add: codes_ok_def)
qed

lemma EnsureReferralCode_inv: "referral_inv s \<Longrightarrow> referral_inv (fst (EnsureReferralCode n u c s))"
  using codes_ok_put [of "referralCodes s" "referralCodesByValue s" "TrimSpace u"
    "\<lparr>rc_UserUUID = TrimSpace u, rc_Code = ToUpper (TrimSpace c), rc_CreatedAt = n\<rparr>"]
  by (simp add: EnsureReferralCode_def referral_inv_def Let_def split: option.split)

lemma CreateReferralAttribution_inv:
  assumes "referral_inv s" shows "referral_inv (fst (CreateReferralAttribution f n c i t s))"
proof -
  have "post (\<lambda>(s', r). referral_inv s') (CreateReferralAttribution f n c i t s)"
    unfolding CreateReferralAttribution_def
  proof (intro branches)
    fix code invitee referrer createdAt
    let ?a = "\<lparr>ra_ID = f, ra_ReferrerUUID = referrer, ra_InviteeUUID = invitee, ra_Code = code, ra_CreatedAt = createdAt\<rparr>"
    assume "\<not> (referrer = [] \<or> \<not> gm_has (byID s) invitee)" "referrer \<noteq> invitee" "\<not> gm_has (referralsByInvitee s) invitee"
    then have "attributions_ok (gm_put invitee ?a (referralsByInvitee s))"
      "rewards_ok (referralRewards s) (referralRewardByInvoice s) (gm_put invitee ?a (referralsByInvitee s))"
      using referral_invD(1,4) [OF assms] by (simp_all add: attributions_ok_def rewards_ok_attribute)
    then show "post (\<lambda>(s', r). referral_inv s')
        (s\<lparr>referralsByInvitee := gm_put invitee ?a (referralsByInvitee s)\<rparr>, Inr ())"
      using assms by (simp add: post_def referral_inv_def)
  qed (simp_all add: post_def assms)
  from post_fst [OF this] show ?thesis .
qed

lemma risks_ok_add:
  assumes "risks_ok risks rw" "\<And>src x. gm_get risks src = Some x \<Longrightarrow> rk_ProviderInvoiceID x \<noteq> rw_ProviderInvoiceID r"
  shows "risks_ok risks (gm_put k r rw)"
  unfolding risks_ok_def by (metis assms gm_get_put option.inject risks_okD)

lemma CreateReferralReward_inv:
  assumes inv: "referral_inv s" and f: "f \<noteq> []" "\<not> gm_has (referralRewards s) f"
  shows "referral_inv (fst (CreateReferralReward f n n' a s))"
proof -
  have "post (\<lambda>(s', r). referral_inv s') (CreateReferralReward f n n' a s)"
    unfolding CreateReferralReward_def
  proof (intro branches)
    fix reward reward1 copy :: ReferralReward and prior referral paidAt campaign
    assume guard: "\<not> (rw_ProviderInvoiceID reward = [] \<or> rw_PaidMinor reward \<le> 0 \<or>
         rw_RewardMinor reward \<noteq> rw_PaidMinor reward div 10 \<or> rw_Currency reward = [] \<or>
         rw_ProductSlug reward \<noteq> ''xconnect'' \<or> \<not> isXConnectReferralPlan (rw_PlanID reward))"
      and prior: "prior = gm_str (referralRewardByInvoice s) (rw_ProviderInvoiceID reward)" "\<not> prior \<noteq> []"
      and referral: "gm_get (referralsByInvitee s) (rw_InviteeUUID reward) = Some referral"
      and reward1: "reward1 = reward\<lparr>rw_ReferrerUUID := ra_ReferrerUUID referral\<rparr>"
      and fresh: "\<not> list_ex (\<lambda>old. rw_InviteeUUID old = rw_InviteeUUID reward1) (gm_vals (referralRewards s))"
        "\<not> list_ex (\<lambda>risk. rk_ProviderInvoiceID risk = rw_ProviderInvoiceID reward1) (gm_vals (referralRisks s))"
      and copy: "copy = reward1\<lparr>rw_ID := f, rw_ReferralID := ra_ID referral, rw_ReferralCreatedAt := ra_CreatedAt referral,
          rw_PaidAt := paidAt, rw_EligibleAt := paidAt + 7 * 24 * Hour,
          rw_Status := if rw_Status reward1 = [] then ''pending'' else rw_Status reward1, rw_CreatedAt := n'\<rparr>"
    let ?rw = "gm_put (rw_ID copy) copy (referralRewards s)"
    let ?bi = "gm_put (rw_ProviderInvoiceID copy) (rw_ID copy) (referralRewardByInvoice s)"
    have c: "rw_ID copy = f" "rw_ProviderInvoiceID copy = rw_ProviderInvoiceID reward"
      "rw_InviteeUUID copy = rw_InviteeUUID reward" "rw_InviteeUUID reward1 = rw_InviteeUUID reward"
      "rw_ProviderInvoiceID reward1 = rw_ProviderInvoiceID reward" "rw_RewardMinor copy = rw_PaidMinor reward div 10"
      using guard by (simp_all add: copy reward1)
    have new: "gm_get (referralRewards s) f = None" "gm_get (referralRewardByInvoice s) (rw_ProviderInvoiceID copy) = None"
      using f(2) invoice_free [OF referral_invD(1) [OF inv]] prior c by simp_all
    have "reward_ok (gm_put (rw_ProviderInvoiceID copy) f (referralRewardByInvoice s)) (referralsByInvitee s) f copy"
      using f(1) guard referral by (simp add: reward_ok_def attributed_def copy reward1)
    then have "rewards_ok ?rw ?bi (referralsByInvitee s)"
      unfolding c(1) using not_list_ex_vals [OF fresh(1)] c
      by (intro rewards_ok_add [OF referral_invD(1) [OF inv] new]) simp_all
    moreover have "risks_ok (referralRisks s) ?rw"
      using not_list_ex_vals [OF fresh(2)] c by (intro risks_ok_add [OF referral_invD(2) [OF inv]]) metis
    moreover have "settlements_ok (referralSettlements s) ?rw"
      using guard c new(1) by (intro settlements_ok_mono [OF referral_invD(5) [OF inv]] reward_total_add)
        (simp_all add: pos_imp_zdiv_nonneg_iff)
    ultimately show "post (\<lambda>(s', r). referral_inv s')
       (s\<lparr>referralRewardCampaigns := gm_put (rw_ID copy) campaign (referralRewardCampaigns s),
          referralRewards := ?rw, referralRewardByInvoice := ?bi\<rparr>, Inr (True, copy))"
      using inv by (simp add: post_def referral_inv_def)
  qed (simp_all add: post_def inv)
  from post_fst [OF this] show ?thesis .
qed

lemma referral_inv_reverse:
  assumes "referral_inv s" "gm_get (referralRewards s) k = Some r"
  shows "referral_inv (s\<lparr>referralRewards := gm_put k (r\<lparr>rw_Status := ''reversed''\<rparr>) (referralRewards s)\<rparr>)"
proof -
  note D = referral_invD [OF assms(1)]
  have "settlements_ok (referralSettlements s) (gm_put k (r\<lparr>rw_Status := ''reversed''\<rparr>) (referralRewards s))"
    by (rule settlements_ok_mono [OF D(5)]) (simp add: reward_total_status [OF rewards_okD(1) [OF D(1)] assms(2)])
  then show ?thesis
    using D rewards_ok_status [OF D(1) assms(2)] risks_ok_reverse [OF D(2) assms(2)] by (simp add: referral_inv_def)
qed

lemma ReverseReferralReward_inv: "referral_inv s \<Longrightarrow> referral_inv (fst (ReverseReferralReward i k s))"
  by (simp add: ReverseReferralReward_def referral_inv_reverse split: option.split)

lemma hold_settlement_fields [simp]:
  "rs_AmountMinor (hold_settlement risk i rs x) = rs_AmountMinor x" "rs_ReferrerUUID (hold_settlement risk i rs x) = rs_ReferrerUUID x"
  "rs_Currency (hold_settlement risk i rs x) = rs_Currency x" "rs_Status (hold_settlement risk i rs x) = rs_Status x"
  by (simp_all add: hold_settlement_def)

lemma settlements_ok_hold:
  assumes "settlements_ok st rw" shows "settlements_ok (map (\<lambda>(k, x). (k, hold_settlement risk i rs x)) st) rw"
proof -
  have "map fst (map (\<lambda>(k, x). (k, hold_settlement risk i rs x)) st) = map fst st" by (induction st) auto
  then have "gm_wf (map (\<lambda>(k, x). (k, hold_settlement risk i rs x)) st)"
    using settlements_okD(1) [OF assms] by (simp only:)
  then show ?thesis
    using assms unfolding settlements_ok_def by (auto simp: map_of_map simp del: map_of_eq_Some_iff map_map)
qed

text \<open>The risk is new to the store, so the reward of its invoice is the one to reverse.\<close>

lemma RecordReferralRisk_inv:
  assumes inv: "referral_inv s" shows "referral_inv (fst (RecordReferralRisk risk s))"
proof -
  note D = referral_invD [OF inv]
  let ?i = "gm_str (referralRewardByInvoice s) (rk_ProviderInvoiceID risk)"
  let ?risks = "gm_put (rk_SourceKey risk) risk (referralRisks s)"
  have none: "risks_ok ?risks (referralRewards s)" if "?i = []"
  proof -
    have "rw_ProviderInvoiceID r \<noteq> rk_ProviderInvoiceID risk" if "gm_get (referralRewards s) k = Some r" for k r
      using rewards_okD(2) [OF D(1) that] invoice_free [OF D(1) \<open>?i = []\<close>] by (auto simp: reward_ok_def)
    then show ?thesis using D(2) unfolding risks_ok_def by (auto split: if_splits)
  qed
  have some: "risks_ok ?risks (gm_put ?i (r\<lparr>rw_Status := ''reversed''\<rparr>) (referralRewards s))"
    if r: "gm_get (referralRewards s) ?i = Some r" for r
  proof -
    have "k = ?i" if "gm_get (referralRewards s) k = Some q" "rw_ProviderInvoiceID q = rk_ProviderInvoiceID risk" for k q
      using rewards_okD(2) [OF D(1) that(1)] that(2) by (simp add: reward_ok_def gm_str_def)
    then show ?thesis using risks_ok_reverse [OF D(2) r] unfolding risks_ok_def by (auto split: if_splits)
  qed
  have "post (\<lambda>(s', r). referral_inv s') (RecordReferralRisk risk s)"
    unfolding RecordReferralRisk_def
  proof (intro branches)
    fix s1 i assume "s1 = s\<lparr>referralRisks := ?risks\<rparr>" "i = gm_str (referralRewardByInvoice s1) (rk_ProviderInvoiceID risk)" "i = []"
    then show "post (\<lambda>(s', r). referral_inv s') (s1, Inr ())"
      using D none by (simp add: post_def referral_inv_def)
  next
    fix s1 i assume s1: "s1 = s\<lparr>referralRisks := ?risks\<rparr>" "i = gm_str (referralRewardByInvoice s1) (rk_ProviderInvoiceID risk)"
      "i \<noteq> []" "gm_get (referralRewards s1) i = None"
    then obtain "gm_get (referralRewardByInvoice s) (rk_ProviderInvoiceID risk) = Some i"
      by (auto simp: gm_str_def split: option.splits)
    then show "post (\<lambda>(s', r). referral_inv s') (s1, Inl GoPanic)"
      using rewards_okD(3) [OF D(1)] s1 by fastforce
  next
    fix s1 i reward s2
    assume s1: "s1 = s\<lparr>referralRisks := ?risks\<rparr>" "i = gm_str (referralRewardByInvoice s1) (rk_ProviderInvoiceID risk)"
      "gm_get (referralRewards s1) i = Some reward"
      and s2: "s2 = s1\<lparr>referralRewards := gm_put i (reward\<lparr>rw_Status := ''reversed''\<rparr>) (referralRewards s1)\<rparr>"
    have i: "i = ?i" "gm_get (referralRewards s) ?i = Some reward" using s1 by simp_all
    note E = referral_invD [OF referral_inv_reverse [OF inv i(2)]]
    show "post (\<lambda>(s', r). referral_inv s') (s2\<lparr>referralSettlements :=
       map (\<lambda>(k, st). (k, hold_settlement risk i (gm_vals (referralRewards s2)) st)) (referralSettlements s2)\<rparr>, Inr ())"
      using E some [OF i(2)] by (simp add: post_def referral_inv_def s2 s1(1) i(1) settlements_ok_hold)
  qed (simp_all add: post_def inv)
  from post_fst [OF this] show ?thesis .
qed

section \<open>Campaigns\<close>

lemma campaigns_last: "campaigns_ok cs \<Longrightarrow> c \<in> set cs \<Longrightarrow> ca_EffectiveAt c \<le> ca_EffectiveAt (last cs)"
proof -
  assume ok: "campaigns_ok cs" and c: "c \<in> set cs"
  then have cs: "butlast cs @ [last cs] = cs" by (simp add: campaigns_ok_def)
  then have "sorted_wrt (\<lambda>a b. ca_EffectiveAt a < ca_EffectiveAt b) (butlast cs @ [last cs])"
    using ok by (simp add: campaigns_ok_def)
  moreover have "c \<in> set (butlast cs @ [last cs])" using c cs by simp
  ultimately show ?thesis by (auto simp: sorted_wrt_append)
qed

lemma campaigns_ok_snoc:
  assumes "campaigns_ok cs" "ca_EffectiveAt (last cs) < ca_EffectiveAt c" "ca_Revision c = int (length cs) + 1"
  shows "campaigns_ok (cs @ [c])"
  using assms campaigns_last [OF assms(1)] by (fastforce simp: campaigns_ok_def sorted_wrt_append)

lemma ConfigureReferralCampaign_inv:
  "referral_inv s \<Longrightarrow> referral_inv (fst (ConfigureReferralCampaign n a s))"
  by (auto simp: ConfigureReferralCampaign_def referral_inv_def Let_def intro!: campaigns_ok_snoc)

section \<open>Settlements\<close>

lemma sum_filter_le:
  fixes g :: "'a \<Rightarrow> int"
  assumes "\<And>x. x \<in> set xs \<Longrightarrow> 0 \<le> g x" "\<And>x. P x \<Longrightarrow> Q x"
  shows "sum_list (map g (filter P xs)) \<le> sum_list (map g (filter Q xs))"
  using assms(1)
proof (induction xs)
  case (Cons x xs)
  then have "sum_list (map g (filter P xs)) \<le> sum_list (map g (filter Q xs))" "0 \<le> g x" by simp_all
  then show ?case using assms(2) [of x] by auto
qed simp

lemma reward_nonneg:
  assumes "rewards_ok rw bi refs" "r \<in> set (gm_vals rw)" shows "0 \<le> rw_RewardMinor r"
proof -
  from assms(2) gm_vals_get [OF rewards_okD(1) [OF assms(1)]] obtain k where "gm_get rw k = Some r" by blast
  from rewards_okD(2) [OF assms(1) this] show ?thesis by (simp add: reward_ok_def pos_imp_zdiv_nonneg_iff)
qed

lemma collected_le_total:
  assumes "rewards_ok (referralRewards s) bi refs"
  shows "sum64 rw_RewardMinor (filter (collectable u c now s) (gm_vals (referralRewards s))) \<le> reward_total (referralRewards s) u c"
proof -
  note pos = reward_nonneg [OF assms]
  then have "sum64 rw_RewardMinor (filter (collectable u c now s) (gm_vals (referralRewards s))) \<le>
      sum_list (map rw_RewardMinor (filter (collectable u c now s) (gm_vals (referralRewards s))))"
    using pos by (intro sum64_le) (simp only: set_filter mem_Collect_eq Ball_def, blast)
  also have "\<dots> \<le> reward_total (referralRewards s) u c"
    unfolding reward_total_def by (rule sum_filter_le [OF pos]) (auto simp: collectable_def)
  finally show ?thesis .
qed

lemma RequestReferralSettlement_inv:
  assumes "referral_inv s" shows "referral_inv (fst (RequestReferralSettlement f u c n s))"
  using assms collected_le_total [OF referral_invD(1) [OF assms]]
  by (auto simp: RequestReferralSettlement_def referral_inv_def Let_def intro!: settlements_ok_put)

text \<open>Completing, reconciling and rejecting change the status of one settlement.\<close>

definition settlement_step :: "'z referral_store_scheme \<Rightarrow> 'z referral_store_scheme \<Rightarrow> bool" where
  "settlement_step s s' \<longleftrightarrow> s' = s \<or> (\<exists>k x y. gm_get (referralSettlements s) k = Some x \<and>
     s' = s\<lparr>referralSettlements := gm_put k y (referralSettlements s)\<rparr> \<and> rs_AmountMinor y = rs_AmountMinor x \<and>
     rs_ReferrerUUID y = rs_ReferrerUUID x \<and> rs_Currency y = rs_Currency x \<and>
     (rs_Status x = ''pending_review'' \<or> rs_Status x = ''rejected'') \<and> rs_Status y \<in> {''paid'', ''rejected''})"

lemma settlement_stepI:
  "gm_get (referralSettlements s) k = Some x \<Longrightarrow> rs_AmountMinor y = rs_AmountMinor x \<Longrightarrow>
   rs_ReferrerUUID y = rs_ReferrerUUID x \<Longrightarrow> rs_Currency y = rs_Currency x \<Longrightarrow>
   rs_Status x = ''pending_review'' \<or> rs_Status x = ''rejected'' \<Longrightarrow> rs_Status y \<in> {''paid'', ''rejected''} \<Longrightarrow>
   settlement_step s (s\<lparr>referralSettlements := gm_put k y (referralSettlements s)\<rparr>)"
  unfolding settlement_step_def by blast

lemma settlement_steps:
  "settlement_step s (fst (CompleteReferralSettlement i p n s))"
  "settlement_step s (fst (ReconcileReferralSettlement i p r n s))"
  "settlement_step s (fst (RejectReferralSettlement i r n s))"
  by (auto simp: CompleteReferralSettlement_def ReconcileReferralSettlement_def RejectReferralSettlement_def
      Let_def settlement_step_def [of s s] intro!: settlement_stepI split: option.split simp del: map_of_eq_Some_iff)

lemma settlement_step_inv: "referral_inv s \<Longrightarrow> settlement_step s s' \<Longrightarrow> referral_inv s'"
  unfolding settlement_step_def
  by (auto simp: referral_inv_def settlements_okD simp del: map_of_eq_Some_iff intro!: settlements_ok_put)

lemma VerifyReferralInvoice_inv: "referral_inv s \<Longrightarrow> referral_inv (fst (VerifyReferralInvoice a s))"
  by (simp add: VerifyReferralInvoice_def referral_inv_def split: option.split)

lemmas referral_op_inv = EnsureReferralCode_inv CreateReferralAttribution_inv CreateReferralReward_inv
  ReverseReferralReward_inv RecordReferralRisk_inv ConfigureReferralCampaign_inv RequestReferralSettlement_inv
  settlement_step_inv [OF _ settlement_steps(1)] settlement_step_inv [OF _ settlement_steps(2)]
  settlement_step_inv [OF _ settlement_steps(3)] VerifyReferralInvoice_inv

lemma referral_inv_step: "referral_inv s \<Longrightarrow> referral_allowed s opn \<Longrightarrow> referral_inv (referral_exec opn s)"
  by (cases opn) (simp_all add: referral_op_inv referral_allowed_def, simp_all add: referral_inv_def)

lemma newReferralStore_fields [simp]:
  "referralCampaigns (newReferralStore allow) = [defaultReferralCampaign]" "referralCodes (newReferralStore allow) = []"
  "referralCodesByValue (newReferralStore allow) = []" "referralsByInvitee (newReferralStore allow) = []"
  "referralRewards (newReferralStore allow) = []" "referralRewardByInvoice (newReferralStore allow) = []"
  "referralRisks (newReferralStore allow) = []" "referralSettlements (newReferralStore allow) = []"
  by (simp_all add: newReferralStore_def finance_store.defs referral_store.defs newFinanceStore_def user_store.defs newUserStore_def)

lemma referral_inv_init: "referral_inv (newReferralStore allow)"
  by (simp add: referral_inv_def rewards_ok_def risks_ok_def codes_ok_def attributions_ok_def
      settlements_ok_def campaigns_ok_def defaultReferralCampaign_def)

interpretation ref: legal_invariant referral_exec "newReferralStore allow" referral_inv referral_allowed
  by unfold_locales (rule referral_inv_init, rule referral_inv_step)

section \<open>One open or paid settlement\<close>

definition active_settlement :: "ReferralSettlement \<Rightarrow> bool" where
  "active_settlement x \<longleftrightarrow> rs_Status x = ''pending_review'' \<or> rs_Status x = ''paid''"

abbreviation single_active :: "(string, ReferralSettlement) gomap \<Rightarrow> bool" where
  "single_active st \<equiv> unique_by active_settlement (\<lambda>x. (rs_ReferrerUUID x, rs_Currency x)) st"

lemma settles_active: "settles u c x \<longleftrightarrow> active_settlement x \<and> rs_ReferrerUUID x = u \<and> rs_Currency x = c"
  by (auto simp: settles_def active_settlement_def)

definition payout_allowed :: "'z referral_store_scheme \<Rightarrow> referral_op \<Rightarrow> bool" where
  "payout_allowed s opn \<longleftrightarrow> referral_allowed s opn \<and>
     (case opn of
        OpReconcile i _ _ _ \<Rightarrow>
          (case gm_get (referralSettlements s) (TrimSpace i) of None \<Rightarrow> True | Some x \<Rightarrow> rs_Status x \<noteq> ''rejected'')
      | _ \<Rightarrow> True)"

definition payout_inv :: "'z referral_store_scheme \<Rightarrow> bool" where
  "payout_inv s \<longleftrightarrow> referral_inv s \<and> single_active (referralSettlements s)"

lemma single_active_hold:
  "single_active st \<Longrightarrow> single_active (map (\<lambda>(k, x). (k, hold_settlement risk i rs x)) st)"
  by (erule unique_by_weaken) (auto simp: map_of_map active_settlement_def simp del: map_of_eq_Some_iff)

text \<open>A request collects something only when no settlement of the account is open or paid.\<close>

lemma collect_none: "list_ex (settles u c) (gm_vals (referralSettlements s)) \<Longrightarrow> filter (collectable u c now s) rs = []"
  by (simp add: collectable_def filter_empty_conv)

lemma RequestReferralSettlement_single:
  assumes "single_active (referralSettlements s)"
  shows "single_active (referralSettlements (fst (RequestReferralSettlement f u c n s)))"
proof -
  have "post (\<lambda>(s', r). single_active (referralSettlements s')) (RequestReferralSettlement f u c n s)"
    unfolding RequestReferralSettlement_def
  proof (intro branches)
    fix cur amount and item :: ReferralSettlement
    assume amount: "amount = sum64 rw_RewardMinor (filter (collectable u cur n s) (gm_vals (referralRewards s)))" "\<not> amount \<le> 0"
      and item: "item = \<lparr>rs_ID = f, rs_ReferrerUUID = u, rs_Currency = cur, rs_Status = ''pending_review'',
        rs_AmountMinor = amount, rs_PayoutReference = [], rs_Reason = [], rs_RequestedAt = n, rs_CompletedAt = None\<rparr>"
    have none: "\<not> list_ex (settles u cur) (gm_vals (referralSettlements s))"
      using amount collect_none [of u cur s n "gm_vals (referralRewards s)"] by (auto simp: sum64_def)
    have "single_active (gm_put (rs_ID item) item (referralSettlements s))"
      by (rule unique_by_put [OF assms]) (use not_list_ex_vals [OF none] in \<open>auto simp: item settles_active\<close>)
    then show "post (\<lambda>(s', r). single_active (referralSettlements s'))
      (s\<lparr>referralSettlements := gm_put (rs_ID item) item (referralSettlements s)\<rparr>, Inr item)" by (simp add: post_def)
  qed (simp add: post_def assms)
  from post_fst [OF this] show ?thesis .
qed

lemma status_step_single:
  "single_active (referralSettlements s) \<Longrightarrow> single_active (referralSettlements (fst (CompleteReferralSettlement i p n s)))"
  "single_active (referralSettlements s) \<Longrightarrow> single_active (referralSettlements (fst (RejectReferralSettlement i r n s)))"
  "single_active (referralSettlements s) \<Longrightarrow>
   (\<And>x. gm_get (referralSettlements s) (TrimSpace i) = Some x \<Longrightarrow> rs_Status x \<noteq> ''rejected'') \<Longrightarrow>
   single_active (referralSettlements (fst (ReconcileReferralSettlement i p r n s)))"
  by (auto simp: CompleteReferralSettlement_def RejectReferralSettlement_def ReconcileReferralSettlement_def Let_def
      active_settlement_def simp del: map_of_eq_Some_iff split: option.split elim!: unique_by_replace)

lemma settlements_same:
  "referralSettlements (fst (EnsureReferralCode n u c s)) = referralSettlements s"
  "referralSettlements (fst (CreateReferralAttribution f n c i t s)) = referralSettlements s"
  "referralSettlements (fst (CreateReferralReward f n n' a s)) = referralSettlements s"
  "referralSettlements (fst (ReverseReferralReward i k s)) = referralSettlements s"
  "referralSettlements (fst (ConfigureReferralCampaign n b s)) = referralSettlements s"
  "referralSettlements (fst (VerifyReferralInvoice d s)) = referralSettlements s"
  by (simp_all add: EnsureReferralCode_def CreateReferralAttribution_def CreateReferralReward_def ReverseReferralReward_def
      ConfigureReferralCampaign_def VerifyReferralInvoice_def Let_def split: option.split)

lemma RecordReferralRisk_single:
  "single_active (referralSettlements s) \<Longrightarrow> single_active (referralSettlements (fst (RecordReferralRisk risk s)))"
  by (simp add: RecordReferralRisk_def Let_def single_active_hold split: option.split)

lemma payout_inv_step:
  assumes "payout_inv s" "payout_allowed s opn" shows "payout_inv (referral_exec opn s)"
proof -
  have "single_active (referralSettlements (referral_exec opn s))"
    using assms unfolding payout_inv_def payout_allowed_def
    by (cases opn) (auto simp: settlements_same RequestReferralSettlement_single RecordReferralRisk_single
        simp del: map_of_eq_Some_iff intro!: status_step_single)
  then show ?thesis using assms referral_inv_step by (auto simp: payout_inv_def payout_allowed_def)
qed

interpretation payout: legal_invariant referral_exec "newReferralStore allow" payout_inv payout_allowed
  by unfold_locales (simp add: payout_inv_def referral_inv_init, rule payout_inv_step)

end
