(* ===== verification/Referral_Properties.thy ===== *)
theory Referral_Properties
  imports Referral_Steps
begin

text \<open>
  What the referral program promises: payouts within the rewards, one reward per invitee and
  invoice, no payout on a payment at risk, a campaign history that later revisions do not
  rewrite, and no account left behind by a refused referral.
\<close>

definition after_referrals :: "bool \<Rightarrow> referral_op list \<Rightarrow> referral_store" where
  "after_referrals allow ops = exec_all referral_exec ops (newReferralStore allow)"

abbreviation referral_run :: "bool \<Rightarrow> referral_op list \<Rightarrow> bool" where
  "referral_run allow ops \<equiv> legal referral_allowed referral_exec ops (newReferralStore allow)"

lemma after_referrals_inv: "referral_run allow ops \<Longrightarrow> referral_inv (after_referrals allow ops)"
  unfolding after_referrals_def by (rule ref.legal_run [OF referral_inv_init])

section \<open>A run of the program\<close>

definition sample_reward :: "string \<Rightarrow> ReferralReward" where
  "sample_reward invoice = \<lparr>rw_ID = [], rw_ReferralID = [], rw_ProviderInvoiceID = invoice, rw_ReferrerUUID = [],
     rw_InviteeUUID = ''u2'', rw_PlanID = ''pro-yearly'', rw_ProductSlug = ''xconnect'', rw_PaidMinor = 105,
     rw_RewardMinor = 10, rw_Currency = ''EUR'', rw_PaidAt = date_utc 2026 11 1, rw_EligibleAt = 0, rw_AnnualDays = 0,
     rw_Status = [], rw_CreatedAt = 0, rw_ReferralCreatedAt = 0, rw_InviteeEmail = []\<rparr>"

definition sample_risk :: ReferralPaymentRisk where
  "sample_risk = \<lparr>rk_SourceKey = ''dp1'', rk_ProviderInvoiceID = ''in1'', rk_Type = ''dispute'', rk_Reason = [], rk_OccurredAt = 0\<rparr>"

definition sample_campaign :: ReferralCampaign where
  "sample_campaign = defaultReferralCampaign\<lparr>ca_Enabled := False, ca_Reason := ''stop''\<rparr>"

definition rewarded_ops :: "referral_op list" where
  "rewarded_ops =
     [OpFinance (OpUser (OpCreateUser ''f1'' 10 (Inr ''v1'') (sample_user ''u1'' ''Ann'' ''a@x.io''))),
      OpFinance (OpUser (OpCreateUser ''f2'' 11 (Inr ''v2'') (sample_user ''u2'' ''Bob'' ''b@x.io''))),
      OpEnsureCode 12 ''u1'' ''ann1'', OpAttribute ''a1'' 13 ''ANN1'' ''u2'' 0,
      OpReward ''r1'' 14 14 (Some (sample_reward ''in1''))]"

definition requested_ops :: "referral_op list" where
  "requested_ops = rewarded_ops @ [OpRequest ''s1'' ''u1'' ''eur'' (date_utc 2026 12 1)]"

section \<open>Payouts\<close>

definition paid_total :: "(string, ReferralSettlement) gomap \<Rightarrow> string \<Rightarrow> string \<Rightarrow> int" where
  "paid_total st u c = sum_list (map rs_AmountMinor
     (filter (\<lambda>x. rs_ReferrerUUID x = u \<and> rs_Currency x = c \<and> rs_Status x = ''paid'') (gm_vals st)))"

lemma reward_total_nonneg: "rewards_ok rw bi refs \<Longrightarrow> 0 \<le> reward_total rw u c"
  unfolding reward_total_def
  by (rule sum_list_nonneg) (use reward_nonneg in \<open>fastforce\<close>)

lemma payout_inv_total:
  assumes "payout_inv s" shows "paid_total (referralSettlements s) u c \<le> reward_total (referralRewards s) u c"
proof -
  note D = referral_invD [OF conjunct1 [OF assms [unfolded payout_inv_def]]]
  let ?P = "\<lambda>x. rs_ReferrerUUID x = u \<and> rs_Currency x = c \<and> rs_Status x = ''paid''"
  have "filter ?P (gm_vals (referralSettlements s)) = [] \<or> (\<exists>k x. gm_get (referralSettlements s) k = Some x \<and> ?P x \<and>
      filter ?P (gm_vals (referralSettlements s)) = [x])"
  proof (rule filter_vals_unique [OF settlements_okD(1) [OF D(5)]])
    show "k = k'" if "gm_get (referralSettlements s) k = Some x" "?P x" "gm_get (referralSettlements s) k' = Some y" "?P y" for k k' x y
      using unique_byD [OF conjunct2 [OF assms [unfolded payout_inv_def]] that(1,3)] that(2,4) by (simp add: active_settlement_def)
  qed
  then show ?thesis
    using reward_total_nonneg [OF D(1)] settlements_okD(3) [OF D(5)] unfolding paid_total_def by force
qed

text \<open>
  C2: Payouts never exceed the rewards. After any run in which no rejected settlement is
  reconciled, the settlements paid to an account in a currency sum up to at most its rewards in
  that currency, although the code adds the amounts with wrap-around.
\<close>

theorem payouts_within_rewards:
  assumes "legal payout_allowed referral_exec ops (newReferralStore allow)"
  shows "paid_total (referralSettlements (after_referrals allow ops)) u c \<le> reward_total (referralRewards (after_referrals allow ops)) u c"
  unfolding after_referrals_def
  by (rule payout_inv_total [OF payout.legal_run [OF payout.legal_init assms]])

definition payout_totals :: "string \<Rightarrow> string \<Rightarrow> referral_store \<Rightarrow> int \<times> int" where
  "payout_totals u c s = (paid_total (referralSettlements s) u c, reward_total (referralRewards s) u c)"

theorem payouts_within_rewards_witness:
  "paid_total (referralSettlements (after_referrals False (requested_ops @ [OpComplete ''s1'' ''p1'' (date_utc 2026 12 2)]))) ''u1'' ''EUR''
     \<le> reward_total (referralRewards (after_referrals False (requested_ops @ [OpComplete ''s1'' ''p1'' (date_utc 2026 12 2)]))) ''u1'' ''EUR'' \<and>
   payout_totals ''u1'' ''EUR'' (after_referrals False (requested_ops @ [OpComplete ''s1'' ''p1'' (date_utc 2026 12 2)])) = (10, 10)"
proof -
  have "legal payout_allowed referral_exec (requested_ops @ [OpComplete ''s1'' ''p1'' (date_utc 2026 12 2)]) (newReferralStore False)"
    by code_simp
  moreover have "payout_totals ''u1'' ''EUR'' (after_referrals False (requested_ops @ [OpComplete ''s1'' ''p1'' (date_utc 2026 12 2)])) = (10, 10)"
    by code_simp
  ultimately show ?thesis using payouts_within_rewards by blast
qed

section \<open>Rewards\<close>

text \<open>
  C22: After any run a reward is a tenth of the payment (rounded down), becomes eligible seven days
  after it, and belongs to the account that invited the payer, never to the payer. No invitee and
  no invoice has two rewards, and an invoice with a payment risk has none that is not reversed,
  whichever of the two was recorded first.
\<close>

theorem rewards_are_sound:
  assumes "referral_run allow ops" "gm_get (referralRewards (after_referrals allow ops)) k = Some r"
  shows "rw_RewardMinor r = rw_PaidMinor r div 10 \<and> rw_EligibleAt r = rw_PaidAt r + 7 * 24 * Hour \<and>
    attributed (referralsByInvitee (after_referrals allow ops)) (rw_InviteeUUID r) (rw_ReferrerUUID r) \<and>
    rw_ReferrerUUID r \<noteq> rw_InviteeUUID r \<and>
    (\<forall>k' r'. gm_get (referralRewards (after_referrals allow ops)) k' = Some r' \<longrightarrow>
       rw_InviteeUUID r' = rw_InviteeUUID r \<or> rw_ProviderInvoiceID r' = rw_ProviderInvoiceID r \<longrightarrow> k' = k) \<and>
    (\<forall>src x. gm_get (referralRisks (after_referrals allow ops)) src = Some x \<longrightarrow>
       rk_ProviderInvoiceID x = rw_ProviderInvoiceID r \<longrightarrow> rw_Status r = ''reversed'')"
proof -
  let ?s = "after_referrals allow ops"
  note D = referral_invD [OF after_referrals_inv [OF assms(1)]]
  have r: "reward_ok (referralRewardByInvoice ?s) (referralsByInvitee ?s) k r" by (rule rewards_okD(2) [OF D(1) assms(2)])
  then have "rw_ReferrerUUID r \<noteq> rw_InviteeUUID r"
    using D(4) by (auto simp: reward_ok_def attributed_def attributions_ok_def)
  moreover have "k' = k" if k': "gm_get (referralRewards ?s) k' = Some r'"
    and same: "rw_InviteeUUID r' = rw_InviteeUUID r \<or> rw_ProviderInvoiceID r' = rw_ProviderInvoiceID r" for k' r'
    using same unique_byD [OF rewards_okD(4) [OF D(1)] k' assms(2)] rewards_okD(2) [OF D(1) k'] r
    by (auto simp: reward_ok_def)
  moreover have "rw_Status r = ''reversed''"
    if "gm_get (referralRisks ?s) src = Some x" "rk_ProviderInvoiceID x = rw_ProviderInvoiceID r" for src x
    using risks_okD [OF D(2) that(1) assms(2)] that(2) by simp
  ultimately show ?thesis using r unfolding reward_ok_def by blast
qed

definition reward_status :: "string \<Rightarrow> 'z referral_store_scheme \<Rightarrow> string" where
  "reward_status k s = (case gm_get (referralRewards s) k of None \<Rightarrow> [] | Some r \<Rightarrow> rw_Status r)"

theorem rewards_are_sound_witness:
  "\<exists>r. gm_get (referralRewards (after_referrals False (rewarded_ops @ [OpRisk sample_risk]))) ''r1'' = Some r \<and>
     rw_Status r = ''reversed'' \<and> rw_ReferrerUUID r \<noteq> rw_InviteeUUID r"
proof -
  have run: "referral_run False (rewarded_ops @ [OpRisk sample_risk])" by code_simp
  have "reward_status ''r1'' (after_referrals False (rewarded_ops @ [OpRisk sample_risk])) = ''reversed''" by code_simp
  then obtain r where r: "gm_get (referralRewards (after_referrals False (rewarded_ops @ [OpRisk sample_risk]))) ''r1'' = Some r"
    "rw_Status r = ''reversed''"
    by (simp add: reward_status_def split: option.splits)
  from rewards_are_sound [OF run r(1)] r show ?thesis by blast
qed

section \<open>Payments at risk\<close>

text \<open>Rewards are never dropped or changed but for their status, and a reversal is final.\<close>

definition rewards_le :: "'z referral_store_scheme \<Rightarrow> 'z referral_store_scheme \<Rightarrow> bool" where
  "rewards_le s s' \<longleftrightarrow> (\<forall>k r. gm_get (referralRewards s) k = Some r \<longrightarrow>
     (\<exists>x. gm_get (referralRewards s') k = Some (r\<lparr>rw_Status := x\<rparr>) \<and> (rw_Status r = ''reversed'' \<longrightarrow> x = ''reversed'')))"

lemma rewards_leI: "referralRewards s' = referralRewards s \<Longrightarrow> rewards_le s s'"
  unfolding rewards_le_def
proof (intro allI impI)
  fix k r assume "referralRewards s' = referralRewards s" "gm_get (referralRewards s) k = Some r"
  then show "\<exists>x. gm_get (referralRewards s') k = Some (r\<lparr>rw_Status := x\<rparr>) \<and> (rw_Status r = ''reversed'' \<longrightarrow> x = ''reversed'')"
    by (intro exI [of _ "rw_Status r"]) simp
qed

lemma rewards_le_put:
  assumes s': "referralRewards s' = gm_put k v (referralRewards s)"
    and v: "\<And>r. gm_get (referralRewards s) k = Some r \<Longrightarrow> v = r\<lparr>rw_Status := ''reversed''\<rparr>"
  shows "rewards_le s s'"
  unfolding rewards_le_def
proof (intro allI impI)
  fix k' r assume r: "gm_get (referralRewards s) k' = Some r"
  show "\<exists>x. gm_get (referralRewards s') k' = Some (r\<lparr>rw_Status := x\<rparr>) \<and> (rw_Status r = ''reversed'' \<longrightarrow> x = ''reversed'')"
  proof (cases "k' = k")
    case True
    then show ?thesis using r v s' by (intro exI [of _ "''reversed''"]) simp
  next
    case False
    then show ?thesis using r s' by (intro exI [of _ "rw_Status r"]) simp
  qed
qed

lemma rewards_le_trans:
  assumes "rewards_le s t" "rewards_le t u" shows "rewards_le s u"
  unfolding rewards_le_def
proof (intro allI impI)
  fix k r assume "gm_get (referralRewards s) k = Some r"
  then obtain x where x: "gm_get (referralRewards t) k = Some (r\<lparr>rw_Status := x\<rparr>)" "rw_Status r = ''reversed'' \<longrightarrow> x = ''reversed''"
    using assms(1) unfolding rewards_le_def by blast
  then obtain y where "gm_get (referralRewards u) k = Some (r\<lparr>rw_Status := x, rw_Status := y\<rparr>)"
    "rw_Status (r\<lparr>rw_Status := x\<rparr>) = ''reversed'' \<longrightarrow> y = ''reversed''"
    using assms(2) unfolding rewards_le_def by blast
  with x(2) show "\<exists>x. gm_get (referralRewards u) k = Some (r\<lparr>rw_Status := x\<rparr>) \<and> (rw_Status r = ''reversed'' \<longrightarrow> x = ''reversed'')"
    by (intro exI [of _ y]) simp
qed

lemma rewards_same:
  "referralRewards (fst (EnsureReferralCode n u c s)) = referralRewards s"
  "referralRewards (fst (CreateReferralAttribution f n c i t s)) = referralRewards s"
  "referralRewards (fst (RequestReferralSettlement f u c n s)) = referralRewards s"
  "referralRewards (fst (ConfigureReferralCampaign n b s)) = referralRewards s"
  "referralRewards (fst (VerifyReferralInvoice d s)) = referralRewards s"
  "referralRewards (fst (CompleteReferralSettlement i p n s)) = referralRewards s"
  "referralRewards (fst (ReconcileReferralSettlement i p q n s)) = referralRewards s"
  "referralRewards (fst (RejectReferralSettlement i q n s)) = referralRewards s"
  by (simp_all add: EnsureReferralCode_def CreateReferralAttribution_def RequestReferralSettlement_def
      ConfigureReferralCampaign_def VerifyReferralInvoice_def CompleteReferralSettlement_def
      ReconcileReferralSettlement_def RejectReferralSettlement_def Let_def split: option.split)

lemma CreateReferralReward_le:
  assumes "\<not> gm_has (referralRewards s) f" shows "rewards_le s (fst (CreateReferralReward f n n' a s))"
proof -
  have "post (\<lambda>(s', r). rewards_le s s') (CreateReferralReward f n n' a s)"
    unfolding CreateReferralReward_def
  proof (intro branches)
    fix reward1 copy :: ReferralReward and referral paidAt campaign
    assume "copy = reward1\<lparr>rw_ID := f, rw_ReferralID := ra_ID referral, rw_ReferralCreatedAt := ra_CreatedAt referral,
          rw_PaidAt := paidAt, rw_EligibleAt := paidAt + 7 * 24 * Hour,
          rw_Status := if rw_Status reward1 = [] then ''pending'' else rw_Status reward1, rw_CreatedAt := n'\<rparr>"
    then have "rw_ID copy = f" by simp
    then show "post (\<lambda>(s', r). rewards_le s s')
       (s\<lparr>referralRewardCampaigns := gm_put (rw_ID copy) campaign (referralRewardCampaigns s),
          referralRewards := gm_put (rw_ID copy) copy (referralRewards s),
          referralRewardByInvoice := gm_put (rw_ProviderInvoiceID copy) (rw_ID copy) (referralRewardByInvoice s)\<rparr>, Inr (True, copy))"
      using assms by (auto simp: post_def intro!: rewards_le_put [where k = f and v = copy])
  qed (simp_all add: post_def rewards_leI)
  from post_fst [OF this] show ?thesis .
qed

lemma RecordReferralRisk_le: "rewards_le s (fst (RecordReferralRisk risk s))"
proof -
  have "post (\<lambda>(s', r). rewards_le s s') (RecordReferralRisk risk s)"
    unfolding RecordReferralRisk_def
  proof (intro branches)
    fix s1 s2 i reward
    assume "s1 = s\<lparr>referralRisks := gm_put (rk_SourceKey risk) risk (referralRisks s)\<rparr>" "gm_get (referralRewards s1) i = Some reward"
      "s2 = s1\<lparr>referralRewards := gm_put i (reward\<lparr>rw_Status := ''reversed''\<rparr>) (referralRewards s1)\<rparr>"
    then show "post (\<lambda>(s', r). rewards_le s s') (s2\<lparr>referralSettlements :=
       map (\<lambda>(k, st). (k, hold_settlement risk i (gm_vals (referralRewards s2)) st)) (referralSettlements s2)\<rparr>, Inr ())"
      by (auto simp: post_def intro!: rewards_le_put [where k = i and v = "reward\<lparr>rw_Status := ''reversed''\<rparr>"])
  qed (simp_all add: post_def rewards_leI)
  from post_fst [OF this] show ?thesis .
qed

lemma ReverseReferralReward_le: "rewards_le s (fst (ReverseReferralReward i k s))"
proof (cases "gm_get (referralRewards s) (TrimSpace i)")
  case (Some r)
  then show ?thesis
    by (auto simp: ReverseReferralReward_def rewards_leI intro!: rewards_le_put [where k = "TrimSpace i" and v = "r\<lparr>rw_Status := ''reversed''\<rparr>"])
qed (simp add: ReverseReferralReward_def rewards_leI)

lemma rewards_le_step: "referral_allowed s opn \<Longrightarrow> rewards_le s (referral_exec opn s)"
  by (cases opn) (simp_all add: CreateReferralReward_le RecordReferralRisk_le ReverseReferralReward_le
      rewards_same rewards_leI referral_allowed_def)

interpretation ref_rewards: legal_monotone referral_exec "newReferralStore allow" referral_inv referral_allowed rewards_le
  by unfold_locales (simp_all add: rewards_leI rewards_le_step, rule rewards_le_trans)

lemma RecordReferralRisk_reverses:
  assumes inv: "referral_inv s" and ok: "RecordReferralRisk risk s = (s', Inr ())"
    and r: "gm_get (referralRewards s) k = Some r" "rw_ProviderInvoiceID r = rk_ProviderInvoiceID risk"
  shows "gm_get (referralRewards s') k = Some (r\<lparr>rw_Status := ''reversed''\<rparr>)"
proof -
  have "gm_get (referralRewardByInvoice s) (rk_ProviderInvoiceID risk) = Some k" "k \<noteq> []"
    using rewards_okD(2) [OF referral_invD(1) [OF inv] r(1)] r(2) by (simp_all add: reward_ok_def)
  then show ?thesis
    using ok r(1) by (auto simp: RecordReferralRisk_def gm_str_def Let_def split: if_splits option.splits)
qed

text \<open>
  C21: A payment at risk stops the payout. Once a refund or dispute is recorded for an invoice that
  earned a reward, the reward is reversed in every later state, and an open settlement of its
  account and currency cannot be completed after the reward's waiting time; it is refused
  and nothing changes.
\<close>

theorem risk_blocks_payout:
  assumes "referral_run allow ops" "RecordReferralRisk risk (after_referrals allow ops) = (s, Inr ())"
    and "gm_get (referralRewards (after_referrals allow ops)) k = Some r" "rw_ProviderInvoiceID r = rk_ProviderInvoiceID risk"
    and "legal referral_allowed referral_exec later s"
  shows "gm_get (referralRewards (exec_all referral_exec later s)) k = Some (r\<lparr>rw_Status := ''reversed''\<rparr>) \<and>
    (\<forall>i p now item. gm_get (referralSettlements (exec_all referral_exec later s)) (TrimSpace i) = Some item \<longrightarrow>
       rs_Status item = ''pending_review'' \<longrightarrow> same_account r item \<longrightarrow> rw_EligibleAt r \<le> now \<longrightarrow> TrimSpace p \<noteq> [] \<longrightarrow>
       CompleteReferralSettlement i p now (exec_all referral_exec later s) =
         (exec_all referral_exec later s, Inl ErrReferralSettlementRisk))"
proof -
  let ?t = "exec_all referral_exec later s" and ?r = "r\<lparr>rw_Status := ''reversed''\<rparr>"
  note inv = after_referrals_inv [OF assms(1)]
  have s: "gm_get (referralRewards s) k = Some ?r" by (rule RecordReferralRisk_reverses [OF inv assms(2-4)])
  have "referral_inv s" using RecordReferralRisk_inv [OF inv, of risk] assms(2) by simp
  then have "rewards_le s ?t" using assms(5) by (rule ref_rewards.legal_run_le)
  then obtain x where "gm_get (referralRewards ?t) k = Some (?r\<lparr>rw_Status := x\<rparr>)" "x = ''reversed''"
    using s unfolding rewards_le_def by fastforce
  then have t: "gm_get (referralRewards ?t) k = Some ?r" by simp
  have "list_ex (\<lambda>reward. \<not> (same_account reward item \<and> rw_EligibleAt reward > now) \<and>
       same_account reward item \<and> rw_Status reward = ''reversed'') (gm_vals (referralRewards ?t))"
    if "same_account r item" "rw_EligibleAt r \<le> now" for item now
    using gm_get_vals [OF t] that unfolding list_ex_iff by (intro bexI [of _ ?r]) (simp_all add: same_account_def)
  with t show ?thesis by (auto simp: CompleteReferralSettlement_def)
qed

definition open_settlement :: "string \<Rightarrow> ReferralReward \<Rightarrow> 'z referral_store_scheme \<Rightarrow> bool" where
  "open_settlement i r s = (case gm_get (referralSettlements s) i of None \<Rightarrow> False
     | Some item \<Rightarrow> rs_Status item = ''pending_review'' \<and> same_account r item)"

definition risk_scene :: "bool" where
  "risk_scene \<longleftrightarrow>
     (case gm_get (referralRewards (after_referrals False requested_ops)) ''r1'' of None \<Rightarrow> False
      | Some r \<Rightarrow> rw_ProviderInvoiceID r = rk_ProviderInvoiceID sample_risk \<and> rw_EligibleAt r \<le> date_utc 2026 12 2 \<and>
          outcome (RecordReferralRisk sample_risk (after_referrals False requested_ops)) (\<lambda>_. True) \<and>
          open_settlement ''s1'' r (referral_exec (OpVerify None) (fst (RecordReferralRisk sample_risk (after_referrals False requested_ops)))))"

theorem risk_blocks_payout_witness:
  "\<exists>s. RecordReferralRisk sample_risk (after_referrals False requested_ops) = (s, Inr ()) \<and>
     CompleteReferralSettlement ''s1'' ''p1'' (date_utc 2026 12 2) (exec_all referral_exec [OpVerify None] s) =
       (exec_all referral_exec [OpVerify None] s, Inl ErrReferralSettlementRisk)"
proof -
  let ?a = "after_referrals False requested_ops"
  have run: "referral_run False requested_ops" by code_simp
  have "risk_scene" by code_simp
  then obtain r s where r: "gm_get (referralRewards ?a) ''r1'' = Some r" "rw_ProviderInvoiceID r = rk_ProviderInvoiceID sample_risk"
      "rw_EligibleAt r \<le> date_utc 2026 12 2" and s: "RecordReferralRisk sample_risk ?a = (s, Inr ())"
      and st: "open_settlement ''s1'' r (exec_all referral_exec [OpVerify None] s)"
    by (auto simp: risk_scene_def elim!: outcomeE split: option.splits)
  from st obtain item where "gm_get (referralSettlements (exec_all referral_exec [OpVerify None] s)) ''s1'' = Some item"
    "rs_Status item = ''pending_review''" "same_account r item"
    by (auto simp: open_settlement_def split: option.splits)
  moreover have "TrimSpace ''s1'' = ''s1''" "TrimSpace ''p1'' \<noteq> []" by code_simp+
  moreover have "legal referral_allowed referral_exec [OpVerify None] s" by (simp add: referral_allowed_def)
  ultimately show ?thesis
    using risk_blocks_payout [OF run s r(1,2), of "[OpVerify None]"] r(3) s by metis
qed

end
