(* ===== verification/Referral_Accounts.thy ===== *)
theory Referral_Accounts
  imports Referral_Properties
begin

text \<open>
  Campaign revisions, the absence of run-time panics, the rollback of a refused registration,
  and the summary of an account, each against a reference definition.
\<close>

section \<open>Campaign revisions\<close>

interpretation campaign_choice: selection later_campaign
  by unfold_locales (auto simp: later_campaign_def)

text \<open>The revision in force at a time: the last one that took effect until then.\<close>

definition campaign_in_force :: "time \<Rightarrow> ReferralCampaign list \<Rightarrow> ReferralCampaign option" where
  "campaign_in_force t cs =
     (case filter (\<lambda>c. ca_EffectiveAt c \<le> t) cs of [] \<Rightarrow> None | x # xs \<Rightarrow> Some (last (x # xs)))"

lemma campaign_in_force_snoc:
  "campaign_in_force t (cs @ [c]) = (if ca_EffectiveAt c \<le> t then Some c else campaign_in_force t cs)"
proof (cases "filter (\<lambda>c. ca_EffectiveAt c \<le> t) cs")
  case (Cons x xs)
  then have "filter (\<lambda>c. ca_EffectiveAt c \<le> t) (cs @ [c]) = (if ca_EffectiveAt c \<le> t then x # xs @ [c] else x # xs)" by simp
  with Cons show ?thesis by (simp add: campaign_in_force_def)
qed (simp add: campaign_in_force_def)

lemma select_snoc:
  "select q better (xs @ [y]) = (if \<not> q y then select q better xs
     else case select q better xs of None \<Rightarrow> Some y | Some b \<Rightarrow> if better y b then Some y else Some b)"
  by (auto simp: select_def split: option.splits)

lemma campaign_select:
  assumes "sorted_wrt (\<lambda>a b. ca_EffectiveAt a < ca_EffectiveAt b) cs"
  shows "select (\<lambda>c. \<not> ca_EffectiveAt c > t) later_campaign cs = campaign_in_force t cs"
  using assms
proof (induction cs rule: rev_induct)
  case Nil
  then show ?case by (simp add: select_def campaign_in_force_def)
next
  case (snoc c cs)
  then have IH: "select (\<lambda>c. \<not> ca_EffectiveAt c > t) later_campaign cs = campaign_in_force t cs"
    by (simp add: sorted_wrt_append)
  have "later_campaign c b" if "select (\<lambda>c. \<not> ca_EffectiveAt c > t) later_campaign cs = Some b" for b
    using campaign_choice.select_SomeD(1) [OF that] snoc.prems by (auto simp: later_campaign_def sorted_wrt_append)
  then show ?case
    using IH by (auto simp: select_snoc campaign_in_force_snoc not_less split: option.split)
qed

text \<open>
  Configuring the campaign appends a revision and never rewrites history. After any run the
  campaign at a time \<open>t\<close> is the last revision that took effect until \<open>t\<close>, although the code
  compares all revisions in a loop; after a new revision \<open>c\<close> it is \<open>c\<close> from the time \<open>c\<close> takes
  effect and what it was before for every earlier time.
\<close>

theorem campaign_history:
  assumes "referral_run allow ops" "ConfigureReferralCampaign now a (after_referrals allow ops) = (s', Inr c)"
  shows "referralCampaignAt t (after_referrals allow ops) = campaign_in_force t (referralCampaigns (after_referrals allow ops)) \<and>
    referralCampaignAt t s' = (if ca_EffectiveAt c \<le> t then Some c else referralCampaignAt t (after_referrals allow ops)) \<and>
    now \<le> ca_EffectiveAt c"
proof -
  let ?s = "after_referrals allow ops"
  have inv: "referral_inv ?s" by (rule after_referrals_inv [OF assms(1)])
  have "referral_inv s'" using ConfigureReferralCampaign_inv [OF inv, of now a] assms(2) by simp
  note at = this [THEN referral_invD(6)] referral_invD(6) [OF inv]
  have "referralCampaigns s' = referralCampaigns ?s @ [c]" "now \<le> ca_EffectiveAt c"
    using assms(2) by (auto simp: ConfigureReferralCampaign_def Let_def split: if_splits)
  then show ?thesis
    using at by (simp add: referralCampaignAt_def campaign_select campaigns_ok_def campaign_in_force_snoc)
qed

theorem campaign_history_witness:
  "\<exists>s' c. ConfigureReferralCampaign 99 (Some sample_campaign) (after_referrals False []) = (s' :: referral_store, Inr c) \<and>
     referralCampaignAt (ca_EffectiveAt c) s' = Some c \<and>
     referralCampaignAt (ca_EffectiveAt c - 1) s' = referralCampaignAt (ca_EffectiveAt c - 1) (after_referrals False [])"
proof -
  have run: "referral_run False []" by simp
  have "outcome (ConfigureReferralCampaign 99 (Some sample_campaign) (after_referrals False [])) (\<lambda>c. \<not> ca_Enabled c)"
    by code_simp
  then obtain s' c where r: "ConfigureReferralCampaign 99 (Some sample_campaign) (after_referrals False []) = (s', Inr c)"
    by (rule outcomeE) blast
  from campaign_history [OF run r, of "ca_EffectiveAt c"] campaign_history [OF run r, of "ca_EffectiveAt c - 1"] r
  show ?thesis by auto
qed

section \<open>No panics\<close>

text \<open>
  The pointers that the program follows without a check are never nil, and the list of campaign
  revisions it indexes is never empty: after any run, looking up a code, recording a risk and
  configuring the campaign end without a run-time panic.
\<close>

theorem referral_never_panics:
  assumes "referral_run allow ops"
  shows "GetReferralCode code (after_referrals allow ops) \<noteq> Inl GoPanic \<and>
    snd (RecordReferralRisk risk (after_referrals allow ops)) \<noteq> Inl GoPanic \<and>
    snd (ConfigureReferralCampaign now a (after_referrals allow ops)) \<noteq> Inl GoPanic"
proof -
  let ?s = "after_referrals allow ops"
  note D = referral_invD [OF after_referrals_inv [OF assms]]
  have "GetReferralCode code ?s \<noteq> Inl GoPanic"
  proof (cases "gm_get (referralCodesByValue ?s) (ToUpper (TrimSpace code))")
    case (Some u)
    then obtain c where "gm_get (referralCodes ?s) u = Some c" using D(3) unfolding codes_ok_def by blast
    with Some show ?thesis by (simp add: GetReferralCode_def gm_str_def)
  qed (simp add: GetReferralCode_def gm_str_def)
  moreover have "snd (RecordReferralRisk risk ?s) \<noteq> Inl GoPanic"
  proof (cases "gm_get (referralRewardByInvoice ?s) (rk_ProviderInvoiceID risk)")
    case (Some k)
    then obtain r where "gm_get (referralRewards ?s) k = Some r" using rewards_okD(3) [OF D(1)] by blast
    with Some show ?thesis by (simp add: RecordReferralRisk_def gm_str_def Let_def)
  qed (simp add: RecordReferralRisk_def gm_str_def Let_def)
  moreover have "snd (ConfigureReferralCampaign now a ?s) \<noteq> Inl GoPanic"
    using D(6) by (simp add: ConfigureReferralCampaign_def campaigns_ok_def Let_def)
  ultimately show ?thesis by blast
qed

theorem referral_never_panics_witness:
  "GetReferralCode ''ANN1'' (after_referrals False rewarded_ops) \<noteq> Inl GoPanic"
proof -
  have "referral_run False rewarded_ops" by code_simp
  from referral_never_panics [OF this] show ?thesis by blast
qed

section \<open>Registration with a referral code\<close>

lemma gm_del_absent: "gm_get m k = None \<Longrightarrow> gm_del k m = m"
  by (simp add: delete_id map_of_eq_None_iff)

lemma gm_del_put: "gm_get m k = None \<Longrightarrow> gm_del k (gm_put k v m) = m"
  by (simp add: gm_put_new AList.delete_eq) (simp add: filter_id_conv map_of_eq_None_iff image_iff, force)

text \<open>What creating an account adds to the indexes.\<close>

definition account_added :: "string \<Rightarrow> 'z user_store_scheme \<Rightarrow> 'z user_store_scheme \<Rightarrow> User \<Rightarrow> bool" where
  "account_added i s s' x \<longleftrightarrow> us_ID x = i \<and> (\<exists>stored. us_Email x = us_Email stored \<and> us_Name x = us_Name stored \<and>
     ToLower (us_Email stored) = us_Email stored \<and> \<not> gm_has (byEmail s) (us_Email stored) \<and>
     \<not> gm_has (byName s) (ToLower (us_Name stored)) \<and>
     s' = s\<lparr>users := users s @ [stored], byID := gm_put i (length (users s)) (byID s),
        byEmail := (if us_Email stored \<noteq> [] then gm_put (us_Email stored) (length (users s)) (byEmail s) else byEmail s),
        byName := gm_put (ToLower (us_Name stored)) (length (users s)) (byName s)\<rparr>)"

lemma CreateUser_adds:
  "post (\<lambda>(s', r). case r of Inl _ \<Rightarrow> s' = s | Inr x \<Rightarrow> account_added (if us_ID u = [] then f else us_ID u) s s' x)
     (CreateUser f n v7 u s)"
  unfolding CreateUser_def
proof (intro branches)
  fix loweredEmail normalizedName user userCopy1 userCopy2 userCopy3 userCopy4 stored1 stored2 proxy stored3 a
  assume e: "loweredEmail = ToLower (TrimSpace (us_Email u))"
    and free: "\<not> gm_has (byEmail s) loweredEmail" "\<not> gm_has (byName s) (ToLower normalizedName)"
    and user: "user = normalizeUserRoleFields u"
    and c1: "userCopy1 = (if us_ID user = [] then user\<lparr>us_ID := f\<rparr> else user)"
    and c2: "userCopy2 = (if IsZero (us_CreatedAt userCopy1)
        then userCopy1\<lparr>us_CreatedAt := n,
          us_UpdatedAt := (if IsZero (us_UpdatedAt userCopy1) then n else us_UpdatedAt userCopy1)\<rparr>
        else userCopy1)"
    and c3: "userCopy3 = (if IsZero (us_UpdatedAt userCopy2) then userCopy2\<lparr>us_UpdatedAt := n\<rparr> else userCopy2)"
    and c4: "userCopy4 = userCopy3\<lparr>us_Email := loweredEmail, us_Name := normalizedName\<rparr>"
    and st: "stored1 = normalizeUserRoleFields userCopy4"
      "stored2 = stored1\<lparr>us_Groups := cloneStringSlice (us_Groups stored1),
        us_Permissions := cloneStringSlice (us_Permissions stored1), us_Active := True\<rparr>"
      "stored3 = stored2\<lparr>us_ProxyUUID := proxy\<rparr>"
    and a: "a = length (users s)"
  have i: "us_ID userCopy4 = (if us_ID u = [] then f else us_ID u)"
    by (simp add: c4 c3 c2 c1 user)
  have "us_ID (assignUser stored3) = us_ID userCopy4" "us_Email stored3 = loweredEmail" "us_Name stored3 = normalizedName"
    "us_Email (assignUser stored3) = us_Email stored3" "us_Name (assignUser stored3) = us_Name stored3"
    by (simp_all add: st c4 assignUser_def)
  then show "post (\<lambda>(s', r). case r of Inl _ \<Rightarrow> s' = s | Inr x \<Rightarrow> account_added (if us_ID u = [] then f else us_ID u) s s' x)
      (s\<lparr>users := users s @ [stored3], byID := gm_put (us_ID userCopy4) a (byID s),
         byEmail := (if loweredEmail \<noteq> [] then gm_put loweredEmail a (byEmail s) else byEmail s),
         byName := gm_put (ToLower normalizedName) a (byName s)\<rparr>, Inr (assignUser stored3))"
    using free e unfolding post_def account_added_def a prod.case sum.case i
    by (intro conjI exI [of _ stored3]) simp_all
qed (simp_all add: post_def)

lemma forget_added:
  assumes "account_added i s s' x" "\<not> gm_has (byID s) i"
  shows "byID (forget_user i s') = byID s \<and> byEmail (forget_user i s') = byEmail s \<and> byName (forget_user i s') = byName s"
  using assms by (auto simp: account_added_def forget_user_def user_of_def nth_append gm_del_put gm_del_absent)

lemma attribution_error: "CreateReferralAttribution f n c i t s = (s', Inl e) \<Longrightarrow> s' = s"
  by (auto simp: CreateReferralAttribution_def Let_def split: if_splits)

lemma added_attributions: "account_added i s s' x \<Longrightarrow> referralsByInvitee s' = referralsByInvitee s"
  for s s' :: "'z referral_store_scheme"
  by (auto simp: account_added_def)

text \<open>
  C38: A registration whose referral is refused leaves no account behind: if
  \<open>CreateUserWithReferral\<close> fails, whatever the reason, then the three account indexes and the
  attributions are exactly those from before, so that the e-mail address and the name can be
  registered again. The id of the account has to be a new one.
\<close>

theorem refused_referral_leaves_no_account:
  assumes "CreateUserWithReferral f g n n' v7 u code s = (s', Inl e)"
    and "\<not> gm_has (byID s) (if us_ID u = [] then f else us_ID u)"
  shows "byID s' = byID s \<and> byEmail s' = byEmail s \<and> byName s' = byName s \<and> referralsByInvitee s' = referralsByInvitee s"
proof (cases "CreateUser f n v7 u s")
  case (Pair s1 r)
  note added = post_D [OF CreateUser_adds [of s u f n v7], unfolded Pair prod.case]
  show ?thesis
  proof (cases r)
    case (Inl e')
    then show ?thesis using assms(1) added Pair by (simp add: CreateUserWithReferral_def)
  next
    case (Inr x)
    let ?i = "if us_ID u = [] then f else us_ID u"
    have x: "account_added ?i s s1 x" "us_ID x = ?i" using added Inr by (simp_all add: account_added_def)
    obtain s2 q where at: "CreateReferralAttribution g n' code (us_ID x) (us_CreatedAt x) s1 = (s2, q)" by force
    then have s': "q = Inl e \<and> s' = forget_user ?i s2"
      using assms(1) Pair Inr x(2) by (cases q) (simp_all add: CreateUserWithReferral_def)
    then have "s2 = s1" using attribution_error at by blast
    then show ?thesis using s' forget_added [OF x(1) assms(2)] added_attributions [OF x(1)] by simp
  qed
qed

theorem refused_referral_leaves_no_account_witness:
  "\<exists>s' e. CreateUserWithReferral ''f3'' ''g'' 20 20 (Inr ''v3'') (sample_user ''u3'' ''Cid'' ''c@x.io'') ''NOPE''
       (after_referrals False rewarded_ops) = (s', Inl e) \<and> byEmail s' = byEmail (after_referrals False rewarded_ops)"
proof -
  let ?s = "after_referrals False rewarded_ops"
  let ?r = "CreateUserWithReferral ''f3'' ''g'' 20 20 (Inr ''v3'') (sample_user ''u3'' ''Cid'' ''c@x.io'') ''NOPE'' ?s"
  have "snd ?r = Inl ErrReferralNotFound" by code_simp
  then have r: "?r = (fst ?r, Inl ErrReferralNotFound)" by (metis prod.collapse)
  have "\<not> gm_has (byID ?s) ''u3''" by code_simp
  then have "\<not> gm_has (byID ?s) (if us_ID (sample_user ''u3'' ''Cid'' ''c@x.io'') = [] then ''f3'' else us_ID (sample_user ''u3'' ''Cid'' ''c@x.io''))"
    by (simp add: sample_user_def)
  from refused_referral_leaves_no_account [OF r this] r show ?thesis by blast
qed

section \<open>The summary of an account\<close>

text \<open>The running total of one column of the summary, and the amount an item adds to it.\<close>

definition column :: "(ReferralCurrencySummary \<Rightarrow> int) \<Rightarrow> string \<Rightarrow> summary_state \<Rightarrow> int" where
  "column f c st = f (summary_row c (snd st))"

definition reward_counts :: "string \<Rightarrow> string \<Rightarrow> ReferralReward \<Rightarrow> bool" where
  "reward_counts u c r \<longleftrightarrow> rw_ReferrerUUID r = u \<and> rw_Currency r = c"

lemma reward_columns:
  "column cs_EarnedMinor c (summary_reward u now st r) =
     (if reward_counts u c r \<and> rw_Status r \<noteq> ''reversed'' then wrap64 (column cs_EarnedMinor c st + rw_RewardMinor r)
      else column cs_EarnedMinor c st)"
  "column cs_ReversedMinor c (summary_reward u now st r) =
     (if reward_counts u c r \<and> rw_Status r = ''reversed'' then wrap64 (column cs_ReversedMinor c st + rw_RewardMinor r)
      else column cs_ReversedMinor c st)"
  "column cs_PendingMinor c (summary_reward u now st r) =
     (if reward_counts u c r \<and> rw_Status r = ''pending'' \<and> rw_EligibleAt r > now
      then wrap64 (column cs_PendingMinor c st + rw_RewardMinor r) else column cs_PendingMinor c st)"
  "column cs_SettledMinor c (summary_reward u now st r) = column cs_SettledMinor c st"
  by (cases st; auto simp: column_def summary_reward_def reward_counts_def summary_row_def Let_def)+

lemma settlement_columns:
  "column cs_EarnedMinor c (summary_settlement u st x) = column cs_EarnedMinor c st"
  "column cs_ReversedMinor c (summary_settlement u st x) = column cs_ReversedMinor c st"
  "column cs_PendingMinor c (summary_settlement u st x) = column cs_PendingMinor c st"
  "column cs_SettledMinor c (summary_settlement u st x) =
     (if rs_ReferrerUUID x = u \<and> rs_Currency x = c \<and> rs_Status x = ''paid''
      then wrap64 (column cs_SettledMinor c st + rs_AmountMinor x) else column cs_SettledMinor c st)"
  by (cases st; auto simp: column_def summary_settlement_def summary_row_def Let_def)+

text \<open>A loop that adds to a column for some items is the loop over those items.\<close>

lemma foldl_column:
  assumes "\<And>st x. g (step st x) = (if P x then wrap64 (g st + f x) else g st)"
  shows "g (foldl step st xs) = foldl (\<lambda>t x. wrap64 (t + f x)) (g st) (filter P xs)"
  by (induction xs arbitrary: st) (simp_all add: assms)

lemma foldl_same: "(\<And>st x. g (step st x) = g st) \<Longrightarrow> g (foldl step st xs) = g st"
  by (induction xs arbitrary: st) simp_all

text \<open>Every row is stored under its own currency.\<close>

definition keyed :: "(string, ReferralCurrencySummary) gomap \<Rightarrow> bool" where
  "keyed m \<longleftrightarrow> gm_wf m \<and> (\<forall>c row. gm_get m c = Some row \<longrightarrow> cs_Currency row = c)"

lemma keyed_put: "keyed m \<Longrightarrow> cs_Currency row = c \<Longrightarrow> keyed (gm_put c row m)"
  by (simp add: keyed_def del: map_of_eq_Some_iff)

lemma keyed_row [simp]: "keyed m \<Longrightarrow> cs_Currency (summary_row c m) = c"
  by (simp add: keyed_def summary_row_def del: map_of_eq_Some_iff split: option.split)

lemma keyed_steps:
  "keyed (snd st) \<Longrightarrow> keyed (snd (summary_reward u now st r))" "keyed (snd st) \<Longrightarrow> keyed (snd (summary_settlement u st x))"
  by (cases st; simp add: summary_reward_def summary_settlement_def Let_def keyed_put)+

lemma keyed_foldl: "keyed (snd st) \<Longrightarrow> (\<And>st x. keyed (snd st) \<Longrightarrow> keyed (snd (step st x))) \<Longrightarrow> keyed (snd (foldl step st xs))"
  by (induction xs arbitrary: st) simp_all

lemma keyed_column:
  assumes "keyed (snd st)" "row \<in> set (gm_vals (snd st))" shows "f row = column f (cs_Currency row) st"
proof -
  from assms obtain c where "gm_get (snd st) c = Some row" using gm_vals_get unfolding keyed_def by metis
  then show ?thesis using assms(1) by (simp add: keyed_def column_def summary_row_def del: map_of_eq_Some_iff)
qed

lemma column_start [simp]:
  "column cs_EarnedMinor c (n, []) = 0" "column cs_ReversedMinor c (n, []) = 0"
  "column cs_PendingMinor c (n, []) = 0" "column cs_SettledMinor c (n, []) = 0"
  by (simp_all add: column_def summary_row_def)

definition summary_state :: "string \<Rightarrow> time \<Rightarrow> 'z referral_store_scheme \<Rightarrow> summary_state" where
  "summary_state u now s = foldl (summary_settlement u)
     (foldl (summary_reward u now) (0, []) (gm_vals (referralRewards s))) (gm_vals (referralSettlements s))"

lemma summary_cash: "sm_CashByCurrency (GetReferralSummary u now s) = gm_vals (snd (summary_state u now s))"
  by (simp add: GetReferralSummary_def summary_state_def Let_def split: prod.split)

lemma keyed_summary: "keyed (snd (summary_state u now s))"
  unfolding summary_state_def by (intro keyed_foldl keyed_steps) (simp_all add: keyed_def)

lemma summary_columns:
  "column cs_EarnedMinor c (summary_state u now s) =
     sum64 rw_RewardMinor (filter (\<lambda>r. reward_counts u c r \<and> rw_Status r \<noteq> ''reversed'') (gm_vals (referralRewards s)))"
  "column cs_ReversedMinor c (summary_state u now s) =
     sum64 rw_RewardMinor (filter (\<lambda>r. reward_counts u c r \<and> rw_Status r = ''reversed'') (gm_vals (referralRewards s)))"
  "column cs_PendingMinor c (summary_state u now s) =
     sum64 rw_RewardMinor (filter (\<lambda>r. reward_counts u c r \<and> rw_Status r = ''pending'' \<and> rw_EligibleAt r > now) (gm_vals (referralRewards s)))"
  "column cs_SettledMinor c (summary_state u now s) =
     sum64 rs_AmountMinor (filter (\<lambda>x. rs_ReferrerUUID x = u \<and> rs_Currency x = c \<and> rs_Status x = ''paid'') (gm_vals (referralSettlements s)))"
  unfolding summary_state_def sum64_def
  by (simp_all only: foldl_same [where g = "column cs_EarnedMinor c", OF settlement_columns(1)]
      foldl_same [where g = "column cs_ReversedMinor c", OF settlement_columns(2)]
      foldl_same [where g = "column cs_PendingMinor c", OF settlement_columns(3)]
      foldl_same [where g = "column cs_SettledMinor c", OF reward_columns(4)]
      foldl_column [where g = "column cs_EarnedMinor c", OF reward_columns(1)]
      foldl_column [where g = "column cs_ReversedMinor c", OF reward_columns(2)]
      foldl_column [where g = "column cs_PendingMinor c", OF reward_columns(3)]
      foldl_column [where g = "column cs_SettledMinor c", OF settlement_columns(4)] column_start)

text \<open>
  The summary of an account is computed in one pass over rewards and settlements in any
  order. Each row is the row of its own currency, and its columns are the (wrapped) totals of
  what they name: earned is the sum of the rewards that are not reversed, reversed of
  those that are, pending of those still in their waiting time, and settled of the paid settlements.
\<close>

theorem summary_totals:
  assumes "row \<in> set (sm_CashByCurrency (GetReferralSummary u now s))"
  shows "cs_EarnedMinor row = sum64 rw_RewardMinor
      (filter (\<lambda>r. reward_counts u (cs_Currency row) r \<and> rw_Status r \<noteq> ''reversed'') (gm_vals (referralRewards s))) \<and>
    cs_ReversedMinor row = sum64 rw_RewardMinor
      (filter (\<lambda>r. reward_counts u (cs_Currency row) r \<and> rw_Status r = ''reversed'') (gm_vals (referralRewards s))) \<and>
    cs_PendingMinor row = sum64 rw_RewardMinor
      (filter (\<lambda>r. reward_counts u (cs_Currency row) r \<and> rw_Status r = ''pending'' \<and> rw_EligibleAt r > now) (gm_vals (referralRewards s))) \<and>
    cs_SettledMinor row = sum64 rs_AmountMinor
      (filter (\<lambda>x. rs_ReferrerUUID x = u \<and> rs_Currency x = cs_Currency row \<and> rs_Status x = ''paid'') (gm_vals (referralSettlements s)))"
proof -
  have row: "row \<in> set (gm_vals (snd (summary_state u now s)))" using assms by (simp only: summary_cash)
  note col = keyed_column [OF keyed_summary row]
  show ?thesis
    by (intro conjI) (simp_all only: col [of cs_EarnedMinor] col [of cs_ReversedMinor] col [of cs_PendingMinor]
        col [of cs_SettledMinor] summary_columns)
qed

theorem summary_totals_witness:
  "\<exists>row. sm_CashByCurrency (GetReferralSummary ''u1'' (date_utc 2026 12 1) (after_referrals False rewarded_ops)) = [row] \<and>
     cs_EarnedMinor row = 10 \<and> cs_EarnedMinor row = sum64 rw_RewardMinor (filter
       (\<lambda>r. reward_counts ''u1'' (cs_Currency row) r \<and> rw_Status r \<noteq> ''reversed'') (gm_vals (referralRewards (after_referrals False rewarded_ops))))"
proof -
  let ?rows = "sm_CashByCurrency (GetReferralSummary ''u1'' (date_utc 2026 12 1) (after_referrals False rewarded_ops))"
  have "map cs_EarnedMinor ?rows = [10]" by code_simp
  then obtain row where row: "?rows = [row]" "cs_EarnedMinor row = 10" by (auto simp: map_eq_Cons_conv)
  then have "row \<in> set ?rows" by simp
  from summary_totals [OF this] row show ?thesis by blast
qed

end
