(* ===== verification/Go_Sha256.thy ===== *)
theory Go_Sha256
  imports Go_Prelude "HOL-Library.Word"
begin

text \<open>
  \<open>crypto/sha256.Sum256\<close> and \<open>encoding/hex.EncodeToString\<close> of the Go standard library, which the
  MFA recovery uses to compare secrets: SHA-256 as in FIPS 180-4, on lists of bytes.
\<close>

unbundle bit_operations_syntax

type_synonym word32 = "32 word"

definition sha_k :: "word32 list" where
  "sha_k =
     [0x428A2F98, 0x71374491, 0xB5C0FBCF, 0xE9B5DBA5, 0x3956C25B, 0x59F111F1,
      0x923F82A4, 0xAB1C5ED5, 0xD807AA98, 0x12835B01, 0x243185BE, 0x550C7DC3,
      0x72BE5D74, 0x80DEB1FE, 0x9BDC06A7, 0xC19BF174, 0xE49B69C1, 0xEFBE4786,
      0x0FC19DC6, 0x240CA1CC, 0x2DE92C6F, 0x4A7484AA, 0x5CB0A9DC, 0x76F988DA,
      0x983E5152, 0xA831C66D, 0xB00327C8, 0xBF597FC7, 0xC6E00BF3, 0xD5A79147,
      0x06CA6351, 0x14292967, 0x27B70A85, 0x2E1B2138, 0x4D2C6DFC, 0x53380D13,
      0x650A7354, 0x766A0ABB, 0x81C2C92E, 0x92722C85, 0xA2BFE8A1, 0xA81A664B,
      0xC24B8B70, 0xC76C51A3, 0xD192E819, 0xD6990624, 0xF40E3585, 0x106AA070,
      0x19A4C116, 0x1E376C08, 0x2748774C, 0x34B0BCB5, 0x391C0CB3, 0x4ED8AA4A,
      0x5B9CCA4F, 0x682E6FF3, 0x748F82EE, 0x78A5636F, 0x84C87814, 0x8CC70208,
      0x90BEFFFA, 0xA4506CEB, 0xBEF9A3F7, 0xC67178F2]"

definition sha_init :: "word32 list" where
  "sha_init =
     [0x6A09E667, 0xBB67AE85, 0x3C6EF372, 0xA54FF53A, 0x510E527F, 0x9B05688C,
      0x1F83D9AB, 0x5BE0CD19]"

definition rotr :: "nat \<Rightarrow> word32 \<Rightarrow> word32" where
  "rotr n x = drop_bit n x OR push_bit (32 - n) x"

definition big_endian :: "nat \<Rightarrow> nat \<Rightarrow> nat list" where
  "big_endian k x = map (\<lambda>i. x div 256 ^ i mod 256) (rev [0 ..< k])"

definition sha_pad :: "nat list \<Rightarrow> nat list" where
  "sha_pad bytes =
     bytes @ [128] @ replicate ((119 - length bytes mod 64) mod 64) 0 @ big_endian 8 (8 * length bytes)"

fun word_of_bytes :: "nat list \<Rightarrow> word32 list" where
  "word_of_bytes (a # b # c # d # bs) =
     of_nat (a * 16777216 + b * 65536 + c * 256 + d) # word_of_bytes bs"
| "word_of_bytes _ = []"

definition sha_next :: "word32 list \<Rightarrow> word32 list" where
  "sha_next w =
     (let n = length w; a = w ! (n - 15); b = w ! (n - 2);
          s0 = rotr 7 a XOR rotr 18 a XOR drop_bit 3 a;
          s1 = rotr 17 b XOR rotr 19 b XOR drop_bit 10 b
      in w @ [w ! (n - 16) + s0 + w ! (n - 7) + s1])"

definition sha_schedule :: "word32 list \<Rightarrow> word32 list" where
  "sha_schedule block = (sha_next ^^ 48) block"

fun sha_round :: "word32 list \<Rightarrow> word32 \<times> word32 \<Rightarrow> word32 list" where
  "sha_round [a, b, c, d, e, f, g, h] (k, w) =
     (let s1 = rotr 6 e XOR rotr 11 e XOR rotr 25 e;
          ch = (e AND f) XOR (NOT e AND g);
          t1 = h + s1 + ch + k + w;
          s0 = rotr 2 a XOR rotr 13 a XOR rotr 22 a;
          maj = (a AND b) XOR (a AND c) XOR (b AND c)
      in [t1 + (s0 + maj), a, b, c, d + t1, e, f, g])"
| "sha_round state _ = state"

definition sha_block :: "word32 list \<Rightarrow> word32 list \<Rightarrow> word32 list" where
  "sha_block state block =
     map2 (+) state (foldl sha_round state (zip sha_k (sha_schedule block)))"

fun sha_blocks :: "nat \<Rightarrow> word32 list \<Rightarrow> word32 list \<Rightarrow> word32 list" where
  "sha_blocks 0 state ws = state"
| "sha_blocks (Suc n) state ws = sha_blocks n (sha_block state (take 16 ws)) (drop 16 ws)"

definition Sum256 :: "string \<Rightarrow> nat list" where
  "Sum256 s =
     (let bytes = sha_pad (map of_char s)
      in concat (map (\<lambda>w. big_endian 4 (unat w))
           (sha_blocks (length bytes div 64) sha_init (word_of_bytes bytes))))"

definition hex_digit :: "nat \<Rightarrow> char" where
  "hex_digit n = ''0123456789abcdef'' ! n"

definition EncodeToString :: "nat list \<Rightarrow> string" where
  "EncodeToString bytes = concat (map (\<lambda>b. [hex_digit (b div 16), hex_digit (b mod 16)]) bytes)"

lemma length_EncodeToString: "length (EncodeToString bytes) = 2 * length bytes"
  by (induction bytes) (simp_all add: EncodeToString_def)

end
