(* ===== verification/Recovery.thy ===== *)
theory Recovery
  imports User_Lifecycle Go_Sha256
begin

text \<open>
  Account recovery in \<open>memoryStore\<close>: password recovery challenges
  (\<open>internal/store/password_recovery.go\<close>), one-time MFA recovery codes
  (\<open>mfa_recovery_codes.go\<close>) and reviewed MFA resets (\<open>mfa_reset.go\<close>). The state extends the
  account state, whose users and sessions recovery changes. Pointer arguments that the code
  dereferences without a check are values here.
\<close>

section \<open>Records and state\<close>

record PasswordRecoveryChallenge =
  pr_ID :: string
  pr_UserID :: string
  pr_Email :: string
  pr_Kind :: string
  pr_SecretHash :: string
  pr_ExpiresAt :: time
  pr_FailedAttempts :: int
  pr_LockedUntil :: time
  pr_CreatedAt :: time
  pr_ConsumedAt :: time
  pr_InvalidatedAt :: time

record MFARecoveryCode =
  mc_ID :: string
  mc_UserID :: string
  mc_BatchID :: string
  mc_CodeHash :: string
  mc_ExpiresAt :: time
  mc_FailedAttempts :: int
  mc_LockedUntil :: time
  mc_CreatedAt :: time
  mc_ConsumedAt :: time
  mc_RevokedAt :: time

record MFAResetRequest =
  mr_ID :: string
  mr_UserID :: string
  mr_Email :: string
  mr_Fingerprint :: string
  mr_CodeHash :: string
  mr_Status :: string
  mr_Reason :: string
  mr_ReviewReason :: string
  mr_FailedAttempts :: int
  mr_CreatedAt :: time
  mr_ExpiresAt :: time

record recovery_store = user_store +
  passwordRecovery :: "(string, PasswordRecoveryChallenge) gomap"
  mfaResetRequests :: "(string, MFAResetRequest) gomap"
  mfaRecoveryCodes :: "(string, MFARecoveryCode) gomap"

definition newRecoveryStore :: "bool \<Rightarrow> recovery_store" where
  "newRecoveryStore allow = user_store.extend (newUserStore allow) (recovery_store.fields [] [] [])"

type_synonym ('z, 'a) recovery_result = "'z recovery_store_scheme \<times> (store_error + 'a)"

text \<open>\<open>for k, v := range m { v = f(v) }\<close> through the pointers of the map.\<close>

definition gm_update_all :: "('v \<Rightarrow> 'v) \<Rightarrow> ('k, 'v) gomap \<Rightarrow> ('k, 'v) gomap" where
  "gm_update_all f m = map (\<lambda>(k, v). (k, f v)) m"

lemma gm_get_update_all [simp]: "gm_get (gm_update_all f m) k = map_option f (gm_get m k)"
  by (simp add: gm_update_all_def map_of_map)

lemma gm_wf_update_all [simp]: "gm_wf (gm_update_all f m) = gm_wf m"
proof -
  have "map fst (gm_update_all f m) = map fst m" by (induction m) (auto simp: gm_update_all_def)
  then show ?thesis by (simp only:)
qed

text \<open>The deletion of all sessions of a user.\<close>

definition drop_sessions :: "string \<Rightarrow> (string, sessionRecord) gomap \<Rightarrow> (string, sessionRecord) gomap" where
  "drop_sessions uid m = filter (\<lambda>(token, session). se_UserID session \<noteq> uid) m"

section \<open>Password recovery\<close>

definition live_challenge :: "PasswordRecoveryChallenge \<Rightarrow> bool" where
  "live_challenge c \<longleftrightarrow> IsZero (pr_ConsumedAt c) \<and> IsZero (pr_InvalidatedAt c)"

text \<open>The loop that invalidates the open challenges of the same user and kind.\<close>

definition supersede :: "PasswordRecoveryChallenge \<Rightarrow> PasswordRecoveryChallenge \<Rightarrow> PasswordRecoveryChallenge" where
  "supersede challenge existing =
     (if pr_UserID existing = pr_UserID challenge \<and> pr_Kind existing = pr_Kind challenge \<and>
         IsZero (pr_ConsumedAt existing) \<and> IsZero (pr_InvalidatedAt existing)
      then existing\<lparr>pr_InvalidatedAt := pr_CreatedAt challenge\<rparr> else existing)"

definition CreatePasswordRecoveryChallenge ::
  "PasswordRecoveryChallenge option \<Rightarrow> 'z recovery_store_scheme \<Rightarrow> ('z, unit) recovery_result" where
  "CreatePasswordRecoveryChallenge arg s =
     (case arg of None \<Rightarrow> (s, Inl ErrPasswordRecoveryInvalid) | Some challenge \<Rightarrow>
      if TrimSpace (pr_ID challenge) = [] \<or> TrimSpace (pr_UserID challenge) = []
      then (s, Inl ErrPasswordRecoveryInvalid)
      else if \<not> gm_has (byID s) (pr_UserID challenge) then (s, Inl ErrUserNotFound)
      else
        let m = gm_update_all (supersede challenge) (passwordRecovery s);
            copy = challenge\<lparr>pr_Email := ToLower (TrimSpace (pr_Email challenge))\<rparr>
        in (s\<lparr>passwordRecovery := gm_put (pr_ID copy) copy m\<rparr>, Inr ()))"

definition CreatePasswordRecoveryCodeChallenge ::
  "PasswordRecoveryChallenge option \<Rightarrow> duration \<Rightarrow> 'z recovery_store_scheme \<Rightarrow> ('z, unit) recovery_result" where
  "CreatePasswordRecoveryCodeChallenge arg cooldown s =
     (case arg of None \<Rightarrow> (s, Inl ErrPasswordRecoveryInvalid) | Some challenge \<Rightarrow>
      if TrimSpace (pr_ID challenge) = [] \<or> TrimSpace (pr_UserID challenge) = []
      then (s, Inl ErrPasswordRecoveryInvalid)
      else
        let email = ToLower (TrimSpace (pr_Email challenge)) in
        if \<not> gm_has (byID s) (pr_UserID challenge) then (s, Inl ErrUserNotFound)
        else if list_ex (\<lambda>existing. pr_Kind existing = ''code'' \<and> EqualFold (pr_Email existing) email \<and> cooldown > 0 \<and>
                   pr_CreatedAt challenge - pr_CreatedAt existing < cooldown) (gm_vals (passwordRecovery s))
        then (s, Inl ErrPasswordRecoveryCooldown)
        else
          let m = gm_update_all (supersede challenge) (passwordRecovery s);
              copy = challenge\<lparr>pr_Email := email\<rparr>
          in (s\<lparr>passwordRecovery := gm_put (pr_ID copy) copy m\<rparr>, Inr ()))"

definition GetPasswordRecoveryChallengeByTokenHash ::
  "string \<Rightarrow> 'z recovery_store_scheme \<Rightarrow> store_error + PasswordRecoveryChallenge" where
  "GetPasswordRecoveryChallengeByTokenHash tokenHash s =
     (case find (\<lambda>c. pr_Kind c = ''token'' \<and> pr_SecretHash c = tokenHash) (gm_vals (passwordRecovery s)) of
        None \<Rightarrow> Inl ErrPasswordRecoveryInvalid | Some c \<Rightarrow> Inr c)"

definition later_challenge :: "PasswordRecoveryChallenge \<Rightarrow> PasswordRecoveryChallenge \<Rightarrow> bool" where
  "later_challenge c latest \<longleftrightarrow> pr_CreatedAt c > pr_CreatedAt latest"

definition GetLatestPasswordRecoveryCode ::
  "string \<Rightarrow> 'z recovery_store_scheme \<Rightarrow> store_error + PasswordRecoveryChallenge" where
  "GetLatestPasswordRecoveryCode email s =
     (let email = ToLower (TrimSpace email) in
      case select (\<lambda>c. \<not> (pr_Kind c \<noteq> ''code'' \<or> \<not> EqualFold (pr_Email c) email \<or> \<not> IsZero (pr_ConsumedAt c) \<or>
                           \<not> IsZero (pr_InvalidatedAt c))) later_challenge (gm_vals (passwordRecovery s)) of
        None \<Rightarrow> Inl ErrPasswordRecoveryInvalid | Some c \<Rightarrow> Inr c)"

definition RecordPasswordRecoveryFailure ::
  "string \<Rightarrow> time \<Rightarrow> int \<Rightarrow> duration \<Rightarrow> 'z recovery_store_scheme \<Rightarrow> ('z, time) recovery_result" where
  "RecordPasswordRecoveryFailure challengeID now maxAttempts lockout s =
     (case gm_get (passwordRecovery s) challengeID of
        None \<Rightarrow> (s, Inl ErrPasswordRecoveryInvalid)
      | Some challenge \<Rightarrow>
          if \<not> IsZero (pr_ConsumedAt challenge) \<or> \<not> IsZero (pr_InvalidatedAt challenge) \<or> \<not> now < pr_ExpiresAt challenge
          then (s, Inl ErrPasswordRecoveryInvalid)
          else
            let c = challenge\<lparr>pr_FailedAttempts := wrap64 (pr_FailedAttempts challenge + 1)\<rparr>;
                c = (if pr_FailedAttempts c \<ge> maxAttempts then c\<lparr>pr_LockedUntil := now + lockout\<rparr> else c)
            in (s\<lparr>passwordRecovery := gm_put challengeID c (passwordRecovery s)\<rparr>, Inr (pr_LockedUntil c)))"

definition InvalidatePasswordRecoveryChallenge ::
  "string \<Rightarrow> time \<Rightarrow> 'z recovery_store_scheme \<Rightarrow> 'z recovery_store_scheme" where
  "InvalidatePasswordRecoveryChallenge challengeID now s =
     (case gm_get (passwordRecovery s) challengeID of
        None \<Rightarrow> s
      | Some challenge \<Rightarrow>
          if IsZero (pr_InvalidatedAt challenge) \<and> IsZero (pr_ConsumedAt challenge)
          then s\<lparr>passwordRecovery := gm_put challengeID (challenge\<lparr>pr_InvalidatedAt := now\<rparr>) (passwordRecovery s)\<rparr>
          else s)"

definition CompletePasswordRecovery ::
  "string \<Rightarrow> string \<Rightarrow> time \<Rightarrow> 'z recovery_store_scheme \<Rightarrow> ('z, unit) recovery_result" where
  "CompletePasswordRecovery challengeID passwordHash now s =
     (case gm_get (passwordRecovery s) challengeID of
        None \<Rightarrow> (s, Inl ErrPasswordRecoveryInvalid)
      | Some challenge \<Rightarrow>
          if \<not> IsZero (pr_ConsumedAt challenge) \<or> \<not> IsZero (pr_InvalidatedAt challenge) \<or>
             \<not> now < pr_ExpiresAt challenge \<or> now < pr_LockedUntil challenge
          then (s, Inl ErrPasswordRecoveryInvalid)
          else case gm_get (byID s) (pr_UserID challenge) of
            None \<Rightarrow> (s, Inl ErrPasswordRecoveryInvalid)
          | Some a \<Rightarrow>
              let s = put_user a ((users s ! a)\<lparr>us_PasswordHash := passwordHash\<rparr>) s;
                  s = s\<lparr>passwordRecovery := gm_put challengeID (challenge\<lparr>pr_ConsumedAt := now\<rparr>) (passwordRecovery s)\<rparr>
              in (s\<lparr>loginSessions := drop_sessions (pr_UserID challenge) (loginSessions s)\<rparr>, Inr ()))"

section \<open>MFA recovery codes\<close>

definition invalid_code :: "string \<Rightarrow> time \<Rightarrow> MFARecoveryCode \<Rightarrow> bool" where
  "invalid_code userID now code \<longleftrightarrow>
     mc_ID code = [] \<or> mc_BatchID code = [] \<or> mc_UserID code \<noteq> userID \<or> mc_CodeHash code = [] \<or>
     \<not> mc_ExpiresAt code > now"

definition revoke_open :: "string \<Rightarrow> time \<Rightarrow> MFARecoveryCode \<Rightarrow> MFARecoveryCode" where
  "revoke_open userID now code =
     (if mc_UserID code = userID \<and> IsZero (mc_ConsumedAt code) \<and> IsZero (mc_RevokedAt code)
      then code\<lparr>mc_RevokedAt := now\<rparr> else code)"

definition ReplaceMFARecoveryCodes ::
  "string \<Rightarrow> MFARecoveryCode list \<Rightarrow> 'z recovery_store_scheme \<Rightarrow> ('z, unit) recovery_result" where
  "ReplaceMFARecoveryCodes userID codes s =
     (if TrimSpace userID = [] \<or> codes = [] then (s, Inl ErrMFARecoveryCodeInvalid)
      else if \<not> gm_has (byID s) userID then (s, Inl ErrUserNotFound)
      else
        let now = mc_CreatedAt (hd codes) in
        if list_ex (invalid_code userID now) codes then (s, Inl ErrMFARecoveryCodeInvalid)
        else
          let m = gm_update_all (revoke_open userID now) (mfaRecoveryCodes s)
          in (s\<lparr>mfaRecoveryCodes := foldl (\<lambda>m copy. gm_put (mc_ID copy) copy m) m codes\<rparr>, Inr ()))"

definition unusable :: "string \<Rightarrow> time \<Rightarrow> MFARecoveryCode \<Rightarrow> bool" where
  "unusable userID now code \<longleftrightarrow>
     mc_UserID code \<noteq> userID \<or> \<not> IsZero (mc_ConsumedAt code) \<or> \<not> IsZero (mc_RevokedAt code) \<or>
     \<not> now < mc_ExpiresAt code"

definition ListMFARecoveryCodes :: "string \<Rightarrow> time \<Rightarrow> 'z recovery_store_scheme \<Rightarrow> MFARecoveryCode list" where
  "ListMFARecoveryCodes userID now s = filter (\<lambda>code. \<not> unusable userID now code) (gm_vals (mfaRecoveryCodes s))"

definition count_failure :: "string \<Rightarrow> time \<Rightarrow> int \<Rightarrow> duration \<Rightarrow> MFARecoveryCode \<Rightarrow> MFARecoveryCode" where
  "count_failure userID now maxAttempts lockout code =
     (if unusable userID now code \<or> now < mc_LockedUntil code then code
      else
        let code = code\<lparr>mc_FailedAttempts := wrap64 (mc_FailedAttempts code + 1)\<rparr>
        in if mc_FailedAttempts code \<ge> maxAttempts then code\<lparr>mc_LockedUntil := now + lockout\<rparr> else code)"

text \<open>The time the loop returns: that of the last code it found or made locked.\<close>

definition failure_lock :: "string \<Rightarrow> time \<Rightarrow> int \<Rightarrow> duration \<Rightarrow> time \<Rightarrow> MFARecoveryCode \<Rightarrow> time" where
  "failure_lock userID now maxAttempts lockout lockedUntil code =
     (if unusable userID now code then lockedUntil
      else if now < mc_LockedUntil code then mc_LockedUntil code
      else if wrap64 (mc_FailedAttempts code + 1) \<ge> maxAttempts then now + lockout else lockedUntil)"

definition RecordMFARecoveryCodeFailure ::
  "string \<Rightarrow> time \<Rightarrow> int \<Rightarrow> duration \<Rightarrow> 'z recovery_store_scheme \<Rightarrow> ('z, time) recovery_result" where
  "RecordMFARecoveryCodeFailure userID now maxAttempts lockout s =
     (let codes = gm_vals (mfaRecoveryCodes s);
          lockedUntil = foldl (failure_lock userID now maxAttempts lockout) zero_time codes;
          s' = s\<lparr>mfaRecoveryCodes := gm_update_all (count_failure userID now maxAttempts lockout) (mfaRecoveryCodes s)\<rparr>
      in if \<not> list_ex (\<lambda>code. \<not> unusable userID now code) codes then (s', Inl ErrMFARecoveryCodeInvalid)
         else (s', Inr lockedUntil))"

definition RevokeMFARecoveryCodes :: "string \<Rightarrow> time \<Rightarrow> 'z recovery_store_scheme \<Rightarrow> 'z recovery_store_scheme" where
  "RevokeMFARecoveryCodes userID now s =
     s\<lparr>mfaRecoveryCodes := gm_update_all (revoke_open userID now) (mfaRecoveryCodes s)\<rparr>"

definition CompleteMFAPasswordReset ::
  "string \<Rightarrow> string \<Rightarrow> string \<Rightarrow> time \<Rightarrow> 'z recovery_store_scheme \<Rightarrow> ('z, unit) recovery_result" where
  "CompleteMFAPasswordReset userID recoveryCodeID passwordHash now s =
     (case gm_get (byID s) userID of
        None \<Rightarrow> (s, Inl ErrMFARecoveryCodeInvalid)
      | Some a \<Rightarrow>
          let user = users s ! a in
          if \<not> us_Active user \<or> us_ArchivedAt user \<noteq> None then (s, Inl ErrMFARecoveryCodeInvalid)
          else
            let finish = (\<lambda>s. (put_user a (user\<lparr>us_PasswordHash := passwordHash\<rparr>) s)
                  \<lparr>loginSessions := drop_sessions userID (loginSessions s)\<rparr>) in
            if recoveryCodeID = [] then (finish s, Inr ())
            else case gm_get (mfaRecoveryCodes s) recoveryCodeID of
              None \<Rightarrow> (s, Inl ErrMFARecoveryCodeInvalid)
            | Some code \<Rightarrow>
                if unusable userID now code \<or> now < mc_LockedUntil code then (s, Inl ErrMFARecoveryCodeInvalid)
                else (finish (s\<lparr>mfaRecoveryCodes :=
                        gm_put recoveryCodeID (code\<lparr>mc_ConsumedAt := now\<rparr>) (mfaRecoveryCodes s)\<rparr>), Inr ()))"

section \<open>Reviewed MFA resets\<close>

definition MFAFingerprint :: "string \<Rightarrow> string" where
  "MFAFingerprint secret = EncodeToString (Sum256 secret)"

definition validMFAResetUser :: "User option \<Rightarrow> MFAResetRequest \<Rightarrow> bool" where
  "validMFAResetUser arg r =
     (case arg of None \<Rightarrow> False
      | Some u \<Rightarrow> us_Active u \<and> us_EmailVerified u \<and> us_MFAEnabled u \<and> TrimSpace (us_MFATOTPSecret u) \<noteq> [] \<and>
          EqualFold (us_Email u) (mr_Email r) \<and> MFAFingerprint (us_MFATOTPSecret u) = mr_Fingerprint r)"

definition CreateMFASession ::
  "string \<Rightarrow> string \<Rightarrow> string \<Rightarrow> time \<Rightarrow> 'z recovery_store_scheme \<Rightarrow> ('z, unit) recovery_result" where
  "CreateMFASession token userID fingerprint expiresAt s =
     (case user_of s (byID s) userID of
        None \<Rightarrow> (s, Inl ErrMFAResetConflict)
      | Some u \<Rightarrow>
          if \<not> us_Active u \<or> \<not> us_MFAEnabled u \<or> MFAFingerprint (us_MFATOTPSecret u) \<noteq> fingerprint
          then (s, Inl ErrMFAResetConflict)
          else (s\<lparr>loginSessions := gm_put token \<lparr>se_UserID = userID, se_ExpiresAt = expiresAt\<rparr> (loginSessions s)\<rparr>, Inr ()))"

text \<open>
  The loop over the earlier requests stops at the first conflict, and has then already
  expired the open requests it came by.
\<close>

definition reset_conflict :: "MFAResetRequest \<Rightarrow> MFAResetRequest \<Rightarrow> bool" where
  "reset_conflict r old \<longleftrightarrow>
     mr_Status old = ''pending_review'' \<and> mr_ExpiresAt old > mr_CreatedAt r \<or>
     mr_CreatedAt r - mr_CreatedAt old < Minute"

definition open_reset :: "MFAResetRequest \<Rightarrow> bool" where
  "open_reset r \<longleftrightarrow> mr_Status r = ''pending_email'' \<or> mr_Status r = ''pending_review''"

fun expire_loop ::
  "MFAResetRequest \<Rightarrow> (string, MFAResetRequest) gomap \<Rightarrow> (string, MFAResetRequest) gomap \<times> bool" where
  "expire_loop r [] = ([], False)"
| "expire_loop r ((k, old) # m) =
     (if mr_UserID old \<noteq> mr_UserID r then (let (m', c) = expire_loop r m in ((k, old) # m', c))
      else if reset_conflict r old then ((k, old) # m, True)
      else
        let (m', c) = expire_loop r m
        in ((k, if open_reset old then old\<lparr>mr_Status := ''expired''\<rparr> else old) # m', c))"

definition CreateMFAResetRequest ::
  "MFAResetRequest \<Rightarrow> 'z recovery_store_scheme \<Rightarrow> ('z, unit) recovery_result" where
  "CreateMFAResetRequest r s =
     (if \<not> validMFAResetUser (user_of s (byID s) (mr_UserID r)) r then (s, Inl ErrMFAResetConflict)
      else
        let (m, conflict) = expire_loop r (mfaResetRequests s) in
        if conflict then (s\<lparr>mfaResetRequests := m\<rparr>, Inl ErrMFAResetConflict)
        else (s\<lparr>mfaResetRequests := gm_put (mr_ID r) r m\<rparr>, Inr ()))"

definition later_reset :: "MFAResetRequest \<Rightarrow> MFAResetRequest \<Rightarrow> bool" where
  "later_reset r latest \<longleftrightarrow> mr_CreatedAt r > mr_CreatedAt latest"

definition GetMFAResetRequestByEmail :: "string \<Rightarrow> 'z recovery_store_scheme \<Rightarrow> store_error + MFAResetRequest" where
  "GetMFAResetRequestByEmail email s =
     (case select (\<lambda>r. EqualFold (mr_Email r) email) later_reset (gm_vals (mfaResetRequests s)) of
        None \<Rightarrow> Inl ErrMFAResetConflict | Some r \<Rightarrow> Inr r)"

definition GetMFAResetRequestByID :: "string \<Rightarrow> 'z recovery_store_scheme \<Rightarrow> store_error + MFAResetRequest" where
  "GetMFAResetRequestByID i s =
     (case gm_get (mfaResetRequests s) i of None \<Rightarrow> Inl ErrMFAResetConflict | Some r \<Rightarrow> Inr r)"

definition ConfirmMFAResetRequest ::
  "string \<Rightarrow> string \<Rightarrow> string \<Rightarrow> time \<Rightarrow> 'z recovery_store_scheme \<Rightarrow> ('z, unit) recovery_result" where
  "ConfirmMFAResetRequest i hash reason now s =
     (case gm_get (mfaResetRequests s) i of
        None \<Rightarrow> (s, Inl ErrMFAResetConflict)
      | Some r \<Rightarrow>
          if mr_Status r \<noteq> ''pending_email'' \<or> mr_CodeHash r \<noteq> hash \<or> mr_FailedAttempts r \<ge> 5 \<or>
             \<not> mr_ExpiresAt r > now \<or> \<not> validMFAResetUser (user_of s (byID s) (mr_UserID r)) r
          then (s, Inl ErrMFAResetConflict)
          else (s\<lparr>mfaResetRequests := gm_put i (r\<lparr>mr_Status := ''pending_review'', mr_Reason := reason,
                  mr_ExpiresAt := now + 7 * 24 * Hour, mr_CodeHash := []\<rparr>) (mfaResetRequests s)\<rparr>, Inr ()))"

definition FailMFAResetCode :: "string \<Rightarrow> 'z recovery_store_scheme \<Rightarrow> 'z recovery_store_scheme" where
  "FailMFAResetCode i s =
     (case gm_get (mfaResetRequests s) i of
        None \<Rightarrow> s
      | Some r \<Rightarrow>
          if mr_Status r = ''pending_email''
          then s\<lparr>mfaResetRequests := gm_put i (r\<lparr>mr_FailedAttempts := wrap64 (mr_FailedAttempts r + 1)\<rparr>) (mfaResetRequests s)\<rparr>
          else s)"

definition ListMFAResetRequests :: "'z recovery_store_scheme \<Rightarrow> MFAResetRequest list" where
  "ListMFAResetRequests s =
     take 100 (sort_key (\<lambda>r. (mr_Status r \<noteq> ''pending_review'', - mr_CreatedAt r))
       (filter (\<lambda>r. mr_Status r \<noteq> ''pending_email'') (gm_vals (mfaResetRequests s))))"

definition revoke_unconsumed :: "string \<Rightarrow> time \<Rightarrow> MFARecoveryCode \<Rightarrow> MFARecoveryCode" where
  "revoke_unconsumed uid now code =
     (if mc_UserID code = uid \<and> IsZero (mc_ConsumedAt code) then code\<lparr>mc_RevokedAt := now\<rparr> else code)"

definition clear_mfa :: "User \<Rightarrow> User" where
  "clear_mfa u = u\<lparr>us_MFAEnabled := False, us_MFATOTPSecret := [], us_MFAConfirmedAt := zero_time,
     us_MFASecretIssuedAt := zero_time\<rparr>"

definition reset_audit :: "string \<Rightarrow> string \<Rightarrow> string \<Rightarrow> string \<Rightarrow> string \<Rightarrow> string \<Rightarrow> time \<Rightarrow> AuditLog" where
  "reset_audit fresh actorID decision target i reason now =
     \<lparr>al_UUID = fresh, al_Action = ''identity.mfa_recovery.'' @ decision, al_ActorUUID = actorID,
      al_Details = Some [(''target_uuid'', DVal (GString target)), (''requestId'', DVal (GString i)),
        (''reason'', DVal (GString reason))],
      al_CreatedAt = now\<rparr>"

definition DecideMFAResetRequest ::
  "string \<Rightarrow> string \<Rightarrow> string \<Rightarrow> string \<Rightarrow> string \<Rightarrow> time \<Rightarrow> 'z recovery_store_scheme \<Rightarrow> ('z, unit) recovery_result" where
  "DecideMFAResetRequest fresh i actorID decision reason now s =
     (case (user_of s (byID s) actorID, gm_get (mfaResetRequests s) i) of
        (Some actor, Some r) \<Rightarrow>
          if \<not> us_Active actor \<or> \<not> IsRootRole (us_Role actor) \<or> \<not> us_MFAEnabled actor \<or> mr_UserID r = actorID \<or>
             mr_Status r \<noteq> ''pending_review'' \<or> \<not> mr_ExpiresAt r > now \<or>
             (decision \<noteq> ''approved'' \<and> decision \<noteq> ''rejected'') \<or> TrimSpace reason = []
          then (s, Inl ErrMFAResetConflict)
          else case gm_get (byID s) (mr_UserID r) of
            None \<Rightarrow> (s, Inl ErrMFAResetConflict)
          | Some a \<Rightarrow>
              let u = users s ! a in
              if \<not> validMFAResetUser (Some u) r then (s, Inl ErrMFAResetConflict)
              else
                let s = (if decision = ''approved''
                         then (put_user a (clear_mfa u) s)
                           \<lparr>loginSessions := drop_sessions (us_ID u) (loginSessions s),
                            mfaRecoveryCodes := gm_update_all (revoke_unconsumed (us_ID u) now) (mfaRecoveryCodes s)\<rparr>
                         else s)
                in (s\<lparr>mfaResetRequests := gm_put i (r\<lparr>mr_Status := decision, mr_ReviewReason := reason\<rparr>) (mfaResetRequests s),
                      auditLogs := auditLogs s @ [reset_audit fresh actorID decision (mr_UserID r) i reason now]\<rparr>, Inr ())
      | _ \<Rightarrow> (s, Inl ErrMFAResetConflict))"

section \<open>Recovery as a state machine\<close>

datatype recovery_op =
    OpAccount user_op
  | OpChallenge "PasswordRecoveryChallenge option"
  | OpCodeChallenge "PasswordRecoveryChallenge option" duration
  | OpChallengeFailure string time int duration
  | OpInvalidate string time
  | OpCompleteRecovery string string time
  | OpReplaceCodes string "MFARecoveryCode list"
  | OpCodeFailure string time int duration
  | OpRevokeCodes string time
  | OpCompleteReset string string string time
  | OpMFASession string string string time
  | OpCreateReset MFAResetRequest
  | OpConfirmReset string string string time
  | OpFailReset string
  | OpDecideReset string string string string string time

fun recovery_exec :: "recovery_op \<Rightarrow> 'z recovery_store_scheme \<Rightarrow> 'z recovery_store_scheme" where
  "recovery_exec (OpAccount opn) s = user_exec opn s"
| "recovery_exec (OpChallenge a) s = fst (CreatePasswordRecoveryChallenge a s)"
| "recovery_exec (OpCodeChallenge a d) s = fst (CreatePasswordRecoveryCodeChallenge a d s)"
| "recovery_exec (OpChallengeFailure i n m d) s = fst (RecordPasswordRecoveryFailure i n m d s)"
| "recovery_exec (OpInvalidate i n) s = InvalidatePasswordRecoveryChallenge i n s"
| "recovery_exec (OpCompleteRecovery i h n) s = fst (CompletePasswordRecovery i h n s)"
| "recovery_exec (OpReplaceCodes u cs) s = fst (ReplaceMFARecoveryCodes u cs s)"
| "recovery_exec (OpCodeFailure u n m d) s = fst (RecordMFARecoveryCodeFailure u n m d s)"
| "recovery_exec (OpRevokeCodes u n) s = RevokeMFARecoveryCodes u n s"
| "recovery_exec (OpCompleteReset u i h n) s = fst (CompleteMFAPasswordReset u i h n s)"
| "recovery_exec (OpMFASession t u f e) s = fst (CreateMFASession t u f e s)"
| "recovery_exec (OpCreateReset r) s = fst (CreateMFAResetRequest r s)"
| "recovery_exec (OpConfirmReset i h q n) s = fst (ConfirmMFAResetRequest i h q n s)"
| "recovery_exec (OpFailReset i) s = FailMFAResetCode i s"
| "recovery_exec (OpDecideReset f i a d q n) s = fst (DecideMFAResetRequest f i a d q n s)"

end
