(* ===== verification/Recovery_Properties.thy ===== *)
theory Recovery_Properties
  imports Recovery
begin

text \<open>
  What account recovery promises: at most one open challenge per user and kind and one open
  MFA reset per user, credentials that work once, a lockout that stops guessing, and a
  reviewed reset that ends every session of the account.
\<close>

section \<open>Invariant\<close>

abbreviation one_challenge :: "(string, PasswordRecoveryChallenge) gomap \<Rightarrow> bool" where
  "one_challenge m \<equiv> unique_by live_challenge (\<lambda>c. (pr_UserID c, pr_Kind c)) m"

abbreviation one_reset :: "(string, MFAResetRequest) gomap \<Rightarrow> bool" where
  "one_reset m \<equiv> unique_by open_reset mr_UserID m"

definition recovery_inv :: "'z recovery_store_scheme \<Rightarrow> bool" where
  "recovery_inv s \<longleftrightarrow> user_inv s \<and> one_challenge (passwordRecovery s) \<and> one_reset (mfaResetRequests s)"

lemma user_inv_recovery [simp]:
  fixes s :: "'z recovery_store_scheme"
  shows "user_inv (s\<lparr>passwordRecovery := v1\<rparr>) = user_inv s" "user_inv (s\<lparr>mfaResetRequests := v2\<rparr>) = user_inv s"
    "user_inv (s\<lparr>mfaRecoveryCodes := v3\<rparr>) = user_inv s"
    "user_inv (s\<lparr>mfaRecoveryCodes := v3, users := us\<rparr>) = user_inv (s\<lparr>users := us\<rparr>)"
  by (simp_all add: user_inv_def)

text \<open>Recovery changes the password hash or the MFA fields of a stored user.\<close>

lemma user_inv_put_at:
  assumes "user_inv s" "gm_get (byID s) k = Some a"
    and "f (users s ! a) = (users s ! a)\<lparr>us_PasswordHash := h\<rparr> \<or> f (users s ! a) = clear_mfa (users s ! a)"
  shows "user_inv (put_user a (f (users s ! a)) s)"
  by (rule user_inv_put_user [OF assms(1)])
    (use assms(3) user_inv_at(3) [OF assms(1,2)] in \<open>auto simp: clear_mfa_def user_normal_def role_normal_def\<close>)

text \<open>
  The condition on a run: ids are new, and clock readings are not Go's zero time, which the code
  uses for \<open>not yet\<close>.
\<close>

definition new_challenge :: "'z recovery_store_scheme \<Rightarrow> PasswordRecoveryChallenge option \<Rightarrow> bool" where
  "new_challenge s a = (case a of None \<Rightarrow> True | Some c \<Rightarrow> \<not> gm_has (passwordRecovery s) (pr_ID c) \<and> pr_CreatedAt c \<noteq> 0)"

definition recovery_allowed :: "'z recovery_store_scheme \<Rightarrow> recovery_op \<Rightarrow> bool" where
  "recovery_allowed s opn =
     (case opn of
        OpChallenge a \<Rightarrow> new_challenge s a
      | OpCodeChallenge a _ \<Rightarrow> new_challenge s a
      | OpInvalidate _ n \<Rightarrow> n \<noteq> 0
      | OpCompleteRecovery _ _ n \<Rightarrow> n \<noteq> 0
      | OpReplaceCodes _ cs \<Rightarrow> list_all (\<lambda>c. \<not> gm_has (mfaRecoveryCodes s) (mc_ID c)) cs
      | OpCompleteReset _ _ _ n \<Rightarrow> n \<noteq> 0
      | OpCreateReset r \<Rightarrow> \<not> gm_has (mfaResetRequests s) (mr_ID r)
      | _ \<Rightarrow> True)"

lemma recovery_fields_more:
  fixes s s' :: "'z recovery_store_scheme"
  assumes "user_store.more s = user_store.more s'"
  shows "passwordRecovery s = passwordRecovery s'" "mfaResetRequests s = mfaResetRequests s'" "mfaRecoveryCodes s = mfaRecoveryCodes s'"
  using assms by (cases s; cases s'; simp)+

lemmas user_exec_recovery [simp] = recovery_fields_more [OF user_exec_more]

section \<open>Challenges\<close>

lemma supersede_live:
  "pr_CreatedAt c \<noteq> 0 \<Longrightarrow> live_challenge (supersede c x) \<Longrightarrow>
   supersede c x = x \<and> \<not> (pr_UserID x = pr_UserID c \<and> pr_Kind x = pr_Kind c)"
  by (auto simp: supersede_def live_challenge_def split: if_splits)

lemma one_challenge_add:
  assumes "one_challenge m" "pr_CreatedAt c \<noteq> 0"
  shows "one_challenge (gm_put (pr_ID c) (c\<lparr>pr_Email := e\<rparr>) (gm_update_all (supersede c) m))"
proof (rule unique_by_put)
  show "one_challenge (gm_update_all (supersede c) m)"
  proof (rule unique_by_weaken [OF assms(1)])
    fix k y assume y: "gm_get (gm_update_all (supersede c) m) k = Some y" "live_challenge y"
    then obtain x where "gm_get m k = Some x" "y = supersede c x" by auto
    with y(2) supersede_live [OF assms(2), of x] show "\<exists>x. gm_get m k = Some x \<and> live_challenge x \<and> (pr_UserID x, pr_Kind x) = (pr_UserID y, pr_Kind y)"
      by auto
  qed
next
  fix k y assume y: "gm_get (gm_update_all (supersede c) m) k = Some y" "live_challenge y"
  then obtain x where "y = supersede c x" by auto
  with y(2) supersede_live [OF assms(2), of x]
  show "(pr_UserID y, pr_Kind y) \<noteq> (pr_UserID (c\<lparr>pr_Email := e\<rparr>), pr_Kind (c\<lparr>pr_Email := e\<rparr>))"
    by auto
qed

lemma challenge_inv:
  "recovery_inv s \<Longrightarrow> new_challenge s a \<Longrightarrow> recovery_inv (fst (CreatePasswordRecoveryChallenge a s))"
  "recovery_inv s \<Longrightarrow> new_challenge s a \<Longrightarrow> recovery_inv (fst (CreatePasswordRecoveryCodeChallenge a d s))"
  by (cases a; simp add: CreatePasswordRecoveryChallenge_def CreatePasswordRecoveryCodeChallenge_def recovery_inv_def
      new_challenge_def Let_def one_challenge_add)+

text \<open>Changing a stored challenge keeps its user and kind, and never reopens it.\<close>

lemma challenge_change_inv:
  "recovery_inv s \<Longrightarrow> recovery_inv (fst (RecordPasswordRecoveryFailure i n mx d s))"
  "recovery_inv s \<Longrightarrow> recovery_inv (InvalidatePasswordRecoveryChallenge i n s)"
  "recovery_inv s \<Longrightarrow> recovery_inv (fst (CompletePasswordRecovery i h n s))"
  by (auto simp: RecordPasswordRecoveryFailure_def InvalidatePasswordRecoveryChallenge_def CompletePasswordRecovery_def
      recovery_inv_def live_challenge_def Let_def simp del: map_of_eq_Some_iff split: option.split elim!: unique_by_replace
      intro!: user_inv_put_at [where f = "\<lambda>u. u\<lparr>us_PasswordHash := h\<rparr>"])

section \<open>Reset requests\<close>

text \<open>What the loop over the earlier requests leaves of a request.\<close>

lemma expire_loop_get:
  "expire_loop r m = (m', c) \<Longrightarrow>
   rel_option (\<lambda>old x. (x = old \<or> open_reset old \<and> x = old\<lparr>mr_Status := ''expired''\<rparr>) \<and>
     (\<not> c \<longrightarrow> mr_UserID old = mr_UserID r \<longrightarrow> \<not> open_reset x)) (gm_get m k) (gm_get m' k)"
proof (induction r m arbitrary: m' c rule: expire_loop.induct)
  case (1 r)
  then show ?case by simp
next
  case (2 r k' old m)
  note step = 2(1,2) and prem = 2(3)
  obtain n d where loop: "expire_loop r m = (n, d)" by force
  consider (other) "mr_UserID old \<noteq> mr_UserID r" | (stop) "mr_UserID old = mr_UserID r" "reset_conflict r old"
    | (go) "mr_UserID old = mr_UserID r" "\<not> reset_conflict r old" by blast
  then show ?case
  proof cases
    case other
    then show ?thesis using step(1) [OF other loop] prem loop by (cases "k = k'") auto
  next
    case stop
    then have "m' = (k', old) # m \<and> c" using prem by simp
    then show ?thesis by (simp add: option.rel_refl)
  next
    case go
    then show ?thesis using step(2) [OF _ go(2) loop] prem loop by (cases "k = k'") (auto simp: open_reset_def)
  qed
qed

lemma one_reset_create:
  assumes "one_reset m" "expire_loop r m = (m', c)"
  shows "one_reset m'" "\<not> c \<Longrightarrow> one_reset (gm_put (mr_ID r) r m')"
proof -
  have get: "\<exists>old. gm_get m k = Some old \<and> x = old \<and> (\<not> c \<longrightarrow> mr_UserID x \<noteq> mr_UserID r)"
    if "gm_get m' k = Some x" "open_reset x" for k x
  proof -
    from expire_loop_get [OF assms(2), of k] that(1) obtain old where "gm_get m k = Some old"
      "x = old \<or> open_reset old \<and> x = old\<lparr>mr_Status := ''expired''\<rparr>" "\<not> c \<longrightarrow> mr_UserID old = mr_UserID r \<longrightarrow> \<not> open_reset x"
      by (cases "gm_get m k") auto
    with that(2) show ?thesis by (auto simp: open_reset_def)
  qed
  show m': "one_reset m'"
    by (rule unique_by_weaken [OF assms(1)]) (use get in blast)
  show "one_reset (gm_put (mr_ID r) r m')" if "\<not> c"
    by (rule unique_by_put [OF m']) (use get that in blast)
qed

lemma reset_inv:
  "recovery_inv s \<Longrightarrow> recovery_inv (fst (CreateMFAResetRequest r s))"
  "recovery_inv s \<Longrightarrow> recovery_inv (fst (ConfirmMFAResetRequest i hs q n s))"
  "recovery_inv s \<Longrightarrow> recovery_inv (FailMFAResetCode i s)"
proof -
  assume inv: "recovery_inv s"
  obtain m c where "expire_loop r (mfaResetRequests s) = (m, c)" by force
  then show "recovery_inv (fst (CreateMFAResetRequest r s))"
    using inv one_reset_create by (auto simp: CreateMFAResetRequest_def recovery_inv_def)
  show "recovery_inv (fst (ConfirmMFAResetRequest i hs q n s))" "recovery_inv (FailMFAResetCode i s)"
    using inv by (auto simp: ConfirmMFAResetRequest_def FailMFAResetCode_def recovery_inv_def open_reset_def
        simp del: map_of_eq_Some_iff split: option.split elim!: unique_by_replace)
qed

lemma DecideMFAResetRequest_inv:
  assumes inv: "recovery_inv s" shows "recovery_inv (fst (DecideMFAResetRequest f i a d q n s))"
proof (cases "user_of s (byID s) a"; cases "gm_get (mfaResetRequests s) i")
  fix actor r assume ar: "user_of s (byID s) a = Some actor" "gm_get (mfaResetRequests s) i = Some r"
  have reset: "one_reset (gm_put i (r\<lparr>mr_Status := x, mr_ReviewReason := q\<rparr>) (mfaResetRequests s))" if "mr_Status r = ''pending_review''" for x
    using inv that by (intro unique_by_replace [OF _ ar(2)]) (simp_all add: recovery_inv_def open_reset_def)
  show ?thesis
  proof (cases "gm_get (byID s) (mr_UserID r)")
    case (Some b)
    have "user_inv (put_user b (clear_mfa (users s ! b)) s)"
      using inv Some by (intro user_inv_put_at [where f = clear_mfa]) (simp_all add: recovery_inv_def)
    then show ?thesis using inv ar Some reset by (simp add: DecideMFAResetRequest_def recovery_inv_def Let_def)
  qed (use inv ar in \<open>simp add: DecideMFAResetRequest_def\<close>)
qed (use inv in \<open>simp_all add: DecideMFAResetRequest_def\<close>)

lemma code_inv:
  "recovery_inv s \<Longrightarrow> recovery_inv (fst (ReplaceMFARecoveryCodes u cs s))"
  "recovery_inv s \<Longrightarrow> recovery_inv (fst (RecordMFARecoveryCodeFailure u n mx d s))"
  "recovery_inv s \<Longrightarrow> recovery_inv (RevokeMFARecoveryCodes u n s)"
  "recovery_inv s \<Longrightarrow> recovery_inv (fst (CompleteMFAPasswordReset u i h n s))"
  "recovery_inv s \<Longrightarrow> recovery_inv (fst (CreateMFASession tok u fp e s))"
  by (auto simp: ReplaceMFARecoveryCodes_def RecordMFARecoveryCodeFailure_def RevokeMFARecoveryCodes_def
      CompleteMFAPasswordReset_def CreateMFASession_def recovery_inv_def Let_def simp del: map_of_eq_Some_iff split: option.split
      intro!: user_inv_put_at [where f = "\<lambda>u. u\<lparr>us_PasswordHash := h\<rparr>"])

lemmas recovery_op_inv = challenge_inv challenge_change_inv reset_inv DecideMFAResetRequest_inv code_inv

lemma recovery_inv_step: "recovery_inv s \<Longrightarrow> recovery_allowed s opn \<Longrightarrow> recovery_inv (recovery_exec opn s)"
  by (cases opn) (simp_all add: recovery_op_inv recovery_allowed_def, simp add: recovery_inv_def user_inv_step)

lemma newRecoveryStore_fields [simp]:
  "passwordRecovery (newRecoveryStore allow) = []" "mfaResetRequests (newRecoveryStore allow) = []"
  "mfaRecoveryCodes (newRecoveryStore allow) = []" "user_inv (newRecoveryStore allow)"
  using user_inv_init [of allow]
  by (simp_all add: newRecoveryStore_def user_store.defs recovery_store.defs newUserStore_def user_inv_def)

interpretation rec: legal_invariant recovery_exec "newRecoveryStore allow" recovery_inv recovery_allowed
  by unfold_locales (simp add: recovery_inv_def, rule recovery_inv_step)

definition after_recovery :: "bool \<Rightarrow> recovery_op list \<Rightarrow> recovery_store" where
  "after_recovery allow ops = exec_all recovery_exec ops (newRecoveryStore allow)"

abbreviation recovery_run :: "bool \<Rightarrow> recovery_op list \<Rightarrow> bool" where
  "recovery_run allow ops \<equiv> legal recovery_allowed recovery_exec ops (newRecoveryStore allow)"

lemma after_recovery_inv: "recovery_run allow ops \<Longrightarrow> recovery_inv (after_recovery allow ops)"
  unfolding after_recovery_def by (rule rec.legal_run [OF rec.legal_init])

text \<open>
  C39: After any run, no user has two open password recovery challenges of the same kind, and no
  user has two MFA reset requests that wait for the code or for the review.
\<close>

theorem one_open_recovery:
  assumes "recovery_run allow ops"
  shows "one_challenge (passwordRecovery (after_recovery allow ops)) \<and> one_reset (mfaResetRequests (after_recovery allow ops))"
  using after_recovery_inv [OF assms] by (simp add: recovery_inv_def)

definition sample_challenge :: "string \<Rightarrow> time \<Rightarrow> PasswordRecoveryChallenge" where
  "sample_challenge i t = \<lparr>pr_ID = i, pr_UserID = ''u1'', pr_Email = ''A@x.io'', pr_Kind = ''code'', pr_SecretHash = ''h'',
     pr_ExpiresAt = t + 600, pr_FailedAttempts = 0, pr_LockedUntil = 0, pr_CreatedAt = t, pr_ConsumedAt = 0, pr_InvalidatedAt = 0\<rparr>"

definition challenge_ops :: "recovery_op list" where
  "challenge_ops =
     [OpAccount (OpCreateUser ''f1'' 10 (Inr ''v1'') (sample_user ''u1'' ''Ann'' ''a@x.io'')),
      OpAccount (OpCreateSession ''t1'' ''u1'' 999),
      OpCodeChallenge (Some (sample_challenge ''c1'' 20)) 5, OpCodeChallenge (Some (sample_challenge ''c2'' 30)) 5]"

theorem one_open_recovery_witness:
  "one_challenge (passwordRecovery (after_recovery False challenge_ops)) \<and>
   map live_challenge (gm_vals (passwordRecovery (after_recovery False challenge_ops))) = [False, True]"
proof -
  have "recovery_run False challenge_ops" by code_simp
  moreover have "map live_challenge (gm_vals (passwordRecovery (after_recovery False challenge_ops))) = [False, True]" by code_simp
  ultimately show ?thesis using one_open_recovery by blast
qed

section \<open>Credentials that work once\<close>

text \<open>A property of a stored value that later states keep.\<close>

definition stays :: "('v \<Rightarrow> bool) \<Rightarrow> ('k, 'v) gomap \<Rightarrow> ('k, 'v) gomap \<Rightarrow> bool" where
  "stays P m m' \<longleftrightarrow> (\<forall>k v. gm_get m k = Some v \<longrightarrow> P v \<longrightarrow> (\<exists>v'. gm_get m' k = Some v' \<and> P v'))"

lemma stays_refl [simp]: "stays P m m"
  by (simp add: stays_def)

lemma stays_trans: "stays P a b \<Longrightarrow> stays P b c \<Longrightarrow> stays P a c"
  unfolding stays_def by meson

lemma stays_put: "(\<And>v. gm_get m k = Some v \<Longrightarrow> P v \<Longrightarrow> P v') \<Longrightarrow> stays P m (gm_put k v' m)"
  by (simp add: stays_def)

lemma stays_update_all: "(\<And>v. P v \<Longrightarrow> P (f v)) \<Longrightarrow> stays P m (gm_update_all f m)"
  by (auto simp: stays_def)

definition closed :: "string \<Rightarrow> MFAResetRequest \<Rightarrow> bool" where
  "closed st r \<longleftrightarrow> \<not> open_reset r \<and> mr_Status r = st"

definition recovery_le :: "'z recovery_store_scheme \<Rightarrow> 'z recovery_store_scheme \<Rightarrow> bool" where
  "recovery_le s s' \<longleftrightarrow> stays (\<lambda>c. \<not> live_challenge c) (passwordRecovery s) (passwordRecovery s') \<and>
     stays (\<lambda>c. mc_ConsumedAt c \<noteq> 0) (mfaRecoveryCodes s) (mfaRecoveryCodes s') \<and>
     (\<forall>st. stays (closed st) (mfaResetRequests s) (mfaResetRequests s'))"

lemma recovery_le_trans: "recovery_le s t \<Longrightarrow> recovery_le t u \<Longrightarrow> recovery_le s u"
  unfolding recovery_le_def by (blast intro: stays_trans)

lemma stays_superseded:
  "\<not> gm_has m (pr_ID c) \<Longrightarrow>
   stays (\<lambda>c. \<not> live_challenge c) m (gm_put (pr_ID c) x (gm_update_all (supersede c) m))"
  by (rule stays_trans [OF stays_update_all stays_put]) (auto simp: supersede_def live_challenge_def)

lemma challenge_le:
  "new_challenge s a \<Longrightarrow> recovery_le s (fst (CreatePasswordRecoveryChallenge a s))"
  "new_challenge s a \<Longrightarrow> recovery_le s (fst (CreatePasswordRecoveryCodeChallenge a d s))"
  by (cases a; simp add: CreatePasswordRecoveryChallenge_def CreatePasswordRecoveryCodeChallenge_def recovery_le_def
      new_challenge_def Let_def stays_superseded)+

lemma challenge_change_le:
  "recovery_le s (fst (RecordPasswordRecoveryFailure i n mx d s))"
  "recovery_le s (InvalidatePasswordRecoveryChallenge i n s)"
  "n \<noteq> 0 \<Longrightarrow> recovery_le s (fst (CompletePasswordRecovery i h n s))"
  by (auto simp: RecordPasswordRecoveryFailure_def InvalidatePasswordRecoveryChallenge_def CompletePasswordRecovery_def
      recovery_le_def live_challenge_def Let_def split: option.split intro!: stays_put)

lemma stays_replaced:
  assumes "list_all (\<lambda>c. \<not> gm_has m (mc_ID c)) cs"
  shows "stays (\<lambda>c. mc_ConsumedAt c \<noteq> 0) m (foldl (\<lambda>m c. gm_put (mc_ID c) c m) (gm_update_all (revoke_open u n) m) cs)"
proof -
  have "gm_get (foldl (\<lambda>m c. gm_put (mc_ID c) c m) q cs) k = gm_get q k" if "\<forall>c \<in> set cs. mc_ID c \<noteq> k" for q k
    using that by (induction cs arbitrary: q) auto
  moreover have "\<forall>c \<in> set cs. mc_ID c \<noteq> k" if "gm_get m k = Some v" for k v
    using assms that by (auto simp: list_all_iff)
  ultimately show ?thesis
    by (auto simp: stays_def revoke_open_def)
qed

lemma count_failure_keeps [simp]:
  "mc_ConsumedAt (count_failure u n mx d c) = mc_ConsumedAt c" "mc_RevokedAt (count_failure u n mx d c) = mc_RevokedAt c"
  "mc_UserID (count_failure u n mx d c) = mc_UserID c" "mc_ExpiresAt (count_failure u n mx d c) = mc_ExpiresAt c"
  by (simp_all add: count_failure_def Let_def)

lemma code_le:
  "list_all (\<lambda>c. \<not> gm_has (mfaRecoveryCodes s) (mc_ID c)) cs \<Longrightarrow> recovery_le s (fst (ReplaceMFARecoveryCodes u cs s))"
  "recovery_le s (fst (RecordMFARecoveryCodeFailure u n mx d s))" "recovery_le s (RevokeMFARecoveryCodes u n s)"
  "n \<noteq> 0 \<Longrightarrow> recovery_le s (fst (CompleteMFAPasswordReset u i h n s))" "recovery_le s (fst (CreateMFASession tok u fp e s))"
  by (auto simp: ReplaceMFARecoveryCodes_def RecordMFARecoveryCodeFailure_def RevokeMFARecoveryCodes_def
      CompleteMFAPasswordReset_def CreateMFASession_def recovery_le_def Let_def revoke_open_def
      split: option.split intro!: stays_put stays_update_all stays_replaced)

lemma stays_expired: "expire_loop r m = (m', c) \<Longrightarrow> stays (closed st) m m'"
  unfolding stays_def
proof (intro allI impI)
  fix k v assume "expire_loop r m = (m', c)" "gm_get m k = Some v" "closed st v"
  then show "\<exists>v'. gm_get m' k = Some v' \<and> closed st v'"
    using expire_loop_get [of r m m' c k] by (cases "gm_get m' k") (auto simp: closed_def)
qed

lemma reset_le:
  "\<not> gm_has (mfaResetRequests s) (mr_ID r) \<Longrightarrow> recovery_le s (fst (CreateMFAResetRequest r s))"
  "recovery_le s (fst (ConfirmMFAResetRequest i hs q n s))" "recovery_le s (FailMFAResetCode i s)"
  "recovery_le s (fst (DecideMFAResetRequest f i a d q n s))"
proof -
  assume new: "\<not> gm_has (mfaResetRequests s) (mr_ID r)"
  obtain m c where loop: "expire_loop r (mfaResetRequests s) = (m, c)" by force
  have "gm_get m (mr_ID r) = None" using expire_loop_get [OF loop, of "mr_ID r"] new by simp
  then have "stays (closed st) (mfaResetRequests s) (gm_put (mr_ID r) r m)" for st
    by (intro stays_trans [OF stays_expired [OF loop] stays_put]) simp
  then show "recovery_le s (fst (CreateMFAResetRequest r s))"
    using stays_expired [OF loop] by (simp add: CreateMFAResetRequest_def recovery_le_def loop)
next
  show "recovery_le s (fst (ConfirmMFAResetRequest i hs q n s))" "recovery_le s (FailMFAResetCode i s)"
    "recovery_le s (fst (DecideMFAResetRequest f i a d q n s))"
    by (auto simp: ConfirmMFAResetRequest_def FailMFAResetCode_def DecideMFAResetRequest_def recovery_le_def closed_def
        open_reset_def revoke_unconsumed_def Let_def split: option.split intro!: stays_put stays_update_all)
qed

lemma recovery_le_step: "recovery_allowed s opn \<Longrightarrow> recovery_le s (recovery_exec opn s)"
  by (cases opn) (simp_all add: recovery_allowed_def challenge_le challenge_change_le code_le reset_le, simp add: recovery_le_def)

interpretation rec_le: legal_monotone recovery_exec "newRecoveryStore allow" recovery_inv recovery_allowed recovery_le
  by unfold_locales (simp add: recovery_le_def, erule (1) recovery_le_trans, erule recovery_le_step)

lemma sessions_dropped: "gm_get (drop_sessions uid m) token = Some x \<Longrightarrow> se_UserID x \<noteq> uid"
  by (auto simp: drop_sessions_def dest!: map_of_SomeD)

lemma CompletePasswordRecovery_effect:
  assumes ok: "CompletePasswordRecovery i h now s = (s', Inr ())" and inv: "user_inv s" and now: "now \<noteq> 0"
  shows "\<exists>c u. gm_get (passwordRecovery s) i = Some c \<and> live_challenge c \<and> now < pr_ExpiresAt c \<and> pr_LockedUntil c \<le> now \<and>
    user_of s' (byID s') (pr_UserID c) = Some u \<and> us_PasswordHash u = h \<and>
    loginSessions s' = drop_sessions (pr_UserID c) (loginSessions s) \<and>
    gm_get (passwordRecovery s') i = Some (c\<lparr>pr_ConsumedAt := now\<rparr>)"
proof -
  from ok obtain c a where c: "gm_get (passwordRecovery s) i = Some c" "live_challenge c" "now < pr_ExpiresAt c" "pr_LockedUntil c \<le> now"
    and a: "gm_get (byID s) (pr_UserID c) = Some a"
    and s': "s' = s\<lparr>users := (users s)[a := (users s ! a)\<lparr>us_PasswordHash := h\<rparr>],
      passwordRecovery := gm_put i (c\<lparr>pr_ConsumedAt := now\<rparr>) (passwordRecovery s),
      loginSessions := drop_sessions (pr_UserID c) (loginSessions s)\<rparr>"
    by (auto simp: CompletePasswordRecovery_def live_challenge_def Let_def split: option.splits if_splits)
  have "user_of s' (byID s') (pr_UserID c) = Some ((users s ! a)\<lparr>us_PasswordHash := h\<rparr>)"
    using user_inv_at(1) [OF inv a] a by (simp add: s' user_of_def)
  then show ?thesis
    using c by (intro exI [of _ c] exI [of _ "(users s ! a)\<lparr>us_PasswordHash := h\<rparr>"]) (simp add: s')
qed

text \<open>
  C6: A password recovery works once. When a challenge is completed, it was open, not expired
  and not locked, its user has the new password hash and no session left; and after
  any further operations every attempt to complete the same challenge again is refused.
\<close>

theorem recovery_single_use:
  assumes "recovery_run allow ops" "CompletePasswordRecovery i h now (after_recovery allow ops) = (s, Inr ())" "now \<noteq> 0"
    and "legal recovery_allowed recovery_exec later s"
  shows "(\<exists>c u. gm_get (passwordRecovery (after_recovery allow ops)) i = Some c \<and> live_challenge c \<and>
      now < pr_ExpiresAt c \<and> pr_LockedUntil c \<le> now \<and>
      user_of s (byID s) (pr_UserID c) = Some u \<and> us_PasswordHash u = h \<and>
      (\<forall>token x. gm_get (loginSessions s) token = Some x \<longrightarrow> se_UserID x \<noteq> pr_UserID c)) \<and>
    CompletePasswordRecovery i h' now' (exec_all recovery_exec later s) =
      (exec_all recovery_exec later s, Inl ErrPasswordRecoveryInvalid)"
proof -
  note inv = after_recovery_inv [OF assms(1)]
  then have "user_inv (after_recovery allow ops)" by (simp add: recovery_inv_def)
  from CompletePasswordRecovery_effect [OF assms(2) this assms(3)] obtain c u where
    c: "gm_get (passwordRecovery (after_recovery allow ops)) i = Some c" "live_challenge c" "now < pr_ExpiresAt c" "pr_LockedUntil c \<le> now"
    and u: "user_of s (byID s) (pr_UserID c) = Some u" "us_PasswordHash u = h"
    and rest: "loginSessions s = drop_sessions (pr_UserID c) (loginSessions (after_recovery allow ops))"
      "gm_get (passwordRecovery s) i = Some (c\<lparr>pr_ConsumedAt := now\<rparr>)"
    by blast
  have "recovery_inv s" using challenge_change_inv(3) [OF inv, of i h now] assms(2) by simp
  then have "recovery_le s (exec_all recovery_exec later s)" using assms(4) by (rule rec_le.legal_run_le)
  moreover have "\<not> live_challenge (c\<lparr>pr_ConsumedAt := now\<rparr>)" using assms(3) by (simp add: live_challenge_def)
  ultimately obtain c' where "gm_get (passwordRecovery (exec_all recovery_exec later s)) i = Some c'" "\<not> live_challenge c'"
    using rest(2) unfolding recovery_le_def stays_def by blast
  then have "CompletePasswordRecovery i h' now' (exec_all recovery_exec later s) =
      (exec_all recovery_exec later s, Inl ErrPasswordRecoveryInvalid)"
    by (auto simp: CompletePasswordRecovery_def live_challenge_def)
  moreover have "\<forall>token x. gm_get (loginSessions s) token = Some x \<longrightarrow> se_UserID x \<noteq> pr_UserID c"
    using sessions_dropped by (simp add: rest(1))
  ultimately show ?thesis using c u by blast
qed

theorem recovery_single_use_witness:
  "\<exists>s. CompletePasswordRecovery ''c2'' ''new'' 40 (after_recovery False challenge_ops) = (s, Inr ()) \<and>
     CompletePasswordRecovery ''c2'' ''evil'' 41 (exec_all recovery_exec [OpFailReset ''x''] s) =
       (exec_all recovery_exec [OpFailReset ''x''] s, Inl ErrPasswordRecoveryInvalid)"
proof -
  have run: "recovery_run False challenge_ops" by code_simp
  have "outcome (CompletePasswordRecovery ''c2'' ''new'' 40 (after_recovery False challenge_ops)) (\<lambda>_. True)" by code_simp
  then obtain s where s: "CompletePasswordRecovery ''c2'' ''new'' 40 (after_recovery False challenge_ops) = (s, Inr ())"
    by (rule outcomeE) simp
  have "legal recovery_allowed recovery_exec [OpFailReset ''x''] s" by (simp add: recovery_allowed_def)
  from recovery_single_use [OF run s _ this] s show ?thesis by auto
qed

section \<open>Lockout\<close>

definition failures :: "string \<Rightarrow> int \<Rightarrow> duration \<Rightarrow> time list \<Rightarrow> 'z recovery_store_scheme \<Rightarrow> 'z recovery_store_scheme" where
  "failures u mx d ts s = foldl (\<lambda>s t. fst (RecordMFARecoveryCodeFailure u t mx d s)) s ts"

lemma RecordMFARecoveryCodeFailure_fst:
  "fst (RecordMFARecoveryCodeFailure u t mx d s) =
     s\<lparr>mfaRecoveryCodes := gm_update_all (count_failure u t mx d) (mfaRecoveryCodes s)\<rparr>"
  by (simp add: RecordMFARecoveryCodeFailure_def Let_def)

lemma failures_code:
  "gm_get (mfaRecoveryCodes (failures u mx d ts s)) k =
     map_option (\<lambda>c. foldl (\<lambda>c t. count_failure u t mx d c) c ts) (gm_get (mfaRecoveryCodes s) k)"
  unfolding failures_def
  by (induction ts arbitrary: s) (simp_all add: RecordMFARecoveryCodeFailure_fst option.map_comp option.map_ident comp_def)

lemma failures_keep:
  "mc_ConsumedAt (foldl (\<lambda>c t. count_failure u t mx d c) c ts) = mc_ConsumedAt c"
  "mc_RevokedAt (foldl (\<lambda>c t. count_failure u t mx d c) c ts) = mc_RevokedAt c"
  "mc_UserID (foldl (\<lambda>c t. count_failure u t mx d c) c ts) = mc_UserID c"
  "mc_ExpiresAt (foldl (\<lambda>c t. count_failure u t mx d c) c ts) = mc_ExpiresAt c"
  by (induction ts arbitrary: c) simp_all

text \<open>
  After \<open>k\<close> failures since \<open>t0\<close>, of \<open>n\<close>, a code has been locked for at least \<open>d\<close> from \<open>t0\<close>, or it has
  counted them all and has not reached the limit; its counter does not overflow in the others.
\<close>

definition counted :: "time \<Rightarrow> duration \<Rightarrow> int \<Rightarrow> int \<Rightarrow> int \<Rightarrow> MFARecoveryCode \<Rightarrow> bool" where
  "counted t0 d mx n k c \<longleftrightarrow> t0 + d \<le> mc_LockedUntil c \<or>
     mc_LockedUntil c \<le> t0 \<and> k \<le> mc_FailedAttempts c \<and> mc_FailedAttempts c + (n - k) < 2 ^ 63 \<and>
     (0 < k \<longrightarrow> mc_FailedAttempts c < mx)"

lemma unusable_count_failure [simp]: "unusable u t (count_failure v n mx d c) = unusable u t c"
  by (simp add: unusable_def)

lemma counted_step:
  assumes "counted t0 d mx n k c" "0 \<le> k" "k < n" "t0 \<le> t" "\<not> unusable u t c"
  shows "counted t0 d mx n (k + 1) (count_failure u t mx d c)"
proof (cases "t0 + d \<le> mc_LockedUntil c")
  case True
  then show ?thesis using assms(4) by (auto simp: counted_def count_failure_def Let_def)
next
  case False
  then have c: "mc_LockedUntil c \<le> t0" "k \<le> mc_FailedAttempts c" "mc_FailedAttempts c + (n - k) < 2 ^ 63"
    using assms(1) by (simp_all add: counted_def)
  have "wrap64 (mc_FailedAttempts c + 1) = mc_FailedAttempts c + 1"
    using c(2,3) assms(2,3) by (intro wrap64_id) (simp add: int64_def)
  then show ?thesis using c assms(4,5) by (auto simp: counted_def count_failure_def Let_def)
qed

lemma counted_failures:
  "counted t0 d mx n k c \<Longrightarrow> 0 \<le> k \<Longrightarrow> n = k + int (length ts) \<Longrightarrow> \<forall>t \<in> set ts. t0 \<le> t \<and> \<not> unusable u t c \<Longrightarrow>
   counted t0 d mx n n (foldl (\<lambda>c t. count_failure u t mx d c) c ts)"
proof (induction ts arbitrary: c k)
  case (Cons t ts)
  then show ?case
    using Cons.IH [of "k + 1" "count_failure u t mx d c"] counted_step [of t0 d mx n k c t u] by simp
qed simp

text \<open>
  C25: Guessing MFA recovery codes is bounded. Once as many wrong attempts as allowed were recorded
  for a user since \<open>t0\<close>, no code of the user that was unlocked at \<open>t0\<close> completes a reset before
  the lockout time has passed from \<open>t0\<close>, whatever the code: the budget is shared by all codes. The counter of the code starts at zero or
  above and has room for the attempts.
\<close>

theorem mfa_code_lockout:
  assumes "gm_get (mfaRecoveryCodes s) i = Some c" "i \<noteq> []" "0 \<le> mc_FailedAttempts c"
    "mc_FailedAttempts c + int (length ts) < 2 ^ 63" "mc_LockedUntil c \<le> t0"
    and "\<forall>t \<in> set ts. t0 \<le> t \<and> t \<le> now" "ts \<noteq> []" "mx \<le> int (length ts)" "now < t0 + lockout"
  shows "CompleteMFAPasswordReset u i h now (failures u mx lockout ts s) = (failures u mx lockout ts s, Inl ErrMFARecoveryCodeInvalid)"
proof -
  let ?c = "foldl (\<lambda>c t. count_failure u t mx lockout c) c ts"
  have "now < mc_LockedUntil ?c" if "\<not> unusable u now c"
  proof -
    have "\<forall>t \<in> set ts. t0 \<le> t \<and> \<not> unusable u t c" using assms(6) that by (auto simp: unusable_def)
    then have "counted t0 lockout mx (int (length ts)) (int (length ts)) ?c"
      using assms(3-5) by (intro counted_failures [of t0 lockout mx _ 0]) (simp_all add: counted_def)
    then show ?thesis using assms(7-9) by (auto simp: counted_def)
  qed
  moreover have "unusable u now ?c = unusable u now c" by (simp add: unusable_def failures_keep)
  moreover have "gm_get (mfaRecoveryCodes (failures u mx lockout ts s)) i = Some ?c" by (simp add: failures_code assms(1))
  ultimately show ?thesis
    using assms(2) by (auto simp: CompleteMFAPasswordReset_def Let_def split: option.split)
qed

definition sample_code :: MFARecoveryCode where
  "sample_code = \<lparr>mc_ID = ''k1'', mc_UserID = ''u1'', mc_BatchID = ''b'', mc_CodeHash = ''h'', mc_ExpiresAt = 900,
     mc_FailedAttempts = 0, mc_LockedUntil = 0, mc_CreatedAt = 20, mc_ConsumedAt = 0, mc_RevokedAt = 0\<rparr>"

definition code_store :: recovery_store where
  "code_store = after_recovery False
     [OpAccount (OpCreateUser ''f1'' 10 (Inr ''v1'') (sample_user ''u1'' ''Ann'' ''a@x.io'')), OpReplaceCodes ''u1'' [sample_code]]"

theorem mfa_code_lockout_witness:
  "snd (CompleteMFAPasswordReset ''u1'' ''k1'' ''new'' 32 (failures ''u1'' 2 60 [30, 31] code_store)) = Inl ErrMFARecoveryCodeInvalid \<and>
   snd (CompleteMFAPasswordReset ''u1'' ''k1'' ''new'' 32 (failures ''u1'' 2 60 [30] code_store)) = Inr ()"
proof -
  have "gm_get (mfaRecoveryCodes code_store) ''k1'' = Some sample_code" by code_simp
  from mfa_code_lockout [OF this, of "[30, 31]" 30 32 2 60 "''u1''" "''new''"]
  have "CompleteMFAPasswordReset ''u1'' ''k1'' ''new'' 32 (failures ''u1'' 2 60 [30, 31] code_store) =
    (failures ''u1'' 2 60 [30, 31] code_store, Inl ErrMFARecoveryCodeInvalid)"
    by (simp add: sample_code_def)
  moreover have "snd (CompleteMFAPasswordReset ''u1'' ''k1'' ''new'' 32 (failures ''u1'' 2 60 [30] code_store)) = Inr ()" by code_simp
  ultimately show ?thesis by simp
qed

section \<open>Reviewed resets\<close>

text \<open>Who may decide, and on which request.\<close>

definition may_decide :: "string \<Rightarrow> time \<Rightarrow> User \<Rightarrow> MFAResetRequest \<Rightarrow> bool" where
  "may_decide actorID now actor r \<longleftrightarrow> us_Active actor \<and> IsRootRole (us_Role actor) \<and> us_MFAEnabled actor \<and>
     mr_UserID r \<noteq> actorID \<and> mr_Status r = ''pending_review'' \<and> now < mr_ExpiresAt r"

text \<open>What an approval leaves: MFA off, no session, no usable recovery code, no new MFA session.\<close>

definition mfa_cleared :: "string \<Rightarrow> 'z recovery_store_scheme \<Rightarrow> bool" where
  "mfa_cleared uid s \<longleftrightarrow> (\<exists>u. user_of s (byID s) uid = Some u \<and> \<not> us_MFAEnabled u \<and> us_MFATOTPSecret u = []) \<and>
     (\<forall>token x. gm_get (loginSessions s) token = Some x \<longrightarrow> se_UserID x \<noteq> uid) \<and>
     (\<forall>k c t. gm_get (mfaRecoveryCodes s) k = Some c \<longrightarrow> unusable uid t c) \<and>
     (\<forall>token fp e. CreateMFASession token uid fp e s = (s, Inl ErrMFAResetConflict))"

lemma DecideMFAResetRequest_ok:
  assumes "DecideMFAResetRequest f i a d q now s = (s', Inr ())"
  shows "\<exists>actor r b. user_of s (byID s) a = Some actor \<and> gm_get (mfaResetRequests s) i = Some r \<and> may_decide a now actor r \<and>
    (d = ''approved'' \<or> d = ''rejected'') \<and> gm_get (byID s) (mr_UserID r) = Some b \<and> validMFAResetUser (Some (users s ! b)) r \<and>
    mfaResetRequests s' = gm_put i (r\<lparr>mr_Status := d, mr_ReviewReason := q\<rparr>) (mfaResetRequests s) \<and>
    auditLogs s' = auditLogs s @ [reset_audit f a d (mr_UserID r) i q now] \<and> byID s' = byID s \<and>
    (d = ''approved'' \<longrightarrow> users s' = (users s)[b := clear_mfa (users s ! b)] \<and>
       loginSessions s' = drop_sessions (us_ID (users s ! b)) (loginSessions s) \<and>
       mfaRecoveryCodes s' = gm_update_all (revoke_unconsumed (us_ID (users s ! b)) now) (mfaRecoveryCodes s))"
  using assms
  by (auto simp: DecideMFAResetRequest_def may_decide_def Let_def split: option.splits if_splits)

lemma revoked_unusable: "now \<noteq> 0 \<Longrightarrow> unusable uid t (revoke_unconsumed uid now c)"
  by (auto simp: unusable_def revoke_unconsumed_def)

lemma approval_clears:
  assumes ok: "DecideMFAResetRequest f i a ''approved'' q now s = (s', Inr ())" and inv: "user_inv s" and now: "now \<noteq> 0"
    and r: "gm_get (mfaResetRequests s) i = Some r"
  shows "mfa_cleared (mr_UserID r) s'"
proof -
  from DecideMFAResetRequest_ok [OF ok] r obtain b where b: "gm_get (byID s) (mr_UserID r) = Some b"
    and s': "byID s' = byID s" "users s' = (users s)[b := clear_mfa (users s ! b)]"
      "loginSessions s' = drop_sessions (us_ID (users s ! b)) (loginSessions s)"
      "mfaRecoveryCodes s' = gm_update_all (revoke_unconsumed (us_ID (users s ! b)) now) (mfaRecoveryCodes s)"
    by auto
  have at: "b < length (users s)" "us_ID (users s ! b) = mr_UserID r" using user_inv_at [OF inv b] by simp_all
  have u: "user_of s' (byID s') (mr_UserID r) = Some (clear_mfa (users s ! b))" using b at by (simp add: user_of_def s')
  have "unusable (mr_UserID r) t c" if "gm_get (mfaRecoveryCodes s') k = Some c" for k c t
    using that revoked_unusable [OF now] by (auto simp: s'(4) at)
  then show ?thesis
    using u sessions_dropped unfolding mfa_cleared_def by (auto simp: s'(3) at clear_mfa_def CreateMFASession_def)
qed

text \<open>
  C4: Removing a second factor takes two people and is final. A request is decided only by an
  active root account with MFA that is not the requester, while the request waits for its
  review, and the decision is logged. An approval turns MFA off, ends every session of the
  account, voids its recovery codes and refuses sessions for logins verified before. Whatever
  happens later, the request keeps its decision and is never decided again.
\<close>

theorem mfa_reset_reviewed:
  assumes "recovery_run allow ops" "DecideMFAResetRequest f i a d q now (after_recovery allow ops) = (s, Inr ())" "now \<noteq> 0"
    and "legal recovery_allowed recovery_exec later s"
  shows "(\<exists>actor r. user_of (after_recovery allow ops) (byID (after_recovery allow ops)) a = Some actor \<and>
      gm_get (mfaResetRequests (after_recovery allow ops)) i = Some r \<and> may_decide a now actor r \<and>
      auditLogs s = auditLogs (after_recovery allow ops) @ [reset_audit f a d (mr_UserID r) i q now] \<and>
      (d = ''approved'' \<longrightarrow> mfa_cleared (mr_UserID r) s)) \<and>
    (\<exists>r'. gm_get (mfaResetRequests (exec_all recovery_exec later s)) i = Some r' \<and> mr_Status r' = d) \<and>
    DecideMFAResetRequest f' i a' d' q' now' (exec_all recovery_exec later s) =
      (exec_all recovery_exec later s, Inl ErrMFAResetConflict)"
proof -
  let ?s = "after_recovery allow ops" and ?t = "exec_all recovery_exec later s"
  note inv = after_recovery_inv [OF assms(1)]
  then have ui: "user_inv ?s" by (simp add: recovery_inv_def)
  from DecideMFAResetRequest_ok [OF assms(2)] obtain actor r where
    ar: "user_of ?s (byID ?s) a = Some actor" "gm_get (mfaResetRequests ?s) i = Some r" "may_decide a now actor r"
    "d = ''approved'' \<or> d = ''rejected''" "auditLogs s = auditLogs ?s @ [reset_audit f a d (mr_UserID r) i q now]"
    and m: "mfaResetRequests s = gm_put i (r\<lparr>mr_Status := d, mr_ReviewReason := q\<rparr>) (mfaResetRequests ?s)" by blast
  have "recovery_inv s" using DecideMFAResetRequest_inv [OF inv, of f i a d q now] assms(2) by simp
  then have "recovery_le s ?t" using assms(4) by (rule rec_le.legal_run_le)
  moreover have "closed d (r\<lparr>mr_Status := d, mr_ReviewReason := q\<rparr>)" using ar(4) by (auto simp: closed_def open_reset_def)
  moreover have "gm_get (mfaResetRequests s) i = Some (r\<lparr>mr_Status := d, mr_ReviewReason := q\<rparr>)" by (simp add: m)
  ultimately obtain r' where r': "gm_get (mfaResetRequests ?t) i = Some r'" "closed d r'"
    unfolding recovery_le_def stays_def by blast
  then have "DecideMFAResetRequest f' i a' d' q' now' ?t = (?t, Inl ErrMFAResetConflict)"
    by (auto simp: DecideMFAResetRequest_def closed_def open_reset_def split: option.split)
  moreover have "d = ''approved'' \<longrightarrow> mfa_cleared (mr_UserID r) s"
    using approval_clears [OF _ ui assms(3) ar(2)] assms(2) by blast
  ultimately show ?thesis using ar r' by (auto simp: closed_def)
qed

text \<open>
  A run that ends with an approval. The fingerprint of the secret is not computed: the run is
  evaluated up to the accounts, and the requests are followed from there.
\<close>

definition mfa_user :: "string \<Rightarrow> string \<Rightarrow> string \<Rightarrow> string \<Rightarrow> User" where
  "mfa_user i name email role = (sample_user i name email)\<lparr>us_EmailVerified := True, us_MFAEnabled := True,
     us_MFATOTPSecret := ''SEC'', us_Role := role\<rparr>"

definition sample_reset :: MFAResetRequest where
  "sample_reset = \<lparr>mr_ID = ''q1'', mr_UserID = ''u1'', mr_Email = ''a@x.io'', mr_Fingerprint = MFAFingerprint ''SEC'',
     mr_CodeHash = ''h'', mr_Status = ''pending_email'', mr_Reason = [], mr_ReviewReason = [], mr_FailedAttempts = 0,
     mr_CreatedAt = 100, mr_ExpiresAt = 900\<rparr>"

definition mfa_accounts :: "recovery_op list" where
  "mfa_accounts = [OpAccount (OpCreateUser ''f1'' 10 (Inr ''v1'') (mfa_user ''u1'' ''Ann'' ''a@x.io'' RoleUser)),
     OpAccount (OpCreateUser ''f2'' 11 (Inr ''v2'') (mfa_user ''u9'' ''Root'' ''r@x.io'' RoleRoot))]"

definition mfa_scene :: "'z recovery_store_scheme \<Rightarrow> bool" where
  "mfa_scene s \<longleftrightarrow> mfaResetRequests s = [] \<and>
     (case (gm_get (byID s) ''u1'', gm_get (byID s) ''u9'') of
        (Some a, Some b) \<Rightarrow> us_Active (users s ! a) \<and> us_EmailVerified (users s ! a) \<and> us_MFAEnabled (users s ! a) \<and>
          us_MFATOTPSecret (users s ! a) = ''SEC'' \<and> us_Email (users s ! a) = ''a@x.io'' \<and>
          us_Active (users s ! b) \<and> IsRootRole (us_Role (users s ! b)) \<and> us_MFAEnabled (users s ! b)
      | _ \<Rightarrow> False)"

lemma mfa_scene_run:
  assumes "mfa_scene s"
  shows "legal recovery_allowed recovery_exec [OpCreateReset sample_reset, OpConfirmReset ''q1'' ''h'' ''lost'' 130] s \<and>
    (\<exists>s'. DecideMFAResetRequest ''e'' ''q1'' ''u9'' ''approved'' ''checked'' 200
      (exec_all recovery_exec [OpCreateReset sample_reset, OpConfirmReset ''q1'' ''h'' ''lost'' 130] s) = (s', Inr ())) \<and>
    map_option mr_UserID (gm_get (mfaResetRequests
      (exec_all recovery_exec [OpCreateReset sample_reset, OpConfirmReset ''q1'' ''h'' ''lost'' 130] s)) ''q1'') = Some ''u1''"
proof -
  have trim: "TrimSpace ''SEC'' \<noteq> []" "TrimSpace ''checked'' \<noteq> []" by code_simp+
  from assms obtain a b where ab: "mfaResetRequests s = []" "gm_get (byID s) ''u1'' = Some a" "gm_get (byID s) ''u9'' = Some b"
    "us_Active (users s ! a)" "us_EmailVerified (users s ! a)" "us_MFAEnabled (users s ! a)" "us_MFATOTPSecret (users s ! a) = ''SEC''"
    "us_Email (users s ! a) = ''a@x.io''" "us_Active (users s ! b)" "IsRootRole (us_Role (users s ! b))" "us_MFAEnabled (users s ! b)"
    by (auto simp: mfa_scene_def split: option.splits)
  have valid: "validMFAResetUser (Some (users s ! a)) r" if "mr_Email r = ''a@x.io''" "mr_Fingerprint r = MFAFingerprint ''SEC''" for r
    using ab trim that by (simp add: validMFAResetUser_def EqualFold_def)
  show ?thesis
    using ab trim by (simp add: CreateMFAResetRequest_def ConfirmMFAResetRequest_def DecideMFAResetRequest_def user_of_def
        sample_reset_def valid recovery_allowed_def Let_def)
qed

theorem mfa_reset_reviewed_witness:
  "\<exists>ops s. recovery_run False ops \<and>
     DecideMFAResetRequest ''e'' ''q1'' ''u9'' ''approved'' ''checked'' 200 (after_recovery False ops) = (s, Inr ()) \<and> mfa_cleared ''u1'' s"
proof -
  let ?ops = "mfa_accounts @ [OpCreateReset sample_reset, OpConfirmReset ''q1'' ''h'' ''lost'' 130]"
  let ?s = "exec_all recovery_exec mfa_accounts (newRecoveryStore False)"
  have "mfa_scene ?s" by code_simp
  note scene = mfa_scene_run [OF this]
  have app: "after_recovery False ?ops = exec_all recovery_exec [OpCreateReset sample_reset, OpConfirmReset ''q1'' ''h'' ''lost'' 130] ?s"
    by (simp add: after_recovery_def mfa_accounts_def)
  have run: "recovery_run False ?ops"
    using scene by (simp add: mfa_accounts_def recovery_allowed_def [of _ "OpAccount _"])
  from scene obtain s where s: "DecideMFAResetRequest ''e'' ''q1'' ''u9'' ''approved'' ''checked'' 200 (after_recovery False ?ops) = (s, Inr ())"
    unfolding app by blast
  have "(200 :: int) \<noteq> 0" "legal recovery_allowed recovery_exec [] s" by simp_all
  from conjunct1 [OF mfa_reset_reviewed [OF run s this]] obtain r where
    "gm_get (mfaResetRequests (after_recovery False ?ops)) ''q1'' = Some r" "mfa_cleared (mr_UserID r) s" by blast
  moreover from this(1) scene have "mr_UserID r = ''u1''" unfolding app by simp
  ultimately show ?thesis using run s by metis
qed

end
