(* ===== verification/Teams.thy ===== *)
theory Teams
  imports User_Lifecycle
begin

text \<open>
  Network teams and team agents of \<open>memoryStore\<close> (\<open>internal/store/network_teams.go\<close>,
  \<open>team_agent_enrollments.go\<close>). The audit arguments are entries here: every caller
  passes one. A nil map that the code allocates on first use is the empty map.
\<close>

record NetworkTeam =
  nt_ID :: string
  nt_Name :: string
  nt_MemberLimit :: int
  nt_ValidFrom :: time
  nt_ValidUntil :: time
  nt_Active :: bool

record NetworkMembership =
  nm_Configured :: bool
  nm_UserID :: string
  nm_TeamID :: string
  nm_DedicatedOnly :: bool
  nm_Role :: string

record TeamAgentEnrollment =
  te_AgentID :: string
  te_SuggestedTeamID :: string
  te_AssignedTeamID :: string
  te_Status :: string
  te_DecidedBy :: string
  te_Reason :: string
  te_UpdatedAt :: time

record team_store = user_store +
  teamAgentEnrollments :: "(string, TeamAgentEnrollment) gomap"
  networkTeams :: "(string, NetworkTeam) gomap"
  networkMembers :: "(string, NetworkMembership) gomap"

definition newTeamStore :: "bool \<Rightarrow> team_store" where
  "newTeamStore allow = user_store.extend (newUserStore allow) (team_store.fields [] [] [])"

type_synonym ('z, 'a) team_result = "'z team_store_scheme \<times> (store_error + 'a)"

section \<open>Groups of a member\<close>

text \<open>\<open>strings.HasPrefix\<close> and \<open>strings.HasSuffix\<close>\<close>

definition HasPrefix :: "string \<Rightarrow> string \<Rightarrow> bool" where
  "HasPrefix s p \<longleftrightarrow> starts_with p s"

definition HasSuffix :: "string \<Rightarrow> string \<Rightarrow> bool" where
  "HasSuffix s p \<longleftrightarrow> starts_with (rev p) (rev s)"

definition team_role :: "string \<Rightarrow> bool" where
  "team_role grp \<longleftrightarrow> HasPrefix grp ''team-admin:'' \<or> HasPrefix grp ''team:'' \<and> HasSuffix grp '':admin''"

definition groups_step :: "NetworkMembership \<Rightarrow> bool \<times> string list \<Rightarrow> string \<Rightarrow> bool \<times> string list" where
  "groups_step member st grp =
     (let (admin, result) = st in
      if team_role grp
      then (if nm_Role member = [] \<and> nm_TeamID member \<noteq> [] \<and>
               (grp = ''team-admin:'' @ nm_TeamID member \<or> grp = ''team:'' @ nm_TeamID member @ '':admin'')
            then (True, result) else (admin, result))
      else (admin, result @ [grp]))"

definition networkMembershipGroups :: "string list \<Rightarrow> NetworkMembership \<Rightarrow> string list" where
  "networkMembershipGroups groups member =
     (let (admin, result) = foldl (groups_step member) (nm_Role member = ''admin'', []) groups in
      if admin \<and> nm_TeamID member \<noteq> [] \<and> nm_DedicatedOnly member
      then result @ [''team-admin:'' @ nm_TeamID member] else result)"

section \<open>Teams and memberships\<close>

definition ListNetworkTeams :: "'z team_store_scheme \<Rightarrow> NetworkTeam list" where
  "ListNetworkTeams s = sort_key nt_ID (gm_vals (networkTeams s))"

definition member_count :: "string \<Rightarrow> (string, NetworkMembership) gomap \<Rightarrow> int" where
  "member_count team members = int (count_vals (\<lambda>m. nm_TeamID m = team) members)"

definition PutNetworkTeam ::
  "NetworkTeam \<Rightarrow> AuditLog \<Rightarrow> 'z team_store_scheme \<Rightarrow> ('z, unit) team_result" where
  "PutNetworkTeam team audit s =
     (if member_count (nt_ID team) (networkMembers s) > nt_MemberLimit team then (s, Inl ErrNetworkTeamFull)
      else (s\<lparr>networkTeams := gm_put (nt_ID team) team (networkTeams s), auditLogs := auditLogs s @ [audit]\<rparr>, Inr ()))"

text \<open>\<open>s.networkMembers[id]\<close>, with the zero value for an account without membership\<close>

definition membership :: "string \<Rightarrow> 'z team_store_scheme \<Rightarrow> NetworkMembership" where
  "membership userID s =
     (case gm_get (networkMembers s) userID of
        Some m \<Rightarrow> m
      | None \<Rightarrow> \<lparr>nm_Configured = False, nm_UserID = [], nm_TeamID = [], nm_DedicatedOnly = False, nm_Role = []\<rparr>)"

definition GetNetworkMembership :: "string \<Rightarrow> 'z team_store_scheme \<Rightarrow> NetworkMembership" where
  "GetNetworkMembership userID s =
     (let ok = gm_has (networkMembers s) userID;
          member = (membership userID s)\<lparr>nm_Configured := ok\<rparr>
      in if \<not> ok then member\<lparr>nm_UserID := userID\<rparr> else member)"

definition other_members :: "string \<Rightarrow> string \<Rightarrow> (string, NetworkMembership) gomap \<Rightarrow> int" where
  "other_members userID team members =
     int (length (filter (\<lambda>(i, other). i \<noteq> userID \<and> nm_TeamID other = team) members))"

text \<open>The checks for joining a team; \<open>None\<close> lets the member in.\<close>

definition join_error :: "NetworkMembership \<Rightarrow> AuditLog \<Rightarrow> 'z team_store_scheme \<Rightarrow> store_error option" where
  "join_error member audit s =
     (case gm_get (networkTeams s) (nm_TeamID member) of
        None \<Rightarrow> Some ErrNetworkTeamNotFound
      | Some team \<Rightarrow>
          let current = membership (nm_UserID member) s;
              joiningPersonal = (nm_TeamID current = [] \<and> al_Action audit = ''network.team.member.add'');
              platformRoot = (al_Action audit = ''network.membership.set'' \<and>
                              al_get audit ''platform_root'' = Some (DVal (GBool True))) in
          if \<not> platformRoot \<and> nt_Active team \<and>
             (\<not> nm_DedicatedOnly current \<and> \<not> joiningPersonal \<or>
              nm_TeamID current \<noteq> [] \<and> nm_TeamID current \<noteq> nm_TeamID member)
          then Some ErrNetworkWithdrawalRequired
          else if other_members (nm_UserID member) (nm_TeamID member) (networkMembers s) \<ge> nt_MemberLimit team
          then Some ErrNetworkTeamFull
          else None)"

definition PutNetworkMembership ::
  "NetworkMembership \<Rightarrow> AuditLog \<Rightarrow> 'z team_store_scheme \<Rightarrow> ('z, unit) team_result" where
  "PutNetworkMembership member audit s =
     (case gm_get (byID s) (nm_UserID member) of
        None \<Rightarrow> (s, Inl ErrUserNotFound)
      | Some a \<Rightarrow>
          (case (if nm_TeamID member \<noteq> [] then join_error member audit s else None) of
             Some e \<Rightarrow> (s, Inl e)
           | None \<Rightarrow>
               let member = (if nm_TeamID member \<noteq> [] then member\<lparr>nm_DedicatedOnly := True\<rparr> else member);
                   s = s\<lparr>networkMembers := gm_put (nm_UserID member) member (networkMembers s)\<rparr>;
                   user = users s ! a;
                   s = put_user a (user\<lparr>us_Groups := networkMembershipGroups (us_Groups user) member\<rparr>) s
               in (s\<lparr>auditLogs := auditLogs s @ [audit]\<rparr>, Inr ())))"

definition ListNetworkMemberships :: "'z team_store_scheme \<Rightarrow> NetworkMembership list" where
  "ListNetworkMemberships s = gm_vals (networkMembers s)"

section \<open>Team agents\<close>

definition RegisterTeamAgent ::
  "time \<Rightarrow> string \<Rightarrow> string \<Rightarrow> 'z team_store_scheme \<Rightarrow> 'z team_store_scheme \<times> TeamAgentEnrollment" where
  "RegisterTeamAgent now i suggested s =
     (case gm_get (teamAgentEnrollments s) i of
        Some e \<Rightarrow> (s, e)
      | None \<Rightarrow>
          let e = \<lparr>te_AgentID = i, te_SuggestedTeamID = suggested, te_AssignedTeamID = [], te_Status = ''pending'',
                te_DecidedBy = [], te_Reason = [], te_UpdatedAt = now\<rparr>
          in (s\<lparr>teamAgentEnrollments := gm_put i e (teamAgentEnrollments s)\<rparr>, e))"

definition ListTeamAgents :: "'z team_store_scheme \<Rightarrow> TeamAgentEnrollment list" where
  "ListTeamAgents s = sort_key te_AgentID (gm_vals (teamAgentEnrollments s))"

definition DecideTeamAgent ::
  "time \<Rightarrow> TeamAgentEnrollment \<Rightarrow> time \<Rightarrow> AuditLog \<Rightarrow> 'z team_store_scheme \<Rightarrow> ('z, unit) team_result" where
  "DecideTeamAgent now e expected audit s =
     (case gm_get (teamAgentEnrollments s) (te_AgentID e) of
        None \<Rightarrow> (s, Inl ErrTeamAgentNotFound)
      | Some old \<Rightarrow>
          if te_UpdatedAt old \<noteq> expected then (s, Inl ErrTeamAgentConflict)
          else
            let e = e\<lparr>te_UpdatedAt := now\<rparr>;
                e = (if \<not> te_UpdatedAt e > te_UpdatedAt old then e\<lparr>te_UpdatedAt := te_UpdatedAt old + Microsecond\<rparr> else e)
            in (s\<lparr>teamAgentEnrollments := gm_put (te_AgentID e) e (teamAgentEnrollments s),
                  auditLogs := auditLogs s @ [cloneAuditLog audit]\<rparr>, Inr ()))"

section \<open>Teams as a state machine\<close>

datatype team_op =
    OpMember user_op
  | OpPutTeam NetworkTeam AuditLog
  | OpPutMembership NetworkMembership AuditLog
  | OpRegisterAgent time string string
  | OpDecideAgent time TeamAgentEnrollment time AuditLog

fun team_exec :: "team_op \<Rightarrow> 'z team_store_scheme \<Rightarrow> 'z team_store_scheme" where
  "team_exec (OpMember opn) s = user_exec opn s"
| "team_exec (OpPutTeam t a) s = fst (PutNetworkTeam t a s)"
| "team_exec (OpPutMembership m a) s = fst (PutNetworkMembership m a s)"
| "team_exec (OpRegisterAgent n i g) s = fst (RegisterTeamAgent n i g s)"
| "team_exec (OpDecideAgent n e t a) s = fst (DecideTeamAgent n e t a s)"

end
