(* ===== verification/Team_Properties.thy ===== *)
theory Team_Properties
  imports Teams
begin

text \<open>
  What teams promise: the member limit, groups that reflect the membership and nothing
  else, and decisions on agents that are never based on an outdated version.
\<close>

section \<open>Member limit\<close>

lemma count_put_others:
  assumes "gm_wf m"
  shows "count_vals P (gm_put k v m) = length (filter (\<lambda>(i, x). i \<noteq> k \<and> P x) m) + (if P v then 1 else 0)"
proof -
  have others: "length (filter (\<lambda>(i, x). i \<noteq> k \<and> P x) l) = count_vals P l" if "k \<notin> fst ` set l" for l
    using that by (induction l) (auto simp: count_vals_def)
  show ?thesis
  proof (cases "gm_get m k")
    case None
    then have "k \<notin> fst ` set m" by (simp add: map_of_eq_None_iff)
    then show ?thesis using count_put_new [OF None] others by simp
  next
    case (Some u)
    obtain l r where m: "m = l @ (k, u) # r" and put: "gm_put k v m = l @ (k, v) # r" and out: "k \<notin> fst ` set l" "k \<notin> fst ` set r"
      by (rule gm_put_split [OF Some assms])
    have "count_vals P (l @ (k, v) # r) = count_vals P l + count_vals P r + (if P v then 1 else 0)" by (simp add: count_vals_def)
    then show ?thesis unfolding put unfolding m using others [OF out(1)] others [OF out(2)] by simp
  qed
qed

lemma others_le: "length (filter (\<lambda>(i, x). i \<noteq> k \<and> P x) m) \<le> count_vals P m"
  by (induction m) (auto simp: count_vals_def)

definition team_inv :: "'z team_store_scheme \<Rightarrow> bool" where
  "team_inv s \<longleftrightarrow> gm_wf (networkMembers s) \<and>
     (\<forall>t team. gm_get (networkTeams s) t = Some team \<longrightarrow> t \<noteq> [] \<longrightarrow> member_count t (networkMembers s) \<le> nt_MemberLimit team) \<and>
     (\<forall>u m. gm_get (networkMembers s) u = Some m \<longrightarrow>
        nm_UserID m = u \<and> (nm_TeamID m \<noteq> [] \<longrightarrow> nm_DedicatedOnly m \<and> gm_has (networkTeams s) (nm_TeamID m)))"

lemma team_invD:
  assumes "team_inv s"
  shows "gm_wf (networkMembers s)"
    "gm_get (networkTeams s) t = Some team \<Longrightarrow> t \<noteq> [] \<Longrightarrow> member_count t (networkMembers s) \<le> nt_MemberLimit team"
    "gm_get (networkMembers s) u = Some m \<Longrightarrow>
       nm_UserID m = u \<and> (nm_TeamID m \<noteq> [] \<longrightarrow> nm_DedicatedOnly m \<and> gm_has (networkTeams s) (nm_TeamID m))"
  using assms unfolding team_inv_def by blast+

lemma team_fields_more:
  fixes s s' :: "'z team_store_scheme"
  assumes "user_store.more s = user_store.more s'"
  shows "teamAgentEnrollments s = teamAgentEnrollments s'" "networkTeams s = networkTeams s'" "networkMembers s = networkMembers s'"
  using assms by (cases s; cases s'; simp)+

lemmas user_exec_team [simp] = team_fields_more [OF user_exec_more]

lemma PutNetworkTeam_inv:
  assumes "team_inv s" shows "team_inv (fst (PutNetworkTeam t a s))"
proof (cases "member_count (nt_ID t) (networkMembers s) > nt_MemberLimit t")
  case False
  note D = team_invD [OF assms]
  have "gm_has (gm_put (nt_ID t) t (networkTeams s)) x" if "gm_has (networkTeams s) x" for x using that by simp
  then show ?thesis
    using False D unfolding team_inv_def PutNetworkTeam_def
    by (simp del: map_of_eq_Some_iff not_None_eq)
qed (simp add: PutNetworkTeam_def assms)

lemma put_member_inv:
  assumes inv: "team_inv s" and m: "nm_UserID m = u"
    "nm_TeamID m \<noteq> [] \<Longrightarrow> nm_DedicatedOnly m \<and> (\<exists>team. gm_get (networkTeams s) (nm_TeamID m) = Some team \<and>
       other_members u (nm_TeamID m) (networkMembers s) < nt_MemberLimit team)"
  shows "team_inv (s\<lparr>networkMembers := gm_put u m (networkMembers s)\<rparr>)"
proof -
  note D = team_invD [OF inv]
  have "member_count t (gm_put u m (networkMembers s)) \<le> nt_MemberLimit team"
    if t: "gm_get (networkTeams s) t = Some team" "t \<noteq> []" for t team
  proof (cases "nm_TeamID m = t")
    case True
    then show ?thesis using m(2) t count_put_others [OF D(1), of "\<lambda>x. nm_TeamID x = t" u m]
      by (auto simp: member_count_def other_members_def)
  next
    case False
    then show ?thesis using D(2) [OF t] count_put_others [OF D(1), of "\<lambda>x. nm_TeamID x = t" u m]
        others_le [of u "\<lambda>x. nm_TeamID x = t" "networkMembers s"] by (simp add: member_count_def)
  qed
  moreover have "nm_UserID x = v \<and> (nm_TeamID x \<noteq> [] \<longrightarrow> nm_DedicatedOnly x \<and> gm_has (networkTeams s) (nm_TeamID x))"
    if "gm_get (gm_put u m (networkMembers s)) v = Some x" for v x
    using that D(3) [of v x] m by (cases "v = u") auto
  ultimately show ?thesis using D(1) unfolding team_inv_def by (simp del: map_of_eq_Some_iff not_None_eq)
qed

lemma join_allowed:
  "join_error m a s = None \<Longrightarrow> \<exists>team. gm_get (networkTeams s) (nm_TeamID m) = Some team \<and>
     other_members (nm_UserID m) (nm_TeamID m) (networkMembers s) < nt_MemberLimit team"
  by (auto simp: join_error_def Let_def split: option.splits if_splits)

lemma team_inv_cong:
  fixes s s' :: "'z team_store_scheme"
  assumes "networkTeams s' = networkTeams s" "networkMembers s' = networkMembers s" shows "team_inv s' = team_inv s"
  by (simp only: team_inv_def assms)

lemma PutNetworkMembership_inv:
  assumes inv: "team_inv s" shows "team_inv (fst (PutNetworkMembership m a s))"
proof -
  let ?m = "if nm_TeamID m \<noteq> [] then m\<lparr>nm_DedicatedOnly := True\<rparr> else m"
  have "post (\<lambda>(s', r). team_inv s') (PutNetworkMembership m a s)"
    unfolding PutNetworkMembership_def
  proof (intro branches)
    fix b member s1 user s2
    assume j: "(if nm_TeamID m \<noteq> [] then join_error m a s else None) = None"
      and x: "member = ?m" "s1 = s\<lparr>networkMembers := gm_put (nm_UserID member) member (networkMembers s)\<rparr>"
        "s2 = put_user b (user\<lparr>us_Groups := networkMembershipGroups (us_Groups user) member\<rparr>) s1"
    have "team_inv s1"
      unfolding x(2) by (rule put_member_inv [OF inv]) (use j join_allowed [of m a s] in \<open>auto simp: x(1) split: if_splits\<close>)
    then show "post (\<lambda>(s', r). team_inv s') (s2\<lparr>auditLogs := auditLogs s2 @ [a]\<rparr>, Inr ())"
      unfolding post_def prod.case by (subst team_inv_cong [of _ s1]) (simp_all add: x(3))
  qed (simp_all add: post_def inv)
  then show ?thesis by (simp add: post_def split: prod.splits)
qed

lemma agent_inv:
  "team_inv s \<Longrightarrow> team_inv (fst (RegisterTeamAgent n i g s))" "team_inv s \<Longrightarrow> team_inv (fst (DecideTeamAgent n e t a s))"
  by (simp_all add: RegisterTeamAgent_def DecideTeamAgent_def Let_def team_inv_def del: map_of_eq_Some_iff not_None_eq split: option.split)

lemma team_inv_step: "team_inv s \<Longrightarrow> team_inv (team_exec opn s)"
proof (cases opn)
  case (OpMember x)
  assume "team_inv s"
  then show ?thesis unfolding OpMember team_exec.simps by (subst team_inv_cong [OF user_exec_team(2,3)])
qed (simp_all add: PutNetworkTeam_inv PutNetworkMembership_inv agent_inv)

lemma newTeamStore_fields [simp]:
  "teamAgentEnrollments (newTeamStore allow) = []" "networkTeams (newTeamStore allow) = []" "networkMembers (newTeamStore allow) = []"
  by (simp_all add: newTeamStore_def user_store.defs team_store.defs newUserStore_def)

interpretation team: invariant team_exec "newTeamStore allow" team_inv
  by unfold_locales (simp add: team_inv_def, rule team_inv_step)

definition after_teams :: "bool \<Rightarrow> team_op list \<Rightarrow> team_store" where
  "after_teams allow ops = exec_all team_exec ops (newTeamStore allow)"

lemma after_teams_inv [simp]: "team_inv (after_teams allow ops)"
  unfolding after_teams_def by (rule team.exec_all_inv [OF team.inv_init])

text \<open>
  C26: No team exceeds its member limit. After any sequence of operations, changes of the limit
  included, a team has at most as many members as its limit says; each membership is
  stored under its own account, and a member of a team is bound to dedicated nodes and to
  a team that exists.
\<close>

theorem team_member_limit:
  "(\<forall>t team. gm_get (networkTeams (after_teams allow ops)) t = Some team \<longrightarrow> t \<noteq> [] \<longrightarrow>
      member_count t (networkMembers (after_teams allow ops)) \<le> nt_MemberLimit team) \<and>
   (\<forall>u m. gm_get (networkMembers (after_teams allow ops)) u = Some m \<longrightarrow>
      nm_UserID m = u \<and> (nm_TeamID m \<noteq> [] \<longrightarrow> nm_DedicatedOnly m \<and> gm_has (networkTeams (after_teams allow ops)) (nm_TeamID m)))"
  using team_invD(2,3) [OF after_teams_inv [of allow ops]] by blast

definition sample_team :: NetworkTeam where
  "sample_team = \<lparr>nt_ID = ''t1'', nt_Name = ''T'', nt_MemberLimit = 1, nt_ValidFrom = 0, nt_ValidUntil = 99, nt_Active = True\<rparr>"

definition sample_member :: "string \<Rightarrow> NetworkMembership" where
  "sample_member u = \<lparr>nm_Configured = False, nm_UserID = u, nm_TeamID = ''t1'', nm_DedicatedOnly = True, nm_Role = ''admin''\<rparr>"

definition sample_audit :: "string \<Rightarrow> AuditLog" where
  "sample_audit act = \<lparr>al_UUID = [], al_Action = act, al_ActorUUID = ''u1'', al_Details = None, al_CreatedAt = 0\<rparr>"

definition joined_ops :: "team_op list" where
  "joined_ops = map OpMember sample_users @
     [OpPutTeam sample_team (sample_audit ''network.team.upsert''),
      OpPutMembership (sample_member ''u1'') (sample_audit ''network.team.member.add''),
      OpPutMembership (sample_member ''u2'') (sample_audit ''network.team.member.add'')]"

theorem team_member_limit_witness:
  "member_count ''t1'' (networkMembers (after_teams False joined_ops)) \<le> 1 \<and>
   map nm_UserID (gm_vals (networkMembers (after_teams False joined_ops))) = [''u1'']"
proof -
  have "gm_get (networkTeams (after_teams False joined_ops)) ''t1'' = Some sample_team" by code_simp
  moreover have "map nm_UserID (gm_vals (networkMembers (after_teams False joined_ops))) = [''u1'']" by code_simp
  ultimately show ?thesis
    using conjunct1 [OF team_member_limit [of False joined_ops], THEN spec, of "''t1''"] by (simp add: sample_team_def)
qed

section \<open>Groups\<close>

lemma groups_fold:
  "foldl (groups_step m) (b, out) gs =
     (b \<or> (nm_Role m = [] \<and> nm_TeamID m \<noteq> [] \<and>
        (\<exists>g \<in> set gs. team_role g \<and> (g = ''team-admin:'' @ nm_TeamID m \<or> g = ''team:'' @ nm_TeamID m @ '':admin''))),
      out @ filter (\<lambda>g. \<not> team_role g) gs)"
  by (induction gs arbitrary: b out) (auto simp: groups_step_def)

lemma team_role_admin [simp]: "team_role (''team-admin:'' @ t)" "team_role (''team:'' @ t @ '':admin'')"
  by (simp_all add: team_role_def HasPrefix_def HasSuffix_def starts_with_def)

definition team_admin :: "string list \<Rightarrow> NetworkMembership \<Rightarrow> bool" where
  "team_admin gs m \<longleftrightarrow> nm_TeamID m \<noteq> [] \<and> nm_DedicatedOnly m \<and>
     (nm_Role m = ''admin'' \<or> nm_Role m = [] \<and> (''team-admin:'' @ nm_TeamID m \<in> set gs \<or> ''team:'' @ nm_TeamID m @ '':admin'' \<in> set gs))"

lemma networkMembershipGroups_eq:
  "networkMembershipGroups gs m =
     filter (\<lambda>g. \<not> team_role g) gs @ (if team_admin gs m then [''team-admin:'' @ nm_TeamID m] else [])"
proof -
  have "(\<exists>g \<in> set gs. team_role g \<and> (g = ''team-admin:'' @ nm_TeamID m \<or> g = ''team:'' @ nm_TeamID m @ '':admin'')) \<longleftrightarrow>
    ''team-admin:'' @ nm_TeamID m \<in> set gs \<or> ''team:'' @ nm_TeamID m @ '':admin'' \<in> set gs"
    using team_role_admin by metis
  then show ?thesis by (auto simp: networkMembershipGroups_def groups_fold team_admin_def)
qed

text \<open>
  Storing a membership rewrites the groups of the account in one pass. All groups that are
  no team role stay, in their order; of the team roles only that of an administrator of the
  member's own team is left; and doing it twice changes nothing.
\<close>

theorem membership_groups:
  "filter (\<lambda>g. \<not> team_role g) (networkMembershipGroups gs m) = filter (\<lambda>g. \<not> team_role g) gs \<and>
   filter team_role (networkMembershipGroups gs m) = (if team_admin gs m then [''team-admin:'' @ nm_TeamID m] else []) \<and>
   networkMembershipGroups (networkMembershipGroups gs m) m = networkMembershipGroups gs m"
proof -
  define A B where "A = ''team-admin:'' @ nm_TeamID m" and "B = ''team:'' @ nm_TeamID m @ '':admin''"
  have role: "team_role A" "team_role B" unfolding A_def B_def by (rule team_role_admin)+
  have eq: "networkMembershipGroups xs m = filter (\<lambda>g. \<not> team_role g) xs @ (if team_admin xs m then [A] else [])" for xs
    unfolding A_def by (rule networkMembershipGroups_eq)
  have "team_admin xs m \<longleftrightarrow> nm_TeamID m \<noteq> [] \<and> nm_DedicatedOnly m \<and> (nm_Role m = ''admin'' \<or> nm_Role m = [] \<and> (A \<in> set xs \<or> B \<in> set xs))" for xs
    unfolding A_def B_def by (rule team_admin_def)
  then have "team_admin (networkMembershipGroups gs m) m = team_admin gs m"
    using role by (auto simp: eq [of gs])
  then show ?thesis unfolding A_def [symmetric] using role by (simp add: eq)
qed

section \<open>Decisions on agents\<close>

definition versions_le :: "'z team_store_scheme \<Rightarrow> 'z team_store_scheme \<Rightarrow> bool" where
  "versions_le s s' \<longleftrightarrow> (\<forall>i e. gm_get (teamAgentEnrollments s) i = Some e \<longrightarrow>
     (\<exists>e'. gm_get (teamAgentEnrollments s') i = Some e' \<and> te_UpdatedAt e \<le> te_UpdatedAt e'))"

lemma versions_leI: "teamAgentEnrollments s' = teamAgentEnrollments s \<Longrightarrow> versions_le s s'"
  by (simp add: versions_le_def)

lemma versions_le_trans: "versions_le s t \<Longrightarrow> versions_le t u \<Longrightarrow> versions_le s u"
  unfolding versions_le_def by (meson order_trans)

lemma agents_same:
  "teamAgentEnrollments (fst (PutNetworkTeam t a s)) = teamAgentEnrollments s"
  "teamAgentEnrollments (fst (PutNetworkMembership m a s)) = teamAgentEnrollments s"
  by (simp_all add: PutNetworkTeam_def PutNetworkMembership_def Let_def split: option.split)

lemma DecideTeamAgent_version:
  assumes "DecideTeamAgent now e expected a s = (s', Inr ())"
  shows "\<exists>old new. gm_get (teamAgentEnrollments s) (te_AgentID e) = Some old \<and> te_UpdatedAt old = expected \<and>
    gm_get (teamAgentEnrollments s') (te_AgentID e) = Some new \<and> expected < te_UpdatedAt new"
  using assms by (auto simp: DecideTeamAgent_def Let_def split: option.splits if_splits)

lemma agent_le:
  "versions_le s (fst (RegisterTeamAgent n i g s))" "versions_le s (fst (DecideTeamAgent n e t a s))"
  by (auto simp: RegisterTeamAgent_def DecideTeamAgent_def versions_le_def Let_def split: option.split)

lemma versions_le_step: "versions_le s (team_exec opn s)"
  by (cases opn) (simp_all add: agent_le agents_same versions_leI)

interpretation team_versions: monotone_store team_exec "newTeamStore allow" team_inv versions_le
  by unfold_locales (simp add: versions_leI, erule (1) versions_le_trans, rule versions_le_step)

text \<open>
  C30: Of several administrators who decide on the same version of an enrollment, one succeeds. A
  decision replaces exactly the version it was based on, by a strictly later one even if the
  clock stands still or goes back, so that after any further operations a decision based on the
  replaced version is refused.
\<close>

theorem stale_decision_refused:
  assumes "DecideTeamAgent now e expected a (after_teams allow ops) = (s, Inr ())" "te_AgentID e' = te_AgentID e"
  shows "DecideTeamAgent now' e' expected a' (exec_all team_exec later s) = (exec_all team_exec later s, Inl ErrTeamAgentConflict)"
proof -
  from DecideTeamAgent_version [OF assms(1)] obtain new where
    new: "gm_get (teamAgentEnrollments s) (te_AgentID e) = Some new" "expected < te_UpdatedAt new" by blast
  have "team_inv s" using agent_inv(2) [OF after_teams_inv, of now e expected a allow ops] assms(1) by simp
  then have "versions_le s (exec_all team_exec later s)" by (rule team_versions.exec_all_le)
  with new obtain e2 where "gm_get (teamAgentEnrollments (exec_all team_exec later s)) (te_AgentID e) = Some e2" "expected < te_UpdatedAt e2"
    unfolding versions_le_def by (meson order_less_le_trans)
  then show ?thesis by (simp add: DecideTeamAgent_def assms(2))
qed

definition sample_enrollment :: TeamAgentEnrollment where
  "sample_enrollment = \<lparr>te_AgentID = ''ag'', te_SuggestedTeamID = [], te_AssignedTeamID = ''t1'', te_Status = ''approved'',
     te_DecidedBy = ''u1'', te_Reason = [], te_UpdatedAt = 0\<rparr>"

theorem stale_decision_refused_witness:
  "\<exists>s. DecideTeamAgent 3 sample_enrollment 7 (sample_audit ''x'') (after_teams False [OpRegisterAgent 7 ''ag'' []]) = (s, Inr ()) \<and>
     DecideTeamAgent 9 sample_enrollment 7 (sample_audit ''y'') (exec_all team_exec [OpRegisterAgent 8 ''ag'' []] s) =
       (exec_all team_exec [OpRegisterAgent 8 ''ag'' []] s, Inl ErrTeamAgentConflict)"
proof -
  have "outcome (DecideTeamAgent 3 sample_enrollment 7 (sample_audit ''x'') (after_teams False [OpRegisterAgent 7 ''ag'' []])) (\<lambda>_. True)"
    by code_simp
  then obtain s where s: "DecideTeamAgent 3 sample_enrollment 7 (sample_audit ''x'') (after_teams False [OpRegisterAgent 7 ''ag'' []]) = (s, Inr ())"
    by (rule outcomeE) simp
  from stale_decision_refused [OF s refl] s show ?thesis by blast
qed

end
