(* ===== verification/Subscription.thy ===== *)
theory Subscription
  imports Finance_Operations
begin

text \<open>
  Subscription changes of \<open>memoryStore\<close>: the lifecycle of an account's subscription
  (\<open>subscription_lifecycle_policy.go\<close>, \<open>subscription_lifecycle.go\<close>), purchases
  (\<open>subscription_purchase.go\<close>) and refund reviews (\<open>subscription_refund_review.go\<close>). Every change
  is a finance operation of the ledger that is reserved before the payment provider is called
  and finished when its outcome is known. The state extends that of the ledger. \<open>fresh\<close> arguments
  are ids of \<open>uuid.NewString\<close>, \<open>now\<close> arguments clock readings, in the order of the calls.
\<close>

section \<open>Policy\<close>

record SubscriptionLifecycle =
  sl_AccountID :: string
  sl_Version :: int
  sl_LastChangeAt :: "time option"
  sl_OperationID :: string
  sl_PendingPlanID :: string
  sl_EffectiveAt :: "time option"
  sl_RefundReviewPending :: bool

text \<open>\<open>subscriptionLifecycles[userID]\<close> of an account without an entry is the zero value.\<close>

definition zero_lifecycle :: SubscriptionLifecycle where
  "zero_lifecycle = \<lparr>sl_AccountID = [], sl_Version = 0, sl_LastChangeAt = None, sl_OperationID = [],
     sl_PendingPlanID = [], sl_EffectiveAt = None, sl_RefundReviewPending = False\<rparr>"

abbreviation (input) SubscriptionChangeCooldown :: duration where
  "SubscriptionChangeCooldown \<equiv> 30 * 24 * Hour"

definition CooldownUntil :: "SubscriptionLifecycle \<Rightarrow> time option" where
  "CooldownUntil v = map_option (\<lambda>t. t + SubscriptionChangeCooldown) (sl_LastChangeAt v)"

text \<open>\<open>None\<close> is a nil error.\<close>

definition CheckSubscriptionAction :: "SubscriptionLifecycle \<Rightarrow> string \<Rightarrow> time \<Rightarrow> store_error option" where
  "CheckSubscriptionAction v action now =
     (if sl_OperationID v \<noteq> [] then Some ErrFinanceOperationInProgress
      else
        case (if action = ''subscribe'' \<or> action = ''upgrade'' \<or> action = ''downgrade'' \<or> action = ''renewal'' then
                (if sl_RefundReviewPending v \<and> action \<noteq> ''subscribe'' then Some ErrSubscriptionChangePending
                 else if sl_PendingPlanID v \<noteq> [] then Some ErrSubscriptionChangePending
                 else None)
              else if action = ''cancel'' \<or> action = ''refund_execute'' then None
              else Some ErrSubscriptionStateConflict) of
          Some e \<Rightarrow> Some e
        | None \<Rightarrow>
            if action = ''upgrade'' \<or> action = ''downgrade'' \<or> action = ''renewal'' then
              (case CooldownUntil v of
                 None \<Rightarrow> None
               | Some until \<Rightarrow> if now < until then Some ErrSubscriptionCooldown else None)
            else None)"

section \<open>Reading a request\<close>

text \<open>
  \<open>json.Unmarshal\<close> into a struct with one member: other members are skipped, the member's
  name matches without regard to case, and \<open>assign\<close> gives the new value of the member, or
  \<open>None\<close> when the document's value has the wrong type.
\<close>

fun decode_member :: "string \<Rightarrow> (gval \<Rightarrow> 'a \<Rightarrow> 'a option) \<Rightarrow> (string \<times> gval) list \<Rightarrow> 'a \<Rightarrow> 'a option" where
  "decode_member name assign [] acc = Some acc"
| "decode_member name assign ((k, v) # kvs) acc =
     (if ToLower k = name then (case assign v acc of None \<Rightarrow> None | Some acc \<Rightarrow> decode_member name assign kvs acc)
      else decode_member name assign kvs acc)"

definition unmarshal_member :: "string \<Rightarrow> (gval \<Rightarrow> 'a \<Rightarrow> 'a option) \<Rightarrow> 'a \<Rightarrow> rawmsg \<Rightarrow> 'a option" where
  "unmarshal_member name assign zero raw =
     (case raw of
        RawDoc (GMap kvs) \<Rightarrow> decode_member name assign kvs zero
      | RawDoc GNil \<Rightarrow> Some zero
      | _ \<Rightarrow> None)"

text \<open>A member of type \<open>*int64\<close>, and one of type \<open>string\<close>.\<close>

definition set_int_pointer :: "gval \<Rightarrow> int option \<Rightarrow> int option option" where
  "set_int_pointer v acc =
     (case v of GNil \<Rightarrow> Some None | GInt n \<Rightarrow> (if int64 n then Some (Some n) else None) | _ \<Rightarrow> None)"

definition set_string :: "gval \<Rightarrow> string \<Rightarrow> string option" where
  "set_string v acc = (case v of GNil \<Rightarrow> Some acc | GString t \<Rightarrow> Some t | _ \<Rightarrow> None)"

definition checkLifecyclePreviewVersion :: "rawmsg \<Rightarrow> int \<Rightarrow> store_error option" where
  "checkLifecyclePreviewVersion request version =
     (case (if request = RawEmpty then Some None else unmarshal_member ''stateversion'' set_int_pointer None request) of
        None \<Rightarrow> Some ErrSubscriptionStateConflict
      | Some None \<Rightarrow> None
      | Some (Some quoted) \<Rightarrow> if quoted \<noteq> version then Some ErrSubscriptionStateConflict else None)"

definition lifecycleAction :: "string \<Rightarrow> rawmsg \<Rightarrow> string" where
  "lifecycleAction action request =
     (if action \<noteq> ''purchase'' then action
      else if unmarshal_member ''action'' set_string [] request = Some ''upgrade'' then ''upgrade''
      else ''subscribe'')"

text \<open>
  The member \<open>outcome\<close> of a receipt, decoded with the error ignored: a member of the wrong
  type leaves the value alone and decoding goes on.
\<close>

definition receipt_outcome :: "rawmsg \<Rightarrow> string" where
  "receipt_outcome response =
     (case response of
        RawDoc (GMap kvs) \<Rightarrow>
          foldl (\<lambda>acc (k, v). if ToLower k = ''outcome'' then (case v of GString t \<Rightarrow> t | _ \<Rightarrow> acc) else acc) [] kvs
      | _ \<Rightarrow> [])"

section \<open>State\<close>

record subscription_store = finance_store +
  subscriptionLifecycles :: "(string, SubscriptionLifecycle) gomap"

definition newSubscriptionStore :: "bool \<Rightarrow> subscription_store" where
  "newSubscriptionStore allow = finance_store.extend (newFinanceStore allow) (subscription_store.fields [])"

type_synonym ('z, 'a) subscription_result = "'z subscription_store_scheme \<times> (store_error + 'a)"

definition lifecycle_of :: "'z subscription_store_scheme \<Rightarrow> string \<Rightarrow> SubscriptionLifecycle" where
  "lifecycle_of s userID =
     (case gm_get (subscriptionLifecycles s) userID of None \<Rightarrow> zero_lifecycle | Some v \<Rightarrow> v)"

definition unfinished :: "FinanceOperation \<Rightarrow> bool" where
  "unfinished opn \<longleftrightarrow> fo_Status opn \<noteq> FinanceOperationSucceeded \<and> fo_Status opn \<noteq> FinanceOperationFailed"

definition purchasePending :: "FinanceOperation \<Rightarrow> string \<Rightarrow> bool" where
  "purchasePending opn userID \<longleftrightarrow>
     fo_OperationType opn = ''subscription_purchase'' \<and> fo_TargetID opn = userID \<and>
     fo_TargetType opn = ''account'' \<and> unfinished opn"

definition refundReviewPending :: "FinanceOperation \<Rightarrow> string \<Rightarrow> bool" where
  "refundReviewPending opn userID \<longleftrightarrow>
     fo_OperationType opn = ''refund_review'' \<and> fo_TargetID opn = userID \<and>
     fo_TargetType opn = ''account'' \<and> unfinished opn"

definition GetSubscriptionLifecycle ::
  "string \<Rightarrow> 'z subscription_store_scheme \<Rightarrow> store_error + SubscriptionLifecycle" where
  "GetSubscriptionLifecycle userID s =
     (if \<not> gm_has (byID s) userID then Inl ErrUserNotFound
      else
        let v = (lifecycle_of s userID)\<lparr>sl_AccountID := userID\<rparr> in
        Inr (if list_ex (\<lambda>opn. refundReviewPending opn userID) (gm_vals (financeOperations s))
             then v\<lparr>sl_RefundReviewPending := True\<rparr> else v))"

definition PendingSubscriptionPurchase :: "string \<Rightarrow> 'z subscription_store_scheme \<Rightarrow> FinanceOperation option" where
  "PendingSubscriptionPurchase userID s =
     map_option (\<lambda>copy. copy\<lparr>fo_Request := financeJSON (fo_Request copy), fo_Response := financeJSON (fo_Response copy)\<rparr>)
       (find (\<lambda>opn. purchasePending opn userID) (gm_vals (financeOperations s)))"

section \<open>Reserving a change\<close>

definition actionOperation ::
  "string \<Rightarrow> time \<Rightarrow> time \<Rightarrow> string \<Rightarrow> string \<Rightarrow> string \<Rightarrow> rawmsg \<Rightarrow> FinanceOperation" where
  "actionOperation fresh now now' userID key action request =
     \<lparr>fo_ID = fresh, fo_IdempotencyKey = key, fo_OperationType = ''subscription_'' @ action,
      fo_TargetType = ''account'', fo_TargetID = userID, fo_Provider = ''stripe'', fo_ProviderOperationID = [],
      fo_Status = FinanceOperationInProgress, fo_AttemptCount = 1, fo_NextAttemptAt = None, fo_LastError = [],
      fo_Request = financeJSON request, fo_Response = financeJSON RawEmpty, fo_CreatedAt = now, fo_UpdatedAt = now'\<rparr>"

definition sameAction :: "FinanceOperation option \<Rightarrow> string \<Rightarrow> string \<Rightarrow> string \<Rightarrow> rawmsg \<Rightarrow> bool" where
  "sameAction arg userID key action request =
     (case arg of None \<Rightarrow> False | Some opn \<Rightarrow>
        fo_IdempotencyKey opn = key \<and> fo_TargetID opn = userID \<and> fo_TargetType opn = ''account'' \<and>
        fo_OperationType opn = ''subscription_'' @ action \<and> jsonEqual (fo_Request opn) (financeJSON request))"

text \<open>
  The loop over all operations of \<open>ReserveSubscriptionAction\<close>: the first operation that blocks
  the change decides on the error.
\<close>

definition blocking_operation ::
  "string \<Rightarrow> string \<Rightarrow> rawmsg \<Rightarrow> 'z subscription_store_scheme \<Rightarrow> store_error option" where
  "blocking_operation userID action request s =
     (let plan_change = (lifecycleAction action request = ''upgrade'' \<or> action = ''downgrade'') in
      case find (\<lambda>opn. purchasePending opn userID \<or> plan_change \<and> refundReviewPending opn userID)
             (gm_vals (financeOperations s)) of
        None \<Rightarrow> None
      | Some opn \<Rightarrow> if purchasePending opn userID then Some ErrFinanceOperationInProgress
                    else Some ErrSubscriptionChangePending)"

text \<open>Storing a new operation of an account: the operation, its key, its first event and the lifecycle.\<close>

definition store_operation ::
  "string \<Rightarrow> string \<Rightarrow> FinanceOperation \<Rightarrow> SubscriptionLifecycle \<Rightarrow> 'z subscription_store_scheme \<Rightarrow>
   'z subscription_store_scheme" where
  "store_operation freshEvent eventType opn v s =
     (let event = \<lparr>fe_ID = freshEvent, fe_OperationID = fo_ID opn, fe_Attempt = 1, fe_EventType = eventType,
            fe_Status = fo_Status opn, fe_ProviderOperationID = [], fe_Payload = PayRaw (financeJSON (fo_Request opn)),
            fe_Error = [], fe_OccurredAt = fo_CreatedAt opn\<rparr>
      in s\<lparr>financeOperations := gm_put (fo_ID opn) opn (financeOperations s),
           financeOperationKeys := gm_put (fo_IdempotencyKey opn) (fo_ID opn) (financeOperationKeys s),
           financeOperationEvents :=
             gm_put (fo_ID opn) (gm_list (financeOperationEvents s) (fo_ID opn) @ [event]) (financeOperationEvents s),
           subscriptionLifecycles := gm_put (fo_TargetID opn) v (subscriptionLifecycles s)\<rparr>)"

definition ReserveSubscriptionAction ::
  "string \<Rightarrow> string \<Rightarrow> time \<Rightarrow> time \<Rightarrow> time \<Rightarrow> string \<Rightarrow> string \<Rightarrow> string \<Rightarrow> rawmsg \<Rightarrow>
   'z subscription_store_scheme \<Rightarrow> ('z, FinanceOperation) subscription_result" where
  "ReserveSubscriptionAction fresh freshEvent now now' now'' userID key action request s =
     (if \<not> gm_has (byID s) userID then (s, Inl ErrUserNotFound)
      else if key = [] then (s, Inl ErrFinanceIdempotencyConflict)
      else if gm_str (financeOperationKeys s) key \<noteq> [] then
        (let found = gm_get (financeOperations s) (gm_str (financeOperationKeys s) key) in
         if \<not> sameAction found userID key action request then (s, Inl ErrFinanceIdempotencyConflict)
         else case found of
           None \<Rightarrow> (s, Inl ErrFinanceIdempotencyConflict)
         | Some opn \<Rightarrow> (s, Inr (opn\<lparr>fo_Request := financeJSON (fo_Request opn), fo_Response := financeJSON (fo_Response opn)\<rparr>)))
      else
        let v = (lifecycle_of s userID)\<lparr>sl_AccountID := userID\<rparr> in
        case checkLifecyclePreviewVersion request (sl_Version v) of
          Some e \<Rightarrow> (s, Inl e)
        | None \<Rightarrow>
            (case CheckSubscriptionAction v (lifecycleAction action request) now of
               Some e \<Rightarrow> (s, Inl e)
             | None \<Rightarrow>
                 (case blocking_operation userID action request s of
                    Some e \<Rightarrow> (s, Inl e)
                  | None \<Rightarrow>
                      let opn = actionOperation fresh now' now'' userID key action request;
                          v = v\<lparr>sl_OperationID := fo_ID opn, sl_Version := wrap64 (sl_Version v + 1)\<rparr>
                      in (store_operation freshEvent ''attempt_started'' opn v s,
                          Inr (opn\<lparr>fo_Request := financeJSON (fo_Request opn)\<rparr>)))))"

definition ReserveSubscriptionPurchase ::
  "string \<Rightarrow> string \<Rightarrow> string \<Rightarrow> time \<Rightarrow> time \<Rightarrow> time \<Rightarrow> string \<Rightarrow> rawmsg \<Rightarrow>
   'z subscription_store_scheme \<Rightarrow> ('z, FinanceOperation) subscription_result" where
  "ReserveSubscriptionPurchase freshKey fresh freshEvent now now' now'' userID request s =
     ReserveSubscriptionAction fresh freshEvent now now' now'' userID (''subscription-purchase:'' @ freshKey)
       ''purchase'' request s"

section \<open>Finishing a change\<close>

definition finishLifecycle ::
  "SubscriptionLifecycle \<Rightarrow> FinanceOperation \<Rightarrow> bool \<Rightarrow> string \<Rightarrow> time option \<Rightarrow> time \<Rightarrow>
   store_error + SubscriptionLifecycle" where
  "finishLifecycle v opn confirmed pendingPlan effectiveAt now =
     (if sl_OperationID v \<noteq> fo_ID opn then Inl ErrSubscriptionStateConflict
      else if (pendingPlan = []) \<noteq> (effectiveAt = None) then Inl ErrSubscriptionStateConflict
      else if \<not> confirmed \<and> pendingPlan \<noteq> [] then Inl ErrSubscriptionStateConflict
      else
        let v = (if confirmed \<and>
                    (fo_OperationType opn = ''subscription_renewal'' \<or> fo_OperationType opn = ''subscription_upgrade'' \<or>
                     fo_OperationType opn = ''subscription_downgrade'' \<or>
                     fo_OperationType opn = ''subscription_purchase'' \<and>
                     lifecycleAction ''purchase'' (fo_Request opn) = ''upgrade'')
                 then v\<lparr>sl_LastChangeAt := Some now\<rparr> else v);
            v = (if confirmed \<and>
                    (fo_OperationType opn = ''subscription_downgrade'' \<or> fo_OperationType opn = ''subscription_cancel'')
                 then v\<lparr>sl_PendingPlanID := pendingPlan, sl_EffectiveAt := effectiveAt\<rparr> else v)
        in Inr (v\<lparr>sl_OperationID := [], sl_Version := wrap64 (sl_Version v + 1)\<rparr>))"

definition FinishSubscriptionAction ::
  "string \<Rightarrow> time \<Rightarrow> string \<Rightarrow> string \<Rightarrow> string \<Rightarrow> rawmsg \<Rightarrow> bool \<Rightarrow> string \<Rightarrow> time option \<Rightarrow>
   'z subscription_store_scheme \<Rightarrow> ('z, unit) subscription_result" where
  "FinishSubscriptionAction freshEvent now userID i providerID response confirmed pendingPlan effectiveAt s =
     (case gm_get (financeOperations s) i of
        None \<Rightarrow> (s, Inl ErrFinanceRecordNotFound)
      | Some opn \<Rightarrow>
          if fo_TargetID opn \<noteq> userID \<or> fo_TargetType opn \<noteq> ''account'' then (s, Inl ErrFinanceRecordNotFound)
          else if fo_ProviderOperationID opn \<noteq> [] \<and> fo_ProviderOperationID opn \<noteq> providerID
          then (s, Inl ErrFinanceIdempotencyConflict)
          else if fo_Status opn = FinanceOperationSucceeded \<or> fo_Status opn = FinanceOperationFailed then
            (if (fo_Status opn = FinanceOperationSucceeded) \<noteq> confirmed \<or>
                \<not> jsonEqual (fo_Response opn) (financeJSON response)
             then (s, Inl ErrFinanceIdempotencyConflict) else (s, Inr ()))
          else
            (case finishLifecycle (lifecycle_of s userID) opn confirmed pendingPlan effectiveAt now of
               Inl e \<Rightarrow> (s, Inl e)
             | Inr v \<Rightarrow>
                 let opn = opn\<lparr>fo_Status := (if confirmed then FinanceOperationSucceeded else FinanceOperationFailed),
                       fo_ProviderOperationID := providerID, fo_Response := financeJSON response, fo_UpdatedAt := now\<rparr>;
                     event = \<lparr>fe_ID = freshEvent, fe_OperationID = i, fe_Attempt = fo_AttemptCount opn,
                       fe_EventType = ''attempt_finished'', fe_Status = fo_Status opn,
                       fe_ProviderOperationID = providerID, fe_Payload = PayRaw (financeJSON response),
                       fe_Error = [], fe_OccurredAt = now\<rparr>
                 in (s\<lparr>financeOperations := gm_put i opn (financeOperations s),
                       subscriptionLifecycles := gm_put userID v (subscriptionLifecycles s),
                       financeOperationEvents :=
                         gm_put i (gm_list (financeOperationEvents s) i @ [event]) (financeOperationEvents s)\<rparr>,
                     Inr ())))"

text \<open>
  A complete update reads the account of the operation in a critical section of its own before
  it finishes the action; no operation changes or removes the account of a stored operation in between, so
  the two sections are one step here.
\<close>

definition UpdateSubscriptionPurchase ::
  "string \<Rightarrow> time \<Rightarrow> string \<Rightarrow> string \<Rightarrow> rawmsg \<Rightarrow> bool \<Rightarrow> 'z subscription_store_scheme \<Rightarrow>
   ('z, unit) subscription_result" where
  "UpdateSubscriptionPurchase freshEvent now i providerID response complete s =
     (if complete then
        (let userID = (case gm_get (financeOperations s) i of None \<Rightarrow> [] | Some opn \<Rightarrow> fo_TargetID opn) in
         if userID = [] then (s, Inl ErrFinanceRecordNotFound)
         else FinishSubscriptionAction freshEvent now userID i providerID response
                (receipt_outcome response = ''webhook_confirmed'') [] None s)
      else case gm_get (financeOperations s) i of
        None \<Rightarrow> (s, Inl ErrFinanceRecordNotFound)
      | Some opn \<Rightarrow>
          if fo_OperationType opn \<noteq> ''subscription_purchase'' then (s, Inl ErrFinanceRecordNotFound)
          else if fo_ProviderOperationID opn \<noteq> [] \<and> fo_ProviderOperationID opn \<noteq> providerID
          then (s, Inl ErrFinanceIdempotencyConflict)
          else if fo_Status opn = FinanceOperationSucceeded \<or> fo_Status opn = FinanceOperationFailed then (s, Inr ())
          else
            let opn = opn\<lparr>fo_ProviderOperationID := providerID, fo_Response := financeJSON response,
                  fo_Status := FinanceOperationReconciliationRequired, fo_UpdatedAt := now\<rparr>
            in (s\<lparr>financeOperations := gm_put i opn (financeOperations s)\<rparr>, Inr ()))"

section \<open>Refund reviews\<close>

definition validReview :: "FinanceOperation \<Rightarrow> bool" where
  "validReview opn \<longleftrightarrow>
     fo_OperationType opn = ''refund_review'' \<and> fo_TargetType opn = ''account'' \<and> fo_TargetID opn \<noteq> [] \<and>
     fo_Provider opn = ''stripe'' \<and> fo_IdempotencyKey opn = ''subscription-refund-review:'' @ fo_TargetID opn"

text \<open>The result is the new value of the argument.\<close>

definition CreateSubscriptionRefundReview ::
  "string \<Rightarrow> string \<Rightarrow> time \<Rightarrow> FinanceOperation option \<Rightarrow> int \<Rightarrow> 'z subscription_store_scheme \<Rightarrow>
   ('z, FinanceOperation) subscription_result" where
  "CreateSubscriptionRefundReview fresh freshEvent now arg expectedVersion s =
     (case arg of None \<Rightarrow> (s, Inl ErrFinanceIdempotencyConflict) | Some opn \<Rightarrow>
      if \<not> validReview opn then (s, Inl ErrFinanceIdempotencyConflict)
      else if \<not> gm_has (byID s) (fo_TargetID opn) then (s, Inl ErrUserNotFound)
      else if gm_str (financeOperationKeys s) (fo_IdempotencyKey opn) \<noteq> [] then
        (case gm_get (financeOperations s) (gm_str (financeOperationKeys s) (fo_IdempotencyKey opn)) of
           None \<Rightarrow> (s, Inl GoPanic)
         | Some saved \<Rightarrow> (s, Inr (saved\<lparr>fo_Request := financeJSON (fo_Request saved)\<rparr>)))
      else
        let v = lifecycle_of s (fo_TargetID opn) in
        if sl_OperationID v \<noteq> [] \<or> sl_Version v \<noteq> expectedVersion then (s, Inl ErrSubscriptionStateConflict)
        else if list_ex (\<lambda>other. purchasePending other (fo_TargetID opn)) (gm_vals (financeOperations s))
        then (s, Inl ErrFinanceOperationInProgress)
        else
          let copy = opn\<lparr>fo_ID := fresh, fo_Request := financeJSON (fo_Request opn), fo_Response := financeJSON RawEmpty,
                fo_Status := FinanceOperationInProgress, fo_AttemptCount := 1, fo_CreatedAt := now, fo_UpdatedAt := now\<rparr>;
              v = v\<lparr>sl_AccountID := fo_TargetID opn, sl_Version := wrap64 (sl_Version v + 1)\<rparr>
          in (store_operation freshEvent ''review_requested'' copy v s,
              Inr (copy\<lparr>fo_Request := financeJSON (fo_Request copy)\<rparr>)))"

section \<open>The store as a state machine\<close>

datatype subscription_op =
    OpFinance finance_op
  | OpReserve string string time time time string string string rawmsg
  | OpFinishAction string time string string string rawmsg bool string "time option"
  | OpUpdatePurchase string time string string rawmsg bool
  | OpRefundReview string string time "FinanceOperation option" int

fun subscription_exec :: "subscription_op \<Rightarrow> 'z subscription_store_scheme \<Rightarrow> 'z subscription_store_scheme" where
  "subscription_exec (OpFinance opn) s = finance_exec opn s"
| "subscription_exec (OpReserve f g n n' n'' u k a r) s = fst (ReserveSubscriptionAction f g n n' n'' u k a r s)"
| "subscription_exec (OpFinishAction g n u i p r c pl e) s = fst (FinishSubscriptionAction g n u i p r c pl e s)"
| "subscription_exec (OpUpdatePurchase g n i p r c) s = fst (UpdateSubscriptionPurchase g n i p r c s)"
| "subscription_exec (OpRefundReview f g n a v) s = fst (CreateSubscriptionRefundReview f g n a v s)"

end
