(* ===== verification/Subscription_Properties.thy ===== *)
theory Subscription_Properties
  imports Subscription Finance_Properties
begin

text \<open>
  What the store promises for subscriptions: one change of an account at a time, the cooldown
  between changes, and that a quote is not accepted once the subscription has changed.
\<close>

section \<open>Unfinished changes\<close>

definition change_op :: "FinanceOperation \<Rightarrow> bool" where
  "change_op opn \<longleftrightarrow> fo_TargetType opn = ''account'' \<and> starts_with ''subscription_'' (fo_OperationType opn)"

text \<open>Operation \<open>k\<close> is an unfinished subscription change of account \<open>u\<close>.\<close>

definition open_change :: "(string, FinanceOperation) gomap \<Rightarrow> string \<Rightarrow> string \<Rightarrow> bool" where
  "open_change m k u =
     (case gm_get m k of None \<Rightarrow> False | Some opn \<Rightarrow> change_op opn \<and> unfinished opn \<and> fo_TargetID opn = u)"

lemma open_change_put:
  "open_change (gm_put k opn m) j u \<longleftrightarrow>
     (if j = k then change_op opn \<and> unfinished opn \<and> fo_TargetID opn = u else open_change m j u)"
  by (simp add: open_change_def)

lemma open_change_touch:
  assumes "gm_get m k = Some old" "change_op opn = change_op old" "fo_TargetID opn = fo_TargetID old"
    "change_op old \<longrightarrow> unfinished opn = unfinished old"
  shows "open_change (gm_put k opn m) = open_change m"
  using assms by (intro ext) (auto simp: open_change_put open_change_def)

lemma open_change_other:
  assumes "case gm_get m k of None \<Rightarrow> True | Some old \<Rightarrow> \<not> change_op old" "\<not> change_op opn"
  shows "open_change (gm_put k opn m) = open_change m"
  using assms by (intro ext) (auto simp: open_change_put open_change_def split: option.splits)

text \<open>
  The condition on a run. Ids of \<open>uuid.NewString\<close> are non-empty and not in use, and the general
  operations of the ledger are not called for subscription changes; the handlers call them
  for refunds and refund reviews only.
\<close>

definition ledger_only :: "'z subscription_store_scheme \<Rightarrow> finance_op \<Rightarrow> bool" where
  "ledger_only s f =
     (case f of
        OpBegin _ _ _ _ _ a \<Rightarrow> (case a of None \<Rightarrow> True | Some x \<Rightarrow> \<not> change_op (normalized_operation x))
      | OpFinish _ _ i _ _ _ _ _ _ \<Rightarrow>
          (case gm_get (financeOperations s) (TrimSpace i) of None \<Rightarrow> True | Some opn \<Rightarrow> \<not> change_op opn)
      | _ \<Rightarrow> True)"

definition subscription_allowed :: "'z subscription_store_scheme \<Rightarrow> subscription_op \<Rightarrow> bool" where
  "subscription_allowed s opn =
     (case opn of
        OpFinance f \<Rightarrow> finance_op_ok f \<and> ledger_only s f
      | OpReserve f _ _ _ _ _ _ _ _ \<Rightarrow> f \<noteq> [] \<and> \<not> gm_has (financeOperations s) f
      | OpRefundReview f _ _ _ _ \<Rightarrow> f \<noteq> [] \<and> \<not> gm_has (financeOperations s) f
      | _ \<Rightarrow> True)"

section \<open>The ledger keeps the unfinished changes\<close>

lemma bind_refund_open:
  assumes "finance_inv s" shows "open_change (financeOperations (bind_refund g copy s)) = open_change (financeOperations s)"
proof (cases "gm_str (financeOperationKeys s) (fr_IdempotencyKey copy) = []")
  case True
  then show ?thesis by (simp add: bind_refund_def)
next
  case False
  then obtain i where i: "gm_get (financeOperationKeys s) (fr_IdempotencyKey copy) = Some i"
    "gm_str (financeOperationKeys s) (fr_IdempotencyKey copy) = i"
    by (cases "gm_get (financeOperationKeys s) (fr_IdempotencyKey copy)") (simp_all add: gm_str_def)
  then obtain opn where "gm_get (financeOperations s) i = Some opn"
    using operations_okD(4) [OF finance_invD(3) [OF assms] i(1)] by blast
  then show ?thesis
    using False i(2) by (simp add: bind_refund_def Let_def open_change_touch change_op_def unfinished_def)
qed

lemma start_attempt_open:
  assumes "attempt_record f n n' key (normalized_operation x) s = AttemptGo stored" "operations_ok s" "\<not> change_op (normalized_operation x)"
  shows "open_change (financeOperations (fst (start_attempt g n'' key stored s))) = open_change (financeOperations s)"
proof -
  note r = attempt_recordD [OF assms(1,2)]
  have "\<not> change_op stored"
    using r assms(3) first_attempt_fields(2,3) [of f n' key x] unfolding change_op_def by metis
  then show ?thesis
    using r by (auto simp: start_attempt_def Let_def change_op_def intro!: open_change_other)
qed

lemma finance_exec_open:
  assumes "finance_inv s" "ledger_only s f"
  shows "open_change (financeOperations (finance_exec f s)) = open_change (financeOperations s)"
proof (cases f)
  case (OpUser u)
  then show ?thesis using user_exec_same [of s u] by (simp add: same_ledger_def)
next
  case (OpInvoice f n n' a)
  then show ?thesis using CreateFinanceInvoice_same [of s f n n' a] by (simp add: same_ledger_def)
next
  case (OpPayment f n n' a)
  have "post (\<lambda>(s', r). financeOperations s' = financeOperations s) (RecordFinancePayment f n n' a s)"
    unfolding RecordFinancePayment_def by (intro branches) (simp_all add: post_def)
  from post_fst [OF this] show ?thesis using OpPayment by simp
next
  case (OpRefund f g n n' a)
  have bind: "open_change (financeOperations (bind_refund g copy s')) = open_change (financeOperations s)"
    if "financeOperations s' = financeOperations s" "financeOperationKeys s' = financeOperationKeys s" for copy s'
    using bind_refund_open [OF assms(1), of g copy] that by (simp add: bind_refund_def Let_def split: if_splits)
  have "post (\<lambda>(s', r). open_change (financeOperations s') = open_change (financeOperations s)) (RecordFinanceRefund f g n n' a s)"
    unfolding RecordFinanceRefund_def by (intro branches) (simp_all add: post_def bind)
  from post_fst [OF this] show ?thesis using OpRefund by simp
next
  case (OpBegin f g n n' n'' a)
  have ops: "operations_ok s" by (rule finance_invD(3) [OF assms(1)])
  have "post (\<lambda>(s', r). open_change (financeOperations s') = open_change (financeOperations s)) (BeginFinanceOperation f g n n' n'' a s)"
    unfolding BeginFinanceOperation_def Let_def
    using assms(2) start_attempt_open [OF _ ops] OpBegin
    by (auto simp: post_def ledger_only_def case_prod_beta split: option.split attempt.split)
  from post_fst [OF this] show ?thesis using OpBegin by simp
next
  case (OpCheckpoint g n i k r)
  have "post (\<lambda>(s', r). open_change (financeOperations s') = open_change (financeOperations s)) (CheckpointFinanceOperation g n i k r s)"
    unfolding CheckpointFinanceOperation_def
    by (intro branches) (simp_all add: post_def open_change_touch change_op_def unfinished_def)
  from post_fst [OF this] show ?thesis using OpCheckpoint by simp
next
  case (OpFinish g n i st p r e t k)
  have "post (\<lambda>(s', r). open_change (financeOperations s') = open_change (financeOperations s)) (FinishFinanceOperation g n i st p r e t k s)"
    unfolding FinishFinanceOperation_def
    by (intro branches) (use assms(2) OpFinish in \<open>simp_all add: post_def open_change_other change_op_def ledger_only_def\<close>)
  from post_fst [OF this] show ?thesis using OpFinish by simp
qed

lemma subscription_fields_more:
  fixes s s' :: "'z subscription_store_scheme"
  assumes "finance_store.more s = finance_store.more s'"
  shows "subscriptionLifecycles s = subscriptionLifecycles s'"
  using assms by (cases s; cases s'; simp)

lemmas finance_exec_subscription [simp] = subscription_fields_more [OF finance_exec_more]

lemma lifecycle_of_finance [simp]: "lifecycle_of (finance_exec f s) = lifecycle_of s"
  by (rule ext) (simp add: lifecycle_of_def)

section \<open>What an accepted operation does\<close>

text \<open>The account's lifecycle as the operations read it.\<close>

definition account_lifecycle :: "'z subscription_store_scheme \<Rightarrow> string \<Rightarrow> SubscriptionLifecycle" where
  "account_lifecycle s u = (lifecycle_of s u)\<lparr>sl_AccountID := u\<rparr>"

lemma lifecycle_of_store [simp]:
  "lifecycle_of (store_operation g e opn v s) u = (if u = fo_TargetID opn then v else lifecycle_of s u)"
  by (simp add: store_operation_def lifecycle_of_def Let_def)

lemma store_operation_fields [simp]:
  "financeOperations (store_operation g e opn v s) = gm_put (fo_ID opn) opn (financeOperations s)"
  "financeOperationKeys (store_operation g e opn v s) = gm_put (fo_IdempotencyKey opn) (fo_ID opn) (financeOperationKeys s)"
  "financePayments (store_operation g e opn v s) = financePayments s"
  "financeRefunds (store_operation g e opn v s) = financeRefunds s"
  "financeRefundKeys (store_operation g e opn v s) = financeRefundKeys s"
  by (simp_all add: store_operation_def Let_def)

text \<open>A new reservation.\<close>

definition reserved ::
  "string \<Rightarrow> string \<Rightarrow> time \<Rightarrow> time \<Rightarrow> time \<Rightarrow> string \<Rightarrow> string \<Rightarrow> string \<Rightarrow> rawmsg \<Rightarrow>
   'z subscription_store_scheme \<Rightarrow> 'z subscription_store_scheme \<Rightarrow> bool" where
  "reserved f g n n' n'' u k a r s s' \<longleftrightarrow>
     gm_str (financeOperationKeys s) k = [] \<and>
     checkLifecyclePreviewVersion r (sl_Version (account_lifecycle s u)) = None \<and>
     CheckSubscriptionAction (account_lifecycle s u) (lifecycleAction a r) n = None \<and>
     s' = store_operation g ''attempt_started'' (actionOperation f n' n'' u k a r)
       ((account_lifecycle s u)\<lparr>sl_OperationID := f, sl_Version := wrap64 (sl_Version (lifecycle_of s u) + 1)\<rparr>) s"

lemma Reserve_cases:
  "post (\<lambda>(s', res). s' = s \<and> (\<forall>opn. res = Inr opn \<longrightarrow> gm_str (financeOperationKeys s) k \<noteq> []) \<or>
     reserved f g n n' n'' u k a r s s') (ReserveSubscriptionAction f g n n' n'' u k a r s)"
  unfolding ReserveSubscriptionAction_def
  by (intro branches) (simp_all add: post_def reserved_def account_lifecycle_def actionOperation_def)

text \<open>A change whose outcome is recorded.\<close>

definition finished ::
  "time \<Rightarrow> string \<Rightarrow> string \<Rightarrow> bool \<Rightarrow> string \<Rightarrow> time option \<Rightarrow>
   'z subscription_store_scheme \<Rightarrow> 'z subscription_store_scheme \<Rightarrow> bool" where
  "finished n u i c pl e s s' \<longleftrightarrow>
     (\<exists>opn opn' v evs. gm_get (financeOperations s) i = Some opn \<and> fo_TargetID opn = u \<and> unfinished opn \<and>
        finishLifecycle (lifecycle_of s u) opn c pl e n = Inr v \<and>
        (\<exists>p r. opn' = opn\<lparr>fo_Status := (if c then FinanceOperationSucceeded else FinanceOperationFailed),
                 fo_ProviderOperationID := p, fo_Response := r, fo_UpdatedAt := n\<rparr>) \<and>
        s' = s\<lparr>financeOperations := gm_put i opn' (financeOperations s),
               subscriptionLifecycles := gm_put u v (subscriptionLifecycles s), financeOperationEvents := evs\<rparr>)"

lemma Finish_cases:
  "post (\<lambda>(s', res). s' = s \<or> finished n u i c pl e s s') (FinishSubscriptionAction g n u i p r c pl e s)"
  unfolding FinishSubscriptionAction_def
proof (intro branches)
  fix opn v opn' event
  assume a: "gm_get (financeOperations s) i = Some opn" "\<not> (fo_TargetID opn \<noteq> u \<or> fo_TargetType opn \<noteq> ''account'')"
    "\<not> (fo_Status opn = FinanceOperationSucceeded \<or> fo_Status opn = FinanceOperationFailed)"
    "finishLifecycle (lifecycle_of s u) opn c pl e n = Inr v"
    "opn' = opn\<lparr>fo_Status := if c then FinanceOperationSucceeded else FinanceOperationFailed,
       fo_ProviderOperationID := p, fo_Response := financeJSON r, fo_UpdatedAt := n\<rparr>"
  let ?s = "s\<lparr>financeOperations := gm_put i opn' (financeOperations s),
    subscriptionLifecycles := gm_put u v (subscriptionLifecycles s),
    financeOperationEvents := gm_put i (gm_list (financeOperationEvents s) i @ [event]) (financeOperationEvents s)\<rparr>"
  have "finished n u i c pl e s ?s"
    unfolding finished_def by (intro exI conjI, rule a(1)) (use a in \<open>auto simp: unfinished_def\<close>)
  then show "post (\<lambda>(s', res). s' = s \<or> finished n u i c pl e s s') (?s, Inr ())" by (simp add: post_def)
qed (simp_all add: post_def)

text \<open>A purchase that is updated without being completed keeps everything but its receipt.\<close>

definition purchase_noted :: "string \<Rightarrow> 'z subscription_store_scheme \<Rightarrow> 'z subscription_store_scheme \<Rightarrow> bool" where
  "purchase_noted i s s' \<longleftrightarrow>
     (\<exists>opn p r t. gm_get (financeOperations s) i = Some opn \<and> unfinished opn \<and> fo_OperationType opn = ''subscription_purchase'' \<and>
        s' = s\<lparr>financeOperations := gm_put i (opn\<lparr>fo_ProviderOperationID := p, fo_Response := r,
               fo_Status := FinanceOperationReconciliationRequired, fo_UpdatedAt := t\<rparr>) (financeOperations s)\<rparr>)"

lemma UpdatePurchase_cases:
  "post (\<lambda>(s', res). s' = s \<or> (\<exists>u. finished n u i cc [] None s s') \<or> purchase_noted i s s')
     (UpdateSubscriptionPurchase g n i p r c s)" if cc: "cc = (receipt_outcome r = ''webhook_confirmed'')"
proof (cases c)
  case True
  let ?u = "case gm_get (financeOperations s) i of None \<Rightarrow> [] | Some opn \<Rightarrow> fo_TargetID opn"
  show ?thesis
    using Finish_cases [where s = s and n = n and u = ?u and i = i and c = cc and g = g and p = p and r = r and pl = "[]" and e = None]
    unfolding UpdateSubscriptionPurchase_def cc Let_def using True
    by (auto simp: post_def split: prod.splits)
next
  case False
  show ?thesis
    unfolding UpdateSubscriptionPurchase_def if_not_P [OF False]
    by (intro branches) (auto simp: post_def purchase_noted_def unfinished_def)
qed

text \<open>A new refund review.\<close>

definition review_opened ::
  "string \<Rightarrow> 'z subscription_store_scheme \<Rightarrow> 'z subscription_store_scheme \<Rightarrow> bool" where
  "review_opened f s s' \<longleftrightarrow>
     (\<exists>g opn. fo_ID opn = f \<and> fo_OperationType opn = ''refund_review'' \<and> gm_str (financeOperationKeys s) (fo_IdempotencyKey opn) = [] \<and>
        s' = store_operation g ''review_requested'' opn
          ((account_lifecycle s (fo_TargetID opn))\<lparr>sl_Version := wrap64 (sl_Version (lifecycle_of s (fo_TargetID opn)) + 1)\<rparr>) s)"

lemma RefundReview_cases:
  "post (\<lambda>(s', res). s' = s \<or> review_opened f s s') (CreateSubscriptionRefundReview f g n a ver s)"
  unfolding CreateSubscriptionRefundReview_def
proof (intro branches)
  fix opn v copy v'
  assume a: "\<not> \<not> validReview opn" "\<not> gm_str (financeOperationKeys s) (fo_IdempotencyKey opn) \<noteq> []"
    "v = lifecycle_of s (fo_TargetID opn)"
    "copy = opn\<lparr>fo_ID := f, fo_Request := financeJSON (fo_Request opn), fo_Response := financeJSON RawEmpty,
       fo_Status := FinanceOperationInProgress, fo_AttemptCount := 1, fo_CreatedAt := n, fo_UpdatedAt := n\<rparr>"
    "v' = v\<lparr>sl_AccountID := fo_TargetID opn, sl_Version := wrap64 (sl_Version v + 1)\<rparr>"
  have "review_opened f s (store_operation g ''review_requested'' copy v' s)"
    unfolding review_opened_def by (intro exI [of _ g] exI [of _ copy]) (use a in \<open>simp add: validReview_def account_lifecycle_def\<close>)
  then show "post (\<lambda>(s', res). s' = s \<or> review_opened f s s')
     (store_operation g ''review_requested'' copy v' s, Inr (copy\<lparr>fo_Request := financeJSON (fo_Request copy)\<rparr>))"
    by (simp add: post_def)
qed (simp_all add: post_def)

text \<open>Every operation is one of these steps.\<close>

lemma subscription_step_cases:
  obtains (finance) f where "opn = OpFinance f"
  | (same) "subscription_exec opn s = s"
  | (reserve) f g n n' n'' u k a r where "opn = OpReserve f g n n' n'' u k a r"
      "reserved f g n n' n'' u k a r s (subscription_exec opn s)"
  | (finish) n u i c pl e where "case opn of OpFinishAction _ n' _ _ _ _ _ _ _ \<Rightarrow> n' = n | OpUpdatePurchase _ n' _ _ _ _ \<Rightarrow> n' = n | _ \<Rightarrow> False"
      "finished n u i c pl e s (subscription_exec opn s)"
  | (noted) i where "purchase_noted i s (subscription_exec opn s)"
  | (review) f g n a ver where "opn = OpRefundReview f g n a ver" "review_opened f s (subscription_exec opn s)"
proof (cases opn)
  case (OpFinance f)
  then show ?thesis by (rule finance)
next
  case (OpReserve f g n n' n'' u k a r)
  have "post (\<lambda>(s', res). s' = s \<or> reserved f g n n' n'' u k a r s s') (ReserveSubscriptionAction f g n n' n'' u k a r s)"
    using Reserve_cases [of s k f g n n' n'' u a r] by (auto simp: post_def)
  from post_fst [OF this] show ?thesis using reserve [OF OpReserve] same OpReserve by auto
next
  case (OpFinishAction g n u i p r c pl e)
  from post_fst [OF Finish_cases [of s n u i c pl e g p r]] show ?thesis using finish [of n] same OpFinishAction by auto
next
  case (OpUpdatePurchase g n i p r c)
  from post_fst [OF UpdatePurchase_cases [OF refl, of s n i r g p c]] show ?thesis using finish [of n] noted same OpUpdatePurchase by auto
next
  case (OpRefundReview f g n a ver)
  from post_fst [OF RefundReview_cases [of s f g n a ver]] show ?thesis using review [OF OpRefundReview] same OpRefundReview by auto
qed

section \<open>One change at a time\<close>

definition lifecycle_ok :: "'z subscription_store_scheme \<Rightarrow> bool" where
  "lifecycle_ok s \<longleftrightarrow> (\<forall>k u. open_change (financeOperations s) k u \<longleftrightarrow> sl_OperationID (lifecycle_of s u) = k \<and> k \<noteq> [])"

definition subscription_inv :: "'z subscription_store_scheme \<Rightarrow> bool" where
  "subscription_inv s \<longleftrightarrow> finance_inv s \<and> lifecycle_ok s"

lemma held_other: "fo_OperationType opn \<noteq> ''refund'' \<Longrightarrow> held rk i opn = 0"
  by (simp add: held_def financeOperationReservesRefund_def)

lemma unused_key: "operations_ok s \<Longrightarrow> gm_str (financeOperationKeys s) k = [] \<Longrightarrow> gm_get (financeOperationKeys s) k = None"
  using operations_okD(3) [of s k] by (cases "gm_get (financeOperationKeys s) k") (auto simp: gm_str_def)

text \<open>Operations other than refunds do not change the amounts of the ledger.\<close>

lemma finance_inv_store_other:
  assumes "finance_inv s" "fo_OperationType opn \<noteq> ''refund''" "fo_ID opn \<noteq> []" "\<not> gm_has (financeOperations s) (fo_ID opn)"
    "gm_str (financeOperationKeys s) (fo_IdempotencyKey opn) = []"
  shows "finance_inv (store_operation g e opn v s)"
proof (rule finance_inv_put_operation [OF assms(1) refl assms(3)])
  note inv = finance_invD [OF assms(1)]
  show "operation_ok (financePayments s) opn" using assms(2) by (simp add: operation_ok_def)
  show "(\<exists>old. gm_get (financeOperations s) (fo_ID opn) = Some old \<and> fo_IdempotencyKey old = fo_IdempotencyKey opn \<and>
        financeOperationKeys (store_operation g e opn v s) = financeOperationKeys s) \<or>
      (gm_get (financeOperations s) (fo_ID opn) = None \<and> gm_get (financeOperationKeys s) (fo_IdempotencyKey opn) = None \<and>
        financeOperationKeys (store_operation g e opn v s) = gm_put (fo_IdempotencyKey opn) (fo_ID opn) (financeOperationKeys s))"
    using assms(4) unused_key [OF inv(3) assms(5)] by simp
  fix i p assume "gm_get (financePayments s) i = Some p"
  from amounts_okD [OF inv(4) this]
  show "refunded s i + sum_list (map (reserved_amount (financeRefundKeys s) (fo_IdempotencyKey opn) i)
        (gm_vals (financeOperations s))) + held (financeRefundKeys s) i opn \<le> fp_AmountMinor p"
    using reserved_sum_le [of s "fo_IdempotencyKey opn" i] by (simp add: held_other [OF assms(2)] committed_def)
qed simp_all

lemma finance_inv_touch_other:
  assumes "finance_inv s" "gm_get (financeOperations s) k = Some old" "fo_OperationType old \<noteq> ''refund''"
    "fo_ID opn = fo_ID old" "fo_IdempotencyKey opn = fo_IdempotencyKey old" "fo_OperationType opn = fo_OperationType old"
    "financePayments s' = financePayments s" "financeRefunds s' = financeRefunds s"
    "financeRefundKeys s' = financeRefundKeys s" "financeOperations s' = gm_put k opn (financeOperations s)"
    "financeOperationKeys s' = financeOperationKeys s"
  shows "finance_inv s'"
  by (rule finance_inv_update_operation [OF assms(1,2,4,5) _ _ assms(7-11)])
    (use assms(3,6) in \<open>simp_all add: operation_ok_def held_other\<close>)

lemma change_not_refund: "change_op opn \<Longrightarrow> fo_OperationType opn \<noteq> ''refund''"
  by (auto simp: change_op_def starts_with_def)

lemma reserved_inv:
  assumes "subscription_inv s" "f \<noteq> []" "\<not> gm_has (financeOperations s) f" "reserved f g n n' n'' u k a r s s'"
  shows "subscription_inv s'"
proof -
  let ?opn = "actionOperation f n' n'' u k a r"
  have op: "fo_ID ?opn = f" "fo_IdempotencyKey ?opn = k" "fo_TargetID ?opn = u" "change_op ?opn" "unfinished ?opn"
    by (simp_all add: actionOperation_def change_op_def starts_with_def unfinished_def)
  have idle: "sl_OperationID (lifecycle_of s u) = []"
    using assms(4) by (auto simp: reserved_def CheckSubscriptionAction_def account_lifecycle_def split: if_splits)
  have ok: "open_change (financeOperations s) j w \<longleftrightarrow> sl_OperationID (lifecycle_of s w) = j \<and> j \<noteq> []" for j w
    using assms(1) by (simp add: subscription_inv_def lifecycle_ok_def)
  have none: "\<not> open_change (financeOperations s) f w" for w using assms(3) by (simp add: open_change_def)
  have s': "s' = store_operation g ''attempt_started'' ?opn
      ((account_lifecycle s u)\<lparr>sl_OperationID := f, sl_Version := wrap64 (sl_Version (lifecycle_of s u) + 1)\<rparr>) s"
    and key: "gm_str (financeOperationKeys s) k = []" using assms(4) by (simp_all add: reserved_def)
  have "open_change (financeOperations s') j w \<longleftrightarrow> sl_OperationID (lifecycle_of s' w) = j \<and> j \<noteq> []" for j w
    using ok [of j w] none [of w] ok [of f w] idle assms(2) by (auto simp: s' open_change_put op)
  moreover have "finance_inv s'"
    unfolding s' by (rule finance_inv_store_other)
      (use assms(1-3) key op change_not_refund [OF op(4)] in \<open>simp_all add: subscription_inv_def\<close>)
  ultimately show ?thesis by (simp add: subscription_inv_def lifecycle_ok_def)
qed

lemma finishLifecycleD:
  assumes "finishLifecycle v opn c pl e n = Inr v'"
  shows "sl_OperationID v = fo_ID opn \<and> sl_OperationID v' = [] \<and> sl_Version v' = wrap64 (sl_Version v + 1) \<and>
    (sl_LastChangeAt v' = sl_LastChangeAt v \<or> sl_LastChangeAt v' = Some n)"
proof -
  define b d where "b = (c \<and> (fo_OperationType opn = ''subscription_renewal'' \<or> fo_OperationType opn = ''subscription_upgrade'' \<or>
      fo_OperationType opn = ''subscription_downgrade'' \<or> fo_OperationType opn = ''subscription_purchase'' \<and>
      lifecycleAction ''purchase'' (fo_Request opn) = ''upgrade''))"
    and "d = (c \<and> (fo_OperationType opn = ''subscription_downgrade'' \<or> fo_OperationType opn = ''subscription_cancel''))"
  show ?thesis
    using assms unfolding finishLifecycle_def b_def [symmetric] d_def [symmetric] by (auto simp: Let_def split: if_splits)
qed

lemma finishedE:
  assumes "finished n u i c pl e s s'" "operations_ok s"
  obtains opn opn' v where "gm_get (financeOperations s) i = Some opn" "fo_TargetID opn = u" "unfinished opn"
    "finishLifecycle (lifecycle_of s u) opn c pl e n = Inr v" "sl_OperationID (lifecycle_of s u) = i"
    "fo_ID opn' = fo_ID opn" "fo_IdempotencyKey opn' = fo_IdempotencyKey opn" "fo_OperationType opn' = fo_OperationType opn"
    "\<not> unfinished opn'" "financeOperations s' = gm_put i opn' (financeOperations s)"
    "lifecycle_of s' = (\<lambda>w. if w = u then v else lifecycle_of s w)"
    "financePayments s' = financePayments s" "financeRefunds s' = financeRefunds s"
    "financeRefundKeys s' = financeRefundKeys s" "financeOperationKeys s' = financeOperationKeys s"
proof -
  from assms(1) obtain opn opn' v evs p r where o: "gm_get (financeOperations s) i = Some opn" "fo_TargetID opn = u" "unfinished opn"
    and v: "finishLifecycle (lifecycle_of s u) opn c pl e n = Inr v"
    and o': "opn' = opn\<lparr>fo_Status := if c then FinanceOperationSucceeded else FinanceOperationFailed,
                 fo_ProviderOperationID := p, fo_Response := r, fo_UpdatedAt := n\<rparr>"
    and s': "s' = s\<lparr>financeOperations := gm_put i opn' (financeOperations s),
               subscriptionLifecycles := gm_put u v (subscriptionLifecycles s), financeOperationEvents := evs\<rparr>"
    unfolding finished_def by blast
  have "fo_ID opn = i" using operations_okD(2) [OF assms(2) o(1)] by simp
  then have i: "sl_OperationID (lifecycle_of s u) = i" using finishLifecycleD [OF v] by simp
  have l: "lifecycle_of s' = (\<lambda>w. if w = u then v else lifecycle_of s w)"
    by (rule ext) (simp add: s' lifecycle_of_def)
  show thesis
    by (rule that [OF o v i _ _ _ _ _ l, of opn']) (simp_all add: o' s' unfinished_def)
qed

lemma finished_inv:
  assumes "subscription_inv s" "finished n u i c pl e s s'" shows "subscription_inv s'"
proof -
  have fin: "finance_inv s" and ok: "open_change (financeOperations s) j w \<longleftrightarrow> sl_OperationID (lifecycle_of s w) = j \<and> j \<noteq> []" for j w
    using assms(1) by (simp_all add: subscription_inv_def lifecycle_ok_def)
  note ops = operations_okD [OF finance_invD(3) [OF fin]]
  obtain opn opn' v where
      o: "gm_get (financeOperations s) i = Some opn" "fo_TargetID opn = u"
    and v: "finishLifecycle (lifecycle_of s u) opn c pl e n = Inr v" "sl_OperationID (lifecycle_of s u) = i"
    and o': "fo_ID opn' = fo_ID opn" "fo_IdempotencyKey opn' = fo_IdempotencyKey opn" "fo_OperationType opn' = fo_OperationType opn"
      "\<not> unfinished opn'"
    and s': "financeOperations s' = gm_put i opn' (financeOperations s)" "lifecycle_of s' = (\<lambda>w. if w = u then v else lifecycle_of s w)"
      "financePayments s' = financePayments s" "financeRefunds s' = financeRefunds s"
      "financeRefundKeys s' = financeRefundKeys s" "financeOperationKeys s' = financeOperationKeys s"
    by (rule finishedE [OF assms(2) finance_invD(3) [OF fin]])
  have "i \<noteq> []" using ops(2) [OF o(1)] ops(3) by blast
  then have "open_change (financeOperations s) i u" using ok [of i u] v(2) by simp
  then have "change_op opn" using o by (simp add: open_change_def)
  then have "finance_inv s'"
    by (intro finance_inv_touch_other [OF fin o(1) _ o'(1-3) s'(3-5) s'(1) s'(6)] change_not_refund)
  moreover have "open_change (financeOperations s') j w \<longleftrightarrow> sl_OperationID (lifecycle_of s' w) = j \<and> j \<noteq> []" for j w
  proof -
    have "sl_OperationID v = []" using finishLifecycleD [OF v(1)] by simp
    moreover have "open_change (financeOperations s) i w \<longrightarrow> w = u" using o by (simp add: open_change_def)
    ultimately show ?thesis using ok [of j w] v(2) o'(4) by (auto simp: s'(1,2) open_change_put)
  qed
  ultimately show ?thesis by (simp add: subscription_inv_def lifecycle_ok_def)
qed

lemma noted_inv:
  assumes "subscription_inv s" "purchase_noted i s s'" shows "subscription_inv s'"
proof -
  from assms(2) obtain opn p r t where o: "gm_get (financeOperations s) i = Some opn" "unfinished opn"
      "fo_OperationType opn = ''subscription_purchase''"
    and s': "s' = s\<lparr>financeOperations := gm_put i (opn\<lparr>fo_ProviderOperationID := p, fo_Response := r,
               fo_Status := FinanceOperationReconciliationRequired, fo_UpdatedAt := t\<rparr>) (financeOperations s)\<rparr>"
    unfolding purchase_noted_def by blast
  have "open_change (financeOperations s') = open_change (financeOperations s)"
    using o(2) by (simp add: s' open_change_touch [OF o(1)] change_op_def unfinished_def)
  moreover have "lifecycle_of s' = lifecycle_of s" by (rule ext) (simp add: s' lifecycle_of_def)
  moreover have "finance_inv s'"
    by (rule finance_inv_touch_other [OF _ o(1)]) (use assms(1) o(3) in \<open>simp_all add: s' subscription_inv_def\<close>)
  ultimately show ?thesis using assms(1) by (simp add: subscription_inv_def lifecycle_ok_def)
qed

lemma review_inv:
  assumes "subscription_inv s" "f \<noteq> []" "\<not> gm_has (financeOperations s) f" "review_opened f s s'"
  shows "subscription_inv s'"
proof -
  from assms(4) obtain g opn where o: "fo_ID opn = f" "fo_OperationType opn = ''refund_review''"
      "gm_str (financeOperationKeys s) (fo_IdempotencyKey opn) = []"
    and s': "s' = store_operation g ''review_requested'' opn
          ((account_lifecycle s (fo_TargetID opn))\<lparr>sl_Version := wrap64 (sl_Version (lifecycle_of s (fo_TargetID opn)) + 1)\<rparr>) s"
    unfolding review_opened_def by blast
  have "\<not> change_op opn" using o(2) by (simp add: change_op_def starts_with_def)
  then have "open_change (financeOperations s') = open_change (financeOperations s)"
    using assms(3) o(1) by (simp add: s' open_change_other)
  moreover have "sl_OperationID (lifecycle_of s' w) = sl_OperationID (lifecycle_of s w)" for w
    by (simp add: s' account_lifecycle_def)
  moreover have "finance_inv s'"
    unfolding s' by (rule finance_inv_store_other) (use assms o in \<open>simp_all add: subscription_inv_def\<close>)
  ultimately show ?thesis using assms(1) by (simp add: subscription_inv_def lifecycle_ok_def)
qed

lemma subscription_inv_step:
  assumes "subscription_inv s" "subscription_allowed s opn"
  shows "subscription_inv (subscription_exec opn s)"
proof (cases rule: subscription_step_cases [where opn = opn and s = s])
  case (finance f)
  then show ?thesis
    using assms finance_inv_step [of s f] finance_exec_open [of s f]
    by (simp add: subscription_inv_def lifecycle_ok_def subscription_allowed_def)
next
  case (reserve f g n n' n'' u k a r)
  then show ?thesis
    using assms by (intro reserved_inv [OF assms(1) _ _ reserve(2)]) (simp_all add: subscription_allowed_def)
next
  case (review f g n a ver)
  then show ?thesis
    using assms by (intro review_inv [OF assms(1) _ _ review(2)]) (simp_all add: subscription_allowed_def)
qed (use assms in \<open>auto intro: finished_inv noted_inv\<close>)

lemma newSubscriptionStore_fields [simp]:
  "financeOperations (newSubscriptionStore allow) = []" "financeOperationKeys (newSubscriptionStore allow) = []"
  "financePayments (newSubscriptionStore allow) = []" "financeRefunds (newSubscriptionStore allow) = []"
  "financeRefundKeys (newSubscriptionStore allow) = []" "subscriptionLifecycles (newSubscriptionStore allow) = []"
  by (simp_all add: newSubscriptionStore_def newFinanceStore_def user_store.defs finance_store.defs
      subscription_store.defs newUserStore_def)

lemma subscription_inv_init: "subscription_inv (newSubscriptionStore allow)"
  by (simp add: subscription_inv_def lifecycle_ok_def lifecycle_of_def zero_lifecycle_def open_change_def
      finance_inv_def payments_ok_def refunds_ok_def operations_ok_def amounts_ok_def)

interpretation sub: legal_invariant subscription_exec "newSubscriptionStore allow" subscription_inv subscription_allowed
  by unfold_locales (rule subscription_inv_init, rule subscription_inv_step)

definition after_subscription :: "bool \<Rightarrow> subscription_op list \<Rightarrow> subscription_store" where
  "after_subscription allow ops = exec_all subscription_exec ops (newSubscriptionStore allow)"

lemma reserve_busy:
  assumes "sl_OperationID (lifecycle_of s u) \<noteq> []" "gm_str (financeOperationKeys s) key = []"
  shows "\<exists>e. ReserveSubscriptionAction f g n n' n'' u key a r s = (s, Inl e)"
  using assms by (simp add: ReserveSubscriptionAction_def CheckSubscriptionAction_def Let_def split: option.split)

text \<open>
  C8: An account has at most one unfinished subscription change at any time. After every run in
  which new ids are unused, the general ledger operations are not called for subscription
  changes, and the ledger operations satisfy the conditions of the ledger (\<open>finance_op_ok\<close>: bounded
  payments and unambiguous refund requests), the unfinished changes of an account are exactly the one its lifecycle names; and
  while there is one, every reservation under a new key is refused and changes nothing.
\<close>

theorem one_subscription_action:
  assumes "legal subscription_allowed subscription_exec ops (newSubscriptionStore allow)"
    and "after_subscription allow ops = s"
  shows "(\<forall>k u. open_change (financeOperations s) k u \<longleftrightarrow> sl_OperationID (lifecycle_of s u) = k \<and> k \<noteq> []) \<and>
    (\<forall>k k' u. open_change (financeOperations s) k u \<longrightarrow> open_change (financeOperations s) k' u \<longrightarrow> k = k') \<and>
    (\<forall>k u key. open_change (financeOperations s) k u \<longrightarrow> gm_str (financeOperationKeys s) key = [] \<longrightarrow>
       (\<exists>e. ReserveSubscriptionAction f g n n' n'' u key a r s = (s, Inl e)))"
proof -
  have "subscription_inv s"
    unfolding assms(2) [symmetric] after_subscription_def by (rule sub.legal_run [OF subscription_inv_init assms(1)])
  then have ok: "open_change (financeOperations s) k u \<longleftrightarrow> sl_OperationID (lifecycle_of s u) = k \<and> k \<noteq> []" for k u
    by (simp add: subscription_inv_def lifecycle_ok_def)
  show ?thesis unfolding ok using reserve_busy by blast
qed

definition quoted :: "int \<Rightarrow> rawmsg" where
  "quoted v = RawDoc (GMap [(''stateVersion'', GInt v)])"

definition subscribed_ops :: "subscription_op list" where
  "subscribed_ops =
     [OpFinance (OpUser (OpCreateUser ''f1'' 10 (Inr ''v1'') (sample_user ''u1'' ''Ann'' ''a@x.io''))),
      OpReserve ''o1'' ''e1'' 20 20 20 ''u1'' ''k1'' ''upgrade'' (quoted 0)]"

theorem one_subscription_action_witness:
  "open_change (financeOperations (after_subscription False subscribed_ops)) ''o1'' ''u1'' \<and>
   (\<exists>e. ReserveSubscriptionAction ''o2'' ''e2'' 30 30 30 ''u1'' ''k2'' ''cancel'' RawEmpty (after_subscription False subscribed_ops) =
      (after_subscription False subscribed_ops, Inl e))"
proof -
  let ?s = "after_subscription False subscribed_ops"
  have legal: "legal subscription_allowed subscription_exec subscribed_ops (newSubscriptionStore False)" by code_simp
  have "open_change (financeOperations ?s) ''o1'' ''u1'' \<and> gm_str (financeOperationKeys ?s) ''k2'' = []" by code_simp
  with one_subscription_action [OF legal refl, of "''o2''" "''e2''" 30 30 30 "''cancel''" RawEmpty] show ?thesis by blast
qed

section \<open>The cooldown\<close>

text \<open>The changes that start the cooldown when they are confirmed.\<close>

definition plan_change :: "FinanceOperation \<Rightarrow> bool" where
  "plan_change opn \<longleftrightarrow>
     fo_OperationType opn \<in> {''subscription_renewal'', ''subscription_upgrade'', ''subscription_downgrade''} \<or>
     fo_OperationType opn = ''subscription_purchase'' \<and> lifecycleAction ''purchase'' (fo_Request opn) = ''upgrade''"

text \<open>The clock of later confirmations does not run backwards.\<close>

definition clock_from :: "time \<Rightarrow> subscription_op \<Rightarrow> bool" where
  "clock_from t opn =
     (case opn of OpFinishAction _ n _ _ _ _ _ _ _ \<Rightarrow> t \<le> n | OpUpdatePurchase _ n _ _ _ _ \<Rightarrow> t \<le> n | _ \<Rightarrow> True)"

definition changed_since :: "time \<Rightarrow> string \<Rightarrow> 'z subscription_store_scheme \<Rightarrow> bool" where
  "changed_since t u s = (case sl_LastChangeAt (lifecycle_of s u) of None \<Rightarrow> False | Some t' \<Rightarrow> t \<le> t')"

lemma finished_lifecycle:
  assumes "finished n u i c pl e s s'"
  obtains opn v where "gm_get (financeOperations s) i = Some opn" "finishLifecycle (lifecycle_of s u) opn c pl e n = Inr v"
    "lifecycle_of s' = (\<lambda>w. if w = u then v else lifecycle_of s w)"
proof -
  from assms obtain opn opn' v evs where o: "gm_get (financeOperations s) i = Some opn"
    and v: "finishLifecycle (lifecycle_of s u) opn c pl e n = Inr v"
    and s': "s' = s\<lparr>financeOperations := gm_put i opn' (financeOperations s),
               subscriptionLifecycles := gm_put u v (subscriptionLifecycles s), financeOperationEvents := evs\<rparr>"
    unfolding finished_def by blast
  show thesis by (rule that [OF o v]) (rule ext, simp add: s' lifecycle_of_def)
qed

text \<open>How a step changes the lifecycle of an account.\<close>

lemma lifecycle_step:
  fixes s :: "'z subscription_store_scheme" and u :: string and opn :: subscription_op
  defines "v \<equiv> lifecycle_of s u" and "v' \<equiv> lifecycle_of (subscription_exec opn s) u"
  shows "(v' = v \<or> sl_Version v' = wrap64 (sl_Version v + 1)) \<and>
    (sl_LastChangeAt v' = sl_LastChangeAt v \<or> (\<exists>n. sl_LastChangeAt v' = Some n \<and> (\<forall>t. clock_from t opn \<longrightarrow> t \<le> n)))"
proof (cases rule: subscription_step_cases [where opn = opn and s = s])
  case (finish n w i c pl e)
  obtain o1 x where x: "finishLifecycle (lifecycle_of s w) o1 c pl e n = Inr x"
    "lifecycle_of (subscription_exec opn s) = (\<lambda>w'. if w' = w then x else lifecycle_of s w')"
    by (rule finished_lifecycle [OF finish(2)])
  have "clock_from t opn \<longrightarrow> t \<le> n" for t using finish(1) by (simp add: clock_from_def split: subscription_op.splits)
  then show ?thesis using finishLifecycleD [OF x(1)] by (auto simp: v_def v'_def x(2))
next
  case (reserve f g n n' n'' w k a r)
  then show ?thesis by (simp add: v_def v'_def reserved_def account_lifecycle_def actionOperation_def)
next
  case (review f g n a ver)
  then show ?thesis by (auto simp: v_def v'_def review_opened_def account_lifecycle_def)
next
  case (noted i)
  then have "lifecycle_of (subscription_exec opn s) u = lifecycle_of s u" by (auto simp: purchase_noted_def lifecycle_of_def)
  then show ?thesis by (simp add: v_def v'_def)
qed (simp_all add: v_def v'_def)

lemma changed_since_run:
  "changed_since t u s \<Longrightarrow> list_all (clock_from t) ops \<Longrightarrow> changed_since t u (exec_all subscription_exec ops s)"
proof (induction ops arbitrary: s)
  case (Cons opn ops)
  have "changed_since t u (subscription_exec opn s)"
    using Cons.prems lifecycle_step [where s = s and u = u and opn = opn] by (auto simp: changed_since_def split: option.splits)
  then show ?case using Cons by simp
qed simp

lemma finish_changes:
  assumes "FinishSubscriptionAction g t u i p r True pl e s = (s', Inr ())"
    "gm_get (financeOperations s) i = Some opn" "unfinished opn" "plan_change opn"
  shows "changed_since t u s'"
proof -
  obtain v where v: "finishLifecycle (lifecycle_of s u) opn True pl e t = Inr v" "lifecycle_of s' u = v"
    using assms(1-3) by (auto simp: FinishSubscriptionAction_def unfinished_def Let_def lifecycle_of_def split: if_splits sum.splits)
  have "sl_LastChangeAt v = Some t"
    using v(1) assms(4) by (auto simp: finishLifecycle_def plan_change_def Let_def split: if_splits)
  then show ?thesis using v(2) by (simp add: changed_since_def)
qed

text \<open>
  C15: Plan changes keep the cooldown. When a renewal, upgrade or downgrade is confirmed at time
  \<open>t\<close>, then after any further operations, whose clock is not behind \<open>t\<close>, a new renewal,
  upgrade or downgrade of that account is reserved at 30 days after \<open>t\<close> at the earliest.
\<close>

theorem change_cooldown:
  assumes "FinishSubscriptionAction g t u i p r True pl e s = (s', Inr ())"
    "gm_get (financeOperations s) i = Some opn" "unfinished opn" "plan_change opn"
    "list_all (clock_from t) ops"
    "ReserveSubscriptionAction f2 g2 now n' n'' u key a req (exec_all subscription_exec ops s') = (s3, Inr opn2)"
    "gm_str (financeOperationKeys (exec_all subscription_exec ops s')) key = []"
    "lifecycleAction a req \<in> {''upgrade'', ''downgrade'', ''renewal''}"
  shows "t + SubscriptionChangeCooldown \<le> now"
proof -
  let ?s = "exec_all subscription_exec ops s'"
  have "changed_since t u ?s" by (rule changed_since_run [OF finish_changes [OF assms(1-4)] assms(5)])
  then obtain t' where t': "sl_LastChangeAt (account_lifecycle ?s u) = Some t'" "t \<le> t'"
    by (auto simp: changed_since_def account_lifecycle_def split: option.splits)
  have "reserved f2 g2 now n' n'' u key a req ?s s3"
    using Reserve_cases [of ?s key f2 g2 now n' n'' u a req] assms(6,7) by (simp add: post_def)
  then have "CheckSubscriptionAction (account_lifecycle ?s u) (lifecycleAction a req) now = None" by (simp add: reserved_def)
  then show ?thesis using t' assms(8)
    by (auto simp: CheckSubscriptionAction_def CooldownUntil_def split: if_splits option.splits)
qed

definition upgraded_run :: "(subscription_store \<times> (store_error + unit))" where
  "upgraded_run = FinishSubscriptionAction ''e2'' 30 ''u1'' ''o1'' ''sub_1'' RawEmpty True [] None (after_subscription False subscribed_ops)"

theorem change_cooldown_witness:
  "\<exists>opn2. snd (ReserveSubscriptionAction ''o2'' ''e3'' (40 + SubscriptionChangeCooldown) 50 50 ''u1'' ''k2'' ''downgrade'' RawEmpty (fst upgraded_run)) =
     Inr opn2 \<and> 30 + SubscriptionChangeCooldown \<le> 40 + SubscriptionChangeCooldown"
proof -
  let ?s = "after_subscription False subscribed_ops"
  let ?r = "ReserveSubscriptionAction ''o2'' ''e3'' (40 + SubscriptionChangeCooldown) 50 50 ''u1'' ''k2'' ''downgrade'' RawEmpty (fst upgraded_run)"
  have "outcome upgraded_run (\<lambda>_. True)" by code_simp
  then obtain s' where s': "upgraded_run = (s', Inr ())" by (rule outcomeE) auto
  have "outcome ?r (\<lambda>_. True)" by code_simp
  then obtain s3 opn2 where r: "?r = (s3, Inr opn2)" by (rule outcomeE) auto
  have "case gm_get (financeOperations ?s) ''o1'' of None \<Rightarrow> False | Some opn \<Rightarrow> unfinished opn \<and> plan_change opn" by code_simp
  then obtain opn where opn: "gm_get (financeOperations ?s) ''o1'' = Some opn" "unfinished opn" "plan_change opn"
    by (auto split: option.splits)
  have key: "gm_str (financeOperationKeys (fst upgraded_run)) ''k2'' = []" "lifecycleAction ''downgrade'' RawEmpty \<in> {''upgrade'', ''downgrade'', ''renewal''}"
    by code_simp+
  have none: "list_all (clock_from 30) []" "fst upgraded_run = exec_all subscription_exec [] s'"
    unfolding s' by simp_all
  show ?thesis
    using change_cooldown [OF s' [unfolded upgraded_run_def] opn none(1) r [unfolded none(2)] key(1) [unfolded none(2)] key(2)] r by auto
qed

section \<open>Quotes\<close>

lemma version_run:
  fixes s :: "'z subscription_store_scheme"
  assumes "0 \<le> sl_Version (lifecycle_of s u)" "sl_Version (lifecycle_of s u) + int (length ops) < 2 ^ 63"
  shows "sl_Version (lifecycle_of s u) \<le> sl_Version (lifecycle_of (exec_all subscription_exec ops s) u) \<and>
    sl_Version (lifecycle_of (exec_all subscription_exec ops s) u) \<le> sl_Version (lifecycle_of s u) + int (length ops) \<and>
    (sl_Version (lifecycle_of (exec_all subscription_exec ops s) u) = sl_Version (lifecycle_of s u) \<longrightarrow>
       lifecycle_of (exec_all subscription_exec ops s) u = lifecycle_of s u)"
  using assms
proof (induction ops arbitrary: s)
  case (Cons opn ops)
  let ?s = "subscription_exec opn s"
  have "wrap64 (sl_Version (lifecycle_of s u) + 1) = sl_Version (lifecycle_of s u) + 1"
    using Cons.prems by (intro wrap64_id) (simp add: int64_def)
  then have step: "lifecycle_of ?s u = lifecycle_of s u \<or> sl_Version (lifecycle_of ?s u) = sl_Version (lifecycle_of s u) + 1"
    using lifecycle_step [where s = s and u = u and opn = opn] by simp
  then show ?case using Cons.IH [of ?s] Cons.prems by auto
qed simp

text \<open>
  C24: A quote is good for the state it was made for. When anything in the lifecycle of the account
  has changed since the quoted version, even if it has since been undone, a new
  reservation that names this version is refused and changes nothing; the version counter
  does not wrap in a run of fewer than \<open>2 ^ 63\<close> steps.
\<close>

theorem stale_quote_refused:
  fixes s m s' :: subscription_store
  assumes "m = exec_all subscription_exec ops s" "s' = exec_all subscription_exec ops' m"
    and "0 \<le> sl_Version (lifecycle_of s u)" "sl_Version (lifecycle_of s u) + int (length ops + length ops') < 2 ^ 63"
    and "lifecycle_of m u \<noteq> lifecycle_of s u"
    and "unmarshal_member ''stateversion'' set_int_pointer None req = Some (Some (sl_Version (lifecycle_of s u)))"
    and "gm_str (financeOperationKeys s') key = []"
  shows "ReserveSubscriptionAction f g n n' n'' u key a req s' =
    (s', Inl (if \<not> gm_has (byID s') u then ErrUserNotFound
              else if key = [] then ErrFinanceIdempotencyConflict else ErrSubscriptionStateConflict))"
proof -
  have "sl_Version (lifecycle_of s u) < sl_Version (lifecycle_of m u)" "sl_Version (lifecycle_of m u) \<le> sl_Version (lifecycle_of s u) + int (length ops)"
    using version_run [of s u ops] assms(1,3-5) by fastforce+
  then have "sl_Version (lifecycle_of s' u) \<noteq> sl_Version (lifecycle_of s u)"
    using version_run [of m u ops'] assms(2-4) by simp
  moreover have "req \<noteq> RawEmpty" using assms(6) by (auto simp: unmarshal_member_def)
  ultimately have "checkLifecyclePreviewVersion req (sl_Version (lifecycle_of s' u)) = Some ErrSubscriptionStateConflict"
    using assms(6) by (simp add: checkLifecyclePreviewVersion_def)
  then show ?thesis using assms(7) by (simp add: ReserveSubscriptionAction_def Let_def)
qed

theorem stale_quote_refused_witness:
  "snd (ReserveSubscriptionAction ''o2'' ''e3'' 40 40 40 ''u1'' ''k2'' ''cancel'' (quoted 0) (fst upgraded_run)) = Inl ErrSubscriptionStateConflict"
proof -
  let ?s = "after_subscription False (take 1 subscribed_ops)" and ?ops = "drop 1 subscribed_ops"
  let ?ops' = "[OpFinishAction ''e2'' 30 ''u1'' ''o1'' ''sub_1'' RawEmpty True [] None]"
  let ?m = "exec_all subscription_exec ?ops ?s"
  have m: "exec_all subscription_exec ?ops' ?m = fst upgraded_run"
    by (simp add: upgraded_run_def after_subscription_def subscribed_ops_def)
  have v: "sl_Version (lifecycle_of ?s ''u1'') = 0" "lifecycle_of ?m ''u1'' \<noteq> lifecycle_of ?s ''u1''"
    "unmarshal_member ''stateversion'' set_int_pointer None (quoted 0) = Some (Some 0)"
    "gm_str (financeOperationKeys (fst upgraded_run)) ''k2'' = []" "gm_has (byID (fst upgraded_run)) ''u1''"
    "length ?ops + length ?ops' = 2"
    by code_simp+
  have "ReserveSubscriptionAction ''o2'' ''e3'' 40 40 40 ''u1'' ''k2'' ''cancel'' (quoted 0) (fst upgraded_run) =
    (fst upgraded_run, Inl (if \<not> gm_has (byID (fst upgraded_run)) ''u1'' then ErrUserNotFound
              else if ''k2'' = [] then ErrFinanceIdempotencyConflict else ErrSubscriptionStateConflict))"
    by (rule stale_quote_refused [OF refl m [symmetric]]) (use v in simp_all)
  then show ?thesis using v(5) by simp
qed

end
