(* ===== verification/Go_Time.thy ===== *)
theory Go_Time
  imports Go_Values
begin

text \<open>
  The calendar of package \<open>time\<close> in UTC: the date of a point in time, the first moment of a month, and
  the formats \<open>time.RFC3339\<close> and \<open>time.RFC3339Nano\<close>. Years before year 1 have negative numbers of days.
\<close>

section \<open>Time stamps\<close>

text \<open>
  \<open>t.UTC().Format(time.RFC3339Nano)\<close>. Days are counted from 1 January of year 1, in cycles of 400
  years; the fraction of the second is printed without trailing zeros, and not at all when it is zero.
\<close>

definition leap :: "int \<Rightarrow> bool" where
  "leap y \<longleftrightarrow> y mod 4 = 0 \<and> (y mod 100 \<noteq> 0 \<or> y mod 400 = 0)"

definition year_day :: "int \<Rightarrow> int \<times> int" where
  "year_day days =
     (let n400 = days div 146097; d = days mod 146097;
          n100 = min 3 (d div 36524); d = d - 36524 * n100;
          n4 = d div 1461; d = d mod 1461;
          n1 = min 3 (d div 365)
      in (400 * n400 + 100 * n100 + 4 * n4 + n1 + 1, d - 365 * n1))"

fun month_day :: "int list \<Rightarrow> int \<Rightarrow> int \<Rightarrow> int \<times> int" where
  "month_day [] m d = (m, d)"
| "month_day (len # lens) m d = (if d < len then (m, d) else month_day lens (m + 1) (d - len))"

definition civil_date :: "int \<Rightarrow> int \<times> int \<times> int" where
  "civil_date days =
     (let (y, yd) = year_day days;
          (m, d) = month_day [31, if leap y then 29 else 28, 31, 30, 31, 30, 31, 31, 30, 31, 30] 1 yd
      in (y, m, d + 1))"

definition pad_int :: "nat \<Rightarrow> int \<Rightarrow> string" where
  "pad_int width n =
     (let digits = show_digits \<bar>n\<bar> in
      (if n < 0 then ''-'' else []) @ replicate (width - length digits) (CHR ''0'') @ digits)"

definition fraction :: "int \<Rightarrow> string" where
  "fraction nanos =
     (if nanos = 0 then [] else CHR ''.'' # rev (dropWhile (\<lambda>c. c = CHR ''0'') (rev (pad_int 9 nanos))))"

definition RFC3339Nano :: "time \<Rightarrow> string" where
  "RFC3339Nano t =
     (let secs = t div Second; (y, m, d) = civil_date (secs div 86400); day = secs mod 86400 in
      pad_int 4 y @ ''-'' @ pad_int 2 m @ ''-'' @ pad_int 2 d @ ''T'' @
      pad_int 2 (day div 3600) @ '':'' @ pad_int 2 (day div 60 mod 60) @ '':'' @ pad_int 2 (day mod 60) @
      fraction (t mod Second) @ ''Z'')"

text \<open>\<open>t.UTC().Format(time.RFC3339)\<close>, without the fraction of the second.\<close>

definition RFC3339 :: "time \<Rightarrow> string" where
  "RFC3339 t = RFC3339Nano (t div Second * Second)"

section \<open>Months\<close>

definition Year :: "time \<Rightarrow> int" where
  "Year t = fst (civil_date (t div (24 * Hour)))"

definition Month :: "time \<Rightarrow> int" where
  "Month t = fst (snd (civil_date (t div (24 * Hour))))"

text \<open>The days before 1 January of a year, and the lengths of its months.\<close>

definition days_before :: "int \<Rightarrow> int" where
  "days_before y = 365 * (y - 1) + (y - 1) div 4 - (y - 1) div 100 + (y - 1) div 400"

definition month_lengths :: "int \<Rightarrow> int list" where
  "month_lengths y = [31, if leap y then 29 else 28, 31, 30, 31, 30, 31, 31, 30, 31, 30, 31]"

text \<open>\<open>time.Date(y, m, 1, 0, 0, 0, 0, time.UTC)\<close>; a month outside 1 to 12 moves the year.\<close>

definition month_start :: "int \<Rightarrow> int \<Rightarrow> time" where
  "month_start y m =
     (let y = y + (m - 1) div 12; k = nat ((m - 1) mod 12)
      in (days_before y + sum_list (take k (month_lengths y))) * (24 * Hour))"

text \<open>A month contains the points in time that are dated in it.\<close>

lemma div_before:
  fixes y k :: int
  assumes "0 < k"
  shows "y div k = (y - 1) div k + (if y mod k = 0 then 1 else 0)"
proof (cases "y mod k = 0")
  case True
  have "(y - 1) div k = y div k - 1"
    by (rule int_div_pos_eq [where r = "k - 1"]) (use True assms in \<open>simp_all add: algebra_simps mod_eq_0_iff_dvd\<close>)
  then show ?thesis using True by simp
next
  case False
  have "0 \<le> y mod k" "y mod k < k" using assms by simp_all
  then have "(y - 1) div k = y div k"
    by (intro int_div_pos_eq [where r = "y mod k - 1"]) (use False in \<open>simp_all add: algebra_simps\<close>)
  then show ?thesis using False by simp
qed

lemma min_div:
  fixes d k c e :: int
  assumes "0 \<le> d" "0 < k" "0 \<le> c" "d < k * (c + 1) + e" "0 \<le> e" "b = min c (d div k)"
  shows "0 \<le> b" "b \<le> c" "0 \<le> d - k * b" "d - k * b < k + e" "b < c \<Longrightarrow> d - k * b < k"
proof -
  define q r where "q = d div k" and "r = d mod k"
  have d: "d = k * q + r" "0 \<le> r" "r < k" "0 \<le> q" using assms(1,2) by (simp_all add: q_def r_def pos_imp_zdiv_nonneg_iff)
  have b: "b = min c q" using assms(6) by (simp add: q_def)
  show "0 \<le> b" "b \<le> c" using b d(4) assms(3) by simp_all
  have "k * b \<le> k * q" using b assms(2) by (intro mult_left_mono) simp_all
  then show "0 \<le> d - k * b" using d(1,2) by linarith
  show "d - k * b < k + e"
  proof (cases "q \<le> c")
    case True
    then show ?thesis using b d assms(5) by simp
  next
    case False
    then have "b = c" using b by simp
    then show ?thesis using assms(4) by (simp add: distrib_left)
  qed
  show "d - k * b < k" if "b < c" using that b d by (simp add: min_def split: if_splits)
qed

lemma year_day_days:
  assumes "year_day days = (y, yd)"
  shows "days = days_before y + yd \<and> 0 \<le> yd \<and> yd < 365 + (if leap y then 1 else 0)"
proof -
  define a d where "a = days div 146097" and "d = days mod 146097"
  define b where "b = min 3 (d div 36524)"
  define c e where "c = (d - 36524 * b) div 1461" and "e = (d - 36524 * b) mod 1461"
  define n where "n = min 3 (e div 365)"
  have "year_day days = (400 * a + 100 * b + 4 * c + n + 1, e - 365 * n)"
    unfolding year_day_def Let_def a_def b_def c_def d_def e_def n_def ..
  then have y: "y - 1 = 400 * a + 100 * b + 4 * c + n" "yd = e - 365 * n" using assms by simp_all
  have d: "days = 146097 * a + d" "0 \<le> d" "d < 146097" by (simp_all add: a_def d_def)
  have b: "0 \<le> b" "b \<le> 3" "0 \<le> d - 36524 * b" "d - 36524 * b \<le> 36524" "b < 3 \<Longrightarrow> d - 36524 * b < 36524"
    using min_div [OF d(2) _ _ _ _ b_def, of 1] d(3) by simp_all
  have e: "d - 36524 * b = 1461 * c + e" "0 \<le> e" "e < 1461" by (simp_all add: c_def e_def)
  then have c: "0 \<le> c" "c \<le> 24" using b by linarith+
  have n: "0 \<le> n" "n \<le> 3" "0 \<le> yd" "yd \<le> 365" "n < 3 \<Longrightarrow> yd < 365"
    unfolding y(2) using min_div [OF e(2) _ _ _ _ n_def, of 1] e(3) by simp_all
  have last: "n = 3" "e = 1460" if "yd = 365" using that n y(2) by linarith+
  have "(y - 1) div 4 = 100 * a + 25 * b + c"
    by (rule int_div_pos_eq [where r = n]) (use y(1) n(1,2) in simp_all)
  moreover have "(y - 1) div 100 = 4 * a + b"
    by (rule int_div_pos_eq [where r = "4 * c + n"]) (use y(1) c n(1,2) in simp_all)
  moreover have "(y - 1) div 400 = a"
    by (rule int_div_pos_eq [where r = "100 * b + 4 * c + n"]) (use y(1) b(1,2) c n(1,2) in simp_all)
  ultimately have "days_before y = 146097 * a + 36524 * b + 1461 * c + 365 * n"
    by (simp add: days_before_def y(1))
  then have "days = days_before y + yd" using d(1) e(1) y(2) by simp
  moreover have "leap y" if "yd = 365"
  proof -
    have eq: "y = 400 * a + 100 * b + 4 * c + 4" using y(1) last(1) [OF that] by simp
    have "c = 24 \<Longrightarrow> b = 3" using last(2) [OF that] e(1) b by linarith
    moreover have "y mod 4 = 0"
      by (rule int_mod_pos_eq [where q = "100 * a + 25 * b + c + 1"]) (use eq in simp_all)
    moreover have "y mod 100 = 4 * c + 4" if "c < 24"
      by (rule int_mod_pos_eq [where q = "4 * a + b"]) (use eq c that in simp_all)
    moreover have "y mod 400 = 0" if "c = 24" "b = 3"
      by (rule int_mod_pos_eq [where q = "a + 1"]) (use eq that in simp_all)
    ultimately show ?thesis unfolding leap_def using c by (cases "c = 24") auto
  qed
  ultimately show ?thesis using n by (cases "yd = 365") auto
qed

lemma days_before_next: "days_before (y + 1) = days_before y + 365 + (if leap y then 1 else 0)"
proof -
  define p q r where "p = (y - 1) div 4" and "q = (y - 1) div 100" and "r = (y - 1) div 400"
  define f h z where "f = (y mod 4 = 0)" and "h = (y mod 100 = 0)" and "z = (y mod 400 = 0)"
  have mods: "z \<Longrightarrow> h" "h \<Longrightarrow> f"
    using mod_mod_cancel [of 100 400 y] mod_mod_cancel [of 4 100 y] by (simp_all add: f_def h_def z_def)
  have div: "y div 4 = p + (if f then 1 else 0)" "y div 100 = q + (if h then 1 else 0)" "y div 400 = r + (if z then 1 else 0)"
    unfolding p_def q_def r_def f_def h_def z_def by (rule div_before, simp)+
  have "days_before (y + 1) = 365 * y + y div 4 - y div 100 + y div 400" by (simp only: days_before_def add_diff_cancel)
  moreover have "days_before y = 365 * (y - 1) + p - q + r" unfolding days_before_def p_def q_def r_def ..
  moreover have "leap y \<longleftrightarrow> f \<and> (\<not> h \<or> z)" unfolding leap_def f_def h_def z_def ..
  ultimately show ?thesis unfolding div using mods by (cases f; cases h; cases z) simp_all
qed

lemma month_day_sum:
  "month_day lens m d = (m', d') \<Longrightarrow> 0 \<le> d \<Longrightarrow>
   \<exists>k \<le> length lens. m' = m + int k \<and> d = sum_list (take k lens) + d' \<and> 0 \<le> d' \<and> (k < length lens \<longrightarrow> d' < lens ! k)"
proof (induction lens m d rule: month_day.induct)
  case (2 len lens m d)
  show ?case
  proof (cases "d < len")
    case True
    then show ?thesis using 2 by (intro exI [of _ 0]) auto
  next
    case False
    then obtain k where "k \<le> length lens" "m' = m + 1 + int k" "d - len = sum_list (take k lens) + d'" "0 \<le> d'"
      "k < length lens \<longrightarrow> d' < lens ! k"
      using 2 by auto
    then show ?thesis by (intro exI [of _ "Suc k"]) auto
  qed
qed auto

lemma month_contains:
  "1 \<le> Month t \<and> Month t \<le> 12 \<and> month_start (Year t) (Month t) \<le> t \<and> t < month_start (Year t) (Month t + 1)"
proof -
  define days where "days = t div (24 * Hour)"
  obtain y yd where yd: "year_day days = (y, yd)" by fastforce
  let ?lens = "month_lengths y"
  obtain m d where md: "month_day (butlast ?lens) 1 yd = (m, d)" by fastforce
  have date: "Year t = y" "Month t = m"
    using yd md by (simp_all add: Year_def Month_def civil_date_def days_def month_lengths_def)
  have y: "days = days_before y + yd" "0 \<le> yd" "yd < 365 + (if leap y then 1 else 0)" using year_day_days [OF yd] by auto
  obtain k where k: "k \<le> 11" "m = 1 + int k" "yd = sum_list (take k (butlast ?lens)) + d" "0 \<le> d"
    "k < 11 \<longrightarrow> d < butlast ?lens ! k"
    using month_day_sum [OF md y(2)] by (auto simp: month_lengths_def)
  have start: "month_start y m = (days_before y + sum_list (take k ?lens)) * (24 * Hour)"
    using k(1,2) by (simp add: month_start_def)
  have len: "length ?lens = 12" by (simp add: month_lengths_def)
  then have "take k (butlast ?lens) = take k ?lens" using k(1) by (simp add: take_butlast)
  then have d: "days = days_before y + sum_list (take k ?lens) + d" using y(1) k(3) by simp
  have next_start: "month_start y (m + 1) > days * (24 * Hour) + 24 * Hour - 1"
  proof (cases "k = 11")
    case True
    then have "month_start y (m + 1) = days_before (y + 1) * (24 * Hour)" using k(2) by (simp add: month_start_def)
    then show ?thesis using y(1,3) by (simp add: days_before_next)
  next
    case False
    then have "month_start y (m + 1) = (days_before y + sum_list (take (Suc k) ?lens)) * (24 * Hour)"
      using k(1,2) by (simp add: month_start_def nat_add_distrib)
    moreover have "sum_list (take (Suc k) ?lens) = sum_list (take k ?lens) + ?lens ! k"
      using k(1) len by (simp add: take_Suc_conv_app_nth)
    moreover have "d < ?lens ! k" using k(1,5) False len by (simp add: nth_butlast)
    ultimately show ?thesis using d by simp
  qed
  have "t = days * (24 * Hour) + t mod (24 * Hour)" by (simp add: days_def)
  moreover have "0 \<le> t mod (24 * Hour)" "t mod (24 * Hour) < 24 * Hour" by simp_all
  moreover have "month_start y m \<le> days * (24 * Hour)" using start d k(4) by simp
  ultimately show ?thesis unfolding date using next_start k(1,2) by (intro conjI; linarith)
qed

text \<open>Months follow each other, so a point in time lies in one month only.\<close>

lemma month_start_index: "month_start y m = month_start 0 (12 * y + m)"
proof -
  have "12 * y + m - 1 = (m - 1) + y * 12" by simp
  then have "(12 * y + m - 1) div 12 = y + (m - 1) div 12" "(12 * y + m - 1) mod 12 = (m - 1) mod 12"
    by (simp_all only: div_mult_self1 mod_mult_self1)
  then show ?thesis unfolding month_start_def by simp
qed

lemma month_start_next: "month_start y m < month_start y (m + 1)"
proof -
  define Y k where "Y = y + (m - 1) div 12" and "k = nat ((m - 1) mod 12)"
  have k: "k \<le> 11" "(m - 1) mod 12 = int k" unfolding k_def by (simp_all add: nat_le_iff)
  have m: "m = 12 * ((m - 1) div 12) + int k + 1" using div_mult_mod_eq [of "m - 1" 12] k(2) by simp
  have now: "month_start y m = (days_before Y + sum_list (take k (month_lengths Y))) * (24 * Hour)"
    unfolding month_start_def Y_def k_def Let_def ..
  have len: "length (month_lengths Y) = 12" "\<forall>l \<in> set (month_lengths Y). 0 < l" by (simp_all add: month_lengths_def)
  show ?thesis
  proof (cases "k = 11")
    case True
    then have "m = 12 * ((m - 1) div 12) + 12" using m by simp
    then obtain j where j: "m = 12 * j + 12" by blast
    then have "Y = y + j" by (simp add: Y_def)
    then have "month_start y (m + 1) = days_before (Y + 1) * (24 * Hour)" using j by (simp add: month_start_def ac_simps)
    moreover have "sum_list (take k (month_lengths Y)) < 365 + (if leap Y then 1 else 0)"
      using True by (simp add: month_lengths_def numeral_eq_Suc)
    ultimately show ?thesis unfolding now by (simp add: days_before_next)
  next
    case False
    then have k10: "int k < 11" using k(1) by simp
    obtain j where j: "m = 12 * j + int k + 1" using m by blast
    have "m div 12 = j" "m mod 12 = int k + 1" "(m - 1) div 12 = j"
      using k10 j int_div_pos_eq [of m 12 j "int k + 1"] int_mod_pos_eq [of m 12 j "int k + 1"]
        int_div_pos_eq [of "m - 1" 12 j "int k"] by simp_all
    then have "month_start y (m + 1) = (days_before Y + sum_list (take (Suc k) (month_lengths Y))) * (24 * Hour)"
      by (simp add: month_start_def Y_def nat_add_distrib Let_def)
    moreover have "sum_list (take (Suc k) (month_lengths Y)) = sum_list (take k (month_lengths Y)) + month_lengths Y ! k"
      using k(1) len(1) by (simp add: take_Suc_conv_app_nth)
    moreover have "0 < month_lengths Y ! k" using k(1) len by simp
    ultimately show ?thesis unfolding now by simp
  qed
qed

lemma month_start_mono: "a < b \<Longrightarrow> month_start 0 (a + 1) \<le> month_start 0 b"
proof (induction "nat (b - a)" arbitrary: b rule: less_induct)
  case less
  show ?case
  proof (cases "b = a + 1")
    case False
    then have "month_start 0 (a + 1) \<le> month_start 0 (b - 1)" using less by (intro less.hyps) auto
    then show ?thesis using month_start_next [of 0 "b - 1"] by simp
  qed simp
qed

lemma same_month_end:
  assumes "s = month_start (Year t) (Month t)"
  shows "month_start (Year s) (Month s + 1) = month_start (Year t) (Month t + 1)"
proof -
  define a b where "a = 12 * Year t + Month t" and "b = 12 * Year s + Month s"
  have s: "s = month_start 0 a" unfolding assms a_def by (rule month_start_index)
  have "month_start 0 b \<le> s" "s < month_start 0 (b + 1)"
    using month_contains [of s] month_start_index [of "Year s"] by (simp_all add: b_def add.assoc)
  then have "a = b" using month_start_mono [of a b] month_start_mono [of b a] month_start_next [of 0 a] s by linarith
  then show ?thesis
    unfolding month_start_index [of "Year s"] month_start_index [of "Year t"] by (simp add: a_def b_def flip: add.assoc)
qed

end
