(* ===== verification/Agent_Access.thy ===== *)
theory Agent_Access
  imports Teams Go_Sha256 Go_Time
begin

text \<open>
  Which agents an account may use: the scope of an agent's credential and the access of an account
  (\<open>api/network_access.go\<close>), resource classes (\<open>api/agent_routes.go\<close>), and the enrolment of team agents
  with the administrator's decision (\<open>api/team_agent_enrollments.go\<close>). The handlers run on the store
  of teams and members. \<open>now\<close> arguments are clock readings.
\<close>

section \<open>Scope of a credential\<close>

definition TrimPrefix :: "string \<Rightarrow> string \<Rightarrow> string" where
  "TrimPrefix s p = (if HasPrefix s p then drop (length p) s else s)"

definition lower_or_digit :: "char \<Rightarrow> bool" where
  "lower_or_digit c \<longleftrightarrow> CHR ''a'' \<le> c \<and> c \<le> CHR ''z'' \<or> CHR ''0'' \<le> c \<and> c \<le> CHR ''9''"

text \<open>\<open>^[a-z0-9][a-z0-9-]{0,62}$\<close>\<close>

definition networkTeamIDPattern :: "string \<Rightarrow> bool" where
  "networkTeamIDPattern s =
     (case s of [] \<Rightarrow> False
      | c # cs \<Rightarrow> lower_or_digit c \<and> list_all (\<lambda>c. lower_or_digit c \<or> c = CHR ''-'') cs \<and> length cs \<le> 62)"

text \<open>The loop of \<open>agentNetworkScope\<close>; \<open>None\<close> is the early return of a refused credential.\<close>

definition misspelled_scope :: "string \<Rightarrow> bool" where
  "misspelled_scope g \<longleftrightarrow>
     (let lower = ToLower g in
      HasPrefix lower ''team-admin:'' \<or> HasPrefix lower ''team:'' \<and> \<not> HasPrefix g ''team:'' \<or>
      lower = ''access:dedicated-only'' \<and> g \<noteq> lower)"

fun scope_loop :: "string list \<Rightarrow> string \<Rightarrow> bool \<Rightarrow> (string \<times> bool) option" where
  "scope_loop [] team dedicated = Some (team, dedicated)"
| "scope_loop (g # groups) team dedicated =
     (let g = TrimSpace g in
      if misspelled_scope g then None
      else
        let dedicated = (g = ''access:dedicated-only'' \<or> dedicated) in
        if HasPrefix g ''team:'' then
          (let i = TrimPrefix g ''team:'' in
           if \<not> networkTeamIDPattern i \<or> team \<noteq> [] \<and> team \<noteq> i then None
           else scope_loop groups i dedicated)
        else scope_loop groups team dedicated)"

definition agentNetworkScope :: "string list \<Rightarrow> string \<times> bool" where
  "agentNetworkScope groups =
     (case scope_loop groups [] False of
        None \<Rightarrow> ([], False)
      | Some (team, dedicated) \<Rightarrow> (team, \<not> dedicated \<or> team \<noteq> []))"

section \<open>Access of an account\<close>

record networkAccess =
  na_AccountID :: string
  na_Configured :: bool
  na_Mode :: string
  na_TeamID :: string
  na_Team :: "NetworkTeam option"
  na_Role :: string
  na_Allowed :: bool

definition accessFromNetworkMembership :: "NetworkMembership \<Rightarrow> NetworkTeam list \<Rightarrow> time \<Rightarrow> networkAccess" where
  "accessFromNetworkMembership member teams now =
     (let access = \<lparr>na_AccountID = [], na_Configured = nm_Configured member, na_Mode = ''personal'', na_TeamID = [],
                    na_Team = None, na_Role = [], na_Allowed = True\<rparr> in
      if \<not> nm_DedicatedOnly member \<and> nm_TeamID member = [] then access
      else
        let access = access\<lparr>na_Mode := ''dedicated'', na_TeamID := nm_TeamID member, na_Allowed := False\<rparr> in
        case find (\<lambda>team. nt_ID team = nm_TeamID member) teams of
          None \<Rightarrow> access
        | Some team \<Rightarrow>
            access\<lparr>na_Team := Some team,
                   na_Allowed := (nt_Active team \<and> \<not> now < nt_ValidFrom team \<and> now < nt_ValidUntil team)\<rparr>)"

definition networkAccessFor :: "time \<Rightarrow> string \<Rightarrow> 'z team_store_scheme \<Rightarrow> networkAccess" where
  "networkAccessFor now userID s =
     (let member = GetNetworkMembership userID s in
      if \<not> nm_DedicatedOnly member \<and> nm_TeamID member = []
      then (accessFromNetworkMembership member [] now)\<lparr>na_AccountID := userID\<rparr>
      else (accessFromNetworkMembership member (ListNetworkTeams s) now)\<lparr>na_AccountID := userID\<rparr>)"

text \<open>\<open>blocked\<close> is the result of \<open>ListProxyBlockedAccountUUIDs\<close>, the accounts whose access is paused.\<close>

definition networkAccessForUser ::
  "time \<Rightarrow> string list \<Rightarrow> User \<Rightarrow> 'z team_store_scheme \<Rightarrow> networkAccess" where
  "networkAccessForUser now blocked user s =
     (let access = networkAccessFor now (us_ID user) s in
      if \<not> us_Active user \<or> \<not> AccountAccessVerified user \<and> \<not> EqualFold (us_Email user) ''sandbox@svc.plus''
      then access\<lparr>na_Allowed := False\<rparr>
      else if us_ID user \<in> set blocked then access\<lparr>na_Allowed := False\<rparr> else access)"

definition networkScopeAllows :: "networkAccess \<Rightarrow> string list \<Rightarrow> bool" where
  "networkScopeAllows access groups =
     (let (team, valid) = agentNetworkScope groups in
      if \<not> valid \<or> \<not> na_Allowed access then False
      else if na_Mode access = ''dedicated'' then na_TeamID access \<noteq> [] \<and> team = na_TeamID access
      else team = [])"

section \<open>Resource classes\<close>

text \<open>\<open>agentproto.UserScope\<close>.\<close>

record UserScope =
  sc_EmailPolicy :: string
  sc_EmailDigest :: string
  sc_CustomAllowFree :: bool
  sc_ResourceClass :: string
  sc_TeamID :: string

definition effectiveAgentResourceClass :: "networkAccess \<Rightarrow> User \<Rightarrow> string \<Rightarrow> string" where
  "effectiveAgentResourceClass access user packageName =
     (if na_Mode access = ''dedicated'' then ''team''
      else
        let grp = MonthlyQuotaGroup user;
            paid = (grp = MonthlyPlusQuotaLimitGroup \<or> grp = MonthlyUnlimitedBetaQuotaGroup) in
        if EqualFold (TrimSpace packageName) ''pro'' \<and> paid then ''pro''
        else if paid then ''plus'' else ''free'')"

definition class_rank :: "string \<Rightarrow> nat option" where
  "class_rank = map_of [(''free'', 1), (''plus'', 2), (''pro'', 3)]"

definition publicAgentResourceClassAllows :: "string \<Rightarrow> string \<Rightarrow> bool" where
  "publicAgentResourceClassAllows poolClass userClass =
     (case class_rank userClass of
        None \<Rightarrow> False
      | Some userRank \<Rightarrow>
          if poolClass = ''shared'' then True
          else case class_rank poolClass of None \<Rightarrow> False | Some poolRank \<Rightarrow> userRank \<ge> poolRank)"

definition agentResourceScopeAllowsUser :: "UserScope \<Rightarrow> networkAccess \<Rightarrow> User \<Rightarrow> string \<Rightarrow> bool" where
  "agentResourceScopeAllowsUser scope access user packageName =
     (if sc_ResourceClass scope = ''team'' then na_Mode access = ''dedicated'' \<and> na_TeamID access = sc_TeamID scope
      else if na_Mode access = ''dedicated'' then False
      else
        let cls = effectiveAgentResourceClass access user packageName in
        if sc_ResourceClass scope = ''custom''
        then cls = ''plus'' \<or> cls = ''pro'' \<or> sc_CustomAllowFree scope \<and> cls = ''free''
        else publicAgentResourceClassAllows (sc_ResourceClass scope) cls)"

text \<open>\<open>None\<close> is a nil user.\<close>

definition agentEmailAllowed :: "string list \<Rightarrow> User option \<Rightarrow> bool" where
  "agentEmailAllowed emails user =
     (if emails = [] then True
      else case user of None \<Rightarrow> False
      | Some u \<Rightarrow> list_ex (\<lambda>email. EqualFold (TrimSpace email) (TrimSpace (us_Email u)) \<and> TrimSpace email \<noteq> []) emails)"

section \<open>Reports of agents\<close>

text \<open>\<open>agentserver.Identity\<close> and the types of \<open>internal/agentproto/types.go\<close>.\<close>

record AgentIdentity =
  ai_NodeID :: string
  ai_AllowedEmails :: "string list"
  ai_ID :: string
  ai_Name :: string
  ai_Groups :: "string list"

record OverlayPath =
  vp_SentPackets :: "64 word"
  vp_ReceivedPackets :: "64 word"
  vp_DeviceID :: string
  vp_Path :: string
  vp_Endpoint :: string
  vp_RTTMillis :: int
  vp_Reason :: string

record OverlayStatus =
  vs_NetworkID :: string
  vs_DeviceID :: string
  vs_Role :: string
  vs_Capabilities :: "string list"
  vs_Healthy :: bool
  vs_UpdatedAt :: time
  vs_ExpiresAt :: time
  vs_Paths :: "OverlayPath list"

record XrayStatus =
  xr_CustomAllowFree :: bool
  xr_AllowedEmails :: "string list"
  xr_Running :: bool
  xr_Clients :: int
  xr_LastSync :: "time option"
  xr_ConfigHash :: string
  xr_NodeID :: string
  xr_NetworkID :: string
  xr_Region :: string
  xr_Pool :: string
  xr_EntryPoint :: string
  xr_OpenToUsers :: "bool option"
  xr_LineCode :: string
  xr_PricingGroup :: string
  xr_StatsEnabled :: bool
  xr_XrayRevision :: string

record StatusReport =
  rp_Overlay :: "OverlayStatus option"
  rp_AgentID :: string
  rp_Role :: string
  rp_Healthy :: bool
  rp_Message :: string
  rp_Users :: int
  rp_SyncRevision :: string
  rp_Xray :: XrayStatus

record StatusSnapshot =
  ss_Agent :: AgentIdentity
  ss_Report :: StatusReport
  ss_UpdatedAt :: time

section \<open>Enrolment of team agents\<close>

definition managedTeam :: "string list \<Rightarrow> bool" where
  "managedTeam groups \<longleftrightarrow> ''enrollment:team'' \<in> set groups"

definition enrollmentGroups :: "TeamAgentEnrollment \<Rightarrow> string list" where
  "enrollmentGroups e =
     (if te_Status e = ''approved'' then [''enrollment:team'', ''team:'' @ te_AssignedTeamID e]
      else [''enrollment:team'', ''access:dedicated-only''])"

definition enrollmentRevision :: "TeamAgentEnrollment \<Rightarrow> string" where
  "enrollmentRevision e =
     ''enrollment-'' @ EncodeToString (Sum256 (te_AgentID e @ [CHR 0x00] @ te_Status e @ [CHR 0x00] @
       te_AssignedTeamID e @ [CHR 0x00] @ RFC3339Nano (te_UpdatedAt e)))"

definition synced_after :: "time \<Rightarrow> StatusReport \<Rightarrow> bool" where
  "synced_after t report =
     (rp_Healthy report \<and> xr_Running (rp_Xray report) \<and> (case xr_LastSync (rp_Xray report) of None \<Rightarrow> False | Some sync \<Rightarrow> sync > t))"

definition enrolled_snapshot :: "(string, TeamAgentEnrollment) gomap \<Rightarrow> StatusSnapshot \<Rightarrow> StatusSnapshot" where
  "enrolled_snapshot entries snap =
     (let found = gm_get entries (ai_ID (ss_Agent snap));
          snap = (case found of None \<Rightarrow> snap
                  | Some e \<Rightarrow> snap\<lparr>ss_Agent := (ss_Agent snap)\<lparr>ai_Groups := enrollmentGroups e\<rparr>\<rparr>)
      in if found \<noteq> None \<or> managedTeam (ai_Groups (ss_Agent snap)) then
           (let ready = (case found of None \<Rightarrow> False
                         | Some e \<Rightarrow> te_Status e = ''approved'' \<and> synced_after (te_UpdatedAt e) (ss_Report snap) \<and>
                             HasPrefix (rp_SyncRevision (ss_Report snap)) (enrollmentRevision e @ ''-''))
            in if ready then snap
               else snap\<lparr>ss_Report := (ss_Report snap)\<lparr>rp_Xray := (rp_Xray (ss_Report snap))\<lparr>xr_OpenToUsers := Some False\<rparr>\<rparr>,
                         ss_Agent := (ss_Agent snap)\<lparr>ai_Groups := [''enrollment:team'', ''access:dedicated-only'']\<rparr>\<rparr>)
         else snap)"

text \<open>\<open>None\<close> is a handler without a status reader.\<close>

definition enrollmentStatusReader :: "StatusSnapshot list option \<Rightarrow> 'z team_store_scheme \<Rightarrow> StatusSnapshot list" where
  "enrollmentStatusReader statuses s =
     (case statuses of None \<Rightarrow> []
      | Some snapshots \<Rightarrow>
          let entries = foldl (\<lambda>m e. gm_put (te_AgentID e) e m) [] (ListTeamAgents s)
          in map (enrolled_snapshot entries) snapshots)"

definition networkStatusReader ::
  "networkAccess \<Rightarrow> StatusSnapshot list option \<Rightarrow> 'z team_store_scheme \<Rightarrow> StatusSnapshot list" where
  "networkStatusReader access statuses s =
     filter (\<lambda>snap. networkScopeAllows access (ai_Groups (ss_Agent snap))) (enrollmentStatusReader statuses s)"

section \<open>The administrator's decision\<close>

record decide_request =
  dr_AgentID :: string
  dr_Status :: string
  dr_TeamID :: string
  dr_Reason :: string
  dr_UpdatedAt :: time

definition enrollment_detail :: "TeamAgentEnrollment \<Rightarrow> detail" where
  "enrollment_detail e = DStruct
     [(''AgentID'', DVal (GString (te_AgentID e))), (''SuggestedTeamID'', DVal (GString (te_SuggestedTeamID e))),
      (''AssignedTeamID'', DVal (GString (te_AssignedTeamID e))), (''Status'', DVal (GString (te_Status e))),
      (''DecidedBy'', DVal (GString (te_DecidedBy e))), (''Reason'', DVal (GString (te_Reason e))),
      (''UpdatedAt'', DTime (te_UpdatedAt e))]"

definition requireReason :: "string \<Rightarrow> (int \<times> string) + string" where
  "requireReason reason =
     (let trimmed = TrimSpace reason in
      if trimmed = [] then Inl (400, ''reason_required'')
      else if length trimmed > 500 then Inl (400, ''reason_too_long'')
      else Inr trimmed)"

text \<open>A report that the agent has applied the empty authorization of a withdrawn enrolment.\<close>

definition cleared_report :: "TeamAgentEnrollment \<Rightarrow> StatusSnapshot \<Rightarrow> bool" where
  "cleared_report old snap \<longleftrightarrow>
     ai_ID (ss_Agent snap) = te_AgentID old \<and> rp_SyncRevision (ss_Report snap) = enrollmentRevision old \<and>
     rp_Users (ss_Report snap) = 0 \<and> xr_Clients (rp_Xray (ss_Report snap)) = 0 \<and>
     synced_after (te_UpdatedAt old) (ss_Report snap) \<and> ss_UpdatedAt snap > te_UpdatedAt old"

text \<open>The checks of an approval; \<open>None\<close> lets it pass.\<close>

definition approval_error ::
  "decide_request \<Rightarrow> TeamAgentEnrollment \<Rightarrow> StatusSnapshot list option \<Rightarrow> 'z team_store_scheme \<Rightarrow>
   (int \<times> string) option" where
  "approval_error req old statuses s =
     (if \<not> networkTeamIDPattern (dr_TeamID req) then Some (400, ''invalid_team'')
      else if \<not> list_ex (\<lambda>t. nt_ID t = dr_TeamID req) (ListNetworkTeams s) then Some (404, ''network_target_not_found'')
      else if te_Status old = ''approved'' \<and> te_AssignedTeamID old \<noteq> dr_TeamID req
      then Some (409, ''network_withdrawal_required'')
      else if te_Status old \<noteq> ''approved'' \<and> te_AssignedTeamID old \<noteq> [] \<and>
              \<not> (case statuses of None \<Rightarrow> False | Some snaps \<Rightarrow> list_ex (cleared_report old) snaps)
      then Some (409, ''network_withdrawal_required'')
      else None)"

text \<open>
  The handler after \<open>requireAdminPermission\<close> has returned \<open>actor\<close>; \<open>arg\<close> is the body, \<open>None\<close> when it
  cannot be bound. The result is the status and the error code, empty on success.
\<close>

definition adminDecideTeamAgent ::
  "time \<Rightarrow> User \<Rightarrow> decide_request option \<Rightarrow> StatusSnapshot list option \<Rightarrow> 'z team_store_scheme \<Rightarrow>
   'z team_store_scheme \<times> int \<times> string" where
  "adminDecideTeamAgent now actor arg statuses s =
     (if \<not> IsRootRole (us_Role actor) then (s, 403, ''root_required'')
      else case arg of None \<Rightarrow> (s, 400, ''invalid_request'') | Some req \<Rightarrow>
      case requireReason (dr_Reason req) of Inl e \<Rightarrow> (s, e) | Inr reason \<Rightarrow>
      if dr_Status req \<noteq> ''approved'' \<and> dr_Status req \<noteq> ''rejected'' \<and> dr_Status req \<noteq> ''revoked''
      then (s, 400, ''invalid_request'')
      else case find (\<lambda>e. te_AgentID e = dr_AgentID req) (ListTeamAgents s) of
        None \<Rightarrow> (s, 404, ''agent_not_found'')
      | Some old \<Rightarrow>
          if te_AgentID old = [] then (s, 404, ''agent_not_found'')
          else if te_UpdatedAt old \<noteq> dr_UpdatedAt req then (s, 409, ''agent_enrollment_conflict'')
          else case (if dr_Status req = ''approved'' then approval_error req old statuses s else None) of
            Some e \<Rightarrow> (s, e)
          | None \<Rightarrow>
              let enr = old\<lparr>te_Status := dr_Status req, te_DecidedBy := us_ID actor, te_Reason := reason\<rparr>;
                  enr = (if dr_Status req = ''approved'' then enr\<lparr>te_AssignedTeamID := dr_TeamID req\<rparr> else enr);
                  audit = \<lparr>al_UUID = [], al_Action = ''network.agent.assignment'', al_ActorUUID = us_ID actor,
                    al_Details = Some [(''reason'', DVal (GString reason)), (''before'', enrollment_detail old),
                                       (''after'', enrollment_detail enr)], al_CreatedAt = 0\<rparr>
              in case DecideTeamAgent now enr (te_UpdatedAt old) audit s of
                   (s', Inr _) \<Rightarrow> (s', 200, [])
                 | (s', Inl e) \<Rightarrow>
                     if e = ErrTeamAgentConflict then (s', 409, ''agent_enrollment_conflict'')
                     else (s', 503, ''agent_enrollment_unavailable''))"

end
