(* ===== verification/Agent_Properties.thy ===== *)
theory Agent_Properties
  imports Agent_Access Team_Properties
begin

text \<open>
  What access to agents guarantees: an account sees only agents of its own team, or public ones if it
  has no team, and a team agent changes teams only after it has reported to serve nobody.
\<close>

section \<open>Teams, enrolments and decisions as one state machine\<close>

datatype access_op = OpTeam team_op | OpDecision time User "decide_request option" "StatusSnapshot list option"

fun access_exec :: "access_op \<Rightarrow> 'z team_store_scheme \<Rightarrow> 'z team_store_scheme" where
  "access_exec (OpTeam opn) s = team_exec opn s"
| "access_exec (OpDecision n u r st) s = fst (adminDecideTeamAgent n u r st s)"

text \<open>Enrolments are decided on by the handler only.\<close>

definition by_handler :: "access_op \<Rightarrow> bool" where
  "by_handler opn = (case opn of OpTeam (OpDecideAgent _ _ _ _) \<Rightarrow> False | _ \<Rightarrow> True)"

definition enrollment_ok :: "(string, NetworkTeam) gomap \<Rightarrow> TeamAgentEnrollment \<Rightarrow> bool" where
  "enrollment_ok teams e \<longleftrightarrow> (te_Status e = ''approved'' \<longrightarrow> networkTeamIDPattern (te_AssignedTeamID e) \<and> gm_has teams (te_AssignedTeamID e))"

definition agents_ok :: "'z team_store_scheme \<Rightarrow> bool" where
  "agents_ok s \<longleftrightarrow> gm_wf (teamAgentEnrollments s) \<and> gm_wf (networkTeams s) \<and>
     (\<forall>i e. gm_get (teamAgentEnrollments s) i = Some e \<longrightarrow> te_AgentID e = i \<and> enrollment_ok (networkTeams s) e) \<and>
     (\<forall>t team. gm_get (networkTeams s) t = Some team \<longrightarrow> nt_ID team = t)"

definition access_inv :: "'z team_store_scheme \<Rightarrow> bool" where
  "access_inv s \<longleftrightarrow> team_inv s \<and> agents_ok s"

lemma agents_okD:
  assumes "agents_ok s"
  shows "gm_wf (teamAgentEnrollments s)" "gm_wf (networkTeams s)"
    "gm_get (teamAgentEnrollments s) i = Some e \<Longrightarrow> te_AgentID e = i \<and> enrollment_ok (networkTeams s) e"
    "gm_get (networkTeams s) t = Some team \<Longrightarrow> nt_ID team = t"
  using assms unfolding agents_ok_def by blast+

lemma agents_ok_same:
  "teamAgentEnrollments s' = teamAgentEnrollments s \<Longrightarrow> networkTeams s' = networkTeams s \<Longrightarrow> agents_ok s' = agents_ok s"
  by (simp only: agents_ok_def)

lemma agents_ok_team:
  assumes "agents_ok s" "teamAgentEnrollments s' = teamAgentEnrollments s" "networkTeams s' = gm_put (nt_ID t) t (networkTeams s)"
  shows "agents_ok s'"
  using assms unfolding agents_ok_def enrollment_ok_def assms(2,3) by auto

lemma agents_ok_enrollment:
  assumes "agents_ok s" "enrollment_ok (networkTeams s) e" "te_AgentID e = i"
    "teamAgentEnrollments s' = gm_put i e (teamAgentEnrollments s)" "networkTeams s' = networkTeams s"
  shows "agents_ok s'"
  using assms unfolding agents_ok_def assms(4,5) by auto

section \<open>The lists of the store\<close>

lemma find_by_key:
  assumes "gm_wf m" "\<And>k v. gm_get m k = Some v \<Longrightarrow> key v = k" "set xs = set (gm_vals m)"
  shows "find (\<lambda>v. key v = i) xs = gm_get m i"
proof (cases "find (\<lambda>v. key v = i) xs")
  case None
  then have none: "\<not> (\<exists>v. v \<in> set (gm_vals m) \<and> key v = i)" unfolding find_None_iff assms(3) .
  show ?thesis
  proof (cases "gm_get m i")
    case (Some v)
    then show ?thesis using none assms(2) [OF Some] gm_get_vals [OF Some] by blast
  qed (simp add: None)
next
  case (Some v)
  then obtain k where "gm_get m k = Some v" "key v = i"
    using find_SomeD [OF Some] gm_vals_get [OF assms(1), of v] assms(3) by blast
  then show ?thesis using assms(2) [of k v] Some by simp
qed

lemma find_enrollment:
  "agents_ok s \<Longrightarrow> find (\<lambda>e. te_AgentID e = i) (ListTeamAgents s) = gm_get (teamAgentEnrollments s) i"
  by (rule find_by_key) (simp_all add: agents_okD ListTeamAgents_def)

lemma find_team: "agents_ok s \<Longrightarrow> find (\<lambda>t. nt_ID t = i) (ListNetworkTeams s) = gm_get (networkTeams s) i"
  by (rule find_by_key) (simp_all add: agents_okD ListNetworkTeams_def)

lemma team_listed: "agents_ok s \<Longrightarrow> list_ex (\<lambda>t. nt_ID t = i) (ListNetworkTeams s) \<longleftrightarrow> gm_has (networkTeams s) i"
  using find_team [of s i] find_None_iff [of "\<lambda>t. nt_ID t = i" "ListNetworkTeams s"] unfolding list_ex_iff by force

text \<open>The map of the entries that the status reader builds.\<close>

lemma entries_fold:
  assumes "distinct (map f xs)"
  shows "gm_get (foldl (\<lambda>m e. gm_put (f e) e m) m xs) i = (case find (\<lambda>e. f e = i) xs of None \<Rightarrow> gm_get m i | Some e \<Rightarrow> Some e)"
  using assms
proof (induction xs arbitrary: m)
  case (Cons x xs)
  have "f x = i \<Longrightarrow> find (\<lambda>e. f e = i) xs = None" using Cons.prems by (auto simp: find_None_iff image_iff)
  then show ?case using Cons by (auto split: option.split)
qed simp

lemma agent_ids_distinct:
  assumes "agents_ok s" shows "distinct (map te_AgentID (ListTeamAgents s))"
proof -
  have "map te_AgentID (gm_vals (teamAgentEnrollments s)) = map fst (teamAgentEnrollments s)"
    using agents_okD(1,3) [OF assms] by (auto intro!: map_cong)
  then have "distinct (map te_AgentID (gm_vals (teamAgentEnrollments s)))" using agents_okD(1) [OF assms] by (simp only: )
  then show ?thesis
    by (metis ListTeamAgents_def distinct_map distinct_sort set_sort)
qed

lemma entries_get:
  assumes "agents_ok s"
  shows "gm_get (foldl (\<lambda>m e. gm_put (te_AgentID e) e m) [] (ListTeamAgents s)) i = gm_get (teamAgentEnrollments s) i"
  using entries_fold [OF agent_ids_distinct [OF assms]] find_enrollment [OF assms] by (simp split: option.split)

section \<open>Decisions\<close>

text \<open>What an accepted decision has checked and stored.\<close>

definition decided ::
  "User \<Rightarrow> decide_request \<Rightarrow> StatusSnapshot list option \<Rightarrow> 'z team_store_scheme \<Rightarrow> 'z team_store_scheme \<Rightarrow> bool" where
  "decided actor req statuses s s' \<longleftrightarrow>
     (\<exists>old enr. gm_get (teamAgentEnrollments s) (te_AgentID old) = Some old \<and> te_AgentID enr = te_AgentID old \<and>
        IsRootRole (us_Role actor) \<and> te_Status enr = dr_Status req \<and>
        te_AssignedTeamID enr = (if dr_Status req = ''approved'' then dr_TeamID req else te_AssignedTeamID old) \<and>
        (dr_Status req = ''approved'' \<longrightarrow> approval_error req old statuses s = None) \<and>
        teamAgentEnrollments s' = gm_put (te_AgentID old) enr (teamAgentEnrollments s) \<and>
        networkTeams s' = networkTeams s \<and> networkMembers s' = networkMembers s)"

lemma DecideTeamAgent_cases:
  assumes "DecideTeamAgent now e expected audit s = (s', r)"
  shows "s' = s \<or> (\<exists>t. teamAgentEnrollments s' = gm_put (te_AgentID e) (e\<lparr>te_UpdatedAt := t\<rparr>) (teamAgentEnrollments s) \<and>
    networkTeams s' = networkTeams s \<and> networkMembers s' = networkMembers s)"
  using assms by (auto simp: DecideTeamAgent_def Let_def split: option.splits if_splits)

lemma decided_step:
  assumes "agents_ok s" and root: "IsRootRole (us_Role actor)"
    and old: "find (\<lambda>e. te_AgentID e = dr_AgentID req) (ListTeamAgents s) = Some old"
    and ok: "(if dr_Status req = ''approved'' then approval_error req old statuses s else None) = None"
    and enr: "enr = (if dr_Status req = ''approved'' then enr1\<lparr>te_AssignedTeamID := dr_TeamID req\<rparr> else enr1)"
      "enr1 = old\<lparr>te_Status := dr_Status req, te_DecidedBy := us_ID actor, te_Reason := reason\<rparr>"
    and d: "DecideTeamAgent now enr (te_UpdatedAt old) audit s = (s', r)"
  shows "s' = s \<or> decided actor req statuses s s'"
proof (rule disjE [OF DecideTeamAgent_cases [OF d]])
  have get: "gm_get (teamAgentEnrollments s) (te_AgentID old) = Some old"
    using old find_enrollment [OF assms(1), of "dr_AgentID req"] agents_okD(3) [OF assms(1), of "dr_AgentID req" old] by simp
  have e: "te_AgentID enr = te_AgentID old" "te_Status enr = dr_Status req"
    "te_AssignedTeamID enr = (if dr_Status req = ''approved'' then dr_TeamID req else te_AssignedTeamID old)"
    by (simp_all add: enr)
  assume "\<exists>t. teamAgentEnrollments s' = gm_put (te_AgentID enr) (enr\<lparr>te_UpdatedAt := t\<rparr>) (teamAgentEnrollments s) \<and>
    networkTeams s' = networkTeams s \<and> networkMembers s' = networkMembers s"
  then obtain t where "teamAgentEnrollments s' = gm_put (te_AgentID enr) (enr\<lparr>te_UpdatedAt := t\<rparr>) (teamAgentEnrollments s)"
    "networkTeams s' = networkTeams s" "networkMembers s' = networkMembers s" by blast
  then show ?thesis
    unfolding decided_def by (intro disjI2 exI [of _ old] exI [of _ "enr\<lparr>te_UpdatedAt := t\<rparr>"])
      (use root get ok e in \<open>simp split: if_splits\<close>)
qed simp

lemma decision_cases:
  assumes "agents_ok s"
  shows "post (\<lambda>(s', r). s' = s \<or> (\<exists>req. arg = Some req \<and> decided actor req statuses s s')) (adminDecideTeamAgent now actor arg statuses s)"
  unfolding adminDecideTeamAgent_def
  by (intro branches) (simp_all add: post_def decided_step [OF assms] split: prod.split)

lemma approvalD:
  assumes "agents_ok s" "approval_error req old statuses s = None"
  shows "networkTeamIDPattern (dr_TeamID req) \<and> gm_has (networkTeams s) (dr_TeamID req) \<and>
    (te_AssignedTeamID old \<noteq> [] \<longrightarrow> te_AssignedTeamID old \<noteq> dr_TeamID req \<longrightarrow>
      te_Status old \<noteq> ''approved'' \<and> (\<exists>snaps. statuses = Some snaps \<and> (\<exists>snap \<in> set snaps. cleared_report old snap)))"
  using assms(2) unfolding approval_error_def team_listed [OF assms(1)]
  by (auto simp: list_ex_iff split: if_splits option.splits)

lemma decided_inv:
  assumes "access_inv s" "decided actor req statuses s s'" shows "access_inv s'"
proof -
  have ok: "agents_ok s" and "team_inv s" using assms(1) by (simp_all add: access_inv_def)
  from assms(2) obtain old enr where get: "gm_get (teamAgentEnrollments s) (te_AgentID old) = Some old" "te_AgentID enr = te_AgentID old"
      "te_Status enr = dr_Status req" "te_AssignedTeamID enr = (if dr_Status req = ''approved'' then dr_TeamID req else te_AssignedTeamID old)"
      "dr_Status req = ''approved'' \<longrightarrow> approval_error req old statuses s = None"
    and s': "teamAgentEnrollments s' = gm_put (te_AgentID old) enr (teamAgentEnrollments s)"
      "networkTeams s' = networkTeams s" "networkMembers s' = networkMembers s"
    unfolding decided_def by blast
  have "enrollment_ok (networkTeams s) enr"
    using get(3-5) approvalD [OF ok, of req old statuses] unfolding enrollment_ok_def by auto
  then have "agents_ok s'" by (rule agents_ok_enrollment [OF ok _ get(2) s'(1,2)])
  moreover have "team_inv s'" using \<open>team_inv s\<close> by (simp add: team_inv_cong [OF s'(2,3)])
  ultimately show ?thesis by (simp add: access_inv_def)
qed

lemma access_inv_step:
  assumes "access_inv s" "by_handler opn" shows "access_inv (access_exec opn s)"
proof (cases opn)
  case (OpDecision n u r st)
  from post_fst [OF decision_cases [of s r u st n]] assms(1) show ?thesis
    unfolding OpDecision access_exec.simps using decided_inv [OF assms(1)] by (auto simp: access_inv_def)
next
  case (OpTeam x)
  have ok: "agents_ok s" and inv: "team_inv (team_exec x s)"
    using assms(1) team_inv_step [of s x] by (simp_all add: access_inv_def)
  have "agents_ok (team_exec x s)"
  proof (cases x)
    case (OpMember y)
    then show ?thesis using ok by (simp add: agents_ok_same [OF user_exec_team(1,2)])
  next
    case (OpPutTeam t a)
    then show ?thesis using ok by (auto simp: PutNetworkTeam_def intro!: agents_ok_team [OF ok])
  next
    case (OpPutMembership m a)
    have teams: "networkTeams (fst (PutNetworkMembership m a s)) = networkTeams s"
      by (simp add: PutNetworkMembership_def Let_def split: option.split)
    show ?thesis using ok OpPutMembership by (simp add: agents_ok_same [OF agents_same(2) teams])
  next
    case (OpRegisterAgent n i g)
    let ?e = "\<lparr>te_AgentID = i, te_SuggestedTeamID = g, te_AssignedTeamID = [], te_Status = ''pending'',
      te_DecidedBy = [], te_Reason = [], te_UpdatedAt = n\<rparr>"
    have "agents_ok (s\<lparr>teamAgentEnrollments := gm_put i ?e (teamAgentEnrollments s)\<rparr>)"
      by (rule agents_ok_enrollment [OF ok, of ?e]) (simp_all add: enrollment_ok_def)
    then show ?thesis using ok OpRegisterAgent by (simp add: RegisterTeamAgent_def Let_def split: option.split)
  next
    case (OpDecideAgent n e t a)
    then show ?thesis using assms(2) OpTeam by (simp add: by_handler_def)
  qed
  then show ?thesis using inv OpTeam by (simp add: access_inv_def)
qed

interpretation acc: guarded_invariant access_exec "newTeamStore allow" access_inv by_handler
  by unfold_locales (simp add: access_inv_def team_inv_def agents_ok_def, rule access_inv_step)

definition after_access :: "bool \<Rightarrow> access_op list \<Rightarrow> team_store" where
  "after_access allow ops = exec_all access_exec ops (newTeamStore allow)"

lemma after_access_inv: "list_all by_handler ops \<Longrightarrow> access_inv (after_access allow ops)"
  unfolding after_access_def by (rule acc.guarded_run [OF acc.guarded_init])

section \<open>Isolation of teams\<close>

lemma networkAccessFor_personal:
  "\<not> nm_DedicatedOnly (membership u s) \<Longrightarrow> nm_TeamID (membership u s) = [] \<Longrightarrow>
   na_Mode (networkAccessFor now u s) = ''personal''"
  by (simp add: networkAccessFor_def GetNetworkMembership_def accessFromNetworkMembership_def Let_def)

lemma networkAccessFor_dedicated:
  assumes "agents_ok s" "nm_DedicatedOnly (membership u s) \<or> nm_TeamID (membership u s) \<noteq> []"
  shows "na_Mode (networkAccessFor now u s) = ''dedicated'' \<and> na_TeamID (networkAccessFor now u s) = nm_TeamID (membership u s) \<and>
    (na_Allowed (networkAccessFor now u s) \<longrightarrow> (\<exists>team. gm_get (networkTeams s) (nm_TeamID (membership u s)) = Some team \<and>
       nt_Active team \<and> nt_ValidFrom team \<le> now \<and> now < nt_ValidUntil team))"
proof -
  have "find (\<lambda>t. nt_ID t = nm_TeamID (membership u s)) (ListNetworkTeams s) = gm_get (networkTeams s) (nm_TeamID (membership u s))"
    by (rule find_team [OF assms(1)])
  then show ?thesis
    using assms(2) by (auto simp: networkAccessFor_def GetNetworkMembership_def accessFromNetworkMembership_def Let_def split: option.split)
qed

text \<open>An agent that is let in has exactly the scope of the account's team.\<close>

lemma scope_of_access:
  assumes "agents_ok s" "networkScopeAllows (networkAccessFor now u s) groups"
  shows "agentNetworkScope groups = (nm_TeamID (membership u s), True) \<and>
    (nm_TeamID (membership u s) \<noteq> [] \<longrightarrow> (\<exists>team. gm_get (networkTeams s) (nm_TeamID (membership u s)) = Some team \<and>
       nt_Active team \<and> nt_ValidFrom team \<le> now \<and> now < nt_ValidUntil team))"
proof (cases "nm_DedicatedOnly (membership u s) \<or> nm_TeamID (membership u s) \<noteq> []")
  case True
  then show ?thesis
    using networkAccessFor_dedicated [OF assms(1) True, of now] assms(2)
    by (cases "agentNetworkScope groups") (simp add: networkScopeAllows_def split: if_splits)
next
  case False
  then show ?thesis
    using networkAccessFor_personal [of u s now] assms(2)
    by (cases "agentNetworkScope groups") (simp add: networkScopeAllows_def split: if_splits)
qed

lemma closed_scope: "agentNetworkScope [''enrollment:team'', ''access:dedicated-only''] = ([], False)"
  by code_simp

definition team_char :: "char \<Rightarrow> bool" where
  "team_char c \<longleftrightarrow> lower_or_digit c \<or> c = CHR ''-''"

lemma team_char: "team_char c \<Longrightarrow> graphic c \<and> lower_byte c = c"
  by (auto simp: team_char_def lower_or_digit_def graphic_def lower_byte_def char_between_def less_eq_char_def less_char_def)

lemma team_id_chars: "networkTeamIDPattern t \<Longrightarrow> t \<noteq> [] \<and> list_all team_char t"
  by (auto simp: networkTeamIDPattern_def team_char_def list_all_iff split: list.splits)

lemma team_scope:
  assumes "networkTeamIDPattern t"
  shows "agentNetworkScope [''enrollment:team'', ''team:'' @ t] = (t, True)"
proof -
  have t: "t \<noteq> []" "list_all team_char t" using team_id_chars [OF assms] by simp_all
  have "graphic (last t)" using t team_char by (auto simp: list_all_iff)
  then have trim: "TrimSpace (''team:'' @ t) = ''team:'' @ t"
    using t(1) by (intro TrimSpace_plain) (simp add: plain_ends_def graphic_def less_char_def)
  have "map lower_byte t = t" using t(2) team_char by (auto simp: list_all_iff intro: map_idI)
  then have lower: "ToLower (''team:'' @ t) = ''team:'' @ t"
    by (simp add: ToLower_def lower_byte_def char_between_def less_eq_char_def)
  have own: "\<not> misspelled_scope (''team:'' @ t)" "HasPrefix (''team:'' @ t) ''team:''" "TrimPrefix (''team:'' @ t) ''team:'' = t"
    unfolding misspelled_scope_def lower by (simp_all add: HasPrefix_def starts_with_def TrimPrefix_def)
  have first: "scope_loop (''enrollment:team'' # gs) [] False = scope_loop gs [] False" for gs
  proof -
    have "TrimSpace ''enrollment:team'' = ''enrollment:team''" "\<not> misspelled_scope ''enrollment:team''"
      "\<not> HasPrefix ''enrollment:team'' ''team:''" by code_simp+
    then show ?thesis by (simp add: Let_def)
  qed
  have "scope_loop [''team:'' @ t] [] False = Some (t, ''team:'' @ t = ''access:dedicated-only'')"
    unfolding scope_loop.simps trim Let_def using own assms by simp
  then show ?thesis using t(1) unfolding agentNetworkScope_def first by (simp del: scope_loop.simps)
qed

text \<open>What the status reader says about an enrolled agent.\<close>

lemma enrolled_visible:
  assumes "gm_get entries (ai_ID (ss_Agent orig)) = Some e" "te_Status e = ''approved'' \<longrightarrow> networkTeamIDPattern (te_AssignedTeamID e)"
    "agentNetworkScope (ai_Groups (ss_Agent (enrolled_snapshot entries orig))) = (team, True)"
  shows "te_Status e = ''approved'' \<and> te_AssignedTeamID e = team \<and>
    synced_after (te_UpdatedAt e) (ss_Report (enrolled_snapshot entries orig)) \<and>
    HasPrefix (rp_SyncRevision (ss_Report (enrolled_snapshot entries orig))) (enrollmentRevision e @ ''-'')"
proof -
  define ready where "ready \<longleftrightarrow> te_Status e = ''approved'' \<and> synced_after (te_UpdatedAt e) (ss_Report orig) \<and>
    HasPrefix (rp_SyncRevision (ss_Report orig)) (enrollmentRevision e @ ''-'')"
  have snap: "enrolled_snapshot entries orig =
    (if ready then orig\<lparr>ss_Agent := (ss_Agent orig)\<lparr>ai_Groups := enrollmentGroups e\<rparr>\<rparr>
     else orig\<lparr>ss_Report := (ss_Report orig)\<lparr>rp_Xray := (rp_Xray (ss_Report orig))\<lparr>xr_OpenToUsers := Some False\<rparr>\<rparr>,
       ss_Agent := (ss_Agent orig)\<lparr>ai_Groups := [''enrollment:team'', ''access:dedicated-only'']\<rparr>\<rparr>)"
    unfolding enrolled_snapshot_def assms(1) ready_def by (simp add: Let_def)
  have ready using assms(3) closed_scope by (cases ready) (simp_all add: snap)
  then show ?thesis
    using assms(2,3) team_scope [of "te_AssignedTeamID e"] by (simp add: snap ready_def enrollmentGroups_def)
qed

lemma enrolled_ID [simp]: "ai_ID (ss_Agent (enrolled_snapshot entries snap)) = ai_ID (ss_Agent snap)"
  by (simp add: enrolled_snapshot_def Let_def split: option.split)

text \<open>
  C5: Teams are isolated from each other and from public accounts. After any run, the agents listed
  for an account are those whose scope is exactly the account's team, or the empty scope of public agents
  for an account without a team; the team is active and within its term. An enrolled
  agent among them is approved for this team and has reported to apply the
  authorization of that very decision; so nothing is listed from a pending, rejected, revoked or
  outdated enrolment, whatever groups the agent reports.
\<close>

theorem agent_team_isolation:
  assumes "list_all by_handler ops" "after_access allow ops = s"
    and "snap \<in> set (networkStatusReader (networkAccessFor now u s) statuses s)"
  shows "agentNetworkScope (ai_Groups (ss_Agent snap)) = (nm_TeamID (membership u s), True) \<and>
    (nm_TeamID (membership u s) \<noteq> [] \<longrightarrow> (\<exists>team. gm_get (networkTeams s) (nm_TeamID (membership u s)) = Some team \<and>
       nt_Active team \<and> nt_ValidFrom team \<le> now \<and> now < nt_ValidUntil team)) \<and>
    (\<forall>e. gm_get (teamAgentEnrollments s) (ai_ID (ss_Agent snap)) = Some e \<longrightarrow>
       te_Status e = ''approved'' \<and> te_AssignedTeamID e = nm_TeamID (membership u s) \<and>
       synced_after (te_UpdatedAt e) (ss_Report snap) \<and>
       HasPrefix (rp_SyncRevision (ss_Report snap)) (enrollmentRevision e @ ''-''))"
proof -
  have ok: "agents_ok s" using after_access_inv [OF assms(1)] assms(2) by (auto simp: access_inv_def)
  let ?entries = "foldl (\<lambda>m e. gm_put (te_AgentID e) e m) [] (ListTeamAgents s)"
  obtain orig where orig: "snap = enrolled_snapshot ?entries orig" and allows: "networkScopeAllows (networkAccessFor now u s) (ai_Groups (ss_Agent snap))"
    using assms(3) by (auto simp: networkStatusReader_def enrollmentStatusReader_def Let_def split: option.splits)
  note scope = scope_of_access [OF ok allows]
  have "te_Status e = ''approved'' \<and> te_AssignedTeamID e = nm_TeamID (membership u s) \<and> synced_after (te_UpdatedAt e) (ss_Report snap) \<and>
       HasPrefix (rp_SyncRevision (ss_Report snap)) (enrollmentRevision e @ ''-'')"
    if e: "gm_get (teamAgentEnrollments s) (ai_ID (ss_Agent snap)) = Some e" for e
    unfolding orig
  proof (rule enrolled_visible)
    show "gm_get ?entries (ai_ID (ss_Agent orig)) = Some e" using e by (simp add: entries_get [OF ok] orig)
    show "te_Status e = ''approved'' \<longrightarrow> networkTeamIDPattern (te_AssignedTeamID e)"
      using agents_okD(3) [OF ok e] by (simp add: enrollment_ok_def)
    show "agentNetworkScope (ai_Groups (ss_Agent (enrolled_snapshot ?entries orig))) = (nm_TeamID (membership u s), True)"
      using scope unfolding orig by blast
  qed
  then show ?thesis using scope by blast
qed

definition sample_identity :: "string \<Rightarrow> string list \<Rightarrow> AgentIdentity" where
  "sample_identity agent groups =
     \<lparr>ai_NodeID = [], ai_AllowedEmails = [], ai_ID = agent, ai_Name = [], ai_Groups = groups\<rparr>"

definition sample_report :: "string \<Rightarrow> time \<Rightarrow> StatusReport" where
  "sample_report revision sync = \<lparr>rp_Overlay = None, rp_AgentID = [], rp_Role = [], rp_Healthy = True, rp_Message = [],
     rp_Users = 0, rp_SyncRevision = revision, rp_Xray =
       \<lparr>xr_CustomAllowFree = False, xr_AllowedEmails = [], xr_Running = True, xr_Clients = 0, xr_LastSync = Some sync,
        xr_ConfigHash = [], xr_NodeID = [], xr_NetworkID = [], xr_Region = [], xr_Pool = [], xr_EntryPoint = [],
        xr_OpenToUsers = None, xr_LineCode = [], xr_PricingGroup = [], xr_StatsEnabled = False, xr_XrayRevision = []\<rparr>\<rparr>"

definition sample_snapshots :: "StatusSnapshot list" where
  "sample_snapshots =
     [\<lparr>ss_Agent = sample_identity ''a1'' [''team:t1''], ss_Report = sample_report [] 5, ss_UpdatedAt = 5\<rparr>,
      \<lparr>ss_Agent = sample_identity ''a2'' [], ss_Report = sample_report [] 5, ss_UpdatedAt = 5\<rparr>,
      \<lparr>ss_Agent = sample_identity ''a3'' [''team:t1'', ''enrollment:team''], ss_Report = sample_report [] 5, ss_UpdatedAt = 5\<rparr>]"

theorem agent_team_isolation_witness:
  "map (ai_ID \<circ> ss_Agent) (networkStatusReader (networkAccessFor 50 ''u1'' (after_access False (map OpTeam joined_ops)))
     (Some sample_snapshots) (after_access False (map OpTeam joined_ops))) = [''a1''] \<and>
   agentNetworkScope (ai_Groups (ss_Agent (hd sample_snapshots))) =
     (nm_TeamID (membership ''u1'' (after_access False (map OpTeam joined_ops))), True)"
proof -
  let ?s = "after_access False (map OpTeam joined_ops)"
  let ?l = "networkStatusReader (networkAccessFor 50 ''u1'' ?s) (Some sample_snapshots) ?s"
  have ok: "list_all by_handler (map OpTeam joined_ops)" by code_simp
  have l: "?l = [hd sample_snapshots]" by code_simp
  have "map (ai_ID \<circ> ss_Agent) [hd sample_snapshots] = [''a1'']" by code_simp
  with l agent_team_isolation [OF ok refl, where snap = "hd sample_snapshots" and now = 50 and u = "''u1''" and statuses = "Some sample_snapshots"] show ?thesis by simp
qed

section \<open>Changing the team of an agent\<close>

lemma team_exec_enrollments:
  assumes "by_handler (OpTeam x)" "gm_get (teamAgentEnrollments s) i = Some e"
  shows "gm_get (teamAgentEnrollments (team_exec x s)) i = Some e"
  using assms by (cases x) (auto simp: by_handler_def agents_same RegisterTeamAgent_def Let_def split: option.split)

text \<open>
  C18: An agent changes teams only after it has been withdrawn. When a step assigns an enrolled agent to
  another team, the step is a decision of a root administrator, the old assignment was not
  approved any more, and a report of this agent, made after the withdrawal, confirms that it
  has applied the empty authorization and serves no user and no client.
\<close>

theorem reassigned_after_withdrawal:
  assumes "list_all by_handler ops" "after_access allow ops = s" "by_handler opn"
    and "gm_get (teamAgentEnrollments s) i = Some e" "te_AssignedTeamID e \<noteq> []"
    and "gm_get (teamAgentEnrollments (access_exec opn s)) i = Some e'" "te_AssignedTeamID e' \<noteq> te_AssignedTeamID e"
  shows "\<exists>now actor req snaps snap. opn = OpDecision now actor (Some req) (Some snaps) \<and> IsRootRole (us_Role actor) \<and>
    te_Status e \<noteq> ''approved'' \<and> snap \<in> set snaps \<and> cleared_report e snap"
proof (cases opn)
  case (OpTeam x)
  then show ?thesis using team_exec_enrollments [of x s i e] assms(3-7) by simp
next
  case (OpDecision now actor arg statuses)
  have ok: "agents_ok s" using after_access_inv [OF assms(1)] assms(2) by (auto simp: access_inv_def)
  have "access_exec opn s \<noteq> s" using assms(4,6,7) by auto
  then obtain req where req: "arg = Some req" "decided actor req statuses s (access_exec opn s)"
    using post_fst [OF decision_cases [OF ok, of arg actor statuses now]] OpDecision by auto
  then obtain old enr where d: "gm_get (teamAgentEnrollments s) (te_AgentID old) = Some old" "IsRootRole (us_Role actor)"
      "te_AssignedTeamID enr = (if dr_Status req = ''approved'' then dr_TeamID req else te_AssignedTeamID old)"
      "dr_Status req = ''approved'' \<longrightarrow> approval_error req old statuses s = None"
      "teamAgentEnrollments (access_exec opn s) = gm_put (te_AgentID old) enr (teamAgentEnrollments s)"
    unfolding decided_def by blast
  have "i = te_AgentID old" using assms(4,6,7) d(5) by (cases "i = te_AgentID old") auto
  then have e: "old = e" "enr = e'" using assms(4,6) d(1,5) by auto
  then have "dr_Status req = ''approved''" "dr_TeamID req \<noteq> te_AssignedTeamID e" using d(3) assms(7) by (auto split: if_splits)
  then have "te_Status e \<noteq> ''approved'' \<and> (\<exists>snaps. statuses = Some snaps \<and> (\<exists>snap \<in> set snaps. cleared_report e snap))"
    using approvalD [OF ok, of req old statuses] d(4) assms(5) e(1) by auto
  then show ?thesis using OpDecision req(1) d(2) by blast
qed

definition root_user :: User where
  "root_user = (sample_user ''r1'' ''Root'' ''r@x.io'')\<lparr>us_Role := ''root''\<rparr>"

definition sample_decision :: "string \<Rightarrow> string \<Rightarrow> time \<Rightarrow> decide_request" where
  "sample_decision status team t = \<lparr>dr_AgentID = ''ag'', dr_Status = status, dr_TeamID = team, dr_Reason = ''moved'', dr_UpdatedAt = t\<rparr>"

definition moving_ops :: "access_op list" where
  "moving_ops =
     [OpTeam (OpPutTeam sample_team (sample_audit ''network.team.upsert'')),
      OpTeam (OpPutTeam (sample_team\<lparr>nt_ID := ''t2''\<rparr>) (sample_audit ''network.team.upsert'')),
      OpTeam (OpRegisterAgent 7 ''ag'' []),
      OpDecision 8 root_user (Some (sample_decision ''approved'' ''t1'' 7)) None,
      OpDecision 9 root_user (Some (sample_decision ''revoked'' [] 8)) None]"

definition revoked_enrollment :: TeamAgentEnrollment where
  "revoked_enrollment = \<lparr>te_AgentID = ''ag'', te_SuggestedTeamID = [], te_AssignedTeamID = ''t1'', te_Status = ''revoked'',
     te_DecidedBy = ''r1'', te_Reason = ''moved'', te_UpdatedAt = 9\<rparr>"

definition cleared_snapshot :: StatusSnapshot where
  "cleared_snapshot = \<lparr>ss_Agent = sample_identity ''ag'' [],
     ss_Report = sample_report (enrollmentRevision revoked_enrollment) 10, ss_UpdatedAt = 10\<rparr>"

theorem reassigned_after_withdrawal_witness:
  "\<exists>e'. gm_get (teamAgentEnrollments (access_exec (OpDecision 11 root_user (Some (sample_decision ''approved'' ''t2'' 9))
       (Some [cleared_snapshot])) (after_access False moving_ops))) ''ag'' = Some e' \<and> te_AssignedTeamID e' = ''t2'' \<and>
     te_Status revoked_enrollment \<noteq> ''approved'' \<and> cleared_report revoked_enrollment cleared_snapshot"
proof -
  let ?s = "after_access False moving_ops" and ?req = "sample_decision ''approved'' ''t2'' 9"
  let ?opn = "OpDecision 11 root_user (Some ?req) (Some [cleared_snapshot])"
  have ok: "list_all by_handler moving_ops" "by_handler ?opn" by code_simp (simp add: by_handler_def)
  then have inv: "agents_ok ?s" using after_access_inv by (simp add: access_inv_def)
  have old: "gm_get (teamAgentEnrollments ?s) ''ag'' = Some revoked_enrollment" by code_simp
  have facts: "IsRootRole (us_Role root_user)" "requireReason (dr_Reason ?req) = Inr ''moved''" "networkTeamIDPattern (dr_TeamID ?req)"
    "list_ex (\<lambda>t. nt_ID t = dr_TeamID ?req) (ListNetworkTeams ?s)" "dr_AgentID ?req = ''ag''" "dr_Status ?req = ''approved''"
    "dr_UpdatedAt ?req = 9" "dr_TeamID ?req = ''t2''"
    by code_simp+
  have clear: "cleared_report revoked_enrollment cleared_snapshot"
    by (simp add: cleared_report_def cleared_snapshot_def sample_report_def sample_identity_def synced_after_def revoked_enrollment_def)
  have rev: "te_Status revoked_enrollment = ''revoked''" "te_AssignedTeamID revoked_enrollment = ''t1''"
    "te_AgentID revoked_enrollment = ''ag''" "te_UpdatedAt revoked_enrollment = 9" by (simp_all add: revoked_enrollment_def)
  have find: "find (\<lambda>e. te_AgentID e = ''ag'') (ListTeamAgents ?s) = Some revoked_enrollment"
    using find_enrollment [OF inv, of "''ag''"] old by simp
  have approve: "approval_error ?req revoked_enrollment (Some [cleared_snapshot]) ?s = None"
    unfolding approval_error_def using facts(3,4) clear by (simp add: rev)
  let ?e = "revoked_enrollment\<lparr>te_Status := ''approved'', te_DecidedBy := us_ID root_user, te_Reason := ''moved'',
    te_AssignedTeamID := ''t2'', te_UpdatedAt := 11\<rparr>"
  have e': "gm_get (teamAgentEnrollments (access_exec ?opn ?s)) ''ag'' = Some ?e"
    using approve old by (simp add: adminDecideTeamAgent_def facts find rev Let_def DecideTeamAgent_def)
  from reassigned_after_withdrawal [OF ok(1) refl ok(2) old _ e'] have "te_Status revoked_enrollment \<noteq> ''approved''"
    by (auto simp: rev)
  then show ?thesis using e' clear by (intro exI [of _ ?e]) simp
qed

end
