(* ===== verification/Go_Netip.thy ===== *)
theory Go_Netip
  imports Go_Values
begin

text \<open>
  \<open>net/netip\<close> and \<open>encoding/base64\<close> of the Go standard library, as far as the overlay network uses them:
  addresses without zones, prefixes, and the standard encoding with padding. A zone of an IPv6
  address is parsed only to be refused by \<open>ParsePrefix\<close>.
\<close>

section \<open>Addresses\<close>

text \<open>The zero \<open>Addr\<close>, an IPv4 address below \<open>2 ^ 32\<close>, an IPv6 address below \<open>2 ^ 128\<close>.\<close>

datatype addr = NoAddr | Addr4 int | Addr6 int

fun BitLen :: "addr \<Rightarrow> int" where
  "BitLen NoAddr = 0"
| "BitLen (Addr4 _) = 32"
| "BitLen (Addr6 _) = 128"

fun Next :: "addr \<Rightarrow> addr" where
  "Next NoAddr = NoAddr"
| "Next (Addr4 a) = (if a + 1 < 2 ^ 32 then Addr4 (a + 1) else NoAddr)"
| "Next (Addr6 a) = (if a + 1 < 2 ^ 128 then Addr6 (a + 1) else NoAddr)"

record netprefix =
  px_Addr :: addr
  px_Bits :: int

definition Contains :: "netprefix \<Rightarrow> addr \<Rightarrow> bool" where
  "Contains p ip =
     (case (px_Addr p, ip) of
        (Addr4 a, Addr4 b) \<Rightarrow> a div 2 ^ nat (32 - px_Bits p) = b div 2 ^ nat (32 - px_Bits p)
      | (Addr6 a, Addr6 b) \<Rightarrow> a div 2 ^ nat (128 - px_Bits p) = b div 2 ^ nat (128 - px_Bits p)
      | _ \<Rightarrow> False)"

section \<open>Parsing\<close>

definition decimal :: "char \<Rightarrow> bool" where
  "decimal c \<longleftrightarrow> char_between (CHR ''0'') (CHR ''9'') c"

definition decimal_value :: "string \<Rightarrow> int" where
  "decimal_value = foldl (\<lambda>n c. 10 * n + (byte c - 48)) 0"

fun split_at :: "char \<Rightarrow> string \<Rightarrow> string list" where
  "split_at sep [] = [[]]"
| "split_at sep (c # cs) =
     (if c = sep then [] # split_at sep cs
      else case split_at sep cs of [] \<Rightarrow> [[c]] | part # parts \<Rightarrow> (c # part) # parts)"

text \<open>\<open>parseIPv4Fields\<close>: four decimal fields without leading zeros, each at most 255.\<close>

definition ipv4_field :: "string \<Rightarrow> bool" where
  "ipv4_field f \<longleftrightarrow> f \<noteq> [] \<and> list_all decimal f \<and> (hd f = CHR ''0'' \<longrightarrow> f = ''0'') \<and> decimal_value f \<le> 255"

definition parseIPv4Fields :: "string \<Rightarrow> int option" where
  "parseIPv4Fields s =
     (let parts = split_at (CHR ''.'') s in
      if length parts = 4 \<and> list_all ipv4_field parts
      then Some (foldl (\<lambda>n f. 256 * n + decimal_value f) 0 parts) else None)"

definition hex_nibble :: "char \<Rightarrow> int option" where
  "hex_nibble c =
     (if char_between (CHR ''0'') (CHR ''9'') c then Some (byte c - 48)
      else if char_between (CHR ''a'') (CHR ''f'') c then Some (byte c - 87)
      else if char_between (CHR ''A'') (CHR ''F'') c then Some (byte c - 55)
      else None)"

definition hex_span :: "string \<Rightarrow> string \<times> string" where
  "hex_span s = (takeWhile (\<lambda>c. hex_nibble c \<noteq> None) s, dropWhile (\<lambda>c. hex_nibble c \<noteq> None) s)"

definition group_value :: "string \<Rightarrow> int" where
  "group_value = foldl (\<lambda>n c. 16 * n + the (hex_nibble c)) 0"

text \<open>
  The loop of \<open>parseIPv6\<close>. \<open>groups\<close> are the 16-bit groups read so far and \<open>ellipsis\<close> is their number when
  \<open>::\<close> was read. \<open>fuel\<close> bounds the groups that may still be read: the loop ends when there are
  eight, and then the text must be used up. The result is the groups and the ellipsis.
\<close>

fun ipv6_loop :: "nat \<Rightarrow> int list \<Rightarrow> nat option \<Rightarrow> string \<Rightarrow> (int list \<times> nat option) option" where
  "ipv6_loop 0 groups ellipsis s = (if s = [] then Some (groups, ellipsis) else None)"
| "ipv6_loop (Suc fuel) groups ellipsis s =
     (let (digits, rest) = hex_span s in
      if digits = [] \<or> length digits > 4 then None
      else if rest \<noteq> [] \<and> hd rest = CHR ''.'' then
        (if ellipsis = None \<and> length groups \<noteq> 6 \<or> length groups > 6 then None
         else case parseIPv4Fields s of None \<Rightarrow> None
              | Some v \<Rightarrow> Some (groups @ [v div 65536, v mod 65536], ellipsis))
      else
        let groups = groups @ [group_value digits] in
        (case rest of
           [] \<Rightarrow> Some (groups, ellipsis)
         | c # rest \<Rightarrow>
             if c \<noteq> CHR '':'' \<or> rest = [] then None
             else if hd rest = CHR '':'' then
               (if ellipsis \<noteq> None then None
                else if tl rest = [] then Some (groups, Some (length groups))
                else ipv6_loop fuel groups (Some (length groups)) (tl rest))
             else ipv6_loop fuel groups ellipsis rest))"

definition parseIPv6Groups :: "string \<Rightarrow> int list option" where
  "parseIPv6Groups s =
     (let (ellipsis, s') = (if starts_with ''::'' s then (Some 0, drop 2 s) else (None, s)) in
      if ellipsis \<noteq> None \<and> s' = [] then Some (replicate 8 0)
      else case ipv6_loop 8 [] ellipsis s' of
        None \<Rightarrow> None
      | Some (groups, ellipsis) \<Rightarrow>
          (case ellipsis of
             None \<Rightarrow> if length groups < 8 then None else Some groups
           | Some e \<Rightarrow>
               if length groups < 8 then Some (take e groups @ replicate (8 - length groups) 0 @ drop e groups)
               else None))"

definition join_groups :: "int list \<Rightarrow> int" where
  "join_groups = foldl (\<lambda>n g. 65536 * n + g) 0"

text \<open>
  \<open>ParseAddr\<close>: the first of \<open>.\<close>, \<open>:\<close> and \<open>%\<close> decides on the form. The second component says that a zone was
  given, which must not be empty.
\<close>

definition ParseAddr :: "string \<Rightarrow> (addr \<times> bool) option" where
  "ParseAddr s =
     (case find (\<lambda>c. c = CHR ''.'' \<or> c = CHR '':'' \<or> c = CHR ''%'') s of
        None \<Rightarrow> None
      | Some c \<Rightarrow>
          if c = CHR ''.'' then map_option (\<lambda>v. (Addr4 v, False)) (parseIPv4Fields s)
          else if c = CHR ''%'' then None
          else
            let body = takeWhile (\<lambda>c. c \<noteq> CHR ''%'') s; zone = drop (length body + 1) s;
                has_zone = (length body < length s) in
            if has_zone \<and> zone = [] then None
            else map_option (\<lambda>gs. (Addr6 (join_groups gs), has_zone)) (parseIPv6Groups body))"

definition ParsePrefix :: "string \<Rightarrow> netprefix option" where
  "ParsePrefix s =
     (let bits = rev (takeWhile (\<lambda>c. c \<noteq> CHR ''/'') (rev s)) in
      if length bits = length s then None
      else case ParseAddr (take (length s - length bits - 1) s) of
        None \<Rightarrow> None
      | Some (ip, has_zone) \<Rightarrow>
          if has_zone then None
          else if length bits > 1 \<and> \<not> char_between (CHR ''1'') (CHR ''9'') (hd bits) then None
          else if bits = [] \<or> \<not> list_all decimal bits then None
          else if decimal_value bits > BitLen ip then None
          else Some \<lparr>px_Addr = ip, px_Bits = decimal_value bits\<rparr>)"

section \<open>Printing\<close>

definition ipv4_string :: "int \<Rightarrow> string" where
  "ipv4_string a =
     show_digits (a div 2 ^ 24 mod 256) @ ''.'' @ show_digits (a div 2 ^ 16 mod 256) @ ''.'' @
     show_digits (a div 2 ^ 8 mod 256) @ ''.'' @ show_digits (a mod 256)"

function hex_digits :: "int \<Rightarrow> string" where
  "hex_digits n = (if n < 16 then [hex_digit n] else hex_digits (n div 16) @ [hex_digit (n mod 16)])"
  by pat_completeness auto
termination
  by (relation "measure nat") auto

declare hex_digits.simps [simp del]

definition group_of :: "int \<Rightarrow> nat \<Rightarrow> int" where
  "group_of a i = a div 2 ^ (16 * (7 - i)) mod 65536"

definition zero_run :: "int \<Rightarrow> nat \<Rightarrow> nat" where
  "zero_run a i = length (takeWhile (\<lambda>j. group_of a j = 0) [i..<8])"

text \<open>The longest run of at least two zero groups, the first of several: its start and end.\<close>

definition longest_zeros :: "int \<Rightarrow> nat \<times> nat" where
  "longest_zeros a =
     foldl (\<lambda>(zs, ze) i. let l = zero_run a i in if l \<ge> 2 \<and> l > ze - zs then (i, i + l) else (zs, ze)) (255, 255) [0..<8]"

definition ipv6_string :: "int \<Rightarrow> string" where
  "ipv6_string a =
     (let (zs, ze) = longest_zeros a; show = (\<lambda>is. concat (map (\<lambda>i. (if i = hd is then [] else '':'') @ hex_digits (group_of a i)) is)) in
      if zs = 255 then show [0..<8]
      else show [0..<zs] @ ''::'' @ show [ze..<8])"

fun AddrString :: "addr \<Rightarrow> string" where
  "AddrString NoAddr = ''invalid IP''"
| "AddrString (Addr4 a) = ipv4_string a"
| "AddrString (Addr6 a) =
     (if a div 2 ^ 32 = 65535 then ''::ffff:'' @ ipv4_string (a mod 2 ^ 32) else ipv6_string a)"

definition PrefixString :: "netprefix \<Rightarrow> string" where
  "PrefixString p = AddrString (px_Addr p) @ ''/'' @ show_digits (px_Bits p)"

section \<open>Base64\<close>

definition base64_alphabet :: string where
  "base64_alphabet = ''ABCDEFGHIJKLMNOPQRSTUVWXYZabcdefghijklmnopqrstuvwxyz0123456789+/''"

definition base64_value :: "char \<Rightarrow> int option" where
  "base64_value c =
     (if char_between (CHR ''A'') (CHR ''Z'') c then Some (byte c - 65)
      else if char_between (CHR ''a'') (CHR ''z'') c then Some (byte c - 71)
      else if char_between (CHR ''0'') (CHR ''9'') c then Some (byte c + 4)
      else if c = CHR ''+'' then Some 62
      else if c = CHR ''/'' then Some 63
      else None)"

text \<open>The decoder on a text without line breaks: groups of four, of which the last may be padded.\<close>

fun base64_quads :: "string \<Rightarrow> int list option" where
  "base64_quads [] = Some []"
| "base64_quads (a # b # c # d # rest) =
     (case (base64_value a, base64_value b) of
        (Some va, Some vb) \<Rightarrow>
          if c = CHR ''='' then
            (if d = CHR ''='' \<and> rest = [] then Some [va * 4 + vb div 16] else None)
          else
            (case base64_value c of None \<Rightarrow> None
             | Some vc \<Rightarrow>
                 if d = CHR ''='' then
                   (if rest = [] then Some [va * 4 + vb div 16, vb mod 16 * 16 + vc div 4] else None)
                 else
                   (case (base64_value d, base64_quads rest) of
                      (Some vd, Some bytes) \<Rightarrow>
                        Some ([va * 4 + vb div 16, vb mod 16 * 16 + vc div 4, vc mod 4 * 64 + vd] @ bytes)
                    | _ \<Rightarrow> None))
      | _ \<Rightarrow> None)"
| "base64_quads _ = None"

text \<open>\<open>base64.StdEncoding.DecodeString\<close>, which skips line breaks.\<close>

definition base64_decode :: "string \<Rightarrow> int list option" where
  "base64_decode s = base64_quads (filter (\<lambda>c. c \<noteq> CHR 0x0A \<and> c \<noteq> CHR 0x0D) s)"

fun base64_encode :: "int list \<Rightarrow> string" where
  "base64_encode [] = []"
| "base64_encode [x] = [base64_alphabet ! nat (x div 4), base64_alphabet ! nat (x mod 4 * 16), CHR ''='', CHR ''='']"
| "base64_encode [x, y] =
     [base64_alphabet ! nat (x div 4), base64_alphabet ! nat (x mod 4 * 16 + y div 16),
      base64_alphabet ! nat (y mod 16 * 4), CHR ''='']"
| "base64_encode (x # y # z # rest) =
     [base64_alphabet ! nat (x div 4), base64_alphabet ! nat (x mod 4 * 16 + y div 16),
      base64_alphabet ! nat (y mod 16 * 4 + z div 64), base64_alphabet ! nat (z mod 64)] @ base64_encode rest"

end
