(* ===== verification/Overlay.thy ===== *)
theory Overlay
  imports Go_Netip "HOL-Library.Word"
begin

text \<open>
  The overlay network: which devices may talk to each other directly
  (\<open>internal/overlay/mesh.go\<close>) and which address a new device gets (\<open>allocateAddress\<close> of
  \<open>internal/overlay/repository.go\<close>). The devices and the policy of a network, and the number of devices with
  an address, are read from the database; they are arguments here.
\<close>

unbundle bit_operations_syntax

section \<open>Policies\<close>

record PolicyRule =
  pr_WholeDevice :: bool
  pr_ID :: string
  pr_Action :: string
  pr_SourceDevices :: "string list"
  pr_DestinationDevices :: "string list"
  pr_Protocols :: "string list"
  pr_Ports :: "int list"

record PolicyArtifact =
  pa_SchemaVersion :: int
  pa_CompilerVersion :: string
  pa_NetworkID :: string
  pa_Revision :: "64 word"
  pa_DefaultAction :: string
  pa_ProtectedFlows :: "string list"
  pa_Rules :: "PolicyRule list"

fun counts_up :: "int \<Rightarrow> int list \<Rightarrow> bool" where
  "counts_up j [] = True"
| "counts_up j (p # ports) = (p = j + 1 \<and> counts_up (j + 1) ports)"

definition protocol_mask :: "bool \<Rightarrow> string \<Rightarrow> 8 word" where
  "protocol_mask allPorts protocol =
     (if protocol = ''icmp'' then 1
      else if protocol = ''tcp'' \<and> allPorts then 2
      else if protocol = ''udp'' \<and> allPorts then 4
      else 0)"

definition rule_mask :: "PolicyRule \<Rightarrow> 8 word" where
  "rule_mask rule =
     (let allPorts = (length (pr_Ports rule) = 65535 \<and> counts_up 0 (pr_Ports rule));
          m = foldl (\<lambda>m protocol. m OR protocol_mask allPorts protocol) 0 (pr_Protocols rule)
      in if pr_WholeDevice rule \<and> pr_Action rule = ''accept'' \<and> m = 7 then m OR 8 else m)"

fun grant_loop :: "string \<Rightarrow> string \<Rightarrow> PolicyRule list \<Rightarrow> 8 word \<Rightarrow> bool" where
  "grant_loop source destination [] m \<longleftrightarrow> m = 15"
| "grant_loop source destination (rule # rules) m \<longleftrightarrow>
     (if source \<notin> set (pr_SourceDevices rule) \<or> destination \<notin> set (pr_DestinationDevices rule)
      then grant_loop source destination rules m
      else if pr_Action rule = ''deny'' then False
      else grant_loop source destination rules (if pr_Action rule = ''accept'' then m OR rule_mask rule else m))"

definition grantEvaluator :: "PolicyArtifact \<Rightarrow> string \<Rightarrow> string \<Rightarrow> bool" where
  "grantEvaluator policy source destination =
     (if pa_DefaultAction policy \<noteq> ''deny'' then False else grant_loop source destination (pa_Rules policy) 0)"

definition wholeDeviceAllowed :: "PolicyArtifact \<Rightarrow> string \<Rightarrow> string \<Rightarrow> bool" where
  "wholeDeviceAllowed policy source destination = grantEvaluator policy source destination"

section \<open>The mesh\<close>

record DeviceRecord =
  dv_ID :: string
  dv_UserUUID :: string
  dv_UserID :: string
  dv_NetworkID :: string
  dv_Role :: string
  dv_Name :: string
  dv_Platform :: string
  dv_Hostname :: string
  dv_WireGuardPublicKey :: string
  dv_WireGuardAddress :: string
  dv_Status :: string
  dv_LastSeenAt :: "time option"
  dv_CreatedAt :: time
  dv_UpdatedAt :: time

definition meshCapable :: "DeviceRecord \<Rightarrow> bool" where
  "meshCapable d =
     (if dv_Role d \<noteq> ''one'' \<or> dv_Status d \<noteq> ''active'' \<or>
         dv_Platform d \<noteq> ''linux'' \<and> dv_Platform d \<noteq> ''darwin'' \<and> dv_Platform d \<noteq> ''windows''
      then False
      else case (base64_decode (dv_WireGuardPublicKey d), ParsePrefix (dv_WireGuardAddress d)) of
        (Some key, Some address) \<Rightarrow>
          length key = 32 \<and> base64_encode key = dv_WireGuardPublicKey d \<and>
          px_Bits address = BitLen (px_Addr address) \<and> PrefixString address = dv_WireGuardAddress d
      | _ \<Rightarrow> False)"

definition meshDevices :: "DeviceRecord list \<Rightarrow> string + DeviceRecord list" where
  "meshDevices devices =
     (let result = filter meshCapable devices in
      if length result > 256 then Inl ''invalid overlay request'' else Inr result)"

record MeshPeer =
  mp_DeviceID :: string
  mp_PublicKey :: string
  mp_Address :: string

record RelayPeer =
  rl_DeviceID :: string
  rl_PublicKey :: string
  rl_AllowedPeers :: "string list"

text \<open>The condition under which two devices see each other, in both functions below.\<close>

definition mesh_pair :: "PolicyArtifact \<Rightarrow> DeviceRecord \<Rightarrow> DeviceRecord \<Rightarrow> bool" where
  "mesh_pair policy a b \<longleftrightarrow>
     dv_ID b \<noteq> dv_ID a \<and> dv_WireGuardPublicKey b \<noteq> dv_WireGuardPublicKey a \<and>
     grantEvaluator policy (dv_ID a) (dv_ID b) \<and> grantEvaluator policy (dv_ID b) (dv_ID a)"

definition mesh_peer :: "DeviceRecord \<Rightarrow> MeshPeer" where
  "mesh_peer d = \<lparr>mp_DeviceID = dv_ID d, mp_PublicKey = dv_WireGuardPublicKey d, mp_Address = dv_WireGuardAddress d\<rparr>"

text \<open>A nil specification is the empty list of peers: both functions return nil instead of an empty one.\<close>

definition oneMeshSpec :: "DeviceRecord \<Rightarrow> DeviceRecord list \<Rightarrow> PolicyArtifact \<Rightarrow> string + MeshPeer list" where
  "oneMeshSpec self devices policy =
     (if \<not> meshCapable self then Inr []
      else case meshDevices devices of
        Inl e \<Rightarrow> Inl e
      | Inr devices \<Rightarrow> Inr (map mesh_peer (filter (mesh_pair policy self) devices)))"

definition relaySpec :: "DeviceRecord list \<Rightarrow> PolicyArtifact \<Rightarrow> string + RelayPeer list" where
  "relaySpec devices policy =
     (case meshDevices devices of
        Inl e \<Rightarrow> Inl e
      | Inr devices \<Rightarrow>
          Inr (filter (\<lambda>p. rl_AllowedPeers p \<noteq> [])
            (map (\<lambda>a. \<lparr>rl_DeviceID = dv_ID a, rl_PublicKey = dv_WireGuardPublicKey a,
                       rl_AllowedPeers = map dv_ID (filter (mesh_pair policy a) devices)\<rparr>) devices)))"

section \<open>Addresses of devices\<close>

text \<open>
  \<open>devicesWith address\<close> is the number of devices of the network with this address, \<open>None\<close> when the query fails.
  The loop ends because the addresses grow up to the largest one, whose successor is the zero
  address, which no prefix contains.
\<close>

fun addr_left :: "addr \<Rightarrow> nat" where
  "addr_left NoAddr = 0"
| "addr_left (Addr4 a) = nat (2 ^ 32 - a) + 1"
| "addr_left (Addr6 a) = nat (2 ^ 128 - a) + 1"

lemma contains_next: "Contains p c \<Longrightarrow> addr_left (Next c) < addr_left c"
  by (cases c) (auto simp: Contains_def split: addr.splits)

function allocate_loop :: "netprefix \<Rightarrow> addr \<Rightarrow> (string \<Rightarrow> int option) \<Rightarrow> addr \<Rightarrow> string + string" where
  "allocate_loop pfx gatewayAddress devicesWith candidate =
     (if \<not> Contains pfx candidate then Inl ''overlay network address pool exhausted''
      else if candidate = px_Addr pfx \<or> candidate = gatewayAddress
      then allocate_loop pfx gatewayAddress devicesWith (Next candidate)
      else
        let address = AddrString candidate @ ''/32'' in
        case devicesWith address of
          None \<Rightarrow> Inl ''database error''
        | Some n \<Rightarrow> if n = 0 then Inr address
                    else allocate_loop pfx gatewayAddress devicesWith (Next candidate))"
  by pat_completeness auto
termination
  by (relation "measure (\<lambda>(_, _, _, c). addr_left c)") (auto simp: contains_next)

declare allocate_loop.simps [simp del]

definition allocateAddress :: "string \<Rightarrow> string \<Rightarrow> (string \<Rightarrow> int option) \<Rightarrow> string + string" where
  "allocateAddress cidr gatewayWireGuardAddress devicesWith =
     (case ParsePrefix cidr of
        None \<Rightarrow> Inl ''invalid overlay request''
      | Some pfx \<Rightarrow>
          let configured = TrimSpace gatewayWireGuardAddress in
          if configured = [] then allocate_loop pfx (Next (px_Addr pfx)) devicesWith (px_Addr pfx)
          else
            (case ParsePrefix configured of
               None \<Rightarrow> Inl ''invalid overlay request''
             | Some parsed \<Rightarrow>
                 if \<not> Contains pfx (px_Addr parsed) then Inl ''invalid overlay request''
                 else allocate_loop pfx (px_Addr parsed) devicesWith (px_Addr pfx)))"

end
