(* ===== verification/Overlay_Properties.thy ===== *)
theory Overlay_Properties
  imports Overlay
begin

text \<open>
  What the overlay network guarantees: the policy evaluator grants exactly whole-device access, the peers
  that devices and the relay are given agree with each other, and a new device gets the
  first free address.
\<close>

section \<open>Whole-device grants\<close>

definition matches :: "string \<Rightarrow> string \<Rightarrow> PolicyRule \<Rightarrow> bool" where
  "matches source destination rule \<longleftrightarrow>
     source \<in> set (pr_SourceDevices rule) \<and> destination \<in> set (pr_DestinationDevices rule)"

definition whole_device :: "PolicyRule \<Rightarrow> bool" where
  "whole_device rule \<longleftrightarrow> pr_WholeDevice rule \<and> pr_Action rule = ''accept'' \<and>
     {''icmp'', ''tcp'', ''udp''} \<subseteq> set (pr_Protocols rule) \<and> pr_Ports rule = map int [1..<65536]"

lemma counts_up_eq: "counts_up j ports \<longleftrightarrow> ports = map (\<lambda>i. j + 1 + int i) [0..<length ports]"
proof (induction ports arbitrary: j)
  case (Cons p ports)
  have "map (\<lambda>i. j + 1 + int i) [0..<length (p # ports)] = (j + 1) # map (\<lambda>i. j + 1 + 1 + int i) [0..<length ports]"
    by (simp add: upt_conv_Cons map_Suc_upt [symmetric] del: upt_Suc)
  then show ?case using Cons.IH [of "j + 1"] by simp
qed simp

lemma all_ports: "length ports = 65535 \<and> counts_up 0 ports \<longleftrightarrow> ports = map int [1..<65536]"
proof -
  have "map (\<lambda>i. 0 + 1 + int i) [0..<65535] = map int [1..<65536]"
    by (rule nth_equalityI) simp_all
  moreover have "length (map int [1..<65536]) = 65535" by simp
  ultimately show ?thesis unfolding counts_up_eq by metis
qed

text \<open>The bits of the masks; the fourth is set only for a whole-device grant.\<close>

declare bit_numeral_word_iff [simp del]

lemma bit_numerals:
  "bit (1 :: 8 word) n \<longleftrightarrow> n = 0" "bit (2 :: 8 word) n \<longleftrightarrow> n = 1" "bit (4 :: 8 word) n \<longleftrightarrow> n = 2" "bit (8 :: 8 word) n \<longleftrightarrow> n = 3"
  "bit (7 :: 8 word) n \<longleftrightarrow> n < 3" "bit (15 :: 8 word) n \<longleftrightarrow> n < 4"
proof -
  have "bit (2 ^ k :: 8 word) n \<longleftrightarrow> n = k" if "k < 8" for k using that by (auto simp: bit_exp_iff possible_bit_def)
  from this [of 0] this [of 1] this [of 2] this [of 3]
  show "bit (1 :: 8 word) n \<longleftrightarrow> n = 0" "bit (2 :: 8 word) n \<longleftrightarrow> n = 1" "bit (4 :: 8 word) n \<longleftrightarrow> n = 2" "bit (8 :: 8 word) n \<longleftrightarrow> n = 3"
    by simp_all
  have "bit (mask k :: 8 word) n \<longleftrightarrow> n < k" if "k < 8" for k using that by (auto simp: bit_mask_iff possible_bit_def)
  from this [of 3] this [of 4] show "bit (7 :: 8 word) n \<longleftrightarrow> n < 3" "bit (15 :: 8 word) n \<longleftrightarrow> n < 4"
    by (simp_all add: mask_eq_exp_minus_1)
qed

lemma bit_protocol_mask:
  "bit (protocol_mask allp p) n \<longleftrightarrow> n = 0 \<and> p = ''icmp'' \<or> n = 1 \<and> p = ''tcp'' \<and> allp \<or> n = 2 \<and> p = ''udp'' \<and> allp"
  by (auto simp: protocol_mask_def bit_numerals)

lemma bit_protocols:
  "bit (foldl (\<lambda>m protocol. m OR protocol_mask allp protocol) m ps) n \<longleftrightarrow>
     bit m n \<or> n = 0 \<and> ''icmp'' \<in> set ps \<or> n = 1 \<and> ''tcp'' \<in> set ps \<and> allp \<or> n = 2 \<and> ''udp'' \<in> set ps \<and> allp"
  by (induction ps arbitrary: m) (auto simp: bit_or_iff bit_protocol_mask)

lemma bit_rule_mask:
  "bit (rule_mask rule) n \<longleftrightarrow>
     (let allp = (pr_Ports rule = map int [1..<65536]) in
      n = 0 \<and> ''icmp'' \<in> set (pr_Protocols rule) \<or> n = 1 \<and> ''tcp'' \<in> set (pr_Protocols rule) \<and> allp \<or>
      n = 2 \<and> ''udp'' \<in> set (pr_Protocols rule) \<and> allp \<or> n = 3 \<and> whole_device rule)"
proof -
  define allp i t u where "allp = (pr_Ports rule = map int [1..<65536])" and "i = (''icmp'' \<in> set (pr_Protocols rule))"
    and "t = (''tcp'' \<in> set (pr_Protocols rule))" and "u = (''udp'' \<in> set (pr_Protocols rule))"
  define m where "m = foldl (\<lambda>m protocol. m OR protocol_mask allp protocol) 0 (pr_Protocols rule)"
  have m: "bit m n \<longleftrightarrow> n = 0 \<and> i \<or> n = 1 \<and> t \<and> allp \<or> n = 2 \<and> u \<and> allp" for n
    by (simp add: m_def bit_protocols i_def t_def u_def)
  have "m = 7 \<longleftrightarrow> i \<and> t \<and> u \<and> allp"
  proof
    assume "m = 7"
    then have "bit m n \<longleftrightarrow> n < 3" for n by (simp add: bit_numerals)
    from this [of 0] this [of 1] this [of 2] show "i \<and> t \<and> u \<and> allp" by (simp add: m)
  qed (rule bit_word_eqI, auto simp: m bit_numerals)
  then have "whole_device rule \<longleftrightarrow> pr_WholeDevice rule \<and> pr_Action rule = ''accept'' \<and> m = 7"
    by (auto simp: whole_device_def allp_def i_def t_def u_def)
  moreover have "rule_mask rule = (if pr_WholeDevice rule \<and> pr_Action rule = ''accept'' \<and> m = 7 then m OR 8 else m)"
    by (simp add: rule_mask_def Let_def all_ports m_def allp_def)
  ultimately have "rule_mask rule = (if whole_device rule then m OR 8 else m)" by simp
  then show ?thesis
    unfolding Let_def allp_def [symmetric] i_def [symmetric] t_def [symmetric] u_def [symmetric]
    by (cases "whole_device rule") (auto simp: bit_or_iff m bit_numerals)
qed

lemma rule_mask_bits: "bit (rule_mask rule) n \<Longrightarrow> n < 4"
  by (auto simp: bit_rule_mask Let_def)

lemma whole_device_mask: "whole_device rule \<Longrightarrow> bit (rule_mask rule) n \<longleftrightarrow> n < 4"
  by (auto simp: bit_rule_mask whole_device_def Let_def)

lemma grant_loop_eq:
  assumes "\<And>n. bit m n \<Longrightarrow> n < 4" "m = 15 \<or> \<not> bit m 3"
  shows "grant_loop source destination rules m \<longleftrightarrow>
    (\<forall>rule \<in> set rules. matches source destination rule \<longrightarrow> pr_Action rule \<noteq> ''deny'') \<and>
    (m = 15 \<or> (\<exists>rule \<in> set rules. matches source destination rule \<and> whole_device rule))"
  using assms
proof (induction rules arbitrary: m)
  case (Cons rule rules)
  define m' where "m' = (if pr_Action rule = ''accept'' then m OR rule_mask rule else m)"
  have accept: "whole_device rule \<longrightarrow> pr_Action rule = ''accept''" by (simp add: whole_device_def)
  have bits: "bit m' n \<Longrightarrow> n < 4" for n
    using Cons.prems(1) rule_mask_bits by (auto simp: m'_def bit_or_iff split: if_splits)
  have full: "m' = 15" if "m = 15 \<or> whole_device rule"
  proof (rule bit_word_eqI)
    fix n
    have "bit m' n" if "n < 4"
      using \<open>m = 15 \<or> whole_device rule\<close> accept that whole_device_mask by (auto simp: m'_def bit_or_iff bit_numerals)
    then show "bit m' n \<longleftrightarrow> bit (15 :: 8 word) n" using bits [of n] by (auto simp: bit_numerals)
  qed
  have part: "\<not> bit m' 3" if "m \<noteq> 15" "\<not> whole_device rule"
    using that Cons.prems(2) by (auto simp: m'_def bit_or_iff bit_rule_mask Let_def)
  have eq: "m' = 15 \<longleftrightarrow> m = 15 \<or> whole_device rule"
  proof
    assume m': "m' = 15"
    show "m = 15 \<or> whole_device rule"
    proof (rule ccontr)
      assume "\<not> (m = 15 \<or> whole_device rule)"
      then have "\<not> bit (15 :: 8 word) 3" using part m' by simp
      then show False by (simp add: bit_numerals)
    qed
  qed (rule full)
  then have top: "m' = 15 \<or> \<not> bit m' 3" using part by blast
  have IH: "grant_loop source destination rules m' \<longleftrightarrow>
    (\<forall>rule \<in> set rules. matches source destination rule \<longrightarrow> pr_Action rule \<noteq> ''deny'') \<and>
    (m' = 15 \<or> (\<exists>rule \<in> set rules. matches source destination rule \<and> whole_device rule))"
    by (rule Cons.IH [OF bits top])
  show ?case
  proof (cases "matches source destination rule")
    case True
    have "grant_loop source destination (rule # rules) m \<longleftrightarrow> pr_Action rule \<noteq> ''deny'' \<and> grant_loop source destination rules m'"
      using True unfolding m'_def matches_def by (simp only: grant_loop.simps) simp
    then show ?thesis unfolding IH eq list.set using True by blast
  next
    case False
    then have "grant_loop source destination (rule # rules) m \<longleftrightarrow> grant_loop source destination rules m"
      unfolding matches_def by (simp only: grant_loop.simps) simp
    moreover have "grant_loop source destination rules m \<longleftrightarrow>
      (\<forall>rule \<in> set rules. matches source destination rule \<longrightarrow> pr_Action rule \<noteq> ''deny'') \<and>
      (m = 15 \<or> (\<exists>rule \<in> set rules. matches source destination rule \<and> whole_device rule))"
      by (rule Cons.IH) (use Cons.prems in blast)+
    ultimately show ?thesis unfolding list.set using False by blast
  qed
qed simp

lemma grantEvaluator_eq:
  "grantEvaluator policy source destination \<longleftrightarrow>
     pa_DefaultAction policy = ''deny'' \<and>
     (\<forall>rule \<in> set (pa_Rules policy). matches source destination rule \<longrightarrow> pr_Action rule \<noteq> ''deny'') \<and>
     (\<exists>rule \<in> set (pa_Rules policy). matches source destination rule \<and> whole_device rule)"
proof -
  have "grant_loop source destination (pa_Rules policy) 0 \<longleftrightarrow>
    (\<forall>rule \<in> set (pa_Rules policy). matches source destination rule \<longrightarrow> pr_Action rule \<noteq> ''deny'') \<and>
    ((0 :: 8 word) = 15 \<or> (\<exists>rule \<in> set (pa_Rules policy). matches source destination rule \<and> whole_device rule))"
    by (rule grant_loop_eq) simp_all
  then show ?thesis by (simp add: grantEvaluator_def)
qed

text \<open>
  C23: The evaluator of policies grants exactly whole-device access. A device may reach another one if the
  policy denies by default, no rule that names both denies it, and one rule that names both accepts
  the whole device, with ICMP, TCP and UDP on all 65535 ports; rules that accept less never
  add up to a grant, and the order of the rules does not matter.
\<close>

theorem grants_are_whole_device:
  "grantEvaluator policy source destination \<longleftrightarrow>
     pa_DefaultAction policy = ''deny'' \<and>
     (\<forall>rule \<in> set (pa_Rules policy). matches source destination rule \<longrightarrow> pr_Action rule \<noteq> ''deny'') \<and>
     (\<exists>rule \<in> set (pa_Rules policy). matches source destination rule \<and> whole_device rule)"
  by (rule grantEvaluator_eq)

definition open_policy :: PolicyArtifact where
  "open_policy = \<lparr>pa_SchemaVersion = 1, pa_CompilerVersion = [], pa_NetworkID = ''n'', pa_Revision = 1, pa_DefaultAction = ''deny'',
     pa_ProtectedFlows = [], pa_Rules =
     [\<lparr>pr_WholeDevice = True, pr_ID = ''r'', pr_Action = ''accept'', pr_SourceDevices = [''2'', ''3''], pr_DestinationDevices = [''2'', ''3''],
       pr_Protocols = [''icmp'', ''tcp'', ''udp''], pr_Ports = map int [1..<65536]\<rparr>]\<rparr>"

theorem grants_are_whole_device_witness:
  "grantEvaluator open_policy ''2'' ''3'' \<and> \<not> grantEvaluator open_policy ''2'' ''4''"
  using grants_are_whole_device [of open_policy "''2''" "''3''"] grants_are_whole_device [of open_policy "''2''" "''4''"]
  by (simp add: open_policy_def matches_def whole_device_def)

section \<open>Peers\<close>

lemma mesh_pair_sym: "mesh_pair policy a b \<longleftrightarrow> mesh_pair policy b a"
  by (auto simp: mesh_pair_def)

text \<open>
  Devices and relay agree on who is connected to whom. Of two devices of the mesh, one has the other
  among its peers if and only if the other has it; and the relay lists for a device exactly
  the peers the device itself is given, and no device without peers.
\<close>

theorem mesh_is_symmetric:
  assumes "meshDevices devices = Inr mesh" "a \<in> set mesh" "b \<in> set mesh"
    and "oneMeshSpec a devices policy = Inr peersA" "oneMeshSpec b devices policy = Inr peersB"
    and "relaySpec devices policy = Inr relay"
  shows "(mesh_peer b \<in> set peersA \<longleftrightarrow> mesh_peer a \<in> set peersB) \<and>
    (peersA \<noteq> [] \<longrightarrow> \<lparr>rl_DeviceID = dv_ID a, rl_PublicKey = dv_WireGuardPublicKey a,
        rl_AllowedPeers = map mp_DeviceID peersA\<rparr> \<in> set relay) \<and>
    (\<forall>p \<in> set relay. rl_AllowedPeers p \<noteq> [] \<and> (\<exists>d \<in> set mesh. rl_DeviceID p = dv_ID d \<and> rl_PublicKey p = dv_WireGuardPublicKey d \<and>
        (\<exists>peers. oneMeshSpec d devices policy = Inr peers \<and> rl_AllowedPeers p = map mp_DeviceID peers)))"
proof -
  have mesh: "mesh = filter meshCapable devices" using assms(1) by (auto simp: meshDevices_def Let_def split: if_splits)
  have one: "oneMeshSpec d devices policy = Inr (map mesh_peer (filter (mesh_pair policy d) mesh))" if "d \<in> set mesh" for d
    using that by (simp add: oneMeshSpec_def assms(1)) (simp add: mesh)
  have ids: "map mp_DeviceID (map mesh_peer ds) = map dv_ID ds" for ds by (simp add: mesh_peer_def)
  have member: "mesh_peer d \<in> set (map mesh_peer (filter (mesh_pair policy c) mesh)) \<longleftrightarrow> mesh_pair policy c d" if "d \<in> set mesh" for c d
    using that by (auto simp: mesh_peer_def mesh_pair_def)
  have relay: "relay = filter (\<lambda>p. rl_AllowedPeers p \<noteq> []) (map (\<lambda>d. \<lparr>rl_DeviceID = dv_ID d, rl_PublicKey = dv_WireGuardPublicKey d,
      rl_AllowedPeers = map dv_ID (filter (mesh_pair policy d) mesh)\<rparr>) mesh)"
    using assms(6) by (simp add: relaySpec_def assms(1))
  have A: "peersA = map mesh_peer (filter (mesh_pair policy a) mesh)" and B: "peersB = map mesh_peer (filter (mesh_pair policy b) mesh)"
    using assms(4,5) one assms(2,3) by simp_all
  have 1: "mesh_peer b \<in> set peersA \<longleftrightarrow> mesh_peer a \<in> set peersB"
    unfolding A B member [OF assms(3)] member [OF assms(2)] by (rule mesh_pair_sym)
  have 2: "peersA \<noteq> [] \<longrightarrow> \<lparr>rl_DeviceID = dv_ID a, rl_PublicKey = dv_WireGuardPublicKey a,
        rl_AllowedPeers = map mp_DeviceID peersA\<rparr> \<in> set relay"
    unfolding relay A ids using assms(2) by (auto simp: image_iff)
  have 3: "\<forall>p \<in> set relay. rl_AllowedPeers p \<noteq> [] \<and> (\<exists>d \<in> set mesh. rl_DeviceID p = dv_ID d \<and> rl_PublicKey p = dv_WireGuardPublicKey d \<and>
        (\<exists>peers. oneMeshSpec d devices policy = Inr peers \<and> rl_AllowedPeers p = map mp_DeviceID peers))"
    unfolding relay by (auto simp: one ids simp del: map_map)
  show ?thesis using 1 2 3 by blast
qed

definition sample_device :: "string \<Rightarrow> char \<Rightarrow> DeviceRecord" where
  "sample_device i c = \<lparr>dv_ID = i, dv_UserUUID = ''u'', dv_UserID = ''u'', dv_NetworkID = ''n'', dv_Role = ''one'', dv_Name = i,
     dv_Platform = ''linux'', dv_Hostname = i, dv_WireGuardPublicKey = c # replicate 42 (CHR ''A'') @ ''='',
     dv_WireGuardAddress = ''10.0.0.'' @ i @ ''/32'', dv_Status = ''active'', dv_LastSeenAt = None, dv_CreatedAt = 0, dv_UpdatedAt = 0\<rparr>"

theorem mesh_is_symmetric_witness:
  "\<exists>peers peers' relay. oneMeshSpec (sample_device ''2'' (CHR ''B'')) [sample_device ''2'' (CHR ''B''), sample_device ''3'' (CHR ''C'')] open_policy = Inr peers \<and>
     oneMeshSpec (sample_device ''3'' (CHR ''C'')) [sample_device ''2'' (CHR ''B''), sample_device ''3'' (CHR ''C'')] open_policy = Inr peers' \<and>
     relaySpec [sample_device ''2'' (CHR ''B''), sample_device ''3'' (CHR ''C'')] open_policy = Inr relay \<and>
     peers = [mesh_peer (sample_device ''3'' (CHR ''C''))] \<and> mesh_peer (sample_device ''2'' (CHR ''B'')) \<in> set peers'"
proof -
  define a b where "a = sample_device ''2'' (CHR ''B'')" and "b = sample_device ''3'' (CHR ''C'')"
  have mesh: "meshDevices [a, b] = Inr [a, b]" "meshCapable a" "meshCapable b" unfolding a_def b_def by code_simp+
  have ids: "dv_ID a = ''2''" "dv_ID b = ''3''" "dv_WireGuardPublicKey a \<noteq> dv_WireGuardPublicKey b"
    by (simp_all add: a_def b_def sample_device_def)
  have "grantEvaluator open_policy s d" if "s \<in> {''2'', ''3''}" "d \<in> {''2'', ''3''}" for s d
    using that by (auto simp: grantEvaluator_eq open_policy_def matches_def whole_device_def)
  then have pair: "mesh_pair open_policy a b" "mesh_pair open_policy b a" "\<not> mesh_pair open_policy a a" "\<not> mesh_pair open_policy b b"
    using ids by (simp_all add: mesh_pair_def)
  have specs: "oneMeshSpec a [a, b] open_policy = Inr [mesh_peer b]" "oneMeshSpec b [a, b] open_policy = Inr [mesh_peer a]"
    using mesh pair by (simp_all add: oneMeshSpec_def)
  obtain relay where "relaySpec [a, b] open_policy = Inr relay" using mesh(1) by (simp add: relaySpec_def)
  with mesh_is_symmetric [OF mesh(1) _ _ specs this] specs show ?thesis unfolding a_def b_def by auto
qed

section \<open>The first free address\<close>

fun addr_value :: "addr \<Rightarrow> int" where
  "addr_value NoAddr = -1"
| "addr_value (Addr4 a) = a"
| "addr_value (Addr6 a) = a"

definition valid_addr :: "addr \<Rightarrow> bool" where
  "valid_addr a \<longleftrightarrow> 0 \<le> addr_value a \<and> addr_value a < 2 ^ nat (BitLen a)"

text \<open>An address that cannot be given away: the gateway, or one in use.\<close>

definition taken :: "addr \<Rightarrow> (string \<Rightarrow> int option) \<Rightarrow> addr \<Rightarrow> bool" where
  "taken gw devicesWith a \<longleftrightarrow> a = gw \<or> (\<exists>n. devicesWith (AddrString a @ ''/32'') = Some n \<and> n \<noteq> 0)"

lemma Contains_cases:
  assumes "Contains p x" "Contains p y"
  shows "(\<exists>a b c. px_Addr p = Addr4 a \<and> x = Addr4 b \<and> y = Addr4 c) \<or> (\<exists>a b c. px_Addr p = Addr6 a \<and> x = Addr6 b \<and> y = Addr6 c)"
  using assms by (auto simp: Contains_def split: addr.splits)

lemma Contains_convex:
  assumes "Contains p x" "Contains p y" "addr_value x < addr_value y" "valid_addr y"
  shows "Contains p (Next x) \<and> addr_value (Next x) = addr_value x + 1"
proof -
  have div: "a div k = (b + 1) div k" if "a div k = b div k" "a div k = c div k" "b < c" "k > 0" for a b c k :: int
    using that zdiv_mono1 [of b "b + 1" k] zdiv_mono1 [of "b + 1" c k] by simp
  from Contains_cases [OF assms(1,2)] show ?thesis
    using assms by (elim disjE exE) (auto simp: Contains_def valid_addr_def intro!: div)
qed

lemma Contains_same_value: "Contains p x \<Longrightarrow> Contains p y \<Longrightarrow> addr_value x = addr_value y \<Longrightarrow> x = y"
  using Contains_cases [of p x y] by auto

lemma Next_value: "Next c = NoAddr \<or> addr_value (Next c) = addr_value c + 1"
  by (cases c) simp_all

lemma not_Contains_NoAddr [simp]: "\<not> Contains p NoAddr"
  by (simp add: Contains_def split: addr.split)

lemma allocate_loop_Inr: "allocate_loop p gw dw c = Inr address \<Longrightarrow> Contains p c"
  by (subst (asm) allocate_loop.simps) (auto split: if_splits)

lemma allocate_loop_free:
  assumes "allocate_loop p gw dw c = Inr address"
  shows "\<exists>x. Contains p x \<and> x \<noteq> px_Addr p \<and> \<not> taken gw dw x \<and> address = AddrString x @ ''/32'' \<and> dw address = Some 0 \<and>
    addr_value c \<le> addr_value x \<and>
    (\<forall>y. Contains p y \<longrightarrow> addr_value c \<le> addr_value y \<longrightarrow> addr_value y < addr_value x \<longrightarrow> y = px_Addr p \<or> taken gw dw y)"
  using assms
proof (induction p gw dw c rule: allocate_loop.induct)
  case (1 p gw dw c)
  let ?good = "\<lambda>c x. Contains p x \<and> x \<noteq> px_Addr p \<and> \<not> taken gw dw x \<and> address = AddrString x @ ''/32'' \<and> dw address = Some 0 \<and>
    addr_value c \<le> addr_value x \<and>
    (\<forall>y. Contains p y \<longrightarrow> addr_value c \<le> addr_value y \<longrightarrow> addr_value y < addr_value x \<longrightarrow> y = px_Addr p \<or> taken gw dw y)"
  have c: "Contains p c" by (rule allocate_loop_Inr [OF "1.prems"])
  have skip: "\<exists>x. ?good c x" if step: "c = px_Addr p \<or> taken gw dw c" and rest: "allocate_loop p gw dw (Next c) = Inr address"
    and IH: "\<exists>x. ?good (Next c) x"
  proof -
    have "Next c \<noteq> NoAddr" using allocate_loop_Inr [OF rest] by auto
    then have v: "addr_value (Next c) = addr_value c + 1" using Next_value by blast
    obtain x where x: "?good (Next c) x" using IH by blast
    have "y = px_Addr p \<or> taken gw dw y" if "Contains p y" "addr_value c \<le> addr_value y" "addr_value y < addr_value x" for y
      using that x v step Contains_same_value [OF c that(1)] by (cases "addr_value y = addr_value c") auto
    then show ?thesis using x v by (intro exI [of _ x]) auto
  qed
  show ?case
  proof (cases "c = px_Addr p \<or> c = gw")
    case True
    then have rest: "allocate_loop p gw dw (Next c) = Inr address"
      using "1.prems" c by (subst (asm) allocate_loop.simps) simp
    show ?thesis by (rule skip [OF _ rest "1.IH"(1) [OF _ True rest]]) (use True c in \<open>auto simp: taken_def\<close>)
  next
    case False
    then obtain n where n: "dw (AddrString c @ ''/32'') = Some n"
      using "1.prems" c by (subst (asm) allocate_loop.simps) (auto simp: Let_def split: option.splits)
    show ?thesis
    proof (cases "n = 0")
      case True
      then have "address = AddrString c @ ''/32''"
        using "1.prems" c False n by (subst (asm) allocate_loop.simps) (simp add: Let_def)
      then show ?thesis using c False n True by (intro exI [of _ c]) (auto simp: taken_def)
    next
      case pos: False
      then have rest: "allocate_loop p gw dw (Next c) = Inr address"
        using "1.prems" c False n by (subst (asm) allocate_loop.simps) (simp add: Let_def)
      show ?thesis
        by (rule skip [OF _ rest "1.IH"(2) [OF _ False refl n pos rest]]) (use pos n c in \<open>auto simp: taken_def\<close>)
    qed
  qed
qed

lemma allocate_loop_exhausted:
  assumes "allocate_loop p gw dw c = Inl ''overlay network address pool exhausted''" "Contains p c"
  shows "\<forall>y. Contains p y \<longrightarrow> valid_addr y \<longrightarrow> addr_value c \<le> addr_value y \<longrightarrow> y = px_Addr p \<or> taken gw dw y"
  using assms
proof (induction p gw dw c rule: allocate_loop.induct)
  case (1 p gw dw c)
  let ?all = "\<lambda>c. \<forall>y. Contains p y \<longrightarrow> valid_addr y \<longrightarrow> addr_value c \<le> addr_value y \<longrightarrow> y = px_Addr p \<or> taken gw dw y"
  have skip: "?all c" if step: "c = px_Addr p \<or> taken gw dw c" and IH: "Contains p (Next c) \<Longrightarrow> ?all (Next c)"
  proof (intro allI impI)
    fix y assume y: "Contains p y" "valid_addr y" "addr_value c \<le> addr_value y"
    show "y = px_Addr p \<or> taken gw dw y"
    proof (cases "addr_value y = addr_value c")
      case True
      then show ?thesis using Contains_same_value [OF "1.prems"(2) y(1)] step by simp
    next
      case False
      then have "Contains p (Next c) \<and> addr_value (Next c) = addr_value c + 1"
        using Contains_convex [OF "1.prems"(2) y(1) _ y(2)] y(3) by simp
      then show ?thesis using IH y False by simp
    qed
  qed
  show ?case
  proof (cases "c = px_Addr p \<or> c = gw")
    case True
    then have rest: "allocate_loop p gw dw (Next c) = Inl ''overlay network address pool exhausted''"
      using "1.prems" by (subst (asm) allocate_loop.simps) simp
    show ?thesis by (rule skip [OF _ "1.IH"(1) [OF _ True rest]]) (use True "1.prems"(2) in \<open>auto simp: taken_def\<close>)
  next
    case False
    then have unfold: "allocate_loop p gw dw c = (case dw (AddrString c @ ''/32'') of None \<Rightarrow> Inl ''database error''
        | Some n \<Rightarrow> if n = 0 then Inr (AddrString c @ ''/32'') else allocate_loop p gw dw (Next c))"
      using "1.prems"(2) by (subst allocate_loop.simps) (simp add: Let_def)
    then obtain n where n: "dw (AddrString c @ ''/32'') = Some n" "n \<noteq> 0"
      using "1.prems"(1) by (cases "dw (AddrString c @ ''/32'')") (simp_all split: if_splits)
    then have rest: "allocate_loop p gw dw (Next c) = Inl ''overlay network address pool exhausted''"
      using "1.prems"(1) unfold by simp
    show ?thesis
      by (rule skip [OF _ "1.IH"(2) [OF _ False refl n rest]]) (use n "1.prems"(2) in \<open>auto simp: taken_def\<close>)
  qed
qed

text \<open>The gateway's address: the configured one, or the second address of the network.\<close>

definition gateway_address :: "netprefix \<Rightarrow> string \<Rightarrow> addr" where
  "gateway_address p configured =
     (if TrimSpace configured = [] then Next (px_Addr p)
      else case ParsePrefix (TrimSpace configured) of None \<Rightarrow> NoAddr | Some q \<Rightarrow> px_Addr q)"

lemma allocate_loop_of:
  assumes "ParsePrefix cidr = Some p"
  shows "allocateAddress cidr configured dw = Inl ''invalid overlay request'' \<or>
    allocateAddress cidr configured dw = allocate_loop p (gateway_address p configured) dw (px_Addr p)"
  using assms by (auto simp: allocateAddress_def gateway_address_def Let_def split: option.split)

lemma ParsePrefix_self: "ParsePrefix cidr = Some p \<Longrightarrow> Contains p (px_Addr p)"
  by (auto simp: ParsePrefix_def ParseAddr_def Contains_def Let_def split: option.splits if_splits)

text \<open>
  C32: A new device gets the first free address. The allocation returns after finitely many steps. When it
  returns an address, this is one of the network after the network's own, not the gateway's
  and in use by no device, and every address before it is the gateway's or in use; when it
  reports that the pool is exhausted, all addresses after the network's own are.
\<close>

theorem first_free_address:
  assumes "ParsePrefix cidr = Some p" "gw = gateway_address p configured"
  shows "case allocateAddress cidr configured dw of
      Inr address \<Rightarrow> (\<exists>x. Contains p x \<and> addr_value (px_Addr p) < addr_value x \<and> \<not> taken gw dw x \<and>
        address = AddrString x @ ''/32'' \<and> dw address = Some 0 \<and>
        (\<forall>y. Contains p y \<longrightarrow> addr_value (px_Addr p) < addr_value y \<longrightarrow> addr_value y < addr_value x \<longrightarrow> taken gw dw y))
    | Inl e \<Rightarrow> e = ''overlay network address pool exhausted'' \<longrightarrow>
        (\<forall>y. Contains p y \<longrightarrow> valid_addr y \<longrightarrow> addr_value (px_Addr p) < addr_value y \<longrightarrow> taken gw dw y)"
proof -
  note self = ParsePrefix_self [OF assms(1)]
  have own: "addr_value (px_Addr p) \<le> addr_value y \<and> y \<noteq> px_Addr p \<longleftrightarrow> addr_value (px_Addr p) < addr_value y" if "Contains p y" for y
    using Contains_same_value [OF self that] by (cases "addr_value (px_Addr p) = addr_value y") auto
  show ?thesis
  proof (cases "allocateAddress cidr configured dw")
    case (Inr address)
    then have "allocate_loop p gw dw (px_Addr p) = Inr address"
      using allocate_loop_of [OF assms(1), of configured dw] assms(2) by auto
    from allocate_loop_free [OF this] obtain x where "Contains p x" "x \<noteq> px_Addr p" "\<not> taken gw dw x" "address = AddrString x @ ''/32''"
      "dw address = Some 0" "addr_value (px_Addr p) \<le> addr_value x"
      "\<forall>y. Contains p y \<longrightarrow> addr_value (px_Addr p) \<le> addr_value y \<longrightarrow> addr_value y < addr_value x \<longrightarrow> y = px_Addr p \<or> taken gw dw y"
      by blast
    then show ?thesis using own Inr by (auto intro!: exI [of _ x])
  next
    case (Inl e)
    have "taken gw dw y" if "e = ''overlay network address pool exhausted''" "Contains p y" "valid_addr y" "addr_value (px_Addr p) < addr_value y" for y
    proof -
      have "allocate_loop p gw dw (px_Addr p) = Inl ''overlay network address pool exhausted''"
        using allocate_loop_of [OF assms(1), of configured dw] Inl that(1) assms(2) by auto
      from allocate_loop_exhausted [OF this self] that(2-4) own [OF that(2)] show ?thesis by auto
    qed
    then show ?thesis using Inl by simp
  qed
qed

theorem first_free_address_witness:
  "allocateAddress ''10.0.0.0/30'' [] (\<lambda>a. Some (if a = ''10.0.0.2/32'' then 1 else 0)) = Inr ''10.0.0.3/32'' \<and>
   (\<exists>x. AddrString x = ''10.0.0.3'' \<and> (\<exists>p. ParsePrefix ''10.0.0.0/30'' = Some p \<and> Contains p x))"
proof -
  let ?dw = "\<lambda>a. Some (if a = ''10.0.0.2/32'' then 1 else 0)"
  have r: "allocateAddress ''10.0.0.0/30'' [] ?dw = Inr ''10.0.0.3/32''" by code_simp
  have p: "ParsePrefix ''10.0.0.0/30'' = Some \<lparr>px_Addr = Addr4 167772160, px_Bits = 30\<rparr>" by code_simp
  from first_free_address [OF p refl, of "[]" ?dw] obtain x where "Contains \<lparr>px_Addr = Addr4 167772160, px_Bits = 30\<rparr> x"
    "''10.0.0.3/32'' = AddrString x @ ''/32''" unfolding r by auto
  moreover have "AddrString x = ''10.0.0.3''" using \<open>''10.0.0.3/32'' = AddrString x @ ''/32''\<close> append_same_eq [of "''10.0.0.3''" "''/32''" "AddrString x"] by simp
  ultimately show ?thesis using r p by blast
qed

text \<open>
  The length of the address is that of IPv4 in every network. A network may have an IPv6 prefix; its devices
  then get addresses of length 32 instead of 128, and a device with such an address is never
  part of the mesh.
\<close>

theorem ipv6_address_length:
  "allocateAddress ''fd00::/120'' [] (\<lambda>_. Some 0) = Inr ''fd00::2/32'' \<and>
   \<not> meshCapable (d\<lparr>dv_WireGuardAddress := ''fd00::2/32''\<rparr>)"
proof
  show "allocateAddress ''fd00::/120'' [] (\<lambda>_. Some 0) = Inr ''fd00::2/32''" by code_simp
  have "case ParsePrefix ''fd00::2/32'' of None \<Rightarrow> False | Some p \<Rightarrow> px_Bits p \<noteq> BitLen (px_Addr p)" by code_simp
  then obtain p where "ParsePrefix ''fd00::2/32'' = Some p" "px_Bits p \<noteq> BitLen (px_Addr p)" by (auto split: option.splits)
  then show "\<not> meshCapable (d\<lparr>dv_WireGuardAddress := ''fd00::2/32''\<rparr>)"
    by (simp add: meshCapable_def split: option.split)
qed

end
