(* ===== verification/Migration_Plan.thy ===== *)
theory Migration_Plan
  imports Go_Values "HOL-Library.While_Combinator"
begin

text \<open>
  The planning part of \<open>internal/migrate\<close>: the order in which tables are copied
  (\<open>full_business.go\<close>), the plans that merge accounting rows (\<open>usage_merge.go\<close>), and the
  three-way comparison of a catch-up (\<open>catchup_classification.go\<close>, \<open>catchup_compare.go\<close>). These
  functions decide what is written; reading and writing rows is SQL and not modelled. A
  \<open>[32]byte\<close> digest is the list of its bytes. The reviewed catalog of tables is embedded
  JSON and an argument here.
\<close>

section \<open>Order of tables\<close>

record businessColumn =
  bc_Name :: string
  bc_Type :: string
  bc_Nullable :: bool
  bc_Generated :: bool

record businessFK =
  bf_Columns :: "string list"
  bf_Parent :: string
  bf_ParentColumns :: "string list"

record businessTable =
  bt_Columns :: "businessColumn list"
  bt_PrimaryKey :: "string list"
  bt_ForeignKeys :: "businessFK list"

type_synonym catalog = "(string, businessTable) gomap"

text \<open>\<open>tables[name].ForeignKeys\<close>, as the names of the parents.\<close>

definition parents :: "catalog \<Rightarrow> string \<Rightarrow> string list" where
  "parents tables name = (case gm_get tables name of None \<Rightarrow> [] | Some t \<Rightarrow> map bf_Parent (bt_ForeignKeys t))"

text \<open>
  The variables of the loop of \<open>businessOrder\<close>; \<open>bo_remaining\<close> is the list of keys of the map
  \<open>remaining\<close>, whose values are all true. An error of the loop body ends the loop.
\<close>

record business_loop =
  bo_remaining :: "string list"
  bo_order :: "string list"
  bo_error :: "string option"

definition business_ready :: "catalog \<Rightarrow> string list \<Rightarrow> string list" where
  "business_ready tables remaining =
     filter (\<lambda>name. list_all (\<lambda>p. p \<notin> set remaining) (parents tables name)) remaining"

definition business_step :: "catalog \<Rightarrow> business_loop \<Rightarrow> business_loop" where
  "business_step tables st =
     (let remaining = bo_remaining st; ready = business_ready tables remaining in
      if list_ex (\<lambda>name. list_ex (\<lambda>p. \<not> gm_has tables p) (parents tables name)) remaining
      then st\<lparr>bo_error := Some ''unreviewed foreign-key parent''\<rparr>
      else if ready = [] then st\<lparr>bo_error := Some ''full-business foreign-key cycle requires review''\<rparr>
      else st\<lparr>bo_order := bo_order st @ sort ready,
              bo_remaining := filter (\<lambda>name. name \<notin> set ready) remaining\<rparr>)"

text \<open>\<open>None\<close> would be a loop that never ends.\<close>

definition businessOrder :: "catalog \<Rightarrow> (string + string list) option" where
  "businessOrder tables =
     map_option (\<lambda>st. case bo_error st of Some e \<Rightarrow> Inl e | None \<Rightarrow> Inr (bo_order st))
       (while_option (\<lambda>st. bo_error st = None \<and> bo_remaining st \<noteq> []) (business_step tables)
          \<lparr>bo_remaining = map fst tables, bo_order = [], bo_error = None\<rparr>)"

text \<open>\<open>strings.ReplaceAll\<close> of a quote by two quotes.\<close>

definition quoteBusiness :: "string \<Rightarrow> string" where
  "quoteBusiness name =
     CHR 0x22 # concat (map (\<lambda>c. if c = CHR 0x22 then [c, c] else [c]) name) @ [CHR 0x22]"

definition businessColumnList :: "string list \<Rightarrow> string" where
  "businessColumnList names = join '','' (map quoteBusiness names)"

section \<open>Merging accounting rows\<close>

record BusinessEquality =
  be_Rows :: int
  be_SHA256 :: string

record UsageMergeTable =
  um_Source :: BusinessEquality
  um_Before :: BusinessEquality
  um_After :: BusinessEquality
  um_Append :: int
  um_Update :: int
  um_Equal :: int
  um_Conflicts :: int
  um_TargetOnly :: int

type_synonym usageMergeIndex = "(string, string) gomap"

definition zero_merge :: UsageMergeTable where
  "zero_merge = (let z = \<lparr>be_Rows = 0, be_SHA256 = []\<rparr> in
     \<lparr>um_Source = z, um_Before = z, um_After = z, um_Append = 0, um_Update = 0, um_Equal = 0,
      um_Conflicts = 0, um_TargetOnly = 0\<rparr>)"

definition usage_merge_step ::
  "string \<Rightarrow> usageMergeIndex \<Rightarrow> UsageMergeTable \<times> usageMergeIndex \<Rightarrow> string \<times> string \<Rightarrow>
   UsageMergeTable \<times> usageMergeIndex" where
  "usage_merge_step name target acc kv =
     (case (acc, kv) of ((stats, expected), (key, val)) \<Rightarrow>
        let prior = gm_get target key in
        if prior = Some val then (stats\<lparr>um_Equal := um_Equal stats + 1\<rparr>, expected)
        else if name = ''account_billing_profiles'' then (stats\<lparr>um_Conflicts := um_Conflicts stats + 1\<rparr>, expected)
        else if prior = None then (stats\<lparr>um_Append := um_Append stats + 1\<rparr>, gm_put key val expected)
        else if name = ''account_quota_states'' then (stats\<lparr>um_Update := um_Update stats + 1\<rparr>, gm_put key val expected)
        else (stats\<lparr>um_Conflicts := um_Conflicts stats + 1\<rparr>, expected))"

definition target_only :: "usageMergeIndex \<Rightarrow> usageMergeIndex \<Rightarrow> int" where
  "target_only source target = int (length (filter (\<lambda>(key, _). \<not> gm_has source key) target))"

text \<open>The first loop copies \<open>target\<close> to \<open>expected\<close>.\<close>

definition usageMergePlan ::
  "string \<Rightarrow> usageMergeIndex \<Rightarrow> usageMergeIndex \<Rightarrow> UsageMergeTable \<times> usageMergeIndex" where
  "usageMergePlan name source target =
     (let (stats, expected) = foldl (usage_merge_step name target) (zero_merge, target) source
      in (stats\<lparr>um_TargetOnly := target_only source target\<rparr>, expected))"

definition append_step ::
  "usageMergeIndex \<Rightarrow> UsageMergeTable \<times> usageMergeIndex \<Rightarrow> string \<times> string \<Rightarrow>
   UsageMergeTable \<times> usageMergeIndex" where
  "append_step target acc kv =
     (case (acc, kv) of ((stats, expected), (k, v)) \<Rightarrow>
        (case gm_get target k of
           None \<Rightarrow> (stats\<lparr>um_Append := um_Append stats + 1\<rparr>, gm_put k v expected)
         | Some prior \<Rightarrow>
             if prior = v then (stats\<lparr>um_Equal := um_Equal stats + 1\<rparr>, expected)
             else (stats\<lparr>um_Conflicts := um_Conflicts stats + 1\<rparr>, expected)))"

definition businessAppendPlan :: "usageMergeIndex \<Rightarrow> usageMergeIndex \<Rightarrow> UsageMergeTable \<times> usageMergeIndex" where
  "businessAppendPlan source target =
     (let (stats, expected) = foldl (append_step target) (zero_merge, target) source
      in (stats\<lparr>um_TargetOnly := target_only source target\<rparr>, expected))"

definition usageIndexesEqual :: "usageMergeIndex \<Rightarrow> usageMergeIndex \<Rightarrow> bool" where
  "usageIndexesEqual a b \<longleftrightarrow> length a = length b \<and> list_all (\<lambda>(key, val). gm_get b key = Some val) a"

section \<open>Catch-up\<close>

datatype CatchupAction =
    CatchupInsert | CatchupUpdate | CatchupMatch | CatchupTargetChange
  | CatchupSourceDeleted | CatchupConflict | CatchupAbsent

record catchupFingerprint =
  cf_present :: bool
  cf_digest :: string

definition absent_row :: catchupFingerprint where
  "absent_row = \<lparr>cf_present = False, cf_digest = replicate 32 (CHR 0x00)\<rparr>"

definition classifyCatchupFingerprints ::
  "catchupFingerprint \<Rightarrow> catchupFingerprint \<Rightarrow> catchupFingerprint \<Rightarrow> bool \<Rightarrow> CatchupAction" where
  "classifyCatchupFingerprints baseline source target immutable =
     (if \<not> cf_present source then
        (if cf_present baseline then
           (if cf_present target \<and> cf_digest target \<noteq> cf_digest baseline then CatchupConflict
            else CatchupSourceDeleted)
         else if cf_present target then CatchupTargetChange
         else CatchupAbsent)
      else if \<not> cf_present target then
        (if cf_present baseline then CatchupConflict else CatchupInsert)
      else if cf_digest source = cf_digest target then CatchupMatch
      else if \<not> cf_present baseline then CatchupConflict
      else
        let sourceChanged = (cf_digest source \<noteq> cf_digest baseline);
            targetChanged = (cf_digest target \<noteq> cf_digest baseline) in
        if sourceChanged \<and> \<not> targetChanged \<and> \<not> immutable then CatchupUpdate
        else if \<not> sourceChanged \<and> targetChanged then CatchupTargetChange
        else CatchupConflict)"

text \<open>A row given by the text of its digest; the pattern is \<open>^[a-f0-9]{64}$\<close>.\<close>

record CatchupRow =
  cr_Present :: bool
  cr_SHA256 :: string

definition hex_char :: "char \<Rightarrow> bool" where
  "hex_char c \<longleftrightarrow> char_between (CHR ''a'') (CHR ''f'') c \<or> char_between (CHR ''0'') (CHR ''9'') c"

definition migrationSHA :: "string \<Rightarrow> bool" where
  "migrationSHA t \<longleftrightarrow> length t = 64 \<and> list_all hex_char t"

definition hex_value :: "char \<Rightarrow> int" where
  "hex_value c = (if char_between (CHR ''0'') (CHR ''9'') c then byte c - 48 else byte c - 87)"

text \<open>\<open>hex.DecodeString\<close> of a text of lower-case digits.\<close>

fun hex_decode :: "string \<Rightarrow> string" where
  "hex_decode (a # b # t) = char_of (16 * hex_value a + hex_value b) # hex_decode t"
| "hex_decode _ = []"

definition invalid_row :: "CatchupRow \<Rightarrow> bool" where
  "invalid_row row \<longleftrightarrow>
     cr_Present row \<and> \<not> migrationSHA (cr_SHA256 row) \<or> \<not> cr_Present row \<and> cr_SHA256 row \<noteq> []"

definition fingerprint_of :: "CatchupRow \<Rightarrow> catchupFingerprint" where
  "fingerprint_of row =
     (if cr_Present row then \<lparr>cf_present = True, cf_digest = hex_decode (cr_SHA256 row)\<rparr> else absent_row)"

definition ClassifyCatchup :: "CatchupRow \<Rightarrow> CatchupRow \<Rightarrow> CatchupRow \<Rightarrow> bool \<Rightarrow> CatchupAction option" where
  "ClassifyCatchup baseline source target immutable =
     (if list_ex invalid_row [baseline, source, target] then None
      else Some (classifyCatchupFingerprints (fingerprint_of baseline) (fingerprint_of source)
                   (fingerprint_of target) immutable))"

record businessLeaf =
  bl_Key :: string
  bl_Row :: string

record CatchupTableSummary =
  cs_Inserts :: int
  cs_SourceUpdates :: int
  cs_Matches :: int
  cs_TargetChanges :: int
  cs_SourceDeletions :: int
  cs_Conflicts :: int

definition zero_summary :: CatchupTableSummary where
  "zero_summary = \<lparr>cs_Inserts = 0, cs_SourceUpdates = 0, cs_Matches = 0, cs_TargetChanges = 0,
     cs_SourceDeletions = 0, cs_Conflicts = 0\<rparr>"

definition catchupImmutableFacts :: "string list" where
  "catchupImmutableFacts =
     [''billing_ledger'', ''finance_invoices'', ''finance_payments'', ''finance_refunds'',
      ''finance_operation_events'', ''audit_logs'', ''referral_reward_events'', ''account_lifecycle_events'']"

record catchup_states =
  st_base :: catchupFingerprint
  st_src :: catchupFingerprint
  st_dst :: catchupFingerprint

definition absent_states :: catchup_states where
  "absent_states = \<lparr>st_base = absent_row, st_src = absent_row, st_dst = absent_row\<rparr>"

text \<open>
  One of the three streams: \<open>sel\<close> and \<open>upd\<close> select the component of the state it fills. \<open>None\<close> is
  the error for a repeated key.
\<close>

fun collect_leaves ::
  "(catchup_states \<Rightarrow> catchupFingerprint) \<Rightarrow> (catchupFingerprint \<Rightarrow> catchup_states \<Rightarrow> catchup_states) \<Rightarrow>
   businessLeaf list \<Rightarrow> (string, catchup_states) gomap \<Rightarrow> (string, catchup_states) gomap option" where
  "collect_leaves sel upd [] all = Some all"
| "collect_leaves sel upd (leaf # leaves) all =
     (let state = (case gm_get all (bl_Key leaf) of None \<Rightarrow> absent_states | Some st \<Rightarrow> st) in
      if cf_present (sel state) then None
      else collect_leaves sel upd leaves
             (gm_put (bl_Key leaf) (upd \<lparr>cf_present = True, cf_digest = bl_Row leaf\<rparr> state) all))"

definition catchup_table_states ::
  "businessLeaf list \<Rightarrow> businessLeaf list \<Rightarrow> businessLeaf list \<Rightarrow> (string, catchup_states) gomap option" where
  "catchup_table_states baseline source target =
     (case collect_leaves st_base (\<lambda>r st. st\<lparr>st_base := r\<rparr>) baseline [] of
        None \<Rightarrow> None
      | Some all \<Rightarrow>
          (case collect_leaves st_src (\<lambda>r st. st\<lparr>st_src := r\<rparr>) source all of
             None \<Rightarrow> None
           | Some all \<Rightarrow> collect_leaves st_dst (\<lambda>r st. st\<lparr>st_dst := r\<rparr>) target all))"

definition state_action :: "string \<Rightarrow> catchup_states \<Rightarrow> CatchupAction" where
  "state_action table st =
     classifyCatchupFingerprints (st_base st) (st_src st) (st_dst st) (table \<in> set catchupImmutableFacts)"

definition count_action :: "CatchupAction \<Rightarrow> CatchupTableSummary \<Rightarrow> CatchupTableSummary" where
  "count_action action out =
     (case action of
        CatchupInsert \<Rightarrow> out\<lparr>cs_Inserts := cs_Inserts out + 1\<rparr>
      | CatchupUpdate \<Rightarrow> out\<lparr>cs_SourceUpdates := cs_SourceUpdates out + 1\<rparr>
      | CatchupMatch \<Rightarrow> out\<lparr>cs_Matches := cs_Matches out + 1\<rparr>
      | CatchupTargetChange \<Rightarrow> out\<lparr>cs_TargetChanges := cs_TargetChanges out + 1\<rparr>
      | CatchupSourceDeleted \<Rightarrow> out\<lparr>cs_SourceDeletions := cs_SourceDeletions out + 1\<rparr>
      | CatchupConflict \<Rightarrow> out\<lparr>cs_Conflicts := cs_Conflicts out + 1\<rparr>
      | CatchupAbsent \<Rightarrow> out)"

text \<open>
  \<open>catalog\<close> is the result of \<open>migrationCatalog\<close>, \<open>None\<close> its error. The second component of the
  result is the map of actions, \<open>None\<close> a nil map.
\<close>

definition classifyCatchupTable ::
  "catalog option \<Rightarrow> string \<Rightarrow> businessLeaf list \<Rightarrow> businessLeaf list \<Rightarrow> businessLeaf list \<Rightarrow> bool \<Rightarrow>
   string + CatchupTableSummary \<times> (string, CatchupAction) gomap option" where
  "classifyCatchupTable catalog table baseline source target collect =
     (case catalog of None \<Rightarrow> Inl ''catalog'' | Some tables \<Rightarrow>
      if \<not> gm_has tables table then Inl ''unknown catchup table''
      else case catchup_table_states baseline source target of
        None \<Rightarrow> Inl ''duplicate catchup primary-key fingerprint''
      | Some all \<Rightarrow>
          let actions = map (map_prod id (state_action table)) all;
              writes = filter (\<lambda>(_, a). a = CatchupInsert \<or> a = CatchupUpdate) actions;
              out = foldl (\<lambda>out (_, a). count_action a out) zero_summary actions in
          if list_ex (\<lambda>(_, a). a = CatchupAbsent) actions then Inl ''unexpected absent key''
          else Inr (out, if cs_Conflicts out > 0 then None else if collect then Some writes else None))"

definition compareCatchupTable ::
  "catalog option \<Rightarrow> string \<Rightarrow> businessLeaf list \<Rightarrow> businessLeaf list \<Rightarrow> businessLeaf list \<Rightarrow>
   string + CatchupTableSummary" where
  "compareCatchupTable catalog table baseline source target =
     map_sum id fst (classifyCatchupTable catalog table baseline source target False)"

end
