(* ===== verification/Migration_Sql.thy ===== *)
theory Migration_Sql
  imports Go_Values
begin

text \<open>
  Splitting a migration script into statements (\<open>internal/migrate/controlled.go\<close>). The scripts run
  inside one transaction of the migration tool, so the splitter refuses scripts with
  transaction control of their own, other than one wrapper around the whole script.
\<close>

section \<open>Helpers of the standard library\<close>

text \<open>\<open>strings.TrimLeft\<close> and \<open>strings.Trim\<close> with a set of ASCII characters.\<close>

definition TrimLeft :: "string \<Rightarrow> string \<Rightarrow> string" where
  "TrimLeft cutset t = dropWhile (\<lambda>c. c \<in> set cutset) t"

definition Trim :: "string \<Rightarrow> string \<Rightarrow> string" where
  "Trim cutset t = rev (dropWhile (\<lambda>c. c \<in> set cutset) (rev (TrimLeft cutset t)))"

definition TrimSuffix :: "string \<Rightarrow> string \<Rightarrow> string" where
  "TrimSuffix t suffix = (if starts_with (rev suffix) (rev t) then take (length t - length suffix) t else t)"

abbreviation (input) newline :: char where "newline \<equiv> CHR 0x0A"
abbreviation (input) quote :: char where "quote \<equiv> CHR 0x27"
abbreviation (input) double_quote :: char where "double_quote \<equiv> CHR 0x22"
abbreviation (input) semicolon :: char where "semicolon \<equiv> CHR 0x3B"

definition separators :: string where
  "separators = [CHR 0x20, CHR 0x0D, CHR 0x0A, CHR 0x09, semicolon]"

lemma starts_with_length: "starts_with p t \<Longrightarrow> length p \<le> length t"
  unfolding starts_with_def by (metis length_take min.cobounded1)

section \<open>The first word of a statement\<close>

text \<open>
  The inner loop of \<open>firstSQLWord\<close>, from behind the opening of a comment on: what follows the
  comment, \<open>None\<close> when it does not end.
\<close>

function skip_comment :: "string \<Rightarrow> nat \<Rightarrow> string option" where
  "skip_comment t depth =
     (if depth = 0 then Some t
      else if t = [] then None
      else if starts_with ''/*'' t then skip_comment (drop 2 t) (Suc depth)
      else if starts_with ''*/'' t then skip_comment (drop 2 t) (depth - 1)
      else skip_comment (tl t) depth)"
  by pat_completeness auto
termination
  by (relation "measure (\<lambda>(t, d). length t)") (auto simp: neq_Nil_conv)

declare skip_comment.simps [simp del]

lemma skip_comment_shorter: "skip_comment t d = Some r \<Longrightarrow> length r \<le> length t"
proof (induction t d rule: skip_comment.induct)
  case (1 t d)
  then show ?case
    by (subst (asm) skip_comment.simps) (fastforce split: if_splits)
qed

lemma TrimLeft_shorter: "length (TrimLeft cs t) \<le> length t"
  by (simp add: TrimLeft_def length_dropWhile_le)

text \<open>The outer loop: white space, separators and comments are skipped.\<close>

function skip_blank :: "string \<Rightarrow> string option" where
  "skip_blank t =
     (let t = TrimLeft separators t in
      if starts_with ''--'' t then
        (if newline \<in> set t then skip_blank (tl (dropWhile (\<lambda>c. c \<noteq> newline) t)) else None)
      else if starts_with ''/*'' t then
        (case skip_comment (drop 2 t) 1 of None \<Rightarrow> None | Some r \<Rightarrow> skip_blank r)
      else Some t)"
  by pat_completeness auto

termination
proof (relation "measure length", goal_cases)
  case (2 t u)
  then have "u \<noteq> []" by (auto simp: starts_with_def)
  moreover have "length (dropWhile (\<lambda>c. c \<noteq> newline) u) \<le> length u" by (rule length_dropWhile_le)
  ultimately have "length (tl (dropWhile (\<lambda>c. c \<noteq> newline) u)) < length u"
    unfolding length_tl length_greater_0_conv [symmetric] by linarith
  then show ?case using 2 TrimLeft_shorter [of separators t] by simp
next
  case (3 t u r)
  then have "length r \<le> length (drop 2 u)" using skip_comment_shorter by blast
  moreover have "2 \<le> length u" using starts_with_length [of "''/*''" u] 3 by simp
  ultimately show ?case using 3 TrimLeft_shorter [of separators t] by simp
qed simp

declare skip_blank.simps [simp del]

definition word_byte :: "char \<Rightarrow> bool" where
  "word_byte c \<longleftrightarrow> char_between (CHR ''a'') (CHR ''z'') c \<or> char_between (CHR ''A'') (CHR ''Z'') c \<or> c = CHR ''_''"

definition firstSQLWord :: "string \<Rightarrow> string \<times> string" where
  "firstSQLWord t =
     (case skip_blank t of
        None \<Rightarrow> ([], [])
      | Some t \<Rightarrow>
          let word = takeWhile word_byte t; rest = dropWhile word_byte t in
          if word = [] then ([], TrimSpace t)
          else (ToUpper word, TrimSpace (TrimSuffix (TrimSpace rest) [semicolon])))"

section \<open>Statements\<close>

text \<open>The values of the variable \<open>state\<close>: 0, \<open>e\<close>, a quote of either kind, or \<open>-\<close>.\<close>

datatype sql_state = SPlain | SEscape | SQuote char | SComment

record sql_scan =
  sc_start :: nat
  sc_state :: sql_state
  sc_depth :: nat
  sc_dollar :: string
  sc_out :: "string list"

definition ident_byte :: "char \<Rightarrow> bool" where
  "ident_byte c \<longleftrightarrow> c = CHR ''_'' \<or> char_between (CHR ''a'') (CHR ''z'') c \<or>
     char_between (CHR ''A'') (CHR ''Z'') c \<or> char_between (CHR ''0'') (CHR ''9'') c"

definition isSQLIdentifierByte :: "char \<Rightarrow> bool" where
  "isSQLIdentifierByte c \<longleftrightarrow> ident_byte c \<or> c = CHR ''$''"

text \<open>A part counts as a statement when it has more than separators.\<close>

definition has_text :: "string \<Rightarrow> bool" where
  "has_text part \<longleftrightarrow> Trim separators part \<noteq> []"

definition slice :: "string \<Rightarrow> nat \<Rightarrow> nat \<Rightarrow> string" where
  "slice t a b = take (b - a) (drop a t)"

text \<open>The body of the loop at position \<open>i\<close>: the position it leaves behind, and the variables.\<close>

definition sql_step :: "string \<Rightarrow> nat \<Rightarrow> sql_scan \<Rightarrow> nat \<times> sql_scan" where
  "sql_step sql i v =
     (let c = sql ! i; here = drop i sql in
      if sc_dollar v \<noteq> [] then
        (if starts_with (sc_dollar v) here then (i + length (sc_dollar v) - 1, v\<lparr>sc_dollar := []\<rparr>) else (i, v))
      else if sc_state v = SEscape then
        (if c = backslash then (i + 1, v)
         else if c = quote then
           (if i + 1 < length sql \<and> sql ! (i + 1) = quote then (i + 1, v) else (i, v\<lparr>sc_state := SPlain\<rparr>))
         else (i, v))
      else case sc_state v of
        SQuote q \<Rightarrow>
          if c = q then
            (if i + 1 < length sql \<and> sql ! (i + 1) = q then (i + 1, v) else (i, v\<lparr>sc_state := SPlain\<rparr>))
          else (i, v)
      | st \<Rightarrow>
          if sc_depth v > 0 then
            (if starts_with ''/*'' here then (i + 1, v\<lparr>sc_depth := sc_depth v + 1\<rparr>)
             else if starts_with ''*/'' here then (i + 1, v\<lparr>sc_depth := sc_depth v - 1\<rparr>)
             else (i, v))
          else if st = SComment then (if c = newline then (i, v\<lparr>sc_state := SPlain\<rparr>) else (i, v))
          else if starts_with ''--'' here then (i + 1, v\<lparr>sc_state := SComment\<rparr>)
          else if starts_with ''/*'' here then (i + 1, v\<lparr>sc_depth := 1\<rparr>)
          else if c = quote then
            (if i > 0 \<and> (sql ! (i - 1) = CHR ''e'' \<or> sql ! (i - 1) = CHR ''E'') \<and>
                (i < 2 \<or> \<not> isSQLIdentifierByte (sql ! (i - 2)))
             then (i, v\<lparr>sc_state := SEscape\<rparr>) else (i, v\<lparr>sc_state := SQuote quote\<rparr>))
          else if c = double_quote then (i, v\<lparr>sc_state := SQuote double_quote\<rparr>)
          else if c = CHR ''$'' then
            (let tag = takeWhile ident_byte (drop (i + 1) sql); j = i + 1 + length tag in
             if j < length sql \<and> sql ! j = CHR ''$'' then (j, v\<lparr>sc_dollar := CHR ''$'' # tag @ ''$''\<rparr>)
             else (i, v))
          else if c = semicolon then
            (let part = TrimSpace (slice sql (sc_start v) (i + 1)) in
             (i, v\<lparr>sc_out := (if has_text part then sc_out v @ [part] else sc_out v), sc_start := i + 1\<rparr>))
          else (i, v))"

lemma dollar_ge: "d \<noteq> [] \<Longrightarrow> i \<le> i + length d - Suc 0"
  by (cases d) simp_all

lemma sql_step_ge: "(j, w) = sql_step sql i v \<Longrightarrow> i \<le> j"
  unfolding sql_step_def Let_def
  by (cases "sc_dollar v = []"; cases "sc_state v") (auto simp: dollar_ge split: if_splits)

function sql_loop :: "string \<Rightarrow> nat \<Rightarrow> sql_scan \<Rightarrow> sql_scan" where
  "sql_loop sql i v =
     (if i < length sql then (case sql_step sql i v of (j, w) \<Rightarrow> sql_loop sql (Suc j) w) else v)"
  by pat_completeness auto
termination
  by (relation "measure (\<lambda>(sql, i, v). length sql - i)") (auto dest!: sql_step_ge)

declare sql_loop.simps [simp del]

definition sqlStatements :: "string \<Rightarrow> string + string list" where
  "sqlStatements sql =
     (let v = sql_loop sql 0 \<lparr>sc_start = 0, sc_state = SPlain, sc_depth = 0, sc_dollar = [], sc_out = []\<rparr> in
      if sc_state v \<noteq> SPlain \<and> sc_state v \<noteq> SComment \<or> sc_depth v \<noteq> 0 \<or> sc_dollar v \<noteq> []
      then Inl ''unterminated SQL quote or comment''
      else
        let tail = TrimSpace (drop (sc_start v) sql) in
        if Trim separators tail \<noteq> [] \<and> fst (firstSQLWord tail) \<noteq> []
        then Inl ''migration statement must end with a semicolon''
        else Inr (sc_out v))"

definition transaction_words :: "string list" where
  "transaction_words = [''BEGIN'', ''COMMIT'', ''ROLLBACK'', ''START'', ''END'']"

definition splitMigrationSQL :: "string \<Rightarrow> string + string list" where
  "splitMigrationSQL sql =
     (case sqlStatements sql of
        Inl e \<Rightarrow> Inl e
      | Inr stmts \<Rightarrow>
          if stmts = [] then Inl ''empty migration''
          else
            let begins = (firstSQLWord (hd stmts) = (''BEGIN'', []));
                commits = (firstSQLWord (last stmts) = (''COMMIT'', [])) in
            if begins \<noteq> commits then Inl ''incomplete outer transaction wrapper''
            else
              let body = (if begins \<and> commits then butlast (tl stmts) else stmts) in
              if list_ex (\<lambda>stmt. fst (firstSQLWord stmt) \<in> set transaction_words) body
              then Inl ''nested transaction control is unsupported''
              else if body = [] then Inl ''empty migration body''
              else Inr body)"

end
