(* ===== verification/Migration_Properties.thy ===== *)
theory Migration_Properties
  imports Migration_Plan Migration_Tokens
begin

text \<open>
  What the planning of a migration promises: an order of tables that respects foreign keys and is
  found whenever there is one, merge plans that never lose or overwrite a row of the target, and
  a catch-up that writes only where the target has not changed.
\<close>

section \<open>Order of tables\<close>

definition known_parents :: "catalog \<Rightarrow> bool" where
  "known_parents tables \<longleftrightarrow> (\<forall>n \<in> fst ` set tables. \<forall>p \<in> set (parents tables n). gm_has tables p)"

definition parent_of :: "catalog \<Rightarrow> (string \<times> string) set" where
  "parent_of tables = {(p, n). n \<in> fst ` set tables \<and> p \<in> set (parents tables n)}"

definition topological :: "catalog \<Rightarrow> string list \<Rightarrow> bool" where
  "topological tables order \<longleftrightarrow> (\<forall>l n r. order = l @ n # r \<longrightarrow> set (parents tables n) \<subseteq> set l)"

definition order_inv :: "catalog \<Rightarrow> business_loop \<Rightarrow> bool" where
  "order_inv tables st \<longleftrightarrow> set (bo_order st) \<union> set (bo_remaining st) = fst ` set tables \<and>
     (gm_wf tables \<longrightarrow> distinct (bo_order st @ bo_remaining st)) \<and>
     set (bo_remaining st) \<inter> set (bo_order st) = {} \<and> topological tables (bo_order st)"

lemma topological_append:
  assumes "topological tables xs" and "\<And>n. n \<in> set ys \<Longrightarrow> set (parents tables n) \<subseteq> set xs"
  shows "topological tables (xs @ ys)"
  unfolding topological_def
proof (intro allI impI)
  fix l n r assume eq: "xs @ ys = l @ n # r"
  then have "(\<exists>us. xs = l @ us \<and> us @ ys = n # r) \<or> (\<exists>us. l = xs @ us \<and> ys = us @ n # r)"
    by (auto simp: append_eq_append_conv2)
  then show "set (parents tables n) \<subseteq> set l"
  proof (elim disjE exE conjE)
    fix us assume us: "xs = l @ us" "us @ ys = n # r"
    show ?thesis
    proof (cases us)
      case Nil
      then show ?thesis using us assms(2) [of n] by simp
    next
      case (Cons a us')
      then have "xs = l @ n # us'" using us by simp
      then show ?thesis using assms(1) unfolding topological_def by blast
    qed
  next
    fix us assume "l = xs @ us" "ys = us @ n # r"
    then show ?thesis using assms(2) [of n] by auto
  qed
qed

lemma has_key: "gm_has m k \<longleftrightarrow> k \<in> fst ` set m"
  by (simp add: map_of_eq_None_iff)

text \<open>One round either stops with an error or moves the tables that are ready.\<close>

lemma business_step_cases:
  obtains (error) e where "business_step tables st = st\<lparr>bo_error := Some e\<rparr>"
      "\<not> known_parents tables \<or> business_ready tables (bo_remaining st) = []" 
  | (move) "business_step tables st = st\<lparr>bo_order := bo_order st @ sort (business_ready tables (bo_remaining st)),
        bo_remaining := filter (\<lambda>n. n \<notin> set (business_ready tables (bo_remaining st))) (bo_remaining st)\<rparr>"
      "business_ready tables (bo_remaining st) \<noteq> []"
      "\<And>n p. n \<in> set (bo_remaining st) \<Longrightarrow> p \<in> set (parents tables n) \<Longrightarrow> gm_has tables p"
proof (cases "list_ex (\<lambda>n. list_ex (\<lambda>p. \<not> gm_has tables p) (parents tables n)) (bo_remaining st)")
  case True
  then obtain n p where np: "p \<in> set (parents tables n)" "\<not> gm_has tables p" by (auto simp: list_ex_iff)
  have "n \<in> fst ` set tables"
    using np(1) has_key [of tables n] by (cases "gm_get tables n") (simp_all add: parents_def)
  then have "\<not> known_parents tables" using np unfolding known_parents_def by blast
  then show thesis
    by (intro error [of "''unreviewed foreign-key parent''"] disjI1) (simp only: business_step_def Let_def True if_True)
next
  case False
  then have known: "gm_has tables p" if "n \<in> set (bo_remaining st)" "p \<in> set (parents tables n)" for n p
    using that unfolding list_ex_iff by blast
  show thesis
  proof (cases "business_ready tables (bo_remaining st) = []")
    case ready: True
    have "business_step tables st = st\<lparr>bo_error := Some ''full-business foreign-key cycle requires review''\<rparr>"
      unfolding business_step_def Let_def if_not_P [OF False] if_P [OF ready] ..
    then show thesis using ready by (intro error disjI2)
  next
    case ready: False
    show thesis
      by (intro move ready known) (simp_all only: business_step_def Let_def False ready if_False)
  qed
qed

lemma order_inv_step: assumes "order_inv tables st" shows "order_inv tables (business_step tables st)"
proof (cases tables st rule: business_step_cases)
  case (error e)
  then show ?thesis using assms by (simp add: order_inv_def)
next
  case move
  let ?rem = "bo_remaining st" and ?ready = "business_ready tables (bo_remaining st)"
  have ready: "n \<in> set ?ready \<longleftrightarrow> n \<in> set ?rem \<and> set (parents tables n) \<inter> set ?rem = {}" for n
    by (auto simp: business_ready_def list_all_iff)
  have par: "set (parents tables n) \<subseteq> set (bo_order st)" if "n \<in> set ?ready" for n
  proof
    fix p assume p: "p \<in> set (parents tables n)"
    then have "p \<in> fst ` set tables" using move(3) [of n p] that ready has_key by metis
    then show "p \<in> set (bo_order st)" using assms p that ready [of n] by (auto simp: order_inv_def)
  qed
  have "topological tables (bo_order st @ sort ?ready)"
    by (rule topological_append) (use assms par in \<open>simp_all add: order_inv_def\<close>)
  moreover have "set ?ready \<subseteq> set ?rem" "distinct ?rem \<Longrightarrow> distinct ?ready" by (auto simp: business_ready_def)
  ultimately show ?thesis
    using assms unfolding move(1) order_inv_def by auto
qed

definition loop_size :: "business_loop \<Rightarrow> nat" where
  "loop_size st = length (bo_remaining st) + (if bo_error st = None then 1 else 0)"

lemma loop_size_step:
  assumes "bo_error st = None" shows "loop_size (business_step tables st) < loop_size st"
proof (cases tables st rule: business_step_cases)
  case (error e)
  then show ?thesis using assms by (simp add: loop_size_def)
next
  case move
  obtain n where "n \<in> set (business_ready tables (bo_remaining st))" using move(2) by (cases "business_ready tables (bo_remaining st)") auto
  then have "n \<in> set (bo_remaining st)" "\<not> n \<notin> set (business_ready tables (bo_remaining st))" by (auto simp: business_ready_def)
  then have "length (filter (\<lambda>n. n \<notin> set (business_ready tables (bo_remaining st))) (bo_remaining st)) < length (bo_remaining st)"
    by (rule length_filter_less)
  then show ?thesis using assms by (simp add: loop_size_def move(1))
qed

definition order_start :: "catalog \<Rightarrow> business_loop" where
  "order_start tables = \<lparr>bo_remaining = map fst tables, bo_order = [], bo_error = None\<rparr>"

lemma order_inv_start: "order_inv tables (order_start tables)"
  by (auto simp: order_inv_def order_start_def topological_def)

text \<open>The loop ends, in a state with the invariant; an error comes from a state whose round failed.\<close>

definition failed_round :: "catalog \<Rightarrow> business_loop \<Rightarrow> bool" where
  "failed_round tables st \<longleftrightarrow> bo_error st = None \<or> \<not> known_parents tables \<or>
     (bo_remaining st \<noteq> [] \<and> business_ready tables (bo_remaining st) = [])"

lemma order_loop_ends:
  "\<exists>st. while_option (\<lambda>st. bo_error st = None \<and> bo_remaining st \<noteq> []) (business_step tables) (order_start tables) = Some st \<and>
     order_inv tables st \<and> failed_round tables st \<and> (bo_error st = None \<longrightarrow> bo_remaining st = [])"
proof -
  let ?b = "\<lambda>st. bo_error st = None \<and> bo_remaining st \<noteq> []" and ?P = "\<lambda>st. order_inv tables st \<and> failed_round tables st"
  have keep: "?P (business_step tables st)" if "?P st" "?b st" for st
  proof (cases tables st rule: business_step_cases)
    case (error e)
    then show ?thesis using that order_inv_step [of tables st] by (auto simp: failed_round_def)
  next
    case move
    then show ?thesis using that order_inv_step [of tables st] by (simp add: failed_round_def)
  qed
  have start: "?P (order_start tables)" using order_inv_start by (simp add: failed_round_def order_start_def)
  have "\<exists>st. while_option ?b (business_step tables) (order_start tables) = Some st"
    by (rule measure_while_option_Some [where P = "\<lambda>_. True" and f = loop_size]) (simp_all add: loop_size_step)
  then obtain st where st: "while_option ?b (business_step tables) (order_start tables) = Some st" ..
  have "?P st" by (rule while_option_rule [of ?P, OF keep st start])
  moreover have "\<not> ?b st" by (rule while_option_stop [OF st])
  ultimately show ?thesis using st by blast
qed

lemma businessOrder_result:
  obtains st where "businessOrder tables = Some (case bo_error st of Some e \<Rightarrow> Inl e | None \<Rightarrow> Inr (bo_order st))"
    "order_inv tables st" "failed_round tables st" "bo_error st = None \<longrightarrow> bo_remaining st = []"
proof -
  obtain st where "while_option (\<lambda>st. bo_error st = None \<and> bo_remaining st \<noteq> []) (business_step tables) (order_start tables) = Some st"
    and st: "order_inv tables st" "failed_round tables st" "bo_error st = None \<longrightarrow> bo_remaining st = []"
    using order_loop_ends [of tables] by (elim exE conjE)
  then have "businessOrder tables = Some (case bo_error st of Some e \<Rightarrow> Inl e | None \<Rightarrow> Inr (bo_order st))"
    unfolding businessOrder_def order_start_def by simp
  then show thesis using st by (rule that)
qed

text \<open>In an order that respects the foreign keys, parents have smaller positions.\<close>

lemma topological_acyclic:
  assumes "topological tables order" "set order = fst ` set tables" shows "acyclic (parent_of tables)"
proof -
  define pos where "pos n = length (takeWhile (\<lambda>x. x \<noteq> n) order)" for n
  have pos: "pos n = length u" if "order = u @ n # w" "n \<notin> set u" for n u w
  proof -
    have "takeWhile (\<lambda>x. x \<noteq> n) (u @ n # w) = u" using that(2) by (induction u) auto
    then show ?thesis by (simp add: pos_def that(1))
  qed
  have less: "pos p < pos n" if "(p, n) \<in> parent_of tables" for p n
  proof -
    have n: "n \<in> set order" and p: "p \<in> set (parents tables n)" using that assms(2) by (simp_all add: parent_of_def)
    obtain l r where l: "order = l @ n # r" "n \<notin> set l" using split_list_first [OF n] by blast
    then have pl: "p \<in> set l" using assms(1) p unfolding topological_def by blast
    obtain l1 l2 where "l = l1 @ p # l2" "p \<notin> set l1" using split_list_first [OF pl] by blast
    with l pos [of l n r] pos [of l1 p "l2 @ n # r"] show ?thesis by simp
  qed
  have "pos p < pos n" if "(p, n) \<in> (parent_of tables)\<^sup>+" for p n
    using that by (induction rule: trancl.induct) (auto intro: less less_trans)
  then show ?thesis unfolding acyclic_def by blast
qed

text \<open>Without a cycle some remaining table has no remaining parent.\<close>

lemma acyclic_ready:
  assumes "acyclic (parent_of tables)" "set rem \<subseteq> fst ` set tables" "rem \<noteq> []"
  shows "business_ready tables rem \<noteq> []"
proof -
  have "parent_of tables \<subseteq> (\<Union>n \<in> fst ` set tables. set (parents tables n) \<times> {n})" by (auto simp: parent_of_def)
  then have "finite (parent_of tables)" by (rule finite_subset) auto
  then have "wf (parent_of tables)" using assms(1) by (rule finite_acyclic_wf)
  moreover have "hd rem \<in> set rem" using assms(3) by simp
  ultimately obtain n where n: "n \<in> set rem" "\<And>p. (p, n) \<in> parent_of tables \<Longrightarrow> p \<notin> set rem"
    by (rule wfE_min) blast
  moreover have "p \<notin> set rem" if "p \<in> set (parents tables n)" for p
    using n that assms(2) unfolding parent_of_def by blast
  ultimately have "n \<in> set (business_ready tables rem)" by (simp add: business_ready_def list_all_iff)
  then show ?thesis by auto
qed

text \<open>
  C11: The computation of the table order ends, for every catalog. It finds an order exactly when
  every foreign key refers to a table of the catalog and the foreign keys have no cycle, and
  otherwise returns an error.
\<close>

theorem business_order_ends:
  "\<exists>r. businessOrder tables = Some r \<and>
     ((\<exists>order. r = Inr order) \<longleftrightarrow> known_parents tables \<and> acyclic (parent_of tables))"
proof -
  obtain st where st: "businessOrder tables = Some (case bo_error st of Some e \<Rightarrow> Inl e | None \<Rightarrow> Inr (bo_order st))"
    and inv: "order_inv tables st" "failed_round tables st" and stop: "bo_error st = None \<longrightarrow> bo_remaining st = []"
    by (rule businessOrder_result)
  have "bo_error st = None \<longleftrightarrow> known_parents tables \<and> acyclic (parent_of tables)"
  proof
    assume none: "bo_error st = None"
    then have all: "set (bo_order st) = fst ` set tables" "topological tables (bo_order st)"
      using inv(1) stop by (simp_all add: order_inv_def)
    have "known_parents tables"
      unfolding known_parents_def
    proof (intro ballI)
      fix n p assume n: "n \<in> fst ` set tables" and p: "p \<in> set (parents tables n)"
      obtain l r where "bo_order st = l @ n # r" using split_list n all(1) by metis
      then have "p \<in> set (bo_order st)" using all(2) p unfolding topological_def by fastforce
      then show "gm_has tables p" using all(1) has_key by metis
    qed
    then show "known_parents tables \<and> acyclic (parent_of tables)" using topological_acyclic all by blast
  next
    assume ok: "known_parents tables \<and> acyclic (parent_of tables)"
    have "set (bo_remaining st) \<subseteq> fst ` set tables" using inv(1) by (auto simp: order_inv_def)
    then show "bo_error st = None" using ok inv(2) acyclic_ready [of tables "bo_remaining st"] by (auto simp: failed_round_def)
  qed
  then show ?thesis using st by (cases "bo_error st") auto
qed

text \<open>
  C31: The order of tables can be used to copy them: every table of the catalog occurs exactly once,
  and after all tables its foreign keys refer to.
\<close>

theorem business_order_topological:
  assumes "gm_wf tables" "businessOrder tables = Some (Inr order)"
  shows "distinct order \<and> set order = fst ` set tables \<and> topological tables order"
proof -
  obtain st where st: "businessOrder tables = Some (case bo_error st of Some e \<Rightarrow> Inl e | None \<Rightarrow> Inr (bo_order st))"
    and inv: "order_inv tables st" and stop: "bo_error st = None \<longrightarrow> bo_remaining st = []"
    by (rule businessOrder_result)
  then have "bo_error st = None" "bo_order st = order" using assms(2) by (auto split: option.splits)
  then show ?thesis using inv stop assms(1) by (simp add: order_inv_def)
qed

definition sample_table :: "string list \<Rightarrow> businessTable" where
  "sample_table ps = \<lparr>bt_Columns = [], bt_PrimaryKey = [''id''],
     bt_ForeignKeys = map (\<lambda>p. \<lparr>bf_Columns = [''x''], bf_Parent = p, bf_ParentColumns = [''id'']\<rparr>) ps\<rparr>"

definition sample_catalog :: catalog where
  "sample_catalog = [(''payments'', sample_table [''invoices'', ''users'']), (''invoices'', sample_table [''users'']),
     (''users'', sample_table []), (''agents'', sample_table [])]"

theorem business_order_topological_witness:
  "businessOrder sample_catalog = Some (Inr [''agents'', ''users'', ''invoices'', ''payments'']) \<and>
   topological sample_catalog [''agents'', ''users'', ''invoices'', ''payments'']"
proof -
  have order: "businessOrder sample_catalog = Some (Inr [''agents'', ''users'', ''invoices'', ''payments''])" by code_simp
  have "gm_wf sample_catalog" by code_simp
  from business_order_topological [OF this order] order show ?thesis by blast
qed

section \<open>Merge plans\<close>

text \<open>When a row of the source is written, and when it is counted as a conflict.\<close>

definition merge_writes :: "string \<Rightarrow> usageMergeIndex \<Rightarrow> string \<Rightarrow> string \<Rightarrow> bool" where
  "merge_writes name target k v \<longleftrightarrow> name \<noteq> ''account_billing_profiles'' \<and>
     (gm_get target k = None \<or> name = ''account_quota_states'' \<and> gm_get target k \<noteq> Some v)"

definition merge_conflict :: "string \<Rightarrow> usageMergeIndex \<Rightarrow> string \<times> string \<Rightarrow> bool" where
  "merge_conflict name target kv \<longleftrightarrow> gm_get target (fst kv) \<noteq> Some (snd kv) \<and> \<not> merge_writes name target (fst kv) (snd kv)"

lemma merge_step_eq:
  fixes stats :: UsageMergeTable
  assumes "usage_merge_step name target (stats, expected) (k, v) = (stats', expected')"
  shows "expected' = (if merge_writes name target k v then gm_put k v expected else expected) \<and>
    um_Conflicts stats' = um_Conflicts stats + (if merge_conflict name target (k, v) then 1 else 0) \<and>
    um_Append stats' + um_Update stats' + um_Equal stats' + um_Conflicts stats' =
      um_Append stats + um_Update stats + um_Equal stats + um_Conflicts stats + 1 \<and>
    um_TargetOnly stats' = um_TargetOnly stats"
proof -
  define prof quota where "prof = (name = ''account_billing_profiles'')" and "quota = (name = ''account_quota_states'')"
  have "\<not> (prof \<and> quota)" by (auto simp: prof_def quota_def)
  then show ?thesis
    using assms unfolding usage_merge_step_def merge_writes_def merge_conflict_def Let_def
      prof_def [symmetric] quota_def [symmetric] by (auto split: if_splits)
qed

lemma merge_fold:
  assumes "distinct (map fst xs)" "foldl (usage_merge_step name target) (stats, expected) xs = (stats', expected')"
  shows "(\<forall>k. gm_get expected' k = (case map_of xs k of None \<Rightarrow> gm_get expected k
         | Some v \<Rightarrow> if merge_writes name target k v then Some v else gm_get expected k)) \<and>
    um_Conflicts stats' = um_Conflicts stats + int (length (filter (merge_conflict name target) xs)) \<and>
    um_Append stats' + um_Update stats' + um_Equal stats' + um_Conflicts stats' =
      um_Append stats + um_Update stats + um_Equal stats + um_Conflicts stats + int (length xs)"
  using assms
proof (induction xs arbitrary: stats expected)
  case Nil
  then show ?case by simp
next
  case (Cons kv xs)
  obtain k v where kv: "kv = (k, v)" by fastforce
  obtain st ex where step: "usage_merge_step name target (stats, expected) (k, v) = (st, ex)" by fastforce
  note S = merge_step_eq [OF step]
  have IH: "(\<forall>j. gm_get expected' j = (case map_of xs j of None \<Rightarrow> gm_get ex j
         | Some v \<Rightarrow> if merge_writes name target j v then Some v else gm_get ex j)) \<and>
    um_Conflicts stats' = um_Conflicts st + int (length (filter (merge_conflict name target) xs)) \<and>
    um_Append stats' + um_Update stats' + um_Equal stats' + um_Conflicts stats' =
      um_Append st + um_Update st + um_Equal st + um_Conflicts st + int (length xs)"
    by (rule Cons.IH) (use Cons.prems step kv in simp_all)
  have "map_of xs k = None" using Cons.prems(1) by (simp add: kv map_of_eq_None_iff)
  then have "gm_get expected' j = (case map_of (kv # xs) j of None \<Rightarrow> gm_get expected j
         | Some v \<Rightarrow> if merge_writes name target j v then Some v else gm_get expected j)" for j
    using IH S by (cases "j = k") (auto simp: kv split: option.splits)
  then show ?case using IH S by (simp add: kv)
qed

lemma usageMergePlan_eq:
  assumes "gm_wf source" "usageMergePlan name source target = (stats, expected)"
  shows "(\<forall>k. gm_get expected k = (case gm_get source k of None \<Rightarrow> gm_get target k
         | Some v \<Rightarrow> if merge_writes name target k v then Some v else gm_get target k)) \<and>
    um_Conflicts stats = int (length (filter (merge_conflict name target) source)) \<and>
    um_Append stats + um_Update stats + um_Equal stats + um_Conflicts stats = int (length source)"
proof -
  obtain st ex where f: "foldl (usage_merge_step name target) (zero_merge, target) source = (st, ex)" by fastforce
  have "stats = st\<lparr>um_TargetOnly := target_only source target\<rparr>" "expected = ex"
    using assms(2) by (simp_all add: usageMergePlan_def f)
  moreover have "um_Conflicts zero_merge = 0" "um_Append zero_merge = 0" "um_Update zero_merge = 0" "um_Equal zero_merge = 0"
    by (simp_all add: zero_merge_def Let_def)
  ultimately show ?thesis using merge_fold [OF assms(1) f] by simp
qed

text \<open>The append-only plan is the merge plan of a table without a rule of its own.\<close>

lemma append_step_eq:
  "name \<noteq> ''account_billing_profiles'' \<Longrightarrow> name \<noteq> ''account_quota_states'' \<Longrightarrow>
   append_step target = usage_merge_step name target"
  by (intro ext) (auto simp: append_step_def usage_merge_step_def Let_def split: prod.splits option.splits)

lemma businessAppendPlan_eq:
  "name \<noteq> ''account_billing_profiles'' \<Longrightarrow> name \<noteq> ''account_quota_states'' \<Longrightarrow>
   businessAppendPlan source target = usageMergePlan name source target"
  by (simp add: businessAppendPlan_def usageMergePlan_def append_step_eq)

text \<open>
  C28: A merge plan loses nothing. Each row of the source is counted once, as appended, updated,
  equal or in conflict. A row of the target is changed only for quota states; every other
  row stays as it is. When the plan reports no conflict, the expected rows contain all rows of
  the source, and besides them only rows of the target. The append-only plan is the merge
  plan of any table that is neither billing profiles nor quota states.
\<close>

theorem merge_plan_sound:
  assumes "gm_wf source" "usageMergePlan name source target = (stats, expected)"
  shows "um_Append stats + um_Update stats + um_Equal stats + um_Conflicts stats = int (length source) \<and>
    (name \<noteq> ''account_quota_states'' \<longrightarrow> (\<forall>k v. gm_get target k = Some v \<longrightarrow> gm_get expected k = Some v)) \<and>
    (\<forall>k v. gm_get expected k = Some v \<longrightarrow> gm_get source k = Some v \<or> gm_get target k = Some v) \<and>
    (um_Conflicts stats = 0 \<longrightarrow> (\<forall>k v. gm_get source k = Some v \<longrightarrow> gm_get expected k = Some v)) \<and>
    (name \<noteq> ''account_billing_profiles'' \<and> name \<noteq> ''account_quota_states'' \<longrightarrow>
       businessAppendPlan source target = usageMergePlan name source target)"
proof -
  define quota where "quota = (name = ''account_quota_states'')"
  note E = usageMergePlan_eq [OF assms]
  have get: "gm_get expected k = (case gm_get source k of None \<Rightarrow> gm_get target k
         | Some v \<Rightarrow> if merge_writes name target k v then Some v else gm_get target k)" for k using E by blast
  have writes: "merge_writes name target k v \<Longrightarrow> \<not> quota \<Longrightarrow> gm_get target k = None" for k v
    by (auto simp: merge_writes_def quota_def)
  have 1: "\<not> quota \<longrightarrow> (\<forall>k v. gm_get target k = Some v \<longrightarrow> gm_get expected k = Some v)"
    using writes by (fastforce simp: get split: option.split)
  have 2: "\<forall>k v. gm_get expected k = Some v \<longrightarrow> gm_get source k = Some v \<or> gm_get target k = Some v"
    by (auto simp: get split: option.splits if_splits)
  have "gm_get expected k = Some v" if "um_Conflicts stats = 0" "gm_get source k = Some v" for k v
  proof -
    have "filter (merge_conflict name target) source = []" using that(1) E by simp
    moreover have "(k, v) \<in> set source" using that(2) by (rule map_of_SomeD)
    ultimately have "\<not> merge_conflict name target (k, v)" unfolding filter_empty_conv by blast
    then show ?thesis using that(2) by (auto simp: get merge_conflict_def)
  qed
  then show ?thesis using E 1 2 businessAppendPlan_eq [of name source target] unfolding quota_def by blast
qed

theorem merge_plan_sound_witness:
  "um_Conflicts (fst (usageMergePlan ''billing_ledger'' [(''a'', ''1''), (''b'', ''2'')] [(''a'', ''1''), (''c'', ''3'')])) = 0 \<and>
   gm_get (snd (usageMergePlan ''billing_ledger'' [(''a'', ''1''), (''b'', ''2'')] [(''a'', ''1''), (''c'', ''3'')])) ''b'' = Some ''2''"
proof -
  let ?p = "usageMergePlan ''billing_ledger'' [(''a'', ''1''), (''b'', ''2'')] [(''a'', ''1''), (''c'', ''3'')]"
  have 0: "um_Conflicts (fst ?p) = 0" by code_simp
  have wf: "gm_wf [(''a'', ''1''), (''b'', ''2'')]" "gm_get [(''a'', ''1''), (''b'', ''2'')] ''b'' = Some ''2''" by code_simp+
  have "usageMergePlan ''billing_ledger'' [(''a'', ''1''), (''b'', ''2'')] [(''a'', ''1''), (''c'', ''3'')] = (fst ?p, snd ?p)" by simp
  from merge_plan_sound [OF wf(1) this] 0 wf(2) show ?thesis by blast
qed

section \<open>Catch-up\<close>

text \<open>The row of a stream under a key.\<close>

definition leaf_row :: "businessLeaf list \<Rightarrow> string \<Rightarrow> string option" where
  "leaf_row leaves k = map_of (map (\<lambda>l. (bl_Key l, bl_Row l)) leaves) k"

definition row_print :: "string option \<Rightarrow> catchupFingerprint" where
  "row_print r = (case r of None \<Rightarrow> absent_row | Some d \<Rightarrow> \<lparr>cf_present = True, cf_digest = d\<rparr>)"

definition state_at :: "(string, catchup_states) gomap \<Rightarrow> string \<Rightarrow> catchup_states" where
  "state_at all k = (case gm_get all k of None \<Rightarrow> absent_states | Some st \<Rightarrow> st)"

lemma leaf_row_Cons: "leaf_row (leaf # leaves) k = (if k = bl_Key leaf then Some (bl_Row leaf) else leaf_row leaves k)"
  by (auto simp: leaf_row_def)

lemma state_at_put: "state_at (gm_put k st all) j = (if j = k then st else state_at all j)"
  by (simp add: state_at_def)

text \<open>
  A stream fills one component of the states and leaves the others (\<open>rest\<close>) alone. The three
  streams of \<open>classifyCatchupTable\<close> satisfy this contract.
\<close>

locale catchup_stream =
  fixes sel :: "catchup_states \<Rightarrow> catchupFingerprint"
    and upd :: "catchupFingerprint \<Rightarrow> catchup_states \<Rightarrow> catchup_states"
    and rest :: "catchup_states \<Rightarrow> 'r"
  assumes sel_upd: "sel (upd r st) = r"
    and rest_upd: "rest (upd r st) = rest st"
begin

lemma collect_new:
  "collect_leaves sel upd leaves all = Some all' \<Longrightarrow> leaf_row leaves k \<noteq> None \<Longrightarrow> \<not> cf_present (sel (state_at all k))"
proof (induction leaves arbitrary: all)
  case Nil
  then show ?case by (simp add: leaf_row_def)
next
  case (Cons leaf leaves)
  have new: "\<not> cf_present (sel (state_at all (bl_Key leaf)))"
    and rec: "collect_leaves sel upd leaves (gm_put (bl_Key leaf) (upd \<lparr>cf_present = True, cf_digest = bl_Row leaf\<rparr> (state_at all (bl_Key leaf))) all) = Some all'"
    using Cons.prems(1) by (simp_all add: Let_def state_at_def split: if_splits)
  show ?case
    using Cons.IH [OF rec] Cons.prems(2) new by (cases "k = bl_Key leaf") (auto simp: leaf_row_Cons state_at_put)
qed

lemma collect_states:
  assumes "collect_leaves sel upd leaves all = Some all'"
  shows "sel (state_at all' k) = (if leaf_row leaves k = None then sel (state_at all k) else row_print (leaf_row leaves k)) \<and>
    rest (state_at all' k) = rest (state_at all k) \<and>
    (gm_has all' k \<longleftrightarrow> gm_has all k \<or> leaf_row leaves k \<noteq> None) \<and> (gm_wf all \<longrightarrow> gm_wf all')"
  using assms
proof (induction leaves arbitrary: all)
  case Nil
  then show ?case by (simp add: leaf_row_def)
next
  case (Cons leaf leaves)
  let ?all = "gm_put (bl_Key leaf) (upd \<lparr>cf_present = True, cf_digest = bl_Row leaf\<rparr> (state_at all (bl_Key leaf))) all"
  have rec: "collect_leaves sel upd leaves ?all = Some all'"
    using Cons.prems by (simp add: Let_def state_at_def split: if_splits)
  have "leaf_row leaves (bl_Key leaf) = None"
    by (rule ccontr) (use collect_new [OF rec, of "bl_Key leaf"] in \<open>simp add: state_at_put sel_upd\<close>)
  then show ?case
    using Cons.IH [OF rec] by (auto simp: leaf_row_Cons state_at_put sel_upd rest_upd row_print_def)
qed

end

interpretation base: catchup_stream st_base "\<lambda>r st. st\<lparr>st_base := r\<rparr>" "\<lambda>st. (st_src st, st_dst st)"
  by unfold_locales simp_all

interpretation src: catchup_stream st_src "\<lambda>r st. st\<lparr>st_src := r\<rparr>" "\<lambda>st. (st_base st, st_dst st)"
  by unfold_locales simp_all

interpretation dst: catchup_stream st_dst "\<lambda>r st. st\<lparr>st_dst := r\<rparr>" "\<lambda>st. (st_base st, st_src st)"
  by unfold_locales simp_all

lemma catchup_table_states_at:
  assumes "catchup_table_states baseline source target = Some all"
  shows "state_at all k = \<lparr>st_base = row_print (leaf_row baseline k), st_src = row_print (leaf_row source k),
      st_dst = row_print (leaf_row target k)\<rparr> \<and>
    (gm_has all k \<longleftrightarrow> leaf_row baseline k \<noteq> None \<or> leaf_row source k \<noteq> None \<or> leaf_row target k \<noteq> None) \<and> gm_wf all"
proof -
  obtain a1 a2 where 1: "collect_leaves st_base (\<lambda>r st. st\<lparr>st_base := r\<rparr>) baseline [] = Some a1"
    and 2: "collect_leaves st_src (\<lambda>r st. st\<lparr>st_src := r\<rparr>) source a1 = Some a2"
    and 3: "collect_leaves st_dst (\<lambda>r st. st\<lparr>st_dst := r\<rparr>) target a2 = Some all"
    using assms unfolding catchup_table_states_def by (auto split: option.splits)
  have empty: "state_at [] k = \<lparr>st_base = absent_row, st_src = absent_row, st_dst = absent_row\<rparr>"
    by (simp add: state_at_def absent_states_def)
  show ?thesis
    using base.collect_states [OF 1, of k] src.collect_states [OF 2, of k] dst.collect_states [OF 3, of k]
    by (auto simp: empty row_print_def intro!: catchup_states.equality)
qed

lemma count_conflicts:
  "cs_Conflicts (foldl (\<lambda>out (_, a). count_action a out) out xs) =
     cs_Conflicts out + int (length (filter (\<lambda>(_, a). a = CatchupConflict) xs))"
proof (induction xs arbitrary: out)
  case (Cons x xs)
  have "cs_Conflicts (count_action a out) = cs_Conflicts out + (if a = CatchupConflict then 1 else 0)" for a
    by (cases a) (simp_all add: count_action_def)
  then show ?case using Cons.IH [of "count_action (snd x) out"] by (cases x) simp
qed simp

lemma map_of_filter_map:
  "gm_wf m \<Longrightarrow> map_of (filter (\<lambda>(_, a). P a) (map (map_prod id f) m)) k =
     (case gm_get m k of None \<Rightarrow> None | Some v \<Rightarrow> if P (f v) then Some (f v) else None)"
  by (induction m) (auto simp: map_of_eq_None_iff image_iff split: option.splits if_splits)

text \<open>What \<open>classifyCatchupFingerprints\<close> says in terms of the three rows.\<close>

lemma classify_rows:
  fixes b s d :: "string option"
  shows "classifyCatchupFingerprints (row_print b) (row_print s) (row_print d) immutable =
    (case s of
       None \<Rightarrow> (if b \<noteq> None then (if d \<noteq> None \<and> d \<noteq> b then CatchupConflict else CatchupSourceDeleted)
                else if d \<noteq> None then CatchupTargetChange else CatchupAbsent)
     | Some _ \<Rightarrow>
        (if d = None then (if b \<noteq> None then CatchupConflict else CatchupInsert)
         else if s = d then CatchupMatch
         else if b = None then CatchupConflict
         else if s \<noteq> b \<and> d = b \<and> \<not> immutable then CatchupUpdate
         else if s = b \<and> d \<noteq> b then CatchupTargetChange else CatchupConflict))"
  by (cases b; cases s; cases d) (simp_all add: classifyCatchupFingerprints_def row_print_def absent_row_def Let_def)

text \<open>
  C9: A catch-up overwrites no change of the target. The actions it returns are inserts of rows that
  neither the baseline nor the target has, and updates of rows that the source has changed and
  the target has not, never in a table of immutable facts; there are none if some key is in
  conflict. Once they are applied, every row of the source is in the target, except
  where only the target has changed the row since the baseline.
\<close>

theorem catchup_keeps_target:
  assumes "classifyCatchupTable catalog table baseline source target True = Inr (out, Some actions)"
  shows "cs_Conflicts out = 0 \<and>
    (\<forall>k a. gm_get actions k = Some a \<longrightarrow>
       a = CatchupInsert \<and> leaf_row baseline k = None \<and> leaf_row target k = None \<and> leaf_row source k \<noteq> None \<or>
       a = CatchupUpdate \<and> leaf_row baseline k \<noteq> None \<and> leaf_row target k = leaf_row baseline k \<and>
         leaf_row source k \<noteq> None \<and> leaf_row source k \<noteq> leaf_row baseline k \<and> table \<notin> set catchupImmutableFacts) \<and>
    (\<forall>k. leaf_row source k \<noteq> None \<longrightarrow> gm_get actions k = None \<longrightarrow>
       leaf_row target k = leaf_row source k \<or>
       leaf_row source k = leaf_row baseline k \<and> leaf_row target k \<noteq> leaf_row baseline k \<and> leaf_row target k \<noteq> None)"
proof -
  obtain all where all: "catchup_table_states baseline source target = Some all"
    using assms by (auto simp: classifyCatchupTable_def split: option.splits if_splits)
  let ?as = "map (map_prod id (state_action table)) all"
  let ?out = "foldl (\<lambda>out (_, a). count_action a out) zero_summary ?as"
  have out: "out = ?out" "cs_Conflicts ?out \<le> 0"
    and acts: "actions = filter (\<lambda>(_, a). a = CatchupInsert \<or> a = CatchupUpdate) ?as"
    using assms by (auto simp: classifyCatchupTable_def all Let_def split: option.splits if_splits)
  have zero: "cs_Conflicts zero_summary = 0" by (simp add: zero_summary_def)
  have none: "filter (\<lambda>(_, a). a = CatchupConflict) ?as = []" and noconf: "cs_Conflicts out = 0"
    using out count_conflicts [of zero_summary ?as] zero by (simp_all add: filter_map)
  note S = catchup_table_states_at [OF all]
  let ?a = "\<lambda>k. state_action table (state_at all k)"
  have get: "gm_get actions k = (if gm_has all k \<and> (?a k = CatchupInsert \<or> ?a k = CatchupUpdate) then Some (?a k) else None)" for k
    unfolding acts using map_of_filter_map [of all "\<lambda>a. a = CatchupInsert \<or> a = CatchupUpdate"] S [of k]
    by (cases "gm_get all k") (simp_all add: state_at_def)
  have conf: "?a k \<noteq> CatchupConflict" if has: "gm_has all k" for k
  proof -
    obtain st where st: "gm_get all k = Some st" using has by blast
    then have "(k, state_action table st) \<in> set ?as" by (force dest: map_of_SomeD)
    then show ?thesis using none st by (auto simp: filter_empty_conv state_at_def)
  qed
  have act: "?a k = classifyCatchupFingerprints (row_print (leaf_row baseline k)) (row_print (leaf_row source k))
      (row_print (leaf_row target k)) (table \<in> set catchupImmutableFacts)" for k
    using S [of k] by (simp add: state_action_def)
  define imm where "imm = (table \<in> set catchupImmutableFacts)"
  show ?thesis
  proof (intro conjI allI impI)
    show "cs_Conflicts out = 0" by (rule noconf)
  next
    fix k a assume "gm_get actions k = Some a"
    then have a: "a = ?a k" "?a k = CatchupInsert \<or> ?a k = CatchupUpdate" by (simp_all only: get split: if_splits) auto
    show "a = CatchupInsert \<and> leaf_row baseline k = None \<and> leaf_row target k = None \<and> leaf_row source k \<noteq> None \<or>
       a = CatchupUpdate \<and> leaf_row baseline k \<noteq> None \<and> leaf_row target k = leaf_row baseline k \<and>
         leaf_row source k \<noteq> None \<and> leaf_row source k \<noteq> leaf_row baseline k \<and> table \<notin> set catchupImmutableFacts"
      using a act [of k] classify_rows [of "leaf_row baseline k" "leaf_row source k" "leaf_row target k"] unfolding imm_def [symmetric] by (simp split: option.splits if_splits)
  next
    fix k assume s: "leaf_row source k \<noteq> None" and n: "gm_get actions k = None"
    have has: "gm_has all k" using s S [of k] by blast
    then have "?a k \<noteq> CatchupInsert \<and> ?a k \<noteq> CatchupUpdate" using n unfolding get by (simp split: if_splits)
    then show "leaf_row target k = leaf_row source k \<or>
       leaf_row source k = leaf_row baseline k \<and> leaf_row target k \<noteq> leaf_row baseline k \<and> leaf_row target k \<noteq> None"
      using s act [of k] classify_rows [of "leaf_row baseline k" "leaf_row source k" "leaf_row target k"] conf [OF has] unfolding imm_def [symmetric] by (simp split: option.splits if_splits)
  qed
qed

definition sample_leaves :: "(string \<times> string) list \<Rightarrow> businessLeaf list" where
  "sample_leaves = map (\<lambda>(k, r). \<lparr>bl_Key = k, bl_Row = r\<rparr>)"

theorem catchup_keeps_target_witness:
  "\<exists>out. classifyCatchupTable (Some sample_catalog) ''users'' (sample_leaves [(''a'', ''1''), (''b'', ''1'')])
       (sample_leaves [(''a'', ''2''), (''b'', ''1''), (''c'', ''3'')]) (sample_leaves [(''a'', ''1''), (''b'', ''9'')]) True =
     Inr (out, Some [(''a'', CatchupUpdate), (''c'', CatchupInsert)]) \<and> cs_Conflicts out = 0"
proof -
  let ?r = "classifyCatchupTable (Some sample_catalog) ''users'' (sample_leaves [(''a'', ''1''), (''b'', ''1'')])
       (sample_leaves [(''a'', ''2''), (''b'', ''1''), (''c'', ''3'')]) (sample_leaves [(''a'', ''1''), (''b'', ''9'')]) True"
  have "?r = Inr (\<lparr>cs_Inserts = 1, cs_SourceUpdates = 1, cs_Matches = 0, cs_TargetChanges = 1, cs_SourceDeletions = 0,
    cs_Conflicts = 0\<rparr>, Some [(''a'', CatchupUpdate), (''c'', CatchupInsert)])" by code_simp
  from catchup_keeps_target [OF this] this show ?thesis by blast
qed

section \<open>Scripts\<close>

text \<open>
  Two kinds of script text pass the splitter although its errors say otherwise: \<open>ABORT\<close>, which
  PostgreSQL takes as \<open>ROLLBACK\<close>, is not among the refused words, and a last statement that begins
  with no word, such as a query in parentheses, is dropped when its semicolon is missing.
\<close>

theorem accepted_scripts:
  "splitMigrationSQL ''ABORT; DROP TABLE a;'' = Inr [''ABORT;'', ''DROP TABLE a;''] \<and>
   splitMigrationSQL ''SELECT 1; (SELECT 2)'' = Inr [''SELECT 1;'']"
  by code_simp

end
