(* ===== verification/Go_Float.thy ===== *)
theory Go_Float
  imports Main "HOL-Library.Log_Nat"
begin

text \<open>
  Go's \<open>float64\<close>: IEEE 754 binary64 with addition rounded to nearest, ties to even. A finite
  value other than zero is \<open>Finite m e\<close>, the number \<open>m * 2 ^ e\<close>, with 53 binary digits in \<open>m\<close> where
  the exponent allows it and \<open>-1074 \<le> e \<le> 971\<close>, so that equal numbers have one representation. The
  flag of an infinity or a zero says that it is negative.
\<close>

datatype float64 = NaN | Infinite bool | SignedZero bool | Finite int int

abbreviation float_zero :: float64 where "float_zero \<equiv> SignedZero False"

text \<open>\<open>m / 2 ^ k\<close>, rounded to the nearest integer; a tie goes to the even one.\<close>

definition half_even :: "int \<Rightarrow> nat \<Rightarrow> int" where
  "half_even m k =
     (let q = m div 2 ^ k; r = 2 * (m mod 2 ^ k) in
      if r < 2 ^ k \<or> r = 2 ^ k \<and> even q then q else q + 1)"

text \<open>The float nearest to \<open>m * 2 ^ e\<close>, for \<open>m \<noteq> 0\<close>.\<close>

definition float_round :: "int \<Rightarrow> int \<Rightarrow> float64" where
  "float_round m e =
     (let x = max (e + bitlen \<bar>m\<bar> - 53) (- 1074);
          n = (if x \<le> e then m * 2 ^ nat (e - x) else half_even m (nat (x - e)));
          (n, x) = (if \<bar>n\<bar> = 2 ^ 53 then (n div 2, x + 1) else (n, x)) in
      if n = 0 then SignedZero (m < 0) else if x > 971 then Infinite (m < 0) else Finite n x)"

fun float_add :: "float64 \<Rightarrow> float64 \<Rightarrow> float64" where
  "float_add NaN y = NaN"
| "float_add x NaN = NaN"
| "float_add (Infinite a) (Infinite b) = (if a = b then Infinite a else NaN)"
| "float_add (Infinite a) y = Infinite a"
| "float_add x (Infinite b) = Infinite b"
| "float_add (SignedZero a) (SignedZero b) = SignedZero (a \<and> b)"
| "float_add (SignedZero a) y = y"
| "float_add x (SignedZero b) = x"
| "float_add (Finite m e) (Finite n f) =
     (let x = min e f; k = m * 2 ^ nat (e - x) + n * 2 ^ nat (f - x) in
      if k = 0 then float_zero else float_round k x)"

text \<open>The comparisons with zero that the code makes; those with a NaN are false.\<close>

fun float_positive :: "float64 \<Rightarrow> bool" where
  "float_positive NaN = False"
| "float_positive (Infinite a) = (\<not> a)"
| "float_positive (SignedZero a) = False"
| "float_positive (Finite m e) = (m > 0)"

fun float_not_positive :: "float64 \<Rightarrow> bool" where
  "float_not_positive NaN = False"
| "float_not_positive (Infinite a) = a"
| "float_not_positive (SignedZero a) = True"
| "float_not_positive (Finite m e) = (m < 0)"

fun float_not_negative :: "float64 \<Rightarrow> bool" where
  "float_not_negative NaN = False"
| "float_not_negative (Infinite a) = (\<not> a)"
| "float_not_negative (SignedZero a) = True"
| "float_not_negative (Finite m e) = (m > 0)"

definition float_of :: "int \<Rightarrow> float64" where
  "float_of n = (if n = 0 then float_zero else float_round n 0)"

section \<open>Whole numbers below \<open>2 ^ 53\<close> are added exactly\<close>

lemma bitlen_shift: "0 < m \<Longrightarrow> bitlen (m * 2 ^ k) = bitlen m + int k"
proof (induction k)
  case (Suc k)
  have "bitlen (2 * (m * 2 ^ k)) = bitlen (m * 2 ^ k) + 1"
    using Suc.prems by (subst compute_bitlen) simp
  then show ?case using Suc by (simp add: mult.left_commute)
qed simp

lemma bitlen_range:
  assumes "0 < m" "m < 2 ^ 53"
  shows "1 \<le> bitlen m \<and> bitlen m \<le> 53 \<and> m < 2 ^ nat (bitlen m)"
proof -
  have b: "2 ^ nat (bitlen m - 1) \<le> m \<and> m < 2 ^ nat (bitlen m)" by (rule bitlen_bounds [OF assms(1)])
  then have "(2 :: int) ^ nat (bitlen m - 1) < 2 ^ 53" using assms(2) by linarith
  then have "nat (bitlen m - 1) < 53" by (simp only: power_strict_increasing_iff)
  moreover have "1 \<le> bitlen m" by (rule ccontr) (use b assms(1) in simp)
  ultimately show ?thesis using b by simp
qed

lemma half_even_exact: "half_even (q * 2 ^ k) k = q"
  by (simp add: half_even_def)

text \<open>A whole number, whatever exponent it is given with, is represented exactly.\<close>

lemma float_round_whole:
  assumes "n \<noteq> 0" "\<bar>n\<bar> < 2 ^ 53" "k \<le> 1074"
  shows "float_round (n * 2 ^ k) (- int k) = Finite (n * 2 ^ nat (53 - bitlen \<bar>n\<bar>)) (bitlen \<bar>n\<bar> - 53)"
proof -
  define b where "b = nat (bitlen \<bar>n\<bar>)"
  have b: "bitlen \<bar>n\<bar> = int b" "1 \<le> b" "b \<le> 53" "\<bar>n\<bar> < 2 ^ b"
    using bitlen_range [of "\<bar>n\<bar>"] assms by (auto simp: b_def nat_le_iff)
  have len: "bitlen \<bar>n * 2 ^ k\<bar> = int b + int k"
    using bitlen_shift [of "\<bar>n\<bar>" k] assms(1) b(1) by (simp add: abs_mult)
  define r where "r = n * 2 ^ (53 - b)"
  have m: "(if int b - 53 \<le> - int k then n * 2 ^ k * 2 ^ nat (- int k - (int b - 53))
            else half_even (n * 2 ^ k) (nat (int b - 53 - - int k))) = r"
  proof (cases "int b - 53 \<le> - int k")
    case True
    then have "53 - b = k + nat (- int k - (int b - 53))" by simp
    then show ?thesis using True by (simp add: r_def power_add)
  next
    case False
    then have "k = 53 - b + nat (int b - 53 + int k)" using b(3) by simp
    then have "n * 2 ^ k = r * 2 ^ nat (int b - 53 + int k)"
      unfolding r_def by (metis power_add mult.assoc)
    then show ?thesis using False by (simp add: half_even_exact)
  qed
  have "\<bar>r\<bar> < 2 ^ b * 2 ^ (53 - b)" using b(4) by (simp add: r_def abs_mult)
  then have "\<bar>r\<bar> < 2 ^ 53" using b(3) by (simp flip: power_add)
  moreover have "r \<noteq> 0" using assms(1) by (simp add: r_def)
  moreover have max: "max (- int k + (int b + int k) - 53) (- 1074) = int b - 53" using b(2) by simp
  moreover have "float_round (n * 2 ^ k) (- int k) =
      (let (r, x) = (if \<bar>r\<bar> = 2 ^ 53 then (r div 2, int b - 53 + 1) else (r, int b - 53)) in
       if r = 0 then SignedZero (n * 2 ^ k < 0) else if x > 971 then Infinite (n * 2 ^ k < 0) else Finite r x)"
    unfolding float_round_def len max Let_def m ..
  ultimately show ?thesis unfolding b(1) using b(3) by (simp add: r_def nat_diff_distrib)
qed

lemma float_of_whole:
  assumes "n \<noteq> 0" "\<bar>n\<bar> < 2 ^ 53"
  shows "float_of n = Finite (n * 2 ^ nat (53 - bitlen \<bar>n\<bar>)) (bitlen \<bar>n\<bar> - 53)"
  using float_round_whole [OF assms, of 0] assms(1) by (simp add: float_of_def)

lemma float_add_whole:
  assumes "\<bar>a\<bar> < 2 ^ 53" "\<bar>b\<bar> < 2 ^ 53" "\<bar>a + b\<bar> < 2 ^ 53"
  shows "float_add (float_of a) (float_of b) = float_of (a + b)"
proof (cases "a = 0 \<or> b = 0")
  case True
  then show ?thesis
    by (cases "a = 0"; cases "b = 0") (use assms float_of_whole [of a] float_of_whole [of b] in \<open>auto simp: float_of_def\<close>)
next
  case False
  define p q where "p = nat (bitlen \<bar>a\<bar>)" and "q = nat (bitlen \<bar>b\<bar>)"
  have p: "bitlen \<bar>a\<bar> = int p" "p \<le> 53" and q: "bitlen \<bar>b\<bar> = int q" "q \<le> 53"
    using bitlen_range [of "\<bar>a\<bar>"] bitlen_range [of "\<bar>b\<bar>"] assms False by (auto simp: p_def q_def nat_le_iff)
  define k where "k = 53 - min p q"
  have scale: "a * 2 ^ (53 - p) * 2 ^ nat (int p - 53 - - int k) = a * 2 ^ k"
    "b * 2 ^ (53 - q) * 2 ^ nat (int q - 53 - - int k) = b * 2 ^ k"
    using p(2) q(2) by (auto simp: k_def min_def mult.assoc simp flip: power_add)
  have exponent: "min (int p - 53) (int q - 53) = - int k" using p(2) q(2) by (simp add: k_def)
  have args: "float_of a = Finite (a * 2 ^ (53 - p)) (int p - 53)" "float_of b = Finite (b * 2 ^ (53 - q)) (int q - 53)"
    using float_of_whole [of a] float_of_whole [of b] assms False p q by (simp_all add: nat_diff_distrib)
  have "float_add (float_of a) (float_of b) =
      (if (a + b) * 2 ^ k = 0 then float_zero else float_round ((a + b) * 2 ^ k) (- int k))"
    unfolding args float_add.simps exponent Let_def scale distrib_right ..
  then show ?thesis
    using float_round_whole [of "a + b" k] float_of_whole [of "a + b"] assms(3) by (simp add: k_def float_of_def)
qed

end
