(* ===== verification/Accounting.thy ===== *)
theory Accounting
  imports User_Records Go_Time Go_Float
begin

text \<open>
  Traffic accounting and quotas of \<open>memoryStore\<close>: \<open>accounting_memory.go\<close> (checkpoints, traffic buckets,
  the billing ledger and wallets, quota states, billing profiles, policies, node health and scheduler
  decisions), \<open>subscription_quota.go\<close>, \<open>monthly_usage_reset.go\<close> and \<open>free_quota.go\<close>. The store copies
  every value it takes and gives out, so maps hold values. Counters are \<open>int64\<close> and wrap around; amounts
  are \<open>float64\<close>.
\<close>

section \<open>Records\<close>

record TrafficStatCheckpoint =
  tc_NodeID :: string
  tc_AccountUUID :: string
  tc_LastUplinkTotal :: int
  tc_LastDownlinkTotal :: int
  tc_LastSeenAt :: time
  tc_XrayRevision :: string
  tc_ResetEpoch :: int
  tc_CreatedAt :: time
  tc_UpdatedAt :: time

record TrafficMinuteBucket =
  tb_BucketStart :: time
  tb_NodeID :: string
  tb_AccountUUID :: string
  tb_Region :: string
  tb_LineCode :: string
  tb_UplinkBytes :: int
  tb_DownlinkBytes :: int
  tb_TotalBytes :: int
  tb_Multiplier :: float64
  tb_RatingStatus :: string
  tb_SourceRevision :: string
  tb_CreatedAt :: time
  tb_UpdatedAt :: time

record BillingLedgerEntry =
  le_ID :: string
  le_AccountUUID :: string
  le_Currency :: string
  le_BucketStart :: time
  le_BucketEnd :: time
  le_EntryType :: string
  le_RatedBytes :: int
  le_AmountDelta :: float64
  le_BalanceAfter :: float64
  le_PricingRuleVersion :: string
  le_CreatedAt :: time

record AccountQuotaState =
  aq_AccountUUID :: string
  aq_RemainingIncludedQuota :: int
  aq_CurrentBalance :: float64
  aq_Arrears :: bool
  aq_ArrearsSince :: "time option"
  aq_ThrottleState :: string
  aq_SuspendState :: string
  aq_ProxyAccessState :: string
  aq_LastRatedBucketAt :: "time option"
  aq_PeriodStart :: "time option"
  aq_PeriodEnd :: "time option"
  aq_EffectiveAt :: time
  aq_UpdatedAt :: time

record AccountBillingProfile =
  bp_AccountUUID :: string
  bp_PackageName :: string
  bp_IncludedQuotaBytes :: int
  bp_BasePricePerByte :: float64
  bp_RegionMultiplier :: float64
  bp_LineMultiplier :: float64
  bp_PeakMultiplier :: float64
  bp_OffPeakMultiplier :: float64
  bp_PricingRuleVersion :: string
  bp_CreatedAt :: time
  bp_UpdatedAt :: time

record AccountPolicySnapshot =
  ap_AccountUUID :: string
  ap_PolicyVersion :: string
  ap_AuthState :: string
  ap_RateProfile :: string
  ap_ConnProfile :: string
  ap_EligibleNodeGroups :: "string list"
  ap_PreferredStrategy :: string
  ap_DegradeMode :: string
  ap_ExpiresAt :: time
  ap_CreatedAt :: time
  ap_UpdatedAt :: time

record NodeHealthSnapshot =
  nh_NodeID :: string
  nh_Region :: string
  nh_LineCode :: string
  nh_PricingGroup :: string
  nh_StatsEnabled :: bool
  nh_XrayRevision :: string
  nh_Healthy :: bool
  nh_LatencyMS :: int
  nh_ErrorRate :: float64
  nh_ActiveConnections :: int
  nh_HealthScore :: float64
  nh_SampledAt :: time
  nh_CreatedAt :: time
  nh_UpdatedAt :: time

record SchedulerDecision =
  sd_ID :: string
  sd_AccountUUID :: string
  sd_NodeGroup :: string
  sd_Strategy :: string
  sd_Decision :: string
  sd_GeneratedAt :: time
  sd_CreatedAt :: time

record accounting_store = user_store +
  trafficStatCheckpoints :: "(string, TrafficStatCheckpoint) gomap"
  trafficMinuteBuckets :: "(string, TrafficMinuteBucket) gomap"
  billingLedgerEntries :: "(string, BillingLedgerEntry) gomap"
  accountQuotaStates :: "(string, AccountQuotaState) gomap"
  accountBillingProfiles :: "(string, AccountBillingProfile) gomap"
  accountPolicySnapshots :: "(string, AccountPolicySnapshot) gomap"
  nodeHealthSnapshots :: "(string, NodeHealthSnapshot) gomap"
  schedulerDecisions :: "(string, SchedulerDecision) gomap"

type_synonym ('z, 'a) accounting_result = "'z accounting_store_scheme \<times> (store_error + 'a)"

section \<open>Traffic\<close>

definition checkpointKey :: "string \<Rightarrow> string \<Rightarrow> string" where
  "checkpointKey nodeID accountUUID = TrimSpace nodeID @ ''::'' @ TrimSpace accountUUID"

definition bucketKey :: "time \<Rightarrow> string \<Rightarrow> string \<Rightarrow> string \<Rightarrow> string \<Rightarrow> string" where
  "bucketKey bucketStart nodeID accountUUID region lineCode =
     RFC3339 bucketStart @ ''::'' @ TrimSpace nodeID @ ''::'' @ TrimSpace accountUUID @ ''::'' @
     TrimSpace region @ ''::'' @ TrimSpace lineCode"

text \<open>\<open>None\<close> is a nil argument, here and below.\<close>

definition UpsertTrafficStatCheckpoint ::
  "time \<Rightarrow> TrafficStatCheckpoint option \<Rightarrow> 'z accounting_store_scheme \<Rightarrow> ('z, unit) accounting_result" where
  "UpsertTrafficStatCheckpoint now checkpoint s =
     (case checkpoint of
        None \<Rightarrow> (s, Inl (ErrText ''checkpoint is required''))
      | Some copy \<Rightarrow>
          let copy = (if IsZero (tc_CreatedAt copy) then copy\<lparr>tc_CreatedAt := now\<rparr> else copy);
              copy = copy\<lparr>tc_UpdatedAt := now\<rparr>
          in (s\<lparr>trafficStatCheckpoints :=
                  gm_put (checkpointKey (tc_NodeID copy) (tc_AccountUUID copy)) copy (trafficStatCheckpoints s)\<rparr>, Inr ()))"

definition GetTrafficStatCheckpoint ::
  "string \<Rightarrow> string \<Rightarrow> 'z accounting_store_scheme \<Rightarrow> store_error + TrafficStatCheckpoint" where
  "GetTrafficStatCheckpoint nodeID accountUUID s =
     (case gm_get (trafficStatCheckpoints s) (checkpointKey nodeID accountUUID) of
        None \<Rightarrow> Inl ErrUserNotFound | Some c \<Rightarrow> Inr c)"

text \<open>Sorted by node, and by account within a node.\<close>

definition ListTrafficStatCheckpoints :: "'z accounting_store_scheme \<Rightarrow> TrafficStatCheckpoint list" where
  "ListTrafficStatCheckpoints s =
     sort_key tc_NodeID (sort_key tc_AccountUUID (gm_vals (trafficStatCheckpoints s)))"

definition UpsertTrafficMinuteBucket ::
  "time \<Rightarrow> TrafficMinuteBucket option \<Rightarrow> 'z accounting_store_scheme \<Rightarrow> ('z, unit) accounting_result" where
  "UpsertTrafficMinuteBucket now bucket s =
     (case bucket of
        None \<Rightarrow> (s, Inl (ErrText ''bucket is required''))
      | Some copy \<Rightarrow>
          let copy = (if IsZero (tb_CreatedAt copy) then copy\<lparr>tb_CreatedAt := now\<rparr> else copy);
              copy = copy\<lparr>tb_UpdatedAt := now\<rparr>;
              copy = (if TrimSpace (tb_RatingStatus copy) = [] then copy\<lparr>tb_RatingStatus := ''pending''\<rparr> else copy)
          in (s\<lparr>trafficMinuteBuckets :=
                  gm_put (bucketKey (tb_BucketStart copy) (tb_NodeID copy) (tb_AccountUUID copy) (tb_Region copy)
                            (tb_LineCode copy)) copy (trafficMinuteBuckets s)\<rparr>, Inr ()))"

definition ListTrafficMinuteBucketsByAccount ::
  "string \<Rightarrow> time \<Rightarrow> time \<Rightarrow> 'z accounting_store_scheme \<Rightarrow> TrafficMinuteBucket list" where
  "ListTrafficMinuteBucketsByAccount accountUUID start end s =
     sort_key tb_BucketStart
       (filter (\<lambda>b. tb_AccountUUID b = TrimSpace accountUUID \<and> (IsZero start \<or> \<not> tb_BucketStart b < start) \<and>
                    (IsZero end \<or> \<not> tb_BucketStart b > end))
          (gm_vals (trafficMinuteBuckets s)))"

definition ListTrafficMinuteBuckets :: "'z accounting_store_scheme \<Rightarrow> TrafficMinuteBucket list" where
  "ListTrafficMinuteBuckets s = sort_key tb_BucketStart (gm_vals (trafficMinuteBuckets s))"

section \<open>The billing ledger and wallets\<close>

text \<open>The result is the id and the time of creation written back to the argument.\<close>

definition InsertBillingLedgerEntry ::
  "string \<Rightarrow> time \<Rightarrow> BillingLedgerEntry option \<Rightarrow> 'z accounting_store_scheme \<Rightarrow>
   ('z, BillingLedgerEntry) accounting_result" where
  "InsertBillingLedgerEntry fresh now arg s =
     (case arg of
        None \<Rightarrow> (s, Inl (ErrText ''ledger entry is required''))
      | Some entry \<Rightarrow>
          if TrimSpace (le_ID entry) \<noteq> [] \<and> gm_has (billingLedgerEntries s) (le_ID entry)
          then (s, Inl ErrDuplicateLedgerEntry)
          else
            let copy = (if TrimSpace (le_ID entry) = [] then entry\<lparr>le_ID := fresh\<rparr> else entry);
                copy = (if IsZero (le_CreatedAt copy) then copy\<lparr>le_CreatedAt := now\<rparr> else copy)
            in (s\<lparr>billingLedgerEntries := gm_put (le_ID copy) copy (billingLedgerEntries s)\<rparr>, Inr copy))"

definition empty_quota :: "string \<Rightarrow> AccountQuotaState" where
  "empty_quota accountID =
     \<lparr>aq_AccountUUID = accountID, aq_RemainingIncludedQuota = 0, aq_CurrentBalance = float_zero,
      aq_Arrears = False, aq_ArrearsSince = None, aq_ThrottleState = [], aq_SuspendState = [],
      aq_ProxyAccessState = [], aq_LastRatedBucketAt = None, aq_PeriodStart = None, aq_PeriodEnd = None,
      aq_EffectiveAt = 0, aq_UpdatedAt = 0\<rparr>"

definition usd_entry :: "string \<Rightarrow> BillingLedgerEntry \<Rightarrow> bool" where
  "usd_entry accountID entry \<longleftrightarrow> le_AccountUUID entry = accountID \<and> le_EntryType entry = ''wallet_usd''"

text \<open>A running total over the ledger, in the order in which the map is read.\<close>

definition usd_total :: "string \<Rightarrow> float64 \<Rightarrow> BillingLedgerEntry list \<Rightarrow> float64" where
  "usd_total accountID start entries =
     foldl (\<lambda>t e. float_add t (le_AmountDelta e)) start (filter (usd_entry accountID) entries)"

text \<open>\<open>True\<close> in the result says that the entry was credited before. \<open>now\<close> and \<open>now'\<close> are two clock readings.\<close>

definition CreditTopUp ::
  "time \<Rightarrow> time \<Rightarrow> BillingLedgerEntry option \<Rightarrow> 'z accounting_store_scheme \<Rightarrow> ('z, bool) accounting_result" where
  "CreditTopUp now now' arg s =
     (case arg of
        None \<Rightarrow> (s, Inl (ErrText ''valid top-up ledger entry is required''))
      | Some entry \<Rightarrow>
          if TrimSpace (le_ID entry) = [] \<or> float_not_positive (le_AmountDelta entry)
          then (s, Inl (ErrText ''valid top-up ledger entry is required''))
          else
            let currency = ToUpper (TrimSpace (le_Currency entry)) in
            if currency \<noteq> ''CNY'' \<and> currency \<noteq> ''USD'' then (s, Inl (ErrText ''unsupported wallet currency''))
            else if gm_has (billingLedgerEntries s) (le_ID entry) then (s, Inr True)
            else
              let accountID = TrimSpace (le_AccountUUID entry);
                  state = (case gm_get (accountQuotaStates s) accountID of None \<Rightarrow> empty_quota accountID | Some q \<Rightarrow> q);
                  balance = (if currency = ''CNY'' then float_add (aq_CurrentBalance state) (le_AmountDelta entry)
                             else float_add (usd_total accountID (le_BalanceAfter entry) (gm_vals (billingLedgerEntries s)))
                                    (le_AmountDelta entry));
                  state = (if currency = ''CNY'' then
                             (let state = state\<lparr>aq_CurrentBalance := balance, aq_EffectiveAt := now, aq_UpdatedAt := now\<rparr>
                              in if float_not_negative balance then state\<lparr>aq_Arrears := False, aq_ArrearsSince := None\<rparr> else state)
                           else state);
                  entry = entry\<lparr>le_BalanceAfter := balance, le_Currency := currency,
                                le_EntryType := (if currency = ''USD'' then ''wallet_usd'' else ''topup''), le_CreatedAt := now'\<rparr>
              in (s\<lparr>billingLedgerEntries := gm_put (le_ID entry) entry (billingLedgerEntries s),
                     accountQuotaStates := gm_put accountID state (accountQuotaStates s)\<rparr>, Inr False))"

definition GetWalletBalance ::
  "string \<Rightarrow> string \<Rightarrow> 'z accounting_store_scheme \<Rightarrow> store_error + float64" where
  "GetWalletBalance accountUUID currency s =
     (let currency = ToUpper (TrimSpace currency) in
      if currency = ''CNY'' then
        Inr (case gm_get (accountQuotaStates s) (TrimSpace accountUUID) of
               None \<Rightarrow> float_zero | Some quota \<Rightarrow> aq_CurrentBalance quota)
      else if currency = ''USD'' then
        Inr (usd_total (TrimSpace accountUUID) float_zero (gm_vals (billingLedgerEntries s)))
      else Inl (ErrText ''unsupported wallet currency''))"

text \<open>Newest first.\<close>

definition ListBillingLedgerByAccount ::
  "string \<Rightarrow> int \<Rightarrow> 'z accounting_store_scheme \<Rightarrow> BillingLedgerEntry list" where
  "ListBillingLedgerByAccount accountUUID limit s =
     limited limit (sort_key (\<lambda>e. - le_CreatedAt e)
       (filter (\<lambda>e. le_AccountUUID e = TrimSpace accountUUID) (gm_vals (billingLedgerEntries s))))"

section \<open>Quota states, profiles and snapshots\<close>

definition UpsertAccountQuotaState ::
  "time \<Rightarrow> AccountQuotaState option \<Rightarrow> 'z accounting_store_scheme \<Rightarrow> ('z, unit) accounting_result" where
  "UpsertAccountQuotaState now state s =
     (case state of
        None \<Rightarrow> (s, Inl (ErrText ''quota state is required''))
      | Some copy \<Rightarrow>
          let copy = copy\<lparr>aq_UpdatedAt := now\<rparr>;
              copy = (if IsZero (aq_EffectiveAt copy) then copy\<lparr>aq_EffectiveAt := aq_UpdatedAt copy\<rparr> else copy)
          in (s\<lparr>accountQuotaStates := gm_put (TrimSpace (aq_AccountUUID copy)) copy (accountQuotaStates s)\<rparr>, Inr ()))"

definition ListSuspendedAccountUUIDs :: "'z accounting_store_scheme \<Rightarrow> string list" where
  "ListSuspendedAccountUUIDs s =
     map fst (filter (\<lambda>(_, q). aq_SuspendState q = ''suspended'') (accountQuotaStates s))"

definition ListProxyBlockedAccountUUIDs :: "'z accounting_store_scheme \<Rightarrow> string list" where
  "ListProxyBlockedAccountUUIDs s =
     map fst (filter (\<lambda>(_, q). aq_SuspendState q = ''suspended'' \<or> aq_ProxyAccessState q = ''paused'') (accountQuotaStates s))"

definition UpsertAccountBillingProfile ::
  "time \<Rightarrow> AccountBillingProfile option \<Rightarrow> 'z accounting_store_scheme \<Rightarrow> ('z, unit) accounting_result" where
  "UpsertAccountBillingProfile now profile s =
     (case profile of
        None \<Rightarrow> (s, Inl (ErrText ''billing profile is required''))
      | Some copy \<Rightarrow>
          let copy = (if IsZero (bp_CreatedAt copy) then copy\<lparr>bp_CreatedAt := now\<rparr> else copy);
              copy = copy\<lparr>bp_UpdatedAt := now\<rparr>
          in (s\<lparr>accountBillingProfiles := gm_put (TrimSpace (bp_AccountUUID copy)) copy (accountBillingProfiles s)\<rparr>, Inr ()))"

definition GetAccountBillingProfile ::
  "string \<Rightarrow> 'z accounting_store_scheme \<Rightarrow> store_error + AccountBillingProfile" where
  "GetAccountBillingProfile accountUUID s =
     (case gm_get (accountBillingProfiles s) (TrimSpace accountUUID) of
        None \<Rightarrow> Inl ErrUserNotFound | Some p \<Rightarrow> Inr p)"

definition UpsertAccountPolicySnapshot ::
  "time \<Rightarrow> AccountPolicySnapshot option \<Rightarrow> 'z accounting_store_scheme \<Rightarrow> ('z, unit) accounting_result" where
  "UpsertAccountPolicySnapshot now snapshot s =
     (case snapshot of
        None \<Rightarrow> (s, Inl (ErrText ''policy snapshot is required''))
      | Some copy \<Rightarrow>
          let copy = (if IsZero (ap_CreatedAt copy) then copy\<lparr>ap_CreatedAt := now\<rparr> else copy);
              copy = copy\<lparr>ap_UpdatedAt := now\<rparr>
          in (s\<lparr>accountPolicySnapshots := gm_put (TrimSpace (ap_AccountUUID copy)) copy (accountPolicySnapshots s)\<rparr>, Inr ()))"

definition GetLatestAccountPolicySnapshot ::
  "string \<Rightarrow> 'z accounting_store_scheme \<Rightarrow> store_error + AccountPolicySnapshot" where
  "GetLatestAccountPolicySnapshot accountUUID s =
     (case gm_get (accountPolicySnapshots s) (TrimSpace accountUUID) of
        None \<Rightarrow> Inl ErrUserNotFound | Some p \<Rightarrow> Inr p)"

definition UpsertNodeHealthSnapshot ::
  "time \<Rightarrow> NodeHealthSnapshot option \<Rightarrow> 'z accounting_store_scheme \<Rightarrow> ('z, unit) accounting_result" where
  "UpsertNodeHealthSnapshot now snapshot s =
     (case snapshot of
        None \<Rightarrow> (s, Inl (ErrText ''node health snapshot is required''))
      | Some copy \<Rightarrow>
          let copy = (if IsZero (nh_CreatedAt copy) then copy\<lparr>nh_CreatedAt := now\<rparr> else copy);
              copy = copy\<lparr>nh_UpdatedAt := now\<rparr>;
              copy = (if IsZero (nh_SampledAt copy) then copy\<lparr>nh_SampledAt := now\<rparr> else copy)
          in (s\<lparr>nodeHealthSnapshots := gm_put (TrimSpace (nh_NodeID copy)) copy (nodeHealthSnapshots s)\<rparr>, Inr ()))"

definition ListLatestNodeHealthSnapshots :: "'z accounting_store_scheme \<Rightarrow> NodeHealthSnapshot list" where
  "ListLatestNodeHealthSnapshots s = sort_key nh_NodeID (gm_vals (nodeHealthSnapshots s))"

text \<open>The result is the argument with the fields written back.\<close>

definition InsertSchedulerDecision ::
  "string \<Rightarrow> time \<Rightarrow> SchedulerDecision option \<Rightarrow> 'z accounting_store_scheme \<Rightarrow>
   ('z, SchedulerDecision) accounting_result" where
  "InsertSchedulerDecision fresh now decision s =
     (case decision of
        None \<Rightarrow> (s, Inl (ErrText ''scheduler decision is required''))
      | Some copy \<Rightarrow>
          let copy = (if TrimSpace (sd_ID copy) = [] then copy\<lparr>sd_ID := fresh\<rparr> else copy);
              copy = (if IsZero (sd_GeneratedAt copy) then copy\<lparr>sd_GeneratedAt := now\<rparr> else copy);
              copy = (if IsZero (sd_CreatedAt copy) then copy\<lparr>sd_CreatedAt := now\<rparr> else copy)
          in (s\<lparr>schedulerDecisions := gm_put (sd_ID copy) copy (schedulerDecisions s)\<rparr>, Inr copy))"

definition ListRecentSchedulerDecisions :: "int \<Rightarrow> 'z accounting_store_scheme \<Rightarrow> SchedulerDecision list" where
  "ListRecentSchedulerDecisions limit s =
     limited limit (sort_key (\<lambda>d. - sd_GeneratedAt d) (gm_vals (schedulerDecisions s)))"

section \<open>Quota periods\<close>

text \<open>
  \<open>month.AddDate(0, 1, 0)\<close> is the first moment of the next month. The month is read from the clock
  in two readings, for the year and for the month.
\<close>

definition later_than :: "time option \<Rightarrow> time \<Rightarrow> bool" where
  "later_than a t = (case a of None \<Rightarrow> False | Some u \<Rightarrow> u > t)"

definition quota_rollover :: "AccountQuotaState \<Rightarrow> time \<Rightarrow> bool" where
  "quota_rollover q start =
     (case (aq_PeriodStart q, aq_PeriodEnd q) of
        (Some a, Some b) \<Rightarrow> b > a \<and> \<not> b > start
      | _ \<Rightarrow> False)"

definition quota_reset_period :: "AccountQuotaState \<Rightarrow> time \<Rightarrow> time \<Rightarrow> time \<Rightarrow> time \<Rightarrow> bool" where
  "quota_reset_period q month nextMonth start end =
     (case (aq_PeriodStart q, aq_PeriodEnd q) of
        (Some a, Some b) \<Rightarrow> start = month \<and> end = nextMonth \<and> a > start \<and> a < end \<and> b = end
      | _ \<Rightarrow> False)"

definition changeSubscriptionQuota ::
  "time \<Rightarrow> time \<Rightarrow> time \<Rightarrow> string \<Rightarrow> int \<Rightarrow> int \<Rightarrow> time \<Rightarrow> time \<Rightarrow> bool \<Rightarrow> 'z accounting_store_scheme \<Rightarrow>
   ('z, unit) accounting_result" where
  "changeSubscriptionQuota nowY nowM now uid previous target start end activation s =
     (case gm_get (accountBillingProfiles s) uid of
        None \<Rightarrow> (s, Inl ErrSubscriptionQuotaConflict)
      | Some p \<Rightarrow>
          if bp_IncludedQuotaBytes p = target then (s, Inr ())
          else if activation \<and> bp_PricingRuleVersion p \<noteq> ''plan:FREE'' then (s, Inl ErrSubscriptionQuotaConflict)
          else
            let month = month_start (Year nowY) (Month nowM);
                nextMonth = month_start (Year month) (Month month + 1) in
            case gm_get (accountQuotaStates s) uid of
              None \<Rightarrow> (s, Inl ErrSubscriptionQuotaConflict)
            | Some q \<Rightarrow>
                if target \<le> previous \<or> \<not> end > start \<or> bp_IncludedQuotaBytes p \<noteq> previous \<or>
                   aq_RemainingIncludedQuota q > previous
                then (s, Inl ErrSubscriptionQuotaConflict)
                else
                  let restoringFree = (bp_PricingRuleVersion p = ''plan:FREE'' \<and> aq_PeriodStart q = Some month \<and>
                                       aq_PeriodEnd q = Some nextMonth);
                      resetPeriod = quota_reset_period q month nextMonth start end;
                      rollover = quota_rollover q start in
                  if \<not> activation \<and> \<not> resetPeriod \<and> \<not> rollover \<and>
                     (aq_PeriodStart q = None \<or> aq_PeriodEnd q = None \<or>
                      (aq_PeriodStart q \<noteq> Some start \<or> aq_PeriodEnd q \<noteq> Some end) \<and> \<not> restoringFree)
                  then (s, Inl ErrSubscriptionQuotaConflict)
                  else
                    let q' = q\<lparr>aq_RemainingIncludedQuota :=
                                 wrap64 (aq_RemainingIncludedQuota q + wrap64 (target - previous))\<rparr>;
                        q' = (if activation \<or> rollover
                              then q'\<lparr>aq_RemainingIncludedQuota := target, aq_Arrears := False, aq_ArrearsSince := None,
                                      aq_ThrottleState := ''normal'', aq_SuspendState := ''active''\<rparr>
                              else q');
                        start = (case (aq_PeriodStart q, aq_PeriodEnd q) of
                                   (Some a, Some b) \<Rightarrow> if \<not> activation \<and> \<not> a < start \<and> a < end \<and> b = end then a else start
                                 | _ \<Rightarrow> start);
                        q' = q'\<lparr>aq_PeriodStart := Some start, aq_PeriodEnd := Some end, aq_UpdatedAt := now, aq_EffectiveAt := now\<rparr>;
                        p = p\<lparr>bp_IncludedQuotaBytes := target, bp_UpdatedAt := now\<rparr>
                    in (s\<lparr>accountQuotaStates := gm_put uid q' (accountQuotaStates s),
                           accountBillingProfiles := gm_put uid p (accountBillingProfiles s)\<rparr>, Inr ()))"

definition UpgradeSubscriptionQuota ::
  "time \<Rightarrow> time \<Rightarrow> time \<Rightarrow> string \<Rightarrow> int \<Rightarrow> int \<Rightarrow> time \<Rightarrow> time \<Rightarrow> 'z accounting_store_scheme \<Rightarrow>
   ('z, unit) accounting_result" where
  "UpgradeSubscriptionQuota nowY nowM now uid previous target start end s =
     changeSubscriptionQuota nowY nowM now uid previous target start end False s"

definition ActivateSubscriptionQuota ::
  "time \<Rightarrow> time \<Rightarrow> time \<Rightarrow> string \<Rightarrow> int \<Rightarrow> int \<Rightarrow> time \<Rightarrow> time \<Rightarrow> 'z accounting_store_scheme \<Rightarrow>
   ('z, unit) accounting_result" where
  "ActivateSubscriptionQuota nowY nowM now uid previous target start end s =
     changeSubscriptionQuota nowY nowM now uid previous target start end True s"

text \<open>The next full minute, and the first moment of the next month.\<close>

definition resetUsagePeriod :: "time \<Rightarrow> time \<times> time" where
  "resetUsagePeriod now = (now - now mod Minute + Minute, month_start (Year now) (Month now + 1))"

abbreviation AuditActionMonthlyUsageReset :: string where
  "AuditActionMonthlyUsageReset \<equiv> ''admin.monthly_usage.reset''"

definition reset_usage_audit ::
  "string \<Rightarrow> string \<Rightarrow> string \<Rightarrow> string \<Rightarrow> string \<Rightarrow> time \<Rightarrow> int \<Rightarrow> int \<Rightarrow> time \<Rightarrow> time \<Rightarrow> AuditLog" where
  "reset_usage_audit fresh uid actor email reason now before remaining start end =
     \<lparr>al_UUID = fresh, al_Action = AuditActionMonthlyUsageReset, al_ActorUUID = actor,
      al_Details = Some
        [(''target_uuid'', DVal (GString uid)), (''email'', DVal (GString email)), (''reason'', DVal (GString reason)),
         (''before'', DMap [(''remaining_included_quota'', DVal (GInt before))]),
         (''after'', DMap [(''remaining_included_quota'', DVal (GInt remaining)),
                           (''period_start'', DTime start), (''period_end'', DTime end)]),
         (''expires_at'', DTime end)],
      al_CreatedAt = now\<rparr>"

definition ResetMonthlyUsage ::
  "string \<Rightarrow> string \<Rightarrow> string \<Rightarrow> string \<Rightarrow> string \<Rightarrow> time \<Rightarrow> 'z accounting_store_scheme \<Rightarrow>
   ('z, AccountQuotaState) accounting_result" where
  "ResetMonthlyUsage fresh uid actor email reason now s =
     (let (start, end) = resetUsagePeriod now in
      case (user_of s (byID s) uid, gm_get (accountBillingProfiles s) uid, gm_get (accountQuotaStates s) uid) of
        (Some u, Some p, Some q) \<Rightarrow>
          if \<not> start < end \<or> us_Email u \<noteq> email \<or> bp_IncludedQuotaBytes p \<le> 0
          then (s, Inl (ErrText ''account email changed or no monthly quota''))
          else
            let q' = q\<lparr>aq_RemainingIncludedQuota := bp_IncludedQuotaBytes p, aq_PeriodStart := Some start,
                       aq_PeriodEnd := Some end, aq_EffectiveAt := now, aq_UpdatedAt := now\<rparr>
            in (s\<lparr>accountQuotaStates := gm_put uid q' (accountQuotaStates s),
                   auditLogs := auditLogs s @ [reset_usage_audit fresh uid actor email reason now
                     (aq_RemainingIncludedQuota q) (aq_RemainingIncludedQuota q') start end]\<rparr>, Inr q')
      | _ \<Rightarrow> (s, Inl (ErrText ''account email changed or no monthly quota'')))"

text \<open>An entry of the audit log that records the reset that began the current period.\<close>

definition reset_recorded :: "string \<Rightarrow> time \<Rightarrow> time \<Rightarrow> AuditLog \<Rightarrow> bool" where
  "reset_recorded uid start end a \<longleftrightarrow>
     al_Action a = AuditActionMonthlyUsageReset \<and> al_get a ''target_uuid'' = Some (DVal (GString uid)) \<and>
     (case al_get a ''after'' of
        Some (DMap m) \<Rightarrow> map_of m ''period_start'' = Some (DTime start) \<and> map_of m ''period_end'' = Some (DTime end)
      | _ \<Rightarrow> False)"

definition in_period :: "string \<Rightarrow> time \<Rightarrow> time \<Rightarrow> TrafficMinuteBucket \<Rightarrow> bool" where
  "in_period uid start end b \<longleftrightarrow> tb_AccountUUID b = uid \<and> \<not> tb_BucketStart b < start \<and> tb_BucketStart b < end"

definition expireMonthlyUsageResetLocked ::
  "string \<Rightarrow> time \<Rightarrow> 'z accounting_store_scheme \<Rightarrow> 'z accounting_store_scheme" where
  "expireMonthlyUsageResetLocked uid now s =
     (case (gm_get (accountQuotaStates s) uid, gm_get (accountBillingProfiles s) uid) of
        (Some q, Some p) \<Rightarrow>
          (case (aq_PeriodStart q, aq_PeriodEnd q) of
             (Some a, Some b) \<Rightarrow>
               if b > now \<or> \<not> list_ex (reset_recorded uid a b) (auditLogs s) then s
               else
                 let start = month_start (Year now) (Month now);
                     end = month_start (Year start) (Month start + 1);
                     used = sum64 (\<lambda>b. max 0 (tb_TotalBytes b)) (filter (in_period uid start end) (gm_vals (trafficMinuteBuckets s)));
                     q = q\<lparr>aq_RemainingIncludedQuota := max 0 (wrap64 (bp_IncludedQuotaBytes p - used)),
                           aq_PeriodStart := Some start, aq_PeriodEnd := Some end, aq_EffectiveAt := now, aq_UpdatedAt := now\<rparr>
                 in s\<lparr>accountQuotaStates := gm_put uid q (accountQuotaStates s)\<rparr>
           | _ \<Rightarrow> s)
      | _ \<Rightarrow> s)"

text \<open>The state is looked up under the trimmed id, and the end of a period is handled under the id as given.\<close>

definition GetAccountQuotaState ::
  "time \<Rightarrow> string \<Rightarrow> 'z accounting_store_scheme \<Rightarrow> ('z, AccountQuotaState) accounting_result" where
  "GetAccountQuotaState now accountUUID s =
     (case gm_get (accountQuotaStates s) (TrimSpace accountUUID) of
        None \<Rightarrow> (s, Inl ErrUserNotFound)
      | Some record \<Rightarrow>
          let s = expireMonthlyUsageResetLocked accountUUID now s in
          (s, Inr (case gm_get (accountQuotaStates s) (TrimSpace accountUUID) of None \<Rightarrow> record | Some r \<Rightarrow> r)))"

definition ResetFreeQuotaPeriod ::
  "string \<Rightarrow> time \<Rightarrow> time \<Rightarrow> time \<Rightarrow> 'z accounting_store_scheme \<Rightarrow> 'z accounting_store_scheme" where
  "ResetFreeQuotaPeriod uid start end now s =
     (case (user_of s (byID s) uid, gm_get (accountBillingProfiles s) uid, gm_get (accountQuotaStates s) uid) of
        (Some u, Some p, Some q) \<Rightarrow>
          if \<not> IsMonthlyFreeQuotaLimitMember u \<or> bp_PricingRuleVersion p \<noteq> ''plan:FREE'' \<or>
             later_than (aq_PeriodEnd q) start \<or> later_than (aq_PeriodEnd q) now
          then s
          else
            let used = sum64 tb_TotalBytes (filter (in_period uid start end) (gm_vals (trafficMinuteBuckets s)));
                remaining = wrap64 (bp_IncludedQuotaBytes p - used);
                q = q\<lparr>aq_RemainingIncludedQuota := (if remaining < 0 then 0 else remaining), aq_PeriodStart := Some start,
                      aq_PeriodEnd := Some end, aq_EffectiveAt := now, aq_UpdatedAt := now\<rparr>
            in s\<lparr>accountQuotaStates := gm_put uid q (accountQuotaStates s)\<rparr>
      | _ \<Rightarrow> s)"

end
