(* ===== verification/Plan_Groups.thy ===== *)
theory Plan_Groups
  imports Accounting
begin

text \<open>
  Billing plans, Stripe events and billing events of \<open>memoryStore\<close> (\<open>billing_memory.go\<close>, with the types
  of \<open>billing.go\<close> and \<open>billing_events.go\<close>), and the administrator's changes of plan groups
  (\<open>CreateAdminPlanGroupPreview\<close> and \<open>ApplyAdminPlanGroupBatch\<close> of \<open>store.go\<close>), which are reviewed in a
  preview and applied in a second step.
\<close>

section \<open>Records\<close>

record BillingPlan =
  pl_PlanID :: string
  pl_StripePriceID :: string
  pl_DisplayName :: string
  pl_Kind :: string
  pl_IncludedQuotaBytes :: int
  pl_PackageName :: string
  pl_PriceAmount :: int
  pl_PriceCurrency :: string
  pl_PriceUnit :: string
  pl_PriceMultipliers :: "(string, float64) gomap option"
  pl_Features :: "gobject option"
  pl_TrialDays :: int
  pl_Active :: bool
  pl_SortOrder :: int
  pl_CreatedAt :: time
  pl_UpdatedAt :: time

record StripeWebhookEvent =
  we_EventID :: string
  we_EventType :: string
  we_Payload :: string
  we_Status :: string
  we_LastError :: string
  we_ReceivedAt :: time
  we_ProcessedAt :: "time option"

record BillingEvent =
  bv_Type :: string
  bv_UserID :: string
  bv_PlanID :: string
  bv_PriceID :: string
  bv_ExternalID :: string
  bv_OccurredAt :: time

record AdminPlanGroupChange =
  ac_SubscriptionRecord :: "SubscriptionRecord option"
  ac_ExpectedRecordUpdatedAt :: "time option"
  ac_UserID :: string
  ac_PlanID :: string
  ac_SetEntitlement :: bool
  ac_ExpectedGroups :: "string list"
  ac_Groups :: "string list"
  ac_ExpectedValidFrom :: "time option"
  ac_ExpectedValidUntil :: "time option"
  ac_SetValidFrom :: bool
  ac_ValidFrom :: "time option"
  ac_SetValidUntil :: bool
  ac_ValidUntil :: "time option"
  ac_PackageName :: string
  ac_IncludedQuotaBytes :: int
  ac_RegionMultiplier :: float64
  ac_LineMultiplier :: float64
  ac_PeakMultiplier :: float64
  ac_OffPeakMultiplier :: float64
  ac_PricingRuleVersion :: string
  ac_ExpectedProfileIncludedQuota :: int
  ac_ExpectedQuotaRemaining :: int
  ac_ExpectedUsageBytes :: int
  ac_ExpectedPeriodStart :: "time option"
  ac_ExpectedPeriodEnd :: "time option"
  ac_ExpectedProfileUpdatedAt :: "time option"
  ac_ExpectedQuotaUpdatedAt :: "time option"
  ac_ProfileExisted :: bool
  ac_QuotaExisted :: bool
  ac_UsedBytesPreserved :: int
  ac_RemainingAfter :: int

record AdminPlanGroupBatch =
  ab_ActorUUID :: string
  ab_Reason :: string
  ab_RequestID :: string
  ab_PreviewTokenHash :: string
  ab_ExpectedUserIDs :: "string list"
  ab_Changes :: "AdminPlanGroupChange list"

record AdminPlanGroupPreview =
  av_ActorUUID :: string
  av_Reason :: string
  av_RequestID :: string
  av_TokenHash :: string
  av_ExpiresAt :: time
  av_Changes :: "AdminPlanGroupChange list"

record plan_store = accounting_store +
  billingPlans :: "(string, BillingPlan) gomap"
  stripeWebhookEvents :: "(string, StripeWebhookEvent) gomap"
  billingEvents :: "BillingEvent list"
  adminPlanGroupPreviews :: "(string, AdminPlanGroupPreview) gomap"
  adminPlanGroupConsumed :: "(string, string) gomap"

definition newPlanStore :: "bool \<Rightarrow> plan_store" where
  "newPlanStore allow = user_store.extend (newUserStore allow)
     \<lparr>trafficStatCheckpoints = [], trafficMinuteBuckets = [], billingLedgerEntries = [], accountQuotaStates = [],
      accountBillingProfiles = [], accountPolicySnapshots = [], nodeHealthSnapshots = [], schedulerDecisions = [],
      billingPlans = [], stripeWebhookEvents = [], billingEvents = [], adminPlanGroupPreviews = [],
      adminPlanGroupConsumed = []\<rparr>"

type_synonym ('z, 'a) plan_result = "'z plan_store_scheme \<times> (store_error + 'a)"

section \<open>Usage of a quota period\<close>

definition quotaPeriodStart :: "AccountQuotaState option \<Rightarrow> time \<Rightarrow> time" where
  "quotaPeriodStart quota now =
     (case Option.bind quota aq_PeriodStart of Some start \<Rightarrow> start | None \<Rightarrow> month_start (Year now) (Month now))"

text \<open>\<open>now\<close> is the clock reading of this call.\<close>

definition adminPlanGroupBucketUsage ::
  "time \<Rightarrow> (string, TrafficMinuteBucket) gomap \<Rightarrow> string \<Rightarrow> AccountQuotaState option \<Rightarrow> int" where
  "adminPlanGroupBucketUsage now buckets accountID quota =
     (let start = quotaPeriodStart quota now in
      sum64 tb_TotalBytes
        (filter (\<lambda>b. tb_AccountUUID b = accountID \<and> \<not> tb_BucketStart b < start \<and>
                     (case Option.bind quota aq_PeriodEnd of None \<Rightarrow> True | Some end \<Rightarrow> tb_BucketStart b < end) \<and>
                     tb_TotalBytes b > 0)
           (gm_vals buckets)))"

section \<open>Plans\<close>

definition Multiplier :: "BillingPlan option \<Rightarrow> string \<Rightarrow> float64" where
  "Multiplier p name =
     (case Option.bind p pl_PriceMultipliers of
        None \<Rightarrow> float_of 1
      | Some m \<Rightarrow> (case gm_get m name of
                    None \<Rightarrow> float_of 1 | Some v \<Rightarrow> if float_positive v then v else float_of 1))"

definition normalizePlanID :: "string \<Rightarrow> string" where
  "normalizePlanID planID = ToUpper (TrimSpace planID)"

text \<open>Sorted by sort order, and by id within one.\<close>

definition ListBillingPlans :: "bool \<Rightarrow> 'z plan_store_scheme \<Rightarrow> BillingPlan list" where
  "ListBillingPlans includeInactive s =
     sort_key pl_SortOrder (sort_key pl_PlanID
       (filter (\<lambda>plan. includeInactive \<or> pl_Active plan) (gm_vals (billingPlans s))))"

definition GetBillingPlan :: "string \<Rightarrow> 'z plan_store_scheme \<Rightarrow> store_error + BillingPlan" where
  "GetBillingPlan planID s =
     (case gm_get (billingPlans s) (normalizePlanID planID) of
        None \<Rightarrow> Inl ErrBillingPlanNotFound | Some plan \<Rightarrow> Inr plan)"

definition GetBillingPlanByPriceID :: "string \<Rightarrow> 'z plan_store_scheme \<Rightarrow> store_error + BillingPlan" where
  "GetBillingPlanByPriceID stripePriceID s =
     (let trimmed = TrimSpace stripePriceID in
      if trimmed = [] then Inl ErrBillingPlanNotFound
      else case find (\<lambda>plan. pl_StripePriceID plan = trimmed) (gm_vals (billingPlans s)) of
        None \<Rightarrow> Inl ErrBillingPlanNotFound | Some plan \<Rightarrow> Inr plan)"

text \<open>
  The loop of \<open>UpsertBillingPlan\<close> for one account: its profile and quota follow the plan. \<open>clock uid\<close> is
  the clock reading made for the account.
\<close>

definition follow_plan ::
  "BillingPlan \<Rightarrow> time \<Rightarrow> (string \<Rightarrow> time) \<Rightarrow> 'z plan_store_scheme \<Rightarrow> string \<Rightarrow> 'z plan_store_scheme" where
  "follow_plan stored now clock s uid =
     (case gm_get (accountBillingProfiles s) uid of None \<Rightarrow> s | Some profile \<Rightarrow>
      if (case user_of s (byID s) uid of None \<Rightarrow> False | Some u \<Rightarrow> SubscriptionSourcePlan (us_Groups u) = ''CUSTOM'') then s
      else if bp_PricingRuleVersion profile \<noteq> ''plan:'' @ pl_PlanID stored then s
      else if pl_PlanID stored \<noteq> ''FREE'' \<and>
              (case gm_get (subscriptionRecords s) uid of None \<Rightarrow> False
               | Some record \<Rightarrow> sr_MonthlyQuotaBytes record > 0 \<or> sr_AnnualQuotaBytes record > 0) then s
      else case gm_get (accountQuotaStates s) uid of None \<Rightarrow> s | Some quota \<Rightarrow>
        let used = wrap64 (bp_IncludedQuotaBytes profile - aq_RemainingIncludedQuota quota);
            bucketUsage = adminPlanGroupBucketUsage (clock uid) (trafficMinuteBuckets s) uid (Some quota);
            used = (if bucketUsage > used then bucketUsage else used);
            used = (if used < 0 then 0 else used);
            remaining = wrap64 (pl_IncludedQuotaBytes stored - used);
            remaining = (if remaining < 0 then 0 else remaining) in
        if bp_IncludedQuotaBytes profile \<noteq> pl_IncludedQuotaBytes stored \<or> aq_RemainingIncludedQuota quota \<noteq> remaining
        then s\<lparr>accountBillingProfiles := gm_put uid
                 (profile\<lparr>bp_IncludedQuotaBytes := pl_IncludedQuotaBytes stored, bp_UpdatedAt := now\<rparr>) (accountBillingProfiles s),
               accountQuotaStates := gm_put uid
                 (quota\<lparr>aq_RemainingIncludedQuota := remaining, aq_UpdatedAt := now\<rparr>) (accountQuotaStates s)\<rparr>
        else s)"

definition UpsertBillingPlan ::
  "time \<Rightarrow> (string \<Rightarrow> time) \<Rightarrow> BillingPlan option \<Rightarrow> 'z plan_store_scheme \<Rightarrow> ('z, unit) plan_result" where
  "UpsertBillingPlan now clock arg s =
     (case arg of
        None \<Rightarrow> (s, Inl ErrBillingPlanNotFound)
      | Some plan \<Rightarrow>
          if TrimSpace (pl_PlanID plan) = [] then (s, Inl ErrBillingPlanNotFound)
          else
            let stored = plan\<lparr>pl_PlanID := normalizePlanID (pl_PlanID plan), pl_UpdatedAt := now\<rparr>;
                stored = stored\<lparr>pl_CreatedAt := (case gm_get (billingPlans s) (pl_PlanID stored) of
                                                   Some existing \<Rightarrow> pl_CreatedAt existing | None \<Rightarrow> now)\<rparr>;
                s = s\<lparr>billingPlans := gm_put (pl_PlanID stored) stored (billingPlans s)\<rparr>
            in (if pl_Active stored then foldl (follow_plan stored now clock) s (map fst (accountBillingProfiles s)) else s,
                Inr ()))"

definition DeleteBillingPlan :: "string \<Rightarrow> 'z plan_store_scheme \<Rightarrow> ('z, unit) plan_result" where
  "DeleteBillingPlan planID s =
     (let key = normalizePlanID planID in
      if \<not> gm_has (billingPlans s) key then (s, Inl ErrBillingPlanNotFound)
      else (s\<lparr>billingPlans := gm_del key (billingPlans s)\<rparr>, Inr ()))"

section \<open>Stripe events and billing events\<close>

text \<open>The result says whether the event was processed before.\<close>

definition BeginStripeWebhookEvent ::
  "time \<Rightarrow> StripeWebhookEvent option \<Rightarrow> 'z plan_store_scheme \<Rightarrow> 'z plan_store_scheme \<times> bool" where
  "BeginStripeWebhookEvent now arg s =
     (case arg of
        None \<Rightarrow> (s, False)
      | Some event \<Rightarrow>
          if TrimSpace (we_EventID event) = [] then (s, False)
          else case gm_get (stripeWebhookEvents s) (we_EventID event) of
            Some existing \<Rightarrow> (s, we_Status existing = ''processed'')
          | None \<Rightarrow>
              (s\<lparr>stripeWebhookEvents := gm_put (we_EventID event)
                   (event\<lparr>we_Status := ''received'', we_ReceivedAt := now\<rparr>) (stripeWebhookEvents s)\<rparr>, False))"

text \<open>\<open>procErr\<close> is the text of the error of the processing.\<close>

definition FinishStripeWebhookEvent ::
  "time \<Rightarrow> string \<Rightarrow> string option \<Rightarrow> 'z plan_store_scheme \<Rightarrow> 'z plan_store_scheme" where
  "FinishStripeWebhookEvent now eventID procErr s =
     (let key = TrimSpace eventID in
      case gm_get (stripeWebhookEvents s) key of
        None \<Rightarrow> s
      | Some event \<Rightarrow>
          let event = event\<lparr>we_ProcessedAt := Some now\<rparr>;
              event = (case procErr of
                         Some e \<Rightarrow> event\<lparr>we_Status := ''failed'', we_LastError := e\<rparr>
                       | None \<Rightarrow> event\<lparr>we_Status := ''processed'', we_LastError := []\<rparr>)
          in s\<lparr>stripeWebhookEvents := gm_put key event (stripeWebhookEvents s)\<rparr>)"

text \<open>
  \<open>event.payload()\<close> sets a missing time, in the caller's event too; the encoding of a time fails when its
  year is not between 0 and 9999.
\<close>

definition PublishBillingEvent ::
  "time \<Rightarrow> BillingEvent option \<Rightarrow> 'z plan_store_scheme \<Rightarrow> ('z, unit) plan_result" where
  "PublishBillingEvent now arg s =
     (case arg of
        None \<Rightarrow> (s, Inr ())
      | Some event \<Rightarrow>
          let event = (if IsZero (bv_OccurredAt event) then event\<lparr>bv_OccurredAt := now\<rparr> else event) in
          if Year (bv_OccurredAt event) < 0 \<or> Year (bv_OccurredAt event) > 9999
          then (s, Inl (ErrText ''Time.MarshalJSON: year outside of range [0,9999]''))
          else (s\<lparr>billingEvents := billingEvents s @ [event]\<rparr>, Inr ()))"

section \<open>Changes of plan groups\<close>

definition equalStoreStrings :: "string list \<Rightarrow> string list \<Rightarrow> bool" where
  "equalStoreStrings a b \<longleftrightarrow> normalizeStringSlice a = normalizeStringSlice b"

definition equalStoreTimes :: "time option \<Rightarrow> time option \<Rightarrow> bool" where
  "equalStoreTimes a b \<longleftrightarrow> a = b"

text \<open>A time that is zero counts as missing.\<close>

definition profileUpdatedAt :: "AccountBillingProfile option \<Rightarrow> time option" where
  "profileUpdatedAt profile =
     (case profile of None \<Rightarrow> None | Some p \<Rightarrow> if IsZero (bp_UpdatedAt p) then None else Some (bp_UpdatedAt p))"

definition quotaUpdatedAt :: "AccountQuotaState option \<Rightarrow> time option" where
  "quotaUpdatedAt quota =
     (case quota of None \<Rightarrow> None | Some q \<Rightarrow> if IsZero (aq_UpdatedAt q) then None else Some (aq_UpdatedAt q))"

definition acceptsUsageAtApply :: "AdminPlanGroupChange \<Rightarrow> int \<Rightarrow> time option \<Rightarrow> int \<Rightarrow> bool" where
  "acceptsUsageAtApply c remaining updatedAt usage =
     (if ac_SubscriptionRecord c \<noteq> None then
        (let used = max usage (wrap64 (ac_ExpectedProfileIncludedQuota c - remaining));
             wouldNewlyPause = (ac_RemainingAfter c > 0 \<and> used \<ge> ac_IncludedQuotaBytes c) in
         remaining \<le> ac_ExpectedQuotaRemaining c \<and> usage \<ge> ac_ExpectedUsageBytes c \<and> \<not> wouldNewlyPause)
      else remaining = ac_ExpectedQuotaRemaining c \<and> usage = ac_ExpectedUsageBytes c \<and>
           equalStoreTimes updatedAt (ac_ExpectedQuotaUpdatedAt c))"

text \<open>The user is still as the operator saw it.\<close>

definition as_expected :: "User \<Rightarrow> AdminPlanGroupChange \<Rightarrow> bool" where
  "as_expected user change \<longleftrightarrow>
     equalStoreStrings (WithoutAgentFreeGrantGroups (us_Groups user)) (WithoutAgentFreeGrantGroups (ac_ExpectedGroups change)) \<and>
     equalStoreTimes (us_SubscriptionValidFrom user) (ac_ExpectedValidFrom change) \<and>
     equalStoreTimes (us_SubscriptionValidUntil user) (ac_ExpectedValidUntil change)"

text \<open>One iteration of the loop of the preview; \<open>now\<close> is the clock reading of the usage.\<close>

definition preview_change ::
  "time \<Rightarrow> 'z plan_store_scheme \<Rightarrow> AdminPlanGroupChange \<Rightarrow> store_error + AdminPlanGroupChange" where
  "preview_change now s change =
     (case user_of s (byID s) (ac_UserID change) of None \<Rightarrow> Inl ErrUserNotFound | Some user \<Rightarrow>
      if IsRootRole (us_Role user) then Inl ErrUserProtected
      else if \<not> as_expected user change then Inl ErrAdminPlanGroupStale
      else
        let change = (case (ac_SubscriptionRecord change, gm_get (subscriptionRecords s) (us_ID user)) of
                        (Some _, Some record) \<Rightarrow> change\<lparr>ac_ExpectedRecordUpdatedAt := Some (sr_UpdatedAt record)\<rparr>
                      | _ \<Rightarrow> change);
            profile = gm_get (accountBillingProfiles s) (us_ID user);
            quota = gm_get (accountQuotaStates s) (us_ID user);
            change = change\<lparr>ac_ProfileExisted := (profile \<noteq> None), ac_QuotaExisted := (quota \<noteq> None)\<rparr>;
            change = (case profile of None \<Rightarrow> change
                      | Some p \<Rightarrow> change\<lparr>ac_ExpectedProfileIncludedQuota := bp_IncludedQuotaBytes p,
                                         ac_ExpectedProfileUpdatedAt := Some (bp_UpdatedAt p)\<rparr>);
            change = (case quota of None \<Rightarrow> change
                      | Some q \<Rightarrow> change\<lparr>ac_ExpectedQuotaRemaining := aq_RemainingIncludedQuota q,
                                         ac_ExpectedPeriodStart := aq_PeriodStart q, ac_ExpectedPeriodEnd := aq_PeriodEnd q,
                                         ac_ExpectedQuotaUpdatedAt := Some (aq_UpdatedAt q)\<rparr>) in
        if ac_SetEntitlement change then
          (let used = wrap64 (ac_ExpectedProfileIncludedQuota change - ac_ExpectedQuotaRemaining change);
               used = (if used < 0 then 0 else used);
               usage = adminPlanGroupBucketUsage now (trafficMinuteBuckets s) (us_ID user) quota;
               used = (if usage > used then usage else used);
               remaining = wrap64 (ac_IncludedQuotaBytes change - used)
           in Inr (change\<lparr>ac_ExpectedUsageBytes := usage, ac_UsedBytesPreserved := used,
                         ac_RemainingAfter := (if remaining < 0 then 0 else remaining)\<rparr>))
        else Inr change)"

text \<open>The loop, with the users seen so far; \<open>clock i\<close> is the clock reading of iteration \<open>i\<close>.\<close>

fun preview_loop ::
  "(nat \<Rightarrow> time) \<Rightarrow> nat \<Rightarrow> 'z plan_store_scheme \<Rightarrow> string list \<Rightarrow> AdminPlanGroupChange list \<Rightarrow>
   store_error + AdminPlanGroupChange list" where
  "preview_loop clock i s seen [] = Inr []"
| "preview_loop clock i s seen (change # changes) =
     (if ac_UserID change \<in> set seen then Inl (ErrText ''duplicate user in admin plan group preview'')
      else case preview_change (clock i) s change of
        Inl e \<Rightarrow> Inl e
      | Inr change' \<Rightarrow>
          (case preview_loop clock (Suc i) s (ac_UserID change # seen) changes of
             Inl e \<Rightarrow> Inl e
           | Inr rest \<Rightarrow> Inr (change' # rest)))"

definition CreateAdminPlanGroupPreview ::
  "string \<Rightarrow> time \<Rightarrow> (nat \<Rightarrow> time) \<Rightarrow> time \<Rightarrow> AdminPlanGroupPreview \<Rightarrow> 'z plan_store_scheme \<Rightarrow>
   ('z, AdminPlanGroupChange list) plan_result" where
  "CreateAdminPlanGroupPreview fresh now clock now' preview s =
     (if av_TokenHash preview = [] \<or> av_RequestID preview = [] \<or> av_Changes preview = [] \<or> \<not> av_ExpiresAt preview > now
      then (s, Inl (ErrText ''invalid admin plan group preview''))
      else if gm_has (adminPlanGroupPreviews s) (av_TokenHash preview)
      then (s, Inl (ErrText ''duplicate admin plan group preview token''))
      else case preview_loop clock 0 s [] (av_Changes preview) of
        Inl e \<Rightarrow> (s, Inl e)
      | Inr changes \<Rightarrow>
          let entry = \<lparr>al_UUID = fresh, al_Action = ''account.plan_group.preview'', al_ActorUUID = av_ActorUUID preview,
                al_Details = Some [(''request_id'', DVal (GString (av_RequestID preview))),
                  (''reason'', DVal (GString (av_Reason preview))), (''expires_at'', DTime (av_ExpiresAt preview))],
                al_CreatedAt = now'\<rparr>
          in (s\<lparr>adminPlanGroupPreviews := gm_put (av_TokenHash preview) (preview\<lparr>av_Changes := changes\<rparr>) (adminPlanGroupPreviews s),
                 auditLogs := auditLogs s @ [entry]\<rparr>, Inr changes))"

record preparedAdminPlanGroupChange =
  pc_change :: AdminPlanGroupChange
  pc_user :: nat
  pc_profile :: AccountBillingProfile
  pc_quota :: AccountQuotaState
  pc_used :: int
  pc_remainingBefore :: int

definition default_profile :: "string \<Rightarrow> AccountBillingProfile" where
  "default_profile uid =
     \<lparr>bp_AccountUUID = uid, bp_PackageName = [], bp_IncludedQuotaBytes = 0, bp_BasePricePerByte = float_zero,
      bp_RegionMultiplier = float_of 1, bp_LineMultiplier = float_of 1, bp_PeakMultiplier = float_of 1,
      bp_OffPeakMultiplier = float_of 1, bp_PricingRuleVersion = [], bp_CreatedAt = 0, bp_UpdatedAt = 0\<rparr>"

definition default_quota :: "string \<Rightarrow> AccountQuotaState" where
  "default_quota uid = (empty_quota uid)
     \<lparr>aq_ThrottleState := ''normal'', aq_SuspendState := ''active'', aq_ProxyAccessState := ''active''\<rparr>"

text \<open>
  One iteration of the first loop of the application; \<open>now\<close> is the clock reading of the usage and
  \<open>now'\<close> the one of \<open>EffectiveAt\<close>.
\<close>

definition prepare_change ::
  "time \<Rightarrow> time \<Rightarrow> 'z plan_store_scheme \<Rightarrow> AdminPlanGroupChange \<Rightarrow> store_error + preparedAdminPlanGroupChange" where
  "prepare_change now now' s change =
     (case gm_get (byID s) (ac_UserID change) of None \<Rightarrow> Inl ErrUserNotFound | Some a \<Rightarrow>
      let user = users s ! a in
      if IsRootRole (us_Role user) then Inl ErrUserProtected
      else if \<not> as_expected user change then Inl ErrAdminPlanGroupStale
      else
        let storedProfile = gm_get (accountBillingProfiles s) (us_ID user);
            storedQuota = gm_get (accountQuotaStates s) (us_ID user);
            ent = ac_SetEntitlement change in
        if ent \<and> ((storedProfile \<noteq> None) \<noteq> ac_ProfileExisted change \<or> (storedQuota \<noteq> None) \<noteq> ac_QuotaExisted change)
        then Inl ErrAdminPlanGroupStale
        else
          let profile = (case storedProfile of None \<Rightarrow> default_profile (us_ID user) | Some p \<Rightarrow> p);
              quota = (case storedQuota of None \<Rightarrow> default_quota (us_ID user) | Some q \<Rightarrow> q) in
          if ent \<and> (bp_IncludedQuotaBytes profile \<noteq> ac_ExpectedProfileIncludedQuota change \<or>
                    \<not> equalStoreTimes (profileUpdatedAt storedProfile) (ac_ExpectedProfileUpdatedAt change) \<or>
                    \<not> equalStoreTimes (aq_PeriodStart quota) (ac_ExpectedPeriodStart change) \<or>
                    \<not> equalStoreTimes (aq_PeriodEnd quota) (ac_ExpectedPeriodEnd change))
          then Inl ErrAdminPlanGroupStale
          else
            let remainingBefore = aq_RemainingIncludedQuota quota;
                used = wrap64 (bp_IncludedQuotaBytes profile - remainingBefore);
                used = (if used < 0 then 0 else used);
                usage = adminPlanGroupBucketUsage now (trafficMinuteBuckets s) (us_ID user) (Some quota) in
            if ent \<and> \<not> acceptsUsageAtApply change remainingBefore (quotaUpdatedAt storedQuota) usage
            then Inl ErrAdminPlanGroupStale
            else
              let used = (if usage > used then usage else used);
                  remaining = wrap64 (ac_IncludedQuotaBytes change - used);
                  profile = (if ent then profile\<lparr>bp_AccountUUID := us_ID user, bp_PackageName := ac_PackageName change,
                               bp_IncludedQuotaBytes := ac_IncludedQuotaBytes change,
                               bp_RegionMultiplier := ac_RegionMultiplier change, bp_LineMultiplier := ac_LineMultiplier change,
                               bp_PeakMultiplier := ac_PeakMultiplier change, bp_OffPeakMultiplier := ac_OffPeakMultiplier change,
                               bp_PricingRuleVersion := ac_PricingRuleVersion change\<rparr> else profile);
                  quota = (if ent then quota\<lparr>aq_RemainingIncludedQuota := (if remaining < 0 then 0 else remaining),
                             aq_EffectiveAt := now'\<rparr> else quota) in
              if ac_SubscriptionRecord change \<noteq> None \<and>
                 \<not> equalStoreTimes (map_option sr_UpdatedAt (gm_get (subscriptionRecords s) (us_ID user)))
                     (ac_ExpectedRecordUpdatedAt change)
              then Inl ErrAdminPlanGroupStale
              else Inr \<lparr>pc_change = change, pc_user = a, pc_profile = profile, pc_quota = quota, pc_used = used,
                        pc_remainingBefore = remainingBefore\<rparr>)"

fun prepare_loop ::
  "(nat \<Rightarrow> time) \<Rightarrow> (nat \<Rightarrow> time) \<Rightarrow> nat \<Rightarrow> 'z plan_store_scheme \<Rightarrow> string list \<Rightarrow> AdminPlanGroupChange list \<Rightarrow>
   store_error + preparedAdminPlanGroupChange list" where
  "prepare_loop clock clock' i s seen [] = Inr []"
| "prepare_loop clock clock' i s seen (change # changes) =
     (if ac_UserID change \<in> set seen then Inl (ErrText ''duplicate user in admin plan group batch'')
      else case prepare_change (clock i) (clock' i) s change of
        Inl e \<Rightarrow> Inl e
      | Inr item \<Rightarrow>
          (case prepare_loop clock clock' (Suc i) s (ac_UserID change # seen) changes of
             Inl e \<Rightarrow> Inl e
           | Inr rest \<Rightarrow> Inr (item # rest)))"

section \<open>Applying a batch\<close>

definition record_detail :: "SubscriptionRecord \<Rightarrow> detail" where
  "record_detail r = DStruct
     [(''PlanCode'', DVal (GString (sr_PlanCode r))), (''UserID'', DVal (GString (sr_UserID r))),
      (''SubscriptionType'', DVal (GString (sr_SubscriptionType r))), (''MonthlyQuotaBytes'', DVal (GInt (sr_MonthlyQuotaBytes r))),
      (''AnnualQuotaBytes'', DVal (GInt (sr_AnnualQuotaBytes r))), (''FeeMinor'', DVal (GInt (sr_FeeMinor r))),
      (''PaymentStatus'', DVal (GString (sr_PaymentStatus r))), (''Note'', DVal (GString (sr_Note r))),
      (''ValidFrom'', DPtr (map_option DTime (sr_ValidFrom r))), (''ValidUntil'', DPtr (map_option DTime (sr_ValidUntil r))),
      (''UpdatedAt'', DTime (sr_UpdatedAt r))]"

definition groups_detail :: "string list \<Rightarrow> detail" where
  "groups_detail groups = DVal (GList (map GString groups))"

definition batch_audit ::
  "string \<Rightarrow> time \<Rightarrow> AdminPlanGroupBatch \<Rightarrow> User \<Rightarrow> SubscriptionRecord option \<Rightarrow> preparedAdminPlanGroupChange \<Rightarrow> AuditLog" where
  "batch_audit fresh now batch user previousRecord item =
     (let change = pc_change item;
          before = DMap
            [(''subscription_record'', case previousRecord of None \<Rightarrow> DVal GNil | Some r \<Rightarrow> record_detail r),
             (''groups'', groups_detail (ac_ExpectedGroups change)),
             (''valid_from'', DPtr (map_option DTime (ac_ExpectedValidFrom change))),
             (''valid_until'', DPtr (map_option DTime (ac_ExpectedValidUntil change))),
             (''included_quota_bytes'', DVal (GInt (ac_ExpectedProfileIncludedQuota change))),
             (''remaining_included_quota'', DVal (GInt (pc_remainingBefore item)))];
          after = DMap
            [(''groups'', groups_detail (ac_Groups change)),
             (''valid_from'', DPtr (map_option DTime (us_SubscriptionValidFrom user))),
             (''valid_until'', DPtr (map_option DTime (us_SubscriptionValidUntil user))),
             (''subscription_record'', DPtr (map_option record_detail (ac_SubscriptionRecord change))),
             (''plan_id'', DVal (GString (ac_PlanID change))),
             (''included_quota_bytes'', DVal (GInt (ac_IncludedQuotaBytes change))),
             (''remaining_included_quota'', DVal (GInt (aq_RemainingIncludedQuota (pc_quota item)))),
             (''used_bytes_preserved'', DVal (GInt (pc_used item))),
             (''configuration_sync_paused'', DVal (GBool (ac_SetEntitlement change \<and> ac_IncludedQuotaBytes change > 0 \<and>
                aq_RemainingIncludedQuota (pc_quota item) = 0)))]
      in \<lparr>al_UUID = fresh, al_Action = ''account.plan_group.update'', al_ActorUUID = ab_ActorUUID batch,
          al_Details = Some [(''target_uuid'', DVal (GString (us_ID user))), (''reason'', DVal (GString (ab_Reason batch))),
            (''request_id'', DVal (GString (ab_RequestID batch))),
            (''preview_token_hash'', DVal (GString (ab_PreviewTokenHash batch))), (''before'', before), (''after'', after)],
          al_CreatedAt = now\<rparr>)"

text \<open>One iteration of the second loop: the user, the subscription record, the profile and the quota are written.\<close>

definition apply_item ::
  "string \<Rightarrow> time \<Rightarrow> AdminPlanGroupBatch \<Rightarrow> 'z plan_store_scheme \<Rightarrow> preparedAdminPlanGroupChange \<Rightarrow> 'z plan_store_scheme" where
  "apply_item fresh now batch s item =
     (let change = pc_change item;
          user = users s ! pc_user item;
          previousRecord = gm_get (subscriptionRecords s) (us_ID user);
          user = user\<lparr>us_Groups := cloneStringSlice (PreserveAgentFreeGrantGroups (us_Groups user) (normalizeStringSlice (ac_Groups change)))\<rparr>;
          user = (if ac_SetValidFrom change then user\<lparr>us_SubscriptionValidFrom := ac_ValidFrom change\<rparr> else user);
          user = (if ac_SetValidUntil change then user\<lparr>us_SubscriptionValidUntil := ac_ValidUntil change\<rparr> else user);
          s = (case ac_SubscriptionRecord change of None \<Rightarrow> s
               | Some record \<Rightarrow> s\<lparr>subscriptionRecords := gm_put (us_ID user) (record\<lparr>sr_UserID := us_ID user, sr_UpdatedAt := now\<rparr>)
                                   (subscriptionRecords s)\<rparr>);
          user = user\<lparr>us_UpdatedAt := now\<rparr>;
          s = put_user (pc_user item) user s;
          s = (if ac_SetEntitlement change
               then s\<lparr>accountBillingProfiles := gm_put (us_ID user) ((pc_profile item)\<lparr>bp_UpdatedAt := now\<rparr>) (accountBillingProfiles s),
                      accountQuotaStates := gm_put (us_ID user) ((pc_quota item)\<lparr>aq_UpdatedAt := now\<rparr>) (accountQuotaStates s)\<rparr>
               else s)
      in s\<lparr>auditLogs := auditLogs s @ [batch_audit fresh now batch user previousRecord item]\<rparr>)"

text \<open>\<open>fresh i\<close> is the id of the entry of iteration \<open>i\<close>.\<close>

fun apply_loop ::
  "(nat \<Rightarrow> string) \<Rightarrow> time \<Rightarrow> AdminPlanGroupBatch \<Rightarrow> nat \<Rightarrow> preparedAdminPlanGroupChange list \<Rightarrow>
   'z plan_store_scheme \<Rightarrow> 'z plan_store_scheme" where
  "apply_loop fresh now batch i [] s = s"
| "apply_loop fresh now batch i (item # items) s =
     apply_loop fresh now batch (Suc i) items (apply_item (fresh i) now batch s item)"

text \<open>The change as it is returned.\<close>

definition applied_change :: "preparedAdminPlanGroupChange \<Rightarrow> AdminPlanGroupChange" where
  "applied_change item =
     (if ac_SetEntitlement (pc_change item)
      then (pc_change item)\<lparr>ac_UsedBytesPreserved := pc_used item,
                            ac_RemainingAfter := aq_RemainingIncludedQuota (pc_quota item)\<rparr>
      else pc_change item)"

definition batch_recorded :: "string \<Rightarrow> AuditLog \<Rightarrow> bool" where
  "batch_recorded requestID entry \<longleftrightarrow>
     al_Action entry = ''account.plan_group.update'' \<and> al_get entry ''request_id'' = Some (DVal (GString requestID))"

text \<open>
  The result is the list of changes and whether the batch was applied before. \<open>now\<close> is the clock reading
  of the expiry, \<open>clock\<close> and \<open>clock'\<close> those of the first loop and \<open>now'\<close> that of the second.
\<close>

definition ApplyAdminPlanGroupBatch ::
  "(nat \<Rightarrow> string) \<Rightarrow> string \<Rightarrow> time \<Rightarrow> (nat \<Rightarrow> time) \<Rightarrow> (nat \<Rightarrow> time) \<Rightarrow> time \<Rightarrow> AdminPlanGroupBatch \<Rightarrow>
   'z plan_store_scheme \<Rightarrow> ('z, AdminPlanGroupChange list \<times> bool) plan_result" where
  "ApplyAdminPlanGroupBatch fresh fresh' now clock clock' now' batch s =
     (case find (batch_recorded (ab_RequestID batch)) (auditLogs s) of
        Some existing \<Rightarrow>
          if al_ActorUUID existing \<noteq> ab_ActorUUID batch \<or>
             al_get existing ''reason'' \<noteq> Some (DVal (GString (ab_Reason batch))) \<or>
             al_get existing ''preview_token_hash'' \<noteq> Some (DVal (GString (ab_PreviewTokenHash batch)))
          then (s, Inl ErrAdminPlanGroupReplay)
          else (s, Inr ([], True))
      | None \<Rightarrow>
          (case gm_get (adminPlanGroupPreviews s) (ab_PreviewTokenHash batch) of
             None \<Rightarrow> (s, Inl ErrAdminPlanGroupPreview)
           | Some preview \<Rightarrow>
               if av_ExpiresAt preview < now \<or> av_ActorUUID preview \<noteq> ab_ActorUUID batch \<or>
                  av_RequestID preview \<noteq> ab_RequestID batch \<or> av_Reason preview \<noteq> ab_Reason batch \<or>
                  gm_str (adminPlanGroupConsumed s) (ab_PreviewTokenHash batch) \<noteq> []
               then (s, Inl ErrAdminPlanGroupPreview)
               else if ab_ExpectedUserIDs batch \<noteq> [] \<and>
                       sort (ab_ExpectedUserIDs batch) \<noteq> sort (map ac_UserID (av_Changes preview))
               then (s, Inl ErrAdminPlanGroupPreview)
               else case prepare_loop clock clock' 0 s [] (av_Changes preview) of
                 Inl e \<Rightarrow> (s, Inl e)
               | Inr prepared \<Rightarrow>
                   let s = apply_loop fresh now' batch 0 prepared s;
                       s = s\<lparr>adminPlanGroupConsumed := gm_put (ab_PreviewTokenHash batch) (ab_RequestID batch) (adminPlanGroupConsumed s)\<rparr>;
                       entry = \<lparr>al_UUID = fresh', al_Action = ''account.plan_group.preview.used'', al_ActorUUID = ab_ActorUUID batch,
                         al_Details = Some [(''request_id'', DVal (GString (ab_RequestID batch))),
                           (''preview_token_hash'', DVal (GString (ab_PreviewTokenHash batch)))], al_CreatedAt = now'\<rparr>
                   in (s\<lparr>auditLogs := auditLogs s @ [entry]\<rparr>, Inr (map applied_change prepared, False))))"

end
