(* ===== verification/Plan_Properties.thy ===== *)
theory Plan_Properties
  imports Plan_Groups User_Lifecycle
begin

text \<open>
  Properties of the accounting and billing part of the store over any sequence of its operations and
  those on accounts: ledger entries, previews and the record of the applied batches stay as they are, so
  a top-up is credited once and a batch is applied once; and what an administrator reviewed is what is
  applied.
\<close>

section \<open>Operations\<close>

datatype plan_op =
    OpPlanAccount user_op
  | OpCheckpoint time "TrafficStatCheckpoint option"
  | OpBucket time "TrafficMinuteBucket option"
  | OpLedgerEntry string time "BillingLedgerEntry option"
  | OpTopUp time time "BillingLedgerEntry option"
  | OpQuotaState time "AccountQuotaState option"
  | OpProfile time "AccountBillingProfile option"
  | OpPolicy time "AccountPolicySnapshot option"
  | OpNodeHealth time "NodeHealthSnapshot option"
  | OpDecision string time "SchedulerDecision option"
  | OpUpgradeQuota time time time string int int time time
  | OpActivateQuota time time time string int int time time
  | OpResetUsage string string string string string time
  | OpReadQuota time string
  | OpResetFree string time time time
  | OpUpsertPlan time "string \<Rightarrow> time" "BillingPlan option"
  | OpDeletePlan string
  | OpBeginEvent time "StripeWebhookEvent option"
  | OpFinishEvent time string "string option"
  | OpPublish time "BillingEvent option"
  | OpPlanPreview string time "nat \<Rightarrow> time" time AdminPlanGroupPreview
  | OpPlanBatch "nat \<Rightarrow> string" string time "nat \<Rightarrow> time" "nat \<Rightarrow> time" time AdminPlanGroupBatch

fun plan_exec :: "plan_op \<Rightarrow> 'z plan_store_scheme \<Rightarrow> 'z plan_store_scheme" where
  "plan_exec (OpPlanAccount opn) s = user_exec opn s"
| "plan_exec (OpCheckpoint n c) s = fst (UpsertTrafficStatCheckpoint n c s)"
| "plan_exec (OpBucket n b) s = fst (UpsertTrafficMinuteBucket n b s)"
| "plan_exec (OpLedgerEntry f n e) s = fst (InsertBillingLedgerEntry f n e s)"
| "plan_exec (OpTopUp n n' e) s = fst (CreditTopUp n n' e s)"
| "plan_exec (OpQuotaState n q) s = fst (UpsertAccountQuotaState n q s)"
| "plan_exec (OpProfile n p) s = fst (UpsertAccountBillingProfile n p s)"
| "plan_exec (OpPolicy n p) s = fst (UpsertAccountPolicySnapshot n p s)"
| "plan_exec (OpNodeHealth n h) s = fst (UpsertNodeHealthSnapshot n h s)"
| "plan_exec (OpDecision f n d) s = fst (InsertSchedulerDecision f n d s)"
| "plan_exec (OpUpgradeQuota y m n u p t a b) s = fst (UpgradeSubscriptionQuota y m n u p t a b s)"
| "plan_exec (OpActivateQuota y m n u p t a b) s = fst (ActivateSubscriptionQuota y m n u p t a b s)"
| "plan_exec (OpResetUsage f u a e r n) s = fst (ResetMonthlyUsage f u a e r n s)"
| "plan_exec (OpReadQuota n u) s = fst (GetAccountQuotaState n u s)"
| "plan_exec (OpResetFree u a b n) s = ResetFreeQuotaPeriod u a b n s"
| "plan_exec (OpUpsertPlan n c p) s = fst (UpsertBillingPlan n c p s)"
| "plan_exec (OpDeletePlan p) s = fst (DeleteBillingPlan p s)"
| "plan_exec (OpBeginEvent n e) s = fst (BeginStripeWebhookEvent n e s)"
| "plan_exec (OpFinishEvent n e p) s = FinishStripeWebhookEvent n e p s"
| "plan_exec (OpPublish n e) s = fst (PublishBillingEvent n e s)"
| "plan_exec (OpPlanPreview f n c n' p) s = fst (CreateAdminPlanGroupPreview f n c n' p s)"
| "plan_exec (OpPlanBatch f f' n c c' n' b) s = fst (ApplyAdminPlanGroupBatch f f' n c c' n' b s)"

text \<open>The id that \<open>uuid.NewString\<close> returns for a ledger entry is not in use yet.\<close>

definition plan_allowed :: "'z plan_store_scheme \<Rightarrow> plan_op \<Rightarrow> bool" where
  "plan_allowed s opn =
     (case opn of OpLedgerEntry fresh _ _ \<Rightarrow> \<not> gm_has (billingLedgerEntries s) fresh | _ \<Rightarrow> True)"

section \<open>Invariant and growth\<close>

definition plan_inv :: "'z plan_store_scheme \<Rightarrow> bool" where
  "plan_inv s \<longleftrightarrow> user_inv s \<and>
     (\<forall>h p. gm_get (adminPlanGroupPreviews s) h = Some p \<longrightarrow> av_RequestID p \<noteq> [] \<and> av_Changes p \<noteq> []) \<and>
     (\<forall>h r. gm_get (adminPlanGroupConsumed s) h = Some r \<longrightarrow> r \<noteq> [])"

definition map_le_at :: "('k, 'v) gomap \<Rightarrow> ('k, 'v) gomap \<Rightarrow> bool" where
  "map_le_at m m' \<longleftrightarrow> (\<forall>k v. gm_get m k = Some v \<longrightarrow> gm_get m' k = Some v)"

lemma map_le_at_refl [simp]: "map_le_at m m"
  by (simp add: map_le_at_def)

lemma map_le_at_trans: "map_le_at a b \<Longrightarrow> map_le_at b c \<Longrightarrow> map_le_at a c"
  by (simp add: map_le_at_def)

lemma map_le_at_put: "gm_get m k = None \<Longrightarrow> map_le_at m (gm_put k v m)"
  by (auto simp: map_le_at_def)

lemma map_le_atD: "map_le_at m m' \<Longrightarrow> gm_get m k = Some v \<Longrightarrow> gm_get m' k = Some v"
  by (simp add: map_le_at_def)

definition plan_le :: "'z plan_store_scheme \<Rightarrow> 'z plan_store_scheme \<Rightarrow> bool" where
  "plan_le s s' \<longleftrightarrow> audit_le s s' \<and> map_le_at (billingLedgerEntries s) (billingLedgerEntries s') \<and>
     map_le_at (adminPlanGroupPreviews s) (adminPlanGroupPreviews s') \<and>
     map_le_at (adminPlanGroupConsumed s) (adminPlanGroupConsumed s')"

lemma plan_leD:
  assumes "plan_le s s'"
  shows "audit_le s s'" "map_le_at (billingLedgerEntries s) (billingLedgerEntries s')"
    "map_le_at (adminPlanGroupPreviews s) (adminPlanGroupPreviews s')"
    "map_le_at (adminPlanGroupConsumed s) (adminPlanGroupConsumed s')"
  using assms by (simp_all add: plan_le_def)

lemma plan_le_refl: "plan_le s s"
  by (simp add: plan_le_def audit_le_same)

lemma plan_le_trans: "plan_le s t \<Longrightarrow> plan_le t u \<Longrightarrow> plan_le s u"
  by (auto simp: plan_le_def audit_le_def elim: map_le_at_trans)

text \<open>Most operations leave all of this alone.\<close>

definition same_core :: "'z plan_store_scheme \<Rightarrow> 'z plan_store_scheme \<Rightarrow> bool" where
  "same_core s s' \<longleftrightarrow> users s' = users s \<and> byID s' = byID s \<and> byEmail s' = byEmail s \<and> byName s' = byName s \<and>
     auditLogs s' = auditLogs s \<and> billingLedgerEntries s' = billingLedgerEntries s \<and>
     adminPlanGroupPreviews s' = adminPlanGroupPreviews s \<and> adminPlanGroupConsumed s' = adminPlanGroupConsumed s"

lemma same_core_refl [simp]: "same_core s s"
  by (simp add: same_core_def)

lemma same_core_trans: "same_core s t \<Longrightarrow> same_core t u \<Longrightarrow> same_core s u"
  by (simp add: same_core_def)

lemma same_core_inv: "same_core s s' \<Longrightarrow> plan_inv s \<Longrightarrow> plan_inv s'"
  using user_inv_cong [of s' s] by (simp add: same_core_def plan_inv_def)

lemma same_core_le: "same_core s s' \<Longrightarrow> plan_le s s'"
  by (simp add: same_core_def plan_le_def audit_le_same)

lemma accounting_core:
  "same_core s (fst (UpsertTrafficStatCheckpoint n c s))"
  "same_core s (fst (UpsertTrafficMinuteBucket n b s))"
  "same_core s (fst (UpsertAccountQuotaState n q s))"
  "same_core s (fst (UpsertAccountBillingProfile n p s))"
  "same_core s (fst (UpsertAccountPolicySnapshot n po s))"
  "same_core s (fst (UpsertNodeHealthSnapshot n h s))"
  "same_core s (fst (InsertSchedulerDecision f n d s))"
  by (simp_all add: same_core_def UpsertTrafficStatCheckpoint_def UpsertTrafficMinuteBucket_def
      UpsertAccountQuotaState_def UpsertAccountBillingProfile_def UpsertAccountPolicySnapshot_def
      UpsertNodeHealthSnapshot_def InsertSchedulerDecision_def Let_def split: option.split)

lemma changeSubscriptionQuota_core: "same_core s (fst (changeSubscriptionQuota y m n u p t a b act s))"
proof (rule post_fst)
  show "post (\<lambda>(s', r). same_core s s') (changeSubscriptionQuota y m n u p t a b act s)"
    unfolding changeSubscriptionQuota_def by (intro branches) (simp_all add: post_def same_core_def)
qed

lemma expire_core: "same_core s (expireMonthlyUsageResetLocked u n s)"
  by (simp add: expireMonthlyUsageResetLocked_def same_core_def Let_def split: option.split)

lemma quota_core:
  "same_core s (fst (UpgradeSubscriptionQuota y m n u p t a b s))"
  "same_core s (fst (ActivateSubscriptionQuota y m n u p t a b s))"
  "same_core s (fst (GetAccountQuotaState n u s))"
  "same_core s (ResetFreeQuotaPeriod u a b n s)"
  using expire_core [of s u n]
  by (simp_all add: UpgradeSubscriptionQuota_def ActivateSubscriptionQuota_def changeSubscriptionQuota_core
      GetAccountQuotaState_def ResetFreeQuotaPeriod_def Let_def split: option.split)
    (simp add: same_core_def)

lemma follow_plan_core: "same_core s (follow_plan p n c s u)"
  by (simp add: follow_plan_def same_core_def Let_def split: option.split)

lemma follow_plans_core: "same_core s (foldl (follow_plan p n c) s us)"
proof (induction us arbitrary: s)
  case (Cons u us)
  show ?case using same_core_trans [OF follow_plan_core Cons [of "follow_plan p n c s u"]] by simp
qed simp

lemma billing_core:
  "same_core s (fst (UpsertBillingPlan n c p s))"
  "same_core s (fst (DeleteBillingPlan i s))"
  "same_core s (fst (BeginStripeWebhookEvent n e s))"
  "same_core s (FinishStripeWebhookEvent n x r s)"
  "same_core s (fst (PublishBillingEvent n v s))"
proof -
  have put: "same_core s (s\<lparr>billingPlans := m\<rparr>)" for m by (simp add: same_core_def)
  show "same_core s (fst (UpsertBillingPlan n c p s))"
    using same_core_trans [OF put follow_plans_core] put
    by (simp add: UpsertBillingPlan_def Let_def split: option.split)
qed (simp_all add: same_core_def DeleteBillingPlan_def BeginStripeWebhookEvent_def FinishStripeWebhookEvent_def
    PublishBillingEvent_def Let_def split: option.split)

lemmas core_steps = accounting_core quota_core billing_core

lemma plan_user_inv [simp]:
  "user_inv (s\<lparr>accountQuotaStates := v1\<rparr>) = user_inv s"
  "user_inv (s\<lparr>billingLedgerEntries := v2\<rparr>) = user_inv s"
  "user_inv (s\<lparr>adminPlanGroupPreviews := v3\<rparr>) = user_inv s"
  "user_inv (s\<lparr>adminPlanGroupConsumed := v4\<rparr>) = user_inv s"
  by (rule user_inv_cong; simp)+

text \<open>Operations that add to the ledger or to the audit log.\<close>

lemma ledger_core:
  assumes "plan_inv s"
  shows "plan_inv (fst (InsertBillingLedgerEntry f n e s))" "plan_inv (fst (CreditTopUp n n' e s))"
    "\<not> gm_has (billingLedgerEntries s) f \<Longrightarrow> plan_le s (fst (InsertBillingLedgerEntry f n e s))"
    "plan_le s (fst (CreditTopUp n n' e s))"
  using assms
  by (simp_all add: InsertBillingLedgerEntry_def CreditTopUp_def plan_inv_def plan_le_refl plan_le_def
      audit_le_same map_le_at_put Let_def split: option.split)

lemma ResetMonthlyUsage_core:
  assumes "plan_inv s"
  shows "plan_inv (fst (ResetMonthlyUsage f u a e r n s)) \<and> plan_le s (fst (ResetMonthlyUsage f u a e r n s))"
proof (rule post_fst)
  show "post (\<lambda>(s', r). plan_inv s' \<and> plan_le s s') (ResetMonthlyUsage f u a e r n s)"
    using assms unfolding ResetMonthlyUsage_def
    by (simp add: post_def audit_le_same plan_inv_def plan_le_refl plan_le_def audit_le_snoc Let_def split: option.split prod.split)
qed

lemma preview_loop_length: "preview_loop c i s seen xs = Inr ys \<Longrightarrow> length ys = length xs"
  by (induction c i s seen xs arbitrary: ys rule: preview_loop.induct) (auto split: if_splits sum.splits)

lemma CreateAdminPlanGroupPreview_core:
  assumes "plan_inv s"
  shows "plan_inv (fst (CreateAdminPlanGroupPreview f n c n' p s)) \<and>
    plan_le s (fst (CreateAdminPlanGroupPreview f n c n' p s))"
proof (rule post_fst)
  show "post (\<lambda>(s', r). plan_inv s' \<and> plan_le s s') (CreateAdminPlanGroupPreview f n c n' p s)"
    unfolding CreateAdminPlanGroupPreview_def
  proof (intro branches)
    fix changes entry
    assume new: "\<not> gm_has (adminPlanGroupPreviews s) (av_TokenHash p)"
      and ok: "\<not> (av_TokenHash p = [] \<or> av_RequestID p = [] \<or> av_Changes p = [] \<or> \<not> av_ExpiresAt p > n)"
      and loop: "preview_loop c 0 s [] (av_Changes p) = Inr changes"
    have "changes \<noteq> []" using preview_loop_length [OF loop] ok by auto
    then show "post (\<lambda>(s', r). plan_inv s' \<and> plan_le s s')
      (s\<lparr>adminPlanGroupPreviews := gm_put (av_TokenHash p) (p\<lparr>av_Changes := changes\<rparr>) (adminPlanGroupPreviews s),
         auditLogs := auditLogs s @ [entry]\<rparr>, Inr changes)"
      using assms new ok
      by (auto simp: post_def plan_inv_def plan_le_def audit_le_def map_le_at_put)
  qed (use assms in \<open>simp_all add: post_def plan_le_refl\<close>)
qed

section \<open>Preparing a batch\<close>

definition prepared_in :: "'z plan_store_scheme \<Rightarrow> preparedAdminPlanGroupChange \<Rightarrow> bool" where
  "prepared_in s item \<longleftrightarrow> gm_get (byID s) (ac_UserID (pc_change item)) = Some (pc_user item)"

abbreviation item_user :: "preparedAdminPlanGroupChange \<Rightarrow> string" where
  "item_user item \<equiv> ac_UserID (pc_change item)"

lemma prepare_change_in:
  assumes "prepare_change n n' s change = Inr item"
  shows "pc_change item = change \<and> prepared_in s item"
proof -
  have "post (\<lambda>r. \<forall>item. r = Inr item \<longrightarrow> pc_change item = change \<and> prepared_in s item) (prepare_change n n' s change)"
    unfolding prepare_change_def by (intro branches) (simp_all add: post_def prepared_in_def)
  then show ?thesis using assms by (simp add: post_def)
qed

lemma prepare_loop_in:
  "prepare_loop c c' i s seen xs = Inr items \<Longrightarrow>
   map pc_change items = xs \<and> list_all (prepared_in s) items \<and> distinct (map ac_UserID xs) \<and>
   (\<forall>x \<in> set xs. ac_UserID x \<notin> set seen) \<and>
   (\<forall>j < length xs. prepare_change (c (i + j)) (c' (i + j)) s (xs ! j) = Inr (items ! j))"
proof (induction c c' i s seen xs arbitrary: items rule: prepare_loop.induct)
  case (2 c c' i s seen change changes)
  obtain item rest where item: "prepare_change (c i) (c' i) s change = Inr item"
    and rest: "prepare_loop c c' (Suc i) s (ac_UserID change # seen) changes = Inr rest"
    and items: "items = item # rest" "ac_UserID change \<notin> set seen"
    using "2.prems" by (auto split: if_splits sum.splits)
  note IH = "2.IH" [OF items(2) item rest]
  have "prepare_change (c (i + j)) (c' (i + j)) s ((change # changes) ! j) = Inr (items ! j)"
    if "j < length (change # changes)" for j
    using that IH item by (cases j) (simp_all add: items)
  then show ?case using IH prepare_change_in [OF item] by (auto simp: items)
qed simp

section \<open>Applying a batch\<close>

definition applied_user :: "time \<Rightarrow> AdminPlanGroupChange \<Rightarrow> User \<Rightarrow> User" where
  "applied_user now change user = user
     \<lparr>us_Groups := PreserveAgentFreeGrantGroups (us_Groups user) (normalizeStringSlice (ac_Groups change)),
      us_SubscriptionValidFrom := (if ac_SetValidFrom change then ac_ValidFrom change else us_SubscriptionValidFrom user),
      us_SubscriptionValidUntil := (if ac_SetValidUntil change then ac_ValidUntil change else us_SubscriptionValidUntil user),
      us_UpdatedAt := now\<rparr>"

lemma applied_groups_normal:
  assumes "normalizeStringSlice ex = ex"
  shows "normalizeStringSlice (PreserveAgentFreeGrantGroups ex (normalizeStringSlice gs)) =
    PreserveAgentFreeGrantGroups ex (normalizeStringSlice gs)"
proof -
  note n = normalized_groups [OF assms] and m = normalized_groups [OF normalizeStringSlice_idem [of gs]]
  have "map TrimSpace (filter is_grant ex) = filter is_grant ex"
    using n(2) by (intro map_idI) simp
  then have "PreserveAgentFreeGrantGroups ex (normalizeStringSlice gs) =
      filter (\<lambda>g. \<not> is_grant g) (normalizeStringSlice gs) @ filter is_grant ex"
    by (simp add: PreserveAgentFreeGrantGroups_def)
  then show ?thesis
    unfolding normalizeStringSlice_def [of "PreserveAgentFreeGrantGroups ex (normalizeStringSlice gs)"]
    by (intro normalize_loop_fixed) (use n m in auto)
qed

lemma applied_user_normal:
  assumes "user_normal u" shows "user_normal (applied_user now change u)"
  using assms applied_groups_normal [of "us_Groups u" "ac_Groups change"]
  by (simp add: user_normal_def role_normal_def applied_user_def)

lemma apply_item_simps [simp]:
  "byID (apply_item f n b s item) = byID s"
  "byEmail (apply_item f n b s item) = byEmail s"
  "byName (apply_item f n b s item) = byName s"
  "billingLedgerEntries (apply_item f n b s item) = billingLedgerEntries s"
  "adminPlanGroupPreviews (apply_item f n b s item) = adminPlanGroupPreviews s"
  "adminPlanGroupConsumed (apply_item f n b s item) = adminPlanGroupConsumed s"
  "users (apply_item f n b s item) =
     (users s)[pc_user item := applied_user n (pc_change item) (users s ! pc_user item)]"
  by (simp_all add: apply_item_def applied_user_def cloneStringSlice_def Let_def split: option.split)

lemma apply_item_inv:
  assumes "user_inv s" "prepared_in s item"
  shows "user_inv (apply_item f n b s item)"
proof -
  let ?u = "applied_user n (pc_change item) (users s ! pc_user item)"
  have "user_normal (users s ! pc_user item)"
    using user_inv_at(3) [OF assms(1)] assms(2) by (simp add: prepared_in_def)
  then have "user_normal ?u" by (rule applied_user_normal)
  then have "user_inv (put_user (pc_user item) ?u s)"
    by (rule user_inv_put_user [OF assms(1)]) (simp_all add: applied_user_def)
  then show ?thesis
    by (rule user_inv_cong [THEN iffD2, rotated 4]) simp_all
qed

lemma prepared_in_item [simp]: "prepared_in (apply_item f n b s item) = prepared_in s"
  by (rule ext) (simp add: prepared_in_def)

lemma apply_loop_simps [simp]:
  "byID (apply_loop f n b i items s) = byID s"
  "billingLedgerEntries (apply_loop f n b i items s) = billingLedgerEntries s"
  "adminPlanGroupPreviews (apply_loop f n b i items s) = adminPlanGroupPreviews s"
  "adminPlanGroupConsumed (apply_loop f n b i items s) = adminPlanGroupConsumed s"
  by (induction items arbitrary: i s) simp_all

lemma apply_loop_inv:
  "user_inv s \<Longrightarrow> list_all (prepared_in s) items \<Longrightarrow> user_inv (apply_loop f n b i items s)"
  by (induction items arbitrary: i s) (simp_all add: apply_item_inv)

text \<open>The entries that a batch adds to the audit log name its request, its actor, its reason and its preview.\<close>

definition batch_entry :: "AdminPlanGroupBatch \<Rightarrow> AuditLog \<Rightarrow> bool" where
  "batch_entry batch e \<longleftrightarrow> batch_recorded (ab_RequestID batch) e \<and> al_ActorUUID e = ab_ActorUUID batch \<and>
     al_get e ''reason'' = Some (DVal (GString (ab_Reason batch))) \<and>
     al_get e ''preview_token_hash'' = Some (DVal (GString (ab_PreviewTokenHash batch)))"

lemma batch_audit_entry: "batch_entry b (batch_audit f n b u r item)"
  by (simp add: batch_entry_def batch_recorded_def batch_audit_def al_get_def Let_def)

lemma apply_item_audit: "\<exists>e. auditLogs (apply_item f n b s item) = auditLogs s @ [e] \<and> batch_entry b e"
  using batch_audit_entry by (simp add: apply_item_def Let_def split: option.split)

lemma apply_loop_audit:
  "\<exists>new. auditLogs (apply_loop f n b i items s) = auditLogs s @ new \<and> length new = length items \<and> list_all (batch_entry b) new"
proof (induction items arbitrary: i s)
  case (Cons item items)
  obtain e where e: "auditLogs (apply_item (f i) n b s item) = auditLogs s @ [e]" "batch_entry b e"
    using apply_item_audit by blast
  obtain new where "auditLogs (apply_loop f n b (Suc i) items (apply_item (f i) n b s item)) =
      auditLogs (apply_item (f i) n b s item) @ new" "length new = length items" "list_all (batch_entry b) new"
    using Cons.IH by blast
  then show ?case using e by (intro exI [of _ "e # new"]) simp
qed simp

text \<open>What a batch that is applied does, as seen from outside.\<close>

lemma batch_applied:
  assumes "ApplyAdminPlanGroupBatch f f' n c c' n' b s = (t, Inr (applied, False))"
  obtains preview items entry where
    "find (batch_recorded (ab_RequestID b)) (auditLogs s) = None"
    "gm_get (adminPlanGroupPreviews s) (ab_PreviewTokenHash b) = Some preview"
    "av_RequestID preview = ab_RequestID b" "gm_str (adminPlanGroupConsumed s) (ab_PreviewTokenHash b) = []"
    "prepare_loop c c' 0 s [] (av_Changes preview) = Inr items" "applied = map applied_change items"
    "t = (apply_loop f n' b 0 items s)
       \<lparr>adminPlanGroupConsumed := gm_put (ab_PreviewTokenHash b) (ab_RequestID b) (adminPlanGroupConsumed s),
        auditLogs := auditLogs (apply_loop f n' b 0 items s) @ [entry]\<rparr>"
  using assms unfolding ApplyAdminPlanGroupBatch_def Let_def
  by (auto split: option.splits if_splits sum.splits)

lemma batch_not_applied:
  "fst (ApplyAdminPlanGroupBatch f f' n c c' n' b s) = s \<or>
   (\<exists>x. snd (ApplyAdminPlanGroupBatch f f' n c c' n' b s) = Inr (x, False))"
  unfolding ApplyAdminPlanGroupBatch_def Let_def
  by (auto split: option.splits if_splits sum.splits)

lemma ApplyAdminPlanGroupBatch_core:
  assumes "plan_inv s"
  shows "plan_inv (fst (ApplyAdminPlanGroupBatch f f' n c c' n' b s)) \<and>
    plan_le s (fst (ApplyAdminPlanGroupBatch f f' n c c' n' b s))"
proof (cases "fst (ApplyAdminPlanGroupBatch f f' n c c' n' b s) = s")
  case True
  then show ?thesis using assms by (simp add: plan_le_refl)
next
  case False
  then obtain t x where run: "ApplyAdminPlanGroupBatch f f' n c c' n' b s = (t, Inr (x, False))"
    using batch_not_applied by (metis prod.collapse)
  from batch_applied [OF this] obtain preview items entry where
    p: "gm_get (adminPlanGroupPreviews s) (ab_PreviewTokenHash b) = Some preview"
    "av_RequestID preview = ab_RequestID b" "gm_str (adminPlanGroupConsumed s) (ab_PreviewTokenHash b) = []"
    and loop: "prepare_loop c c' 0 s [] (av_Changes preview) = Inr items"
    and t: "t = (apply_loop f n' b 0 items s)
       \<lparr>adminPlanGroupConsumed := gm_put (ab_PreviewTokenHash b) (ab_RequestID b) (adminPlanGroupConsumed s),
        auditLogs := auditLogs (apply_loop f n' b 0 items s) @ [entry]\<rparr>" .
  have "user_inv (apply_loop f n' b 0 items s)"
    using assms prepare_loop_in [OF loop] by (intro apply_loop_inv) (simp_all add: plan_inv_def)
  moreover have "ab_RequestID b \<noteq> []" using assms p(1,2) by (auto simp: plan_inv_def)
  ultimately have "plan_inv t" using assms by (simp add: t plan_inv_def)
  moreover have "audit_le s t"
    using apply_loop_audit [of f n' b 0 items s] by (auto simp: t audit_le_def)
  moreover have "gm_get (adminPlanGroupConsumed s) (ab_PreviewTokenHash b) = None"
    using assms p(3) by (auto simp: plan_inv_def gm_str_def split: option.splits)
  then have "map_le_at (adminPlanGroupConsumed s) (adminPlanGroupConsumed t)"
    by (simp add: t map_le_at_put)
  ultimately show ?thesis using run by (simp add: t plan_le_def)
qed

lemma plan_fields_more:
  fixes s s' :: "'z plan_store_scheme"
  assumes "user_store.more s = user_store.more s'"
  shows "billingLedgerEntries s = billingLedgerEntries s'" "adminPlanGroupPreviews s = adminPlanGroupPreviews s'"
    "adminPlanGroupConsumed s = adminPlanGroupConsumed s'"
  using assms by (cases s; cases s'; simp)+

lemmas user_exec_plan [simp] = plan_fields_more [OF user_exec_more]

lemma plan_inv_init: "plan_inv (newPlanStore allow)"
  using user_inv_init [of allow]
  by (simp add: plan_inv_def newPlanStore_def user_inv_def newUserStore_def user_store.extend_def)

lemma plan_step:
  assumes "plan_inv s" "plan_allowed s opn"
  shows "plan_inv (plan_exec opn s) \<and> plan_le s (plan_exec opn s)"
proof (cases opn)
  case (OpPlanAccount u)
  then show ?thesis using assms(1) by (simp add: plan_inv_def user_inv_step plan_le_def audit_le_step)
next
  case (OpLedgerEntry f n e)
  then show ?thesis using assms ledger_core [OF assms(1)] by (simp add: plan_allowed_def)
qed (use assms(1) in \<open>simp_all add: ledger_core ResetMonthlyUsage_core CreateAdminPlanGroupPreview_core
    ApplyAdminPlanGroupBatch_core core_steps same_core_le same_core_inv [OF _ assms(1)]\<close>)

interpretation pln: legal_monotone plan_exec "newPlanStore allow" plan_inv plan_allowed plan_le
  by unfold_locales (simp_all add: plan_inv_init plan_step plan_le_refl, erule (1) plan_le_trans)

text \<open>The store after a legal sequence of operations.\<close>

definition after_plans :: "bool \<Rightarrow> plan_op list \<Rightarrow> plan_store" where
  "after_plans allow ops = exec_all plan_exec ops (newPlanStore allow)"

abbreviation plan_run :: "plan_op list \<Rightarrow> plan_store \<Rightarrow> bool" where
  "plan_run ops s \<equiv> legal plan_allowed plan_exec ops s"

lemma after_plans_inv: "plan_run ops (newPlanStore allow) \<Longrightarrow> plan_inv (after_plans allow ops)"
  unfolding after_plans_def by (rule pln.legal_run [OF plan_inv_init])

section \<open>A sample run\<close>

definition sample_change :: AdminPlanGroupChange where
  "sample_change =
     \<lparr>ac_SubscriptionRecord = None, ac_ExpectedRecordUpdatedAt = None, ac_UserID = ''u1'', ac_PlanID = ''PRO'',
      ac_SetEntitlement = True, ac_ExpectedGroups = [], ac_Groups = ['' pro ''], ac_ExpectedValidFrom = None,
      ac_ExpectedValidUntil = None, ac_SetValidFrom = False, ac_ValidFrom = None, ac_SetValidUntil = True,
      ac_ValidUntil = Some 900, ac_PackageName = ''Pro'', ac_IncludedQuotaBytes = 1000, ac_RegionMultiplier = float_of 1,
      ac_LineMultiplier = float_of 1, ac_PeakMultiplier = float_of 1, ac_OffPeakMultiplier = float_of 1,
      ac_PricingRuleVersion = ''plan:PRO'', ac_ExpectedProfileIncludedQuota = 0, ac_ExpectedQuotaRemaining = 0,
      ac_ExpectedUsageBytes = 0, ac_ExpectedPeriodStart = None, ac_ExpectedPeriodEnd = None,
      ac_ExpectedProfileUpdatedAt = None, ac_ExpectedQuotaUpdatedAt = None, ac_ProfileExisted = False,
      ac_QuotaExisted = False, ac_UsedBytesPreserved = 0, ac_RemainingAfter = 0\<rparr>"

definition sample_preview :: AdminPlanGroupPreview where
  "sample_preview = \<lparr>av_ActorUUID = ''admin'', av_Reason = ''upgrade'', av_RequestID = ''r1'', av_TokenHash = ''h1'',
     av_ExpiresAt = 1000, av_Changes = [sample_change]\<rparr>"

definition sample_batch :: AdminPlanGroupBatch where
  "sample_batch = \<lparr>ab_ActorUUID = ''admin'', ab_Reason = ''upgrade'', ab_RequestID = ''r1'', ab_PreviewTokenHash = ''h1'',
     ab_ExpectedUserIDs = [''u1''], ab_Changes = []\<rparr>"

text \<open>An account that has used 300 of 500 bytes.\<close>

definition sample_ops :: "plan_op list" where
  "sample_ops =
     [OpPlanAccount (OpCreateUser ''f1'' 10 (Inr ''v1'') (sample_user ''u1'' ''Ann'' ''a@x.io'')),
      OpProfile 11 (Some ((default_profile ''u1'')\<lparr>bp_IncludedQuotaBytes := 500\<rparr>)),
      OpQuotaState 12 (Some ((default_quota ''u1'')\<lparr>aq_RemainingIncludedQuota := 200\<rparr>))]"

definition sample_reviewed :: AdminPlanGroupChange where
  "sample_reviewed = sample_change
     \<lparr>ac_ProfileExisted := True, ac_QuotaExisted := True, ac_ExpectedProfileIncludedQuota := 500,
      ac_ExpectedProfileUpdatedAt := Some 11, ac_ExpectedQuotaRemaining := 200, ac_ExpectedQuotaUpdatedAt := Some 12,
      ac_UsedBytesPreserved := 300, ac_RemainingAfter := 700\<rparr>"

definition sample_previewed :: plan_store where
  "sample_previewed = fst (CreateAdminPlanGroupPreview ''f2'' 20 (\<lambda>_. 20) 20 sample_preview (after_plans False sample_ops))"

definition sample_later :: "plan_op list" where
  "sample_later = [OpPlanAccount (OpDeleteSession ''x''), OpDeletePlan ''FREE'']"

definition sample_applied :: plan_store where
  "sample_applied = fst (ApplyAdminPlanGroupBatch (\<lambda>i. ''f3'') ''f4'' 30 (\<lambda>_. 30) (\<lambda>_. 30) 30 sample_batch
     (exec_all plan_exec sample_later sample_previewed))"

lemma sample_run:
  "plan_run sample_ops (newPlanStore False)" "plan_run sample_later sample_previewed" "plan_run sample_later sample_applied"
  by (simp_all add: sample_ops_def sample_later_def plan_allowed_def)

lemma sample_preview_result:
  "CreateAdminPlanGroupPreview ''f2'' 20 (\<lambda>_. 20) 20 sample_preview (after_plans False sample_ops) =
     (sample_previewed, Inr [sample_reviewed])"
proof -
  have "snd (CreateAdminPlanGroupPreview ''f2'' 20 (\<lambda>_. 20) 20 sample_preview (after_plans False sample_ops)) = Inr [sample_reviewed]"
    by code_simp
  then show ?thesis unfolding sample_previewed_def by (metis prod.collapse)
qed

lemma sample_batch_result:
  "ApplyAdminPlanGroupBatch (\<lambda>i. ''f3'') ''f4'' 30 (\<lambda>_. 30) (\<lambda>_. 30) 30 sample_batch
     (exec_all plan_exec sample_later sample_previewed) = (sample_applied, Inr ([sample_reviewed], False))"
proof -
  have "snd (ApplyAdminPlanGroupBatch (\<lambda>i. ''f3'') ''f4'' 30 (\<lambda>_. 30) (\<lambda>_. 30) 30 sample_batch
      (exec_all plan_exec sample_later sample_previewed)) = Inr ([sample_reviewed], False)"
    by code_simp
  then show ?thesis unfolding sample_applied_def by (metis prod.collapse)
qed

section \<open>A batch is applied once\<close>

lemma find_appended:
  assumes "find P xs = None" "ys \<noteq> []" "list_all Q ys" "\<And>y. Q y \<Longrightarrow> P y"
  obtains y where "find P (xs @ ys @ zs) = Some y" "Q y"
proof (cases ys)
  case (Cons y ys')
  have "find P (xs @ ys @ zs) = find P (ys @ zs)" using assms(1) by (induction xs) (auto split: if_splits)
  then show thesis using that [of y] assms(3,4) Cons by simp
qed (use assms(2) in simp)

lemma batch_settled:
  assumes "plan_inv s" "ApplyAdminPlanGroupBatch f f' n c c' n' b s = (s', Inr (applied, False))" "plan_le s' t"
  obtains e where "find (batch_recorded (ab_RequestID b)) (auditLogs t) = Some e" "batch_entry b e"
    "gm_str (adminPlanGroupConsumed t) (ab_PreviewTokenHash b) \<noteq> []"
proof -
  from batch_applied [OF assms(2)] obtain preview items entry where
    find: "find (batch_recorded (ab_RequestID b)) (auditLogs s) = None"
    and p: "gm_get (adminPlanGroupPreviews s) (ab_PreviewTokenHash b) = Some preview" "av_RequestID preview = ab_RequestID b"
    and loop: "prepare_loop c c' 0 s [] (av_Changes preview) = Inr items"
    and s': "s' = (apply_loop f n' b 0 items s)
       \<lparr>adminPlanGroupConsumed := gm_put (ab_PreviewTokenHash b) (ab_RequestID b) (adminPlanGroupConsumed s),
        auditLogs := auditLogs (apply_loop f n' b 0 items s) @ [entry]\<rparr>" .
  have id: "ab_RequestID b \<noteq> []" "av_Changes preview \<noteq> []" using assms(1) p by (auto simp: plan_inv_def)
  obtain new where new: "auditLogs (apply_loop f n' b 0 items s) = auditLogs s @ new" "length new = length items"
    "list_all (batch_entry b) new"
    using apply_loop_audit by blast
  have "new \<noteq> []" using id(2) new(2) prepare_loop_in [OF loop] by auto
  obtain rest where "auditLogs t = auditLogs s @ new @ (entry # rest)"
    using plan_leD(1) [OF assms(3)] new(1) by (auto simp: audit_le_def s')
  moreover obtain e where "find (batch_recorded (ab_RequestID b)) (auditLogs s @ new @ (entry # rest)) = Some e" "batch_entry b e"
    by (rule find_appended [OF find \<open>new \<noteq> []\<close> new(3)]) (auto simp: batch_entry_def)
  moreover have "gm_get (adminPlanGroupConsumed t) (ab_PreviewTokenHash b) = Some (ab_RequestID b)"
    by (rule map_le_atD [OF plan_leD(4) [OF assms(3)]]) (simp add: s')
  ultimately show thesis using that id(1) by (simp add: gm_str_def)
qed

text \<open>
  C16: A batch of plan-group changes is applied at most once. After it was applied, and after any further
  operations, a batch with the same request id or for the same preview changes nothing: it is
  refused or reported as applied before, and the same batch is always reported as applied before.
\<close>

theorem batch_applied_once:
  assumes "plan_run ops (newPlanStore allow)"
    and "ApplyAdminPlanGroupBatch f f' n c c' n' b (after_plans allow ops) = (s', Inr (applied, False))"
    and "plan_run ops' s'" and "t = exec_all plan_exec ops' s'"
    and "ab_RequestID b' = ab_RequestID b \<or> ab_PreviewTokenHash b' = ab_PreviewTokenHash b"
  shows "ApplyAdminPlanGroupBatch g g' m d d' m' b' t \<in>
      {(t, Inr ([], True)), (t, Inl ErrAdminPlanGroupReplay), (t, Inl ErrAdminPlanGroupPreview)} \<and>
    ApplyAdminPlanGroupBatch g g' m d d' m' b t = (t, Inr ([], True))"
proof -
  note inv = after_plans_inv [OF assms(1)]
  have "plan_inv s'" using ApplyAdminPlanGroupBatch_core [OF inv, of f f' n c c' n' b] assms(2) by simp
  then have "plan_le s' t" unfolding assms(4) using pln.legal_run_le assms(3) by blast
  from batch_settled [OF inv assms(2) this] obtain e where
    e: "find (batch_recorded (ab_RequestID b)) (auditLogs t) = Some e" "batch_entry b e"
    "gm_str (adminPlanGroupConsumed t) (ab_PreviewTokenHash b) \<noteq> []" .
  have "ApplyAdminPlanGroupBatch g g' m d d' m' b t = (t, Inr ([], True))"
    using e by (simp add: ApplyAdminPlanGroupBatch_def batch_entry_def)
  moreover have "ApplyAdminPlanGroupBatch g g' m d d' m' b' t \<in>
      {(t, Inr ([], True)), (t, Inl ErrAdminPlanGroupReplay), (t, Inl ErrAdminPlanGroupPreview)}"
    using assms(5) e by (auto simp: ApplyAdminPlanGroupBatch_def split: option.split)
  ultimately show ?thesis by simp
qed

theorem batch_applied_once_witness:
  "ApplyAdminPlanGroupBatch (\<lambda>i. ''g'') ''g'' 40 (\<lambda>_. 40) (\<lambda>_. 40) 40 sample_batch
     (exec_all plan_exec sample_later sample_applied) = (exec_all plan_exec sample_later sample_applied, Inr ([], True))"
proof -
  let ?ops = "sample_ops @ [OpPlanPreview ''f2'' 20 (\<lambda>_. 20) 20 sample_preview] @ sample_later"
  have all: "exec_all plan_exec (xs @ ys) s = exec_all plan_exec ys (exec_all plan_exec xs s)"
    for xs ys and s :: plan_store by (induction xs arbitrary: s) simp_all
  have "after_plans False ?ops = exec_all plan_exec sample_later sample_previewed"
    by (simp add: after_plans_def all sample_previewed_def)
  then have "ApplyAdminPlanGroupBatch (\<lambda>i. ''f3'') ''f4'' 30 (\<lambda>_. 30) (\<lambda>_. 30) 30 sample_batch (after_plans False ?ops) =
      (sample_applied, Inr ([sample_reviewed], False))"
    using sample_batch_result by simp
  moreover have "plan_run ?ops (newPlanStore False)"
    by (simp add: sample_ops_def sample_later_def plan_allowed_def)
  ultimately show ?thesis
    using batch_applied_once [of ?ops False _ _ _ _ _ _ sample_batch sample_applied "[sample_reviewed]" sample_later _ sample_batch]
      sample_run(3) by blast
qed

section \<open>Wallets\<close>

lemma GetWalletBalance_CNY:
  "GetWalletBalance account ''CNY'' s =
     Inr (case gm_get (accountQuotaStates s) (TrimSpace account) of None \<Rightarrow> float_zero | Some q \<Rightarrow> aq_CurrentBalance q)"
proof -
  have "ToUpper (TrimSpace ''CNY'') = ''CNY''" by code_simp
  then show ?thesis by (simp add: GetWalletBalance_def)
qed

lemma CreditTopUp_credited:
  assumes "CreditTopUp n n' (Some e) s = (s', Inr False)"
  shows "TrimSpace (le_ID e) \<noteq> [] \<and> \<not> float_not_positive (le_AmountDelta e) \<and>
    ToUpper (TrimSpace (le_Currency e)) \<in> {''CNY'', ''USD''} \<and>
    (\<exists>entry. gm_get (billingLedgerEntries s') (le_ID e) = Some entry \<and>
       le_AmountDelta entry = le_AmountDelta e \<and> le_AccountUUID entry = le_AccountUUID e \<and>
       (ToUpper (TrimSpace (le_Currency e)) = ''CNY'' \<longrightarrow>
          (\<exists>b. GetWalletBalance (le_AccountUUID e) ''CNY'' s = Inr b \<and>
               GetWalletBalance (le_AccountUUID e) ''CNY'' s' = Inr (float_add b (le_AmountDelta e)) \<and>
               le_BalanceAfter entry = float_add b (le_AmountDelta e))))" (is "?P s'")
proof -
  have "post (\<lambda>(s', r). r = Inr False \<longrightarrow> ?P s') (CreditTopUp n n' (Some e) s)"
    unfolding CreditTopUp_def option.case
    by (intro branches) (simp_all add: post_def GetWalletBalance_CNY empty_quota_def Let_def split: option.split)
  then show ?thesis using assms by (simp add: post_def)
qed

text \<open>
  C17: A top-up is credited once. When it is credited, the wallet in CNY grows by its amount. From then on, after
  any further operations, the same top-up is reported as credited before, no entry with its id
  changes anything or is credited, and its entry of the ledger is the one that was written.
\<close>

theorem top_up_credited_once:
  assumes "plan_run ops (newPlanStore allow)" and "s = after_plans allow ops"
    and "CreditTopUp n n' (Some e) s = (s', Inr False)"
    and "plan_run ops' s'" and "t = exec_all plan_exec ops' s'"
    and "le_ID e' = le_ID e"
  shows "CreditTopUp m m' (Some e) t = (t, Inr True) \<and>
    fst (CreditTopUp m m' (Some e') t) = t \<and> snd (CreditTopUp m m' (Some e') t) \<noteq> Inr False \<and>
    (\<exists>entry. gm_get (billingLedgerEntries s') (le_ID e) = Some entry \<and> gm_get (billingLedgerEntries t) (le_ID e) = Some entry \<and>
       le_AmountDelta entry = le_AmountDelta e \<and> le_AccountUUID entry = le_AccountUUID e \<and>
       (ToUpper (TrimSpace (le_Currency e)) = ''CNY'' \<longrightarrow>
          (\<exists>b. GetWalletBalance (le_AccountUUID e) ''CNY'' s = Inr b \<and>
               GetWalletBalance (le_AccountUUID e) ''CNY'' s' = Inr (float_add b (le_AmountDelta e)) \<and>
               le_BalanceAfter entry = float_add b (le_AmountDelta e))))"
proof -
  from CreditTopUp_credited [OF assms(3)] obtain entry where
    en: "gm_get (billingLedgerEntries s') (le_ID e) = Some entry" "le_AmountDelta entry = le_AmountDelta e"
    "le_AccountUUID entry = le_AccountUUID e" "TrimSpace (le_ID e) \<noteq> []" "\<not> float_not_positive (le_AmountDelta e)"
    "ToUpper (TrimSpace (le_Currency e)) \<in> {''CNY'', ''USD''}"
    and cny: "ToUpper (TrimSpace (le_Currency e)) = ''CNY'' \<longrightarrow>
          (\<exists>b. GetWalletBalance (le_AccountUUID e) ''CNY'' s = Inr b \<and>
               GetWalletBalance (le_AccountUUID e) ''CNY'' s' = Inr (float_add b (le_AmountDelta e)) \<and>
               le_BalanceAfter entry = float_add b (le_AmountDelta e))"
    by blast
  have "plan_inv s'" using ledger_core(2) [OF after_plans_inv [OF assms(1)], of n n' "Some e"] assms(2,3) by simp
  then have "plan_le s' t" unfolding assms(5) using pln.legal_run_le assms(4) by blast
  then have t: "gm_get (billingLedgerEntries t) (le_ID e) = Some entry"
    using map_le_atD [OF plan_leD(2) en(1)] by simp
  have "CreditTopUp m m' (Some e) t = (t, Inr True)"
    using en(4-6) t by (auto simp: CreditTopUp_def Let_def)
  moreover have "fst (CreditTopUp m m' (Some e') t) = t \<and> snd (CreditTopUp m m' (Some e') t) \<noteq> Inr False"
    using t assms(6) by (simp add: CreditTopUp_def Let_def)
  ultimately show ?thesis using en(1-3) t cny by simp
qed

definition sample_top_up :: BillingLedgerEntry where
  "sample_top_up =
     \<lparr>le_ID = ''top'', le_AccountUUID = ''u1'', le_Currency = ''cny'', le_BucketStart = 0, le_BucketEnd = 0,
      le_EntryType = [], le_RatedBytes = 0, le_AmountDelta = float_of 30, le_BalanceAfter = float_zero,
      le_PricingRuleVersion = [], le_CreatedAt = 0\<rparr>"

definition sample_credited :: plan_store where
  "sample_credited = fst (CreditTopUp 40 41 (Some sample_top_up) (after_plans False sample_ops))"

theorem top_up_credited_once_witness:
  "CreditTopUp 50 51 (Some sample_top_up) (exec_all plan_exec sample_later sample_credited) =
     (exec_all plan_exec sample_later sample_credited, Inr True)"
proof -
  have "snd (CreditTopUp 40 41 (Some sample_top_up) (after_plans False sample_ops)) = Inr False"
    by code_simp
  then have "CreditTopUp 40 41 (Some sample_top_up) (after_plans False sample_ops) = (sample_credited, Inr False)"
    unfolding sample_credited_def by (metis prod.collapse)
  moreover have "plan_run sample_later sample_credited"
    by (simp add: sample_later_def plan_allowed_def)
  ultimately show ?thesis
    using top_up_credited_once [OF sample_run(1) refl _ _ refl refl] by blast
qed




section \<open>A reset of the monthly usage\<close>

lemma resetUsagePeriod_bounds:
  assumes "resetUsagePeriod now = (a, b)"
  shows "now < a \<and> a \<le> now + Minute \<and> now < b \<and> b = month_start (Year now) (Month now + 1)"
proof -
  have "0 \<le> now mod Minute" "now mod Minute < Minute" by simp_all
  then have "now < a" "a \<le> now + Minute" using assms unfolding resetUsagePeriod_def by auto
  then show ?thesis using assms month_contains [of now] by (simp add: resetUsagePeriod_def)
qed

lemma ResetMonthlyUsage_result:
  assumes "ResetMonthlyUsage fresh uid actor email reason now s = (s', Inr q)"
    "gm_get (accountBillingProfiles s) uid = Some p"
  obtains a b where "resetUsagePeriod now = (a, b)" "a < b" "aq_PeriodStart q = Some a" "aq_PeriodEnd q = Some b"
    "aq_RemainingIncludedQuota q = bp_IncludedQuotaBytes p" "gm_get (accountQuotaStates s') uid = Some q"
    "gm_get (accountBillingProfiles s') uid = Some p" "trafficMinuteBuckets s' = trafficMinuteBuckets s"
    "list_ex (reset_recorded uid a b) (auditLogs s')"
proof -
  obtain a b where ab: "resetUsagePeriod now = (a, b)" by fastforce
  have "post (\<lambda>(s', r). \<forall>q. r = Inr q \<longrightarrow> a < b \<and> aq_PeriodStart q = Some a \<and> aq_PeriodEnd q = Some b \<and>
      aq_RemainingIncludedQuota q = bp_IncludedQuotaBytes p \<and> gm_get (accountQuotaStates s') uid = Some q \<and>
      gm_get (accountBillingProfiles s') uid = Some p \<and> trafficMinuteBuckets s' = trafficMinuteBuckets s \<and>
      list_ex (reset_recorded uid a b) (auditLogs s')) (ResetMonthlyUsage fresh uid actor email reason now s)"
    unfolding ResetMonthlyUsage_def ab prod.case
    by (intro branches) (simp_all add: post_def assms(2) reset_recorded_def reset_usage_audit_def al_get_def)
  then show thesis using that ab assms(1) by (simp add: post_def)
qed

text \<open>
  C27: An administrator's reset of the monthly usage lasts until the end of the month. The new period begins within a
  minute after the reset and ends with the calendar month; until then the whole included quota is reported as
  it was set. A reading at or after the end replaces the period by the calendar month that contains
  the reading, with the quota less the traffic counted in that month.
\<close>

theorem monthly_reset_expires:
  assumes "ResetMonthlyUsage fresh uid actor email reason now s = (s', Inr q)"
    and "gm_get (accountBillingProfiles s) uid = Some p" and "TrimSpace uid = uid"
  shows "\<exists>a b. aq_PeriodStart q = Some a \<and> aq_PeriodEnd q = Some b \<and> now < a \<and> a \<le> now + Minute \<and> a < b \<and>
    b = month_start (Year now) (Month now + 1) \<and> aq_RemainingIncludedQuota q = bp_IncludedQuotaBytes p \<and>
    (\<forall>t. t < b \<longrightarrow> GetAccountQuotaState t uid s' = (s', Inr q)) \<and>
    (\<forall>t. b \<le> t \<longrightarrow> (\<exists>q' start end. snd (GetAccountQuotaState t uid s') = Inr q' \<and>
       aq_PeriodStart q' = Some start \<and> aq_PeriodEnd q' = Some end \<and>
       start = month_start (Year t) (Month t) \<and> end = month_start (Year t) (Month t + 1) \<and> start \<le> t \<and> t < end \<and>
       aq_RemainingIncludedQuota q' = max 0 (wrap64 (bp_IncludedQuotaBytes p -
         sum64 (\<lambda>b. max 0 (tb_TotalBytes b)) (filter (in_period uid start end) (gm_vals (trafficMinuteBuckets s)))))))"
proof -
  obtain a b where r: "resetUsagePeriod now = (a, b)" "a < b" "aq_PeriodStart q = Some a" "aq_PeriodEnd q = Some b"
    "aq_RemainingIncludedQuota q = bp_IncludedQuotaBytes p" "gm_get (accountQuotaStates s') uid = Some q"
    "gm_get (accountBillingProfiles s') uid = Some p" "trafficMinuteBuckets s' = trafficMinuteBuckets s"
    "list_ex (reset_recorded uid a b) (auditLogs s')"
    by (rule ResetMonthlyUsage_result [OF assms(1,2)])
  have early: "GetAccountQuotaState t uid s' = (s', Inr q)" if "t < b" for t
    using that r(3-9) assms(3) by (simp add: GetAccountQuotaState_def expireMonthlyUsageResetLocked_def)
  have late: "\<exists>q' start end. snd (GetAccountQuotaState t uid s') = Inr q' \<and>
       aq_PeriodStart q' = Some start \<and> aq_PeriodEnd q' = Some end \<and>
       start = month_start (Year t) (Month t) \<and> end = month_start (Year t) (Month t + 1) \<and> start \<le> t \<and> t < end \<and>
       aq_RemainingIncludedQuota q' = max 0 (wrap64 (bp_IncludedQuotaBytes p -
         sum64 (\<lambda>b. max 0 (tb_TotalBytes b)) (filter (in_period uid start end) (gm_vals (trafficMinuteBuckets s)))))"
    if "b \<le> t" for t
    using that r(3-9) assms(3) month_contains [of t] same_month_end [OF refl, of t]
    by (simp add: GetAccountQuotaState_def expireMonthlyUsageResetLocked_def Let_def)
  note bounds = resetUsagePeriod_bounds [OF r(1)]
  show ?thesis
    by (rule exI [of _ a], rule exI [of _ b], intro conjI allI impI early late) (use bounds r(2-5) in simp_all)
qed

theorem monthly_reset_expires_witness:
  "\<exists>q b. snd (ResetMonthlyUsage ''f5'' ''u1'' ''admin'' ''a@x.io'' ''refund'' 20 (after_plans False sample_ops)) = Inr q \<and>
     aq_PeriodEnd q = Some b \<and> b = month_start 1 2 \<and> aq_RemainingIncludedQuota q = 500"
proof -
  let ?r = "ResetMonthlyUsage ''f5'' ''u1'' ''admin'' ''a@x.io'' ''refund'' 20 (after_plans False sample_ops)"
  have ok: "outcome ?r (\<lambda>_. True)" "TrimSpace ''u1'' = ''u1''" "Year 20 = 1" "Month 20 = 1"
    "map_option bp_IncludedQuotaBytes (gm_get (accountBillingProfiles (after_plans False sample_ops)) ''u1'') = Some 500"
    by code_simp+
  obtain p where p: "gm_get (accountBillingProfiles (after_plans False sample_ops)) ''u1'' = Some p" "bp_IncludedQuotaBytes p = 500"
    using ok(5) by auto
  obtain q where "?r = (fst ?r, Inr q)" using ok(1) by (rule outcomeE)
  from monthly_reset_expires [OF this p(1) ok(2)] ok(3,4) p(2) \<open>?r = (fst ?r, Inr q)\<close> show ?thesis
    by (metis one_add_one snd_conv)
qed

section \<open>What was reviewed is applied\<close>

definition used_at :: "AdminPlanGroupChange \<Rightarrow> int \<Rightarrow> int \<Rightarrow> int" where
  "used_at c remaining usage = max usage (max 0 (wrap64 (ac_ExpectedProfileIncludedQuota c - remaining)))"

definition reviewed :: "AdminPlanGroupChange \<Rightarrow> bool" where
  "reviewed c \<longleftrightarrow> (ac_SetEntitlement c \<longrightarrow>
     ac_UsedBytesPreserved c = used_at c (ac_ExpectedQuotaRemaining c) (ac_ExpectedUsageBytes c) \<and>
     ac_RemainingAfter c = max 0 (wrap64 (ac_IncludedQuotaBytes c - ac_UsedBytesPreserved c)))"

lemma preview_change_reviewed:
  assumes "preview_change now s change = Inr c"
  shows "reviewed c \<and> ac_UserID c = ac_UserID change \<and> ac_Groups c = ac_Groups change"
proof -
  let ?Q = "\<lambda>c. reviewed c \<and> ac_UserID c = ac_UserID change \<and> ac_Groups c = ac_Groups change"
  have "post (\<lambda>r. \<forall>c. r = Inr c \<longrightarrow> ?Q c) (preview_change now s change)"
    unfolding preview_change_def
  proof (intro branches)
    fix user :: User and c1 c2 c3 c4 :: AdminPlanGroupChange and profile quota used1 used2 usage used3 remaining
    assume c1: "c1 = (case (ac_SubscriptionRecord change, gm_get (subscriptionRecords s) (us_ID user)) of
                        (Some _, Some record) \<Rightarrow> change\<lparr>ac_ExpectedRecordUpdatedAt := Some (sr_UpdatedAt record)\<rparr>
                      | _ \<Rightarrow> change)"
      and c2: "c2 = c1\<lparr>ac_ProfileExisted := (profile \<noteq> None), ac_QuotaExisted := (quota \<noteq> None)\<rparr>"
      and c3: "c3 = (case profile of None \<Rightarrow> c2
                      | Some p \<Rightarrow> c2\<lparr>ac_ExpectedProfileIncludedQuota := bp_IncludedQuotaBytes p,
                                     ac_ExpectedProfileUpdatedAt := Some (bp_UpdatedAt p)\<rparr>)"
      and c4: "c4 = (case quota of None \<Rightarrow> c3
                      | Some q \<Rightarrow> c3\<lparr>ac_ExpectedQuotaRemaining := aq_RemainingIncludedQuota q,
                                     ac_ExpectedPeriodStart := aq_PeriodStart q, ac_ExpectedPeriodEnd := aq_PeriodEnd q,
                                     ac_ExpectedQuotaUpdatedAt := Some (aq_UpdatedAt q)\<rparr>)"
    have same: "ac_UserID c4 = ac_UserID change \<and> ac_Groups c4 = ac_Groups change"
      unfolding c4 c3 c2 c1 by (auto split: option.split)
    show "post (\<lambda>r. \<forall>c. r = Inr c \<longrightarrow> ?Q c) (Inr c4)" if "\<not> ac_SetEntitlement c4"
      using that same by (simp add: post_def reviewed_def)
    assume "used1 = wrap64 (ac_ExpectedProfileIncludedQuota c4 - ac_ExpectedQuotaRemaining c4)"
      "used2 = (if used1 < 0 then 0 else used1)" "used3 = (if used2 < usage then usage else used2)"
      "remaining = wrap64 (ac_IncludedQuotaBytes c4 - used3)"
    then show "post (\<lambda>r. \<forall>c. r = Inr c \<longrightarrow> ?Q c) (Inr (c4\<lparr>ac_ExpectedUsageBytes := usage, ac_UsedBytesPreserved := used3,
        ac_RemainingAfter := (if remaining < 0 then 0 else remaining)\<rparr>))"
      using same by (simp add: post_def reviewed_def used_at_def max_def)
  qed (simp_all add: post_def)
  then show ?thesis using assms by (simp add: post_def)
qed

lemma preview_loop_reviewed:
  "preview_loop c i s seen xs = Inr ys \<Longrightarrow> list_all reviewed ys"
  by (induction c i s seen xs arbitrary: ys rule: preview_loop.induct)
    (auto split: if_splits sum.splits dest: preview_change_reviewed)

lemma prepare_change_entitled:
  assumes "prepare_change now now' s c = Inr item" "ac_SetEntitlement c"
  shows "\<exists>remaining updated usage. acceptsUsageAtApply c remaining updated usage \<and>
    pc_used item = used_at c remaining usage \<and>
    aq_RemainingIncludedQuota (pc_quota item) = max 0 (wrap64 (ac_IncludedQuotaBytes c - pc_used item)) \<and>
    bp_IncludedQuotaBytes (pc_profile item) = ac_IncludedQuotaBytes c \<and>
    bp_PackageName (pc_profile item) = ac_PackageName c \<and>
    bp_PricingRuleVersion (pc_profile item) = ac_PricingRuleVersion c" (is "?P item")
proof -
  have "post (\<lambda>r. \<forall>item. r = Inr item \<longrightarrow> ?P item) (prepare_change now now' s c)"
    unfolding prepare_change_def
  proof (intro branches)
    fix a and user :: User and storedProfile storedQuota ent and profile profile' :: AccountBillingProfile
      and quota quota' :: AccountQuotaState and remainingBefore used1 used2 usage used3 remaining
    assume ent: "ent = ac_SetEntitlement c"
      and prof: "\<not> (ent \<and> (bp_IncludedQuotaBytes profile \<noteq> ac_ExpectedProfileIncludedQuota c \<or>
            \<not> equalStoreTimes (profileUpdatedAt storedProfile) (ac_ExpectedProfileUpdatedAt c) \<or>
            \<not> equalStoreTimes (aq_PeriodStart quota) (ac_ExpectedPeriodStart c) \<or>
            \<not> equalStoreTimes (aq_PeriodEnd quota) (ac_ExpectedPeriodEnd c)))"
      and u: "used1 = wrap64 (bp_IncludedQuotaBytes profile - remainingBefore)" "used2 = (if used1 < 0 then 0 else used1)"
        "used3 = (if used2 < usage then usage else used2)"
      and ok: "\<not> (ent \<and> \<not> acceptsUsageAtApply c remainingBefore (quotaUpdatedAt storedQuota) usage)"
      and r: "remaining = wrap64 (ac_IncludedQuotaBytes c - used3)"
      and p': "profile' = (if ent then profile\<lparr>bp_AccountUUID := us_ID user, bp_PackageName := ac_PackageName c,
                               bp_IncludedQuotaBytes := ac_IncludedQuotaBytes c,
                               bp_RegionMultiplier := ac_RegionMultiplier c, bp_LineMultiplier := ac_LineMultiplier c,
                               bp_PeakMultiplier := ac_PeakMultiplier c, bp_OffPeakMultiplier := ac_OffPeakMultiplier c,
                               bp_PricingRuleVersion := ac_PricingRuleVersion c\<rparr> else profile)"
      and q': "quota' = (if ent then quota\<lparr>aq_RemainingIncludedQuota := (if remaining < 0 then 0 else remaining),
                             aq_EffectiveAt := now'\<rparr> else quota)"
    have "used3 = used_at c remainingBefore usage"
      using ent prof assms(2) by (simp add: u used_at_def max_def)
    then show "post (\<lambda>r. \<forall>item. r = Inr item \<longrightarrow> ?P item)
      (Inr \<lparr>pc_change = c, pc_user = a, pc_profile = profile', pc_quota = quota', pc_used = used3,
            pc_remainingBefore = remainingBefore\<rparr>)"
      using ent ok assms(2) by (auto simp: post_def p' q' r max_def)
  qed (simp_all add: post_def)
  then show ?thesis using assms(1) by (simp add: post_def)
qed

text \<open>
  The rule of \<open>acceptsUsageAtApply\<close>: without a subscription record nothing may have been used in between;
  with one, the usage in between does not exhaust a quota that the review showed as not exhausted.
\<close>

lemma accepted_as_reviewed:
  assumes "reviewed c" "ac_SetEntitlement c" "acceptsUsageAtApply c remaining updated usage"
  shows "ac_SubscriptionRecord c = None \<Longrightarrow> used_at c remaining usage = ac_UsedBytesPreserved c"
    "0 < ac_IncludedQuotaBytes c \<Longrightarrow> ac_IncludedQuotaBytes c < 2 ^ 63 \<Longrightarrow> 0 < ac_RemainingAfter c \<Longrightarrow>
     0 < max 0 (wrap64 (ac_IncludedQuotaBytes c - used_at c remaining usage))"
proof -
  show same: "used_at c remaining usage = ac_UsedBytesPreserved c" if "ac_SubscriptionRecord c = None"
    using assms that by (simp add: reviewed_def acceptsUsageAtApply_def)
  assume inc: "0 < ac_IncludedQuotaBytes c" "ac_IncludedQuotaBytes c < 2 ^ 63" and pos: "0 < ac_RemainingAfter c"
  show "0 < max 0 (wrap64 (ac_IncludedQuotaBytes c - used_at c remaining usage))"
  proof (cases "ac_SubscriptionRecord c = None")
    case True
    then show ?thesis using same assms(1,2) pos by (simp add: reviewed_def)
  next
    case False
    then have less: "max usage (wrap64 (ac_ExpectedProfileIncludedQuota c - remaining)) < ac_IncludedQuotaBytes c"
      using assms(3) pos by (simp add: acceptsUsageAtApply_def Let_def not_le)
    then have "0 \<le> used_at c remaining usage" "used_at c remaining usage < ac_IncludedQuotaBytes c"
      using inc(1) by (auto simp: used_at_def)
    then have "int64 (ac_IncludedQuotaBytes c - used_at c remaining usage)" using inc by (simp add: int64_def)
    then show ?thesis using \<open>used_at c remaining usage < ac_IncludedQuotaBytes c\<close> by simp
  qed
qed

text \<open>An account as the changes see it: the user, its billing profile and its quota state.\<close>

definition account_at ::
  "'z plan_store_scheme \<Rightarrow> string \<Rightarrow> User option \<times> AccountBillingProfile option \<times> AccountQuotaState option" where
  "account_at s uid =
     (user_of s (byID s) uid, gm_get (accountBillingProfiles s) uid, gm_get (accountQuotaStates s) uid)"

fun account_after ::
  "time \<Rightarrow> preparedAdminPlanGroupChange \<Rightarrow> User option \<times> AccountBillingProfile option \<times> AccountQuotaState option \<Rightarrow>
   User option \<times> AccountBillingProfile option \<times> AccountQuotaState option" where
  "account_after now item (u, p, q) =
     (map_option (applied_user now (pc_change item)) u,
      if ac_SetEntitlement (pc_change item) then Some ((pc_profile item)\<lparr>bp_UpdatedAt := now\<rparr>) else p,
      if ac_SetEntitlement (pc_change item) then Some ((pc_quota item)\<lparr>aq_UpdatedAt := now\<rparr>) else q)"

lemma apply_item_entitlement:
  "accountBillingProfiles (apply_item f n b s item) =
     (if ac_SetEntitlement (pc_change item)
      then gm_put (us_ID (users s ! pc_user item)) ((pc_profile item)\<lparr>bp_UpdatedAt := n\<rparr>) (accountBillingProfiles s)
      else accountBillingProfiles s)"
  "accountQuotaStates (apply_item f n b s item) =
     (if ac_SetEntitlement (pc_change item)
      then gm_put (us_ID (users s ! pc_user item)) ((pc_quota item)\<lparr>aq_UpdatedAt := n\<rparr>) (accountQuotaStates s)
      else accountQuotaStates s)"
  by (cases "ac_SetEntitlement (pc_change item)"; simp add: apply_item_def Let_def split: option.split)+

lemma apply_item_account:
  assumes "user_inv s" "prepared_in s item"
  shows "account_at (apply_item f n b s item) uid =
    (if uid = item_user item then account_after n item (account_at s uid) else account_at s uid)"
proof -
  let ?a = "pc_user item" and ?s = "apply_item f n b s item"
  have a: "gm_get (byID s) (item_user item) = Some ?a" using assms(2) by (simp add: prepared_in_def)
  note at = user_inv_at [OF assms(1) a]
  have "user_of ?s (byID ?s) uid =
      (if uid = item_user item then Some (applied_user n (pc_change item) (users s ! ?a)) else user_of s (byID s) uid)"
  proof (cases "gm_get (byID s) uid")
    case (Some k)
    have "k = ?a \<longleftrightarrow> uid = item_user item" using a at(2) user_inv_at(2) [OF assms(1) Some] Some by auto
    then show ?thesis using Some at(1) by (auto simp: user_of_def nth_list_update)
  qed (use a in \<open>auto simp: user_of_def\<close>)
  moreover have "gm_get (accountBillingProfiles ?s) uid =
      (if ac_SetEntitlement (pc_change item) \<and> uid = item_user item then Some ((pc_profile item)\<lparr>bp_UpdatedAt := n\<rparr>)
       else gm_get (accountBillingProfiles s) uid)"
    "gm_get (accountQuotaStates ?s) uid =
      (if ac_SetEntitlement (pc_change item) \<and> uid = item_user item then Some ((pc_quota item)\<lparr>aq_UpdatedAt := n\<rparr>)
       else gm_get (accountQuotaStates s) uid)"
    using at(2) by (simp_all add: apply_item_entitlement)
  moreover have "user_of s (byID s) (item_user item) = Some (users s ! ?a)" using a by (simp add: user_of_def)
  ultimately show ?thesis by (simp add: account_at_def)
qed

lemma apply_loop_account:
  "user_inv s \<Longrightarrow> list_all (prepared_in s) items \<Longrightarrow> distinct (map item_user items) \<Longrightarrow>
   account_at (apply_loop f n b i items s) uid =
     (case find (\<lambda>item. item_user item = uid) items of
        None \<Rightarrow> account_at s uid | Some item \<Rightarrow> account_after n item (account_at s uid))"
proof (induction items arbitrary: i s)
  case (Cons item items)
  have p: "user_inv (apply_item (f i) n b s item)" "list_all (prepared_in (apply_item (f i) n b s item)) items"
    using Cons.prems by (simp_all add: apply_item_inv)
  note IH = Cons.IH [OF p] and head = apply_item_account [of s item "f i" n b uid]
  show ?case
  proof (cases "item_user item = uid")
    case True
    then have "find (\<lambda>item. item_user item = uid) items = None"
      using Cons.prems(3) by (auto simp: find_None_iff image_iff)
    then show ?thesis using IH head Cons.prems True by simp
  next
    case False
    then show ?thesis using IH head Cons.prems by (simp split: option.split)
  qed
qed simp

lemma find_distinct:
  "distinct (map f xs) \<Longrightarrow> j < length xs \<Longrightarrow> find (\<lambda>x. f x = f (xs ! j)) xs = Some (xs ! j)"
  by (auto simp: find_Some_iff distinct_conv_nth intro!: exI [of _ j])

text \<open>A batch that is applied, account by account.\<close>

lemma batch_effect:
  assumes "plan_inv s" "ApplyAdminPlanGroupBatch f f' n c c' n' b s = (t, Inr (applied, False))"
    "gm_get (adminPlanGroupPreviews s) (ab_PreviewTokenHash b) = Some preview"
  obtains items where "map pc_change items = av_Changes preview" "applied = map applied_change items"
    "distinct (map ac_UserID (av_Changes preview))"
    "\<And>uid. uid \<notin> set (map ac_UserID (av_Changes preview)) \<Longrightarrow> account_at t uid = account_at s uid"
    "\<And>j. j < length items \<Longrightarrow> prepared_in s (items ! j) \<and>
       account_at t (item_user (items ! j)) = account_after n' (items ! j) (account_at s (item_user (items ! j))) \<and>
       prepare_change (c j) (c' j) s (av_Changes preview ! j) = Inr (items ! j)"
proof -
  from batch_applied [OF assms(2)] obtain items entry where
    loop: "prepare_loop c c' 0 s [] (av_Changes preview) = Inr items" and applied: "applied = map applied_change items"
    and t: "t = (apply_loop f n' b 0 items s)
       \<lparr>adminPlanGroupConsumed := gm_put (ab_PreviewTokenHash b) (ab_RequestID b) (adminPlanGroupConsumed s),
        auditLogs := auditLogs (apply_loop f n' b 0 items s) @ [entry]\<rparr>"
    using assms(3) by (metis option.inject)
  note prep = prepare_loop_in [OF loop]
  have changes: "map pc_change items = av_Changes preview" using prep by simp
  then have ids: "map item_user items = map ac_UserID (av_Changes preview)"
    by (metis (no_types, lifting) list.map_comp comp_apply map_eq_conv)
  have dist: "distinct (map item_user items)" using prep unfolding ids by simp
  have "account_at t uid = account_at (apply_loop f n' b 0 items s) uid" for uid
    by (simp add: t account_at_def user_of_def split: option.split)
  then have at: "account_at t uid = (case find (\<lambda>item. item_user item = uid) items of
        None \<Rightarrow> account_at s uid | Some item \<Rightarrow> account_after n' item (account_at s uid))" for uid
    using apply_loop_account [OF _ _ dist, of s f n' b 0 uid] prep assms(1) by (simp add: plan_inv_def)
  show thesis
  proof (rule that [OF changes applied])
    show "distinct (map ac_UserID (av_Changes preview))" using prep by simp
    show "account_at t uid = account_at s uid" if "uid \<notin> set (map ac_UserID (av_Changes preview))" for uid
    proof -
      have "find (\<lambda>item. item_user item = uid) items = None"
        using that unfolding ids [symmetric] by (auto simp: find_None_iff image_iff)
      then show ?thesis using at by simp
    qed
    have "length items = length (av_Changes preview)" using changes by (metis length_map)
    then show "prepared_in s (items ! j) \<and>
        account_at t (item_user (items ! j)) = account_after n' (items ! j) (account_at s (item_user (items ! j))) \<and>
        prepare_change (c j) (c' j) s (av_Changes preview ! j) = Inr (items ! j)" if "j < length items" for j
      using that prep at find_distinct [OF dist that] by (simp add: list_all_length)
  qed
qed

lemma applied_as_reviewed:
  assumes "reviewed c" "prepare_change now now' s c = Inr item"
  shows "ac_SetEntitlement c \<longrightarrow> bp_IncludedQuotaBytes (pc_profile item) = ac_IncludedQuotaBytes c \<and>
      bp_PackageName (pc_profile item) = ac_PackageName c \<and>
      bp_PricingRuleVersion (pc_profile item) = ac_PricingRuleVersion c \<and>
      aq_RemainingIncludedQuota (pc_quota item) = ac_RemainingAfter (applied_change item)" (is ?A)
    "ac_SubscriptionRecord c = None \<or> \<not> ac_SetEntitlement c \<longrightarrow> applied_change item = c" (is ?B)
    "ac_SetEntitlement c \<and> 0 < ac_IncludedQuotaBytes c \<and> ac_IncludedQuotaBytes c < 2 ^ 63 \<and> 0 < ac_RemainingAfter c \<longrightarrow>
     0 < ac_RemainingAfter (applied_change item)" (is ?C)
proof -
  have c: "pc_change item = c" using prepare_change_in [OF assms(2)] by simp
  have "?A \<and> ?B \<and> ?C" if ent: "ac_SetEntitlement c"
  proof -
    obtain remaining updated usage where u: "acceptsUsageAtApply c remaining updated usage"
      "pc_used item = used_at c remaining usage"
      "aq_RemainingIncludedQuota (pc_quota item) = max 0 (wrap64 (ac_IncludedQuotaBytes c - pc_used item))"
      "bp_IncludedQuotaBytes (pc_profile item) = ac_IncludedQuotaBytes c"
      "bp_PackageName (pc_profile item) = ac_PackageName c"
      "bp_PricingRuleVersion (pc_profile item) = ac_PricingRuleVersion c"
      using prepare_change_entitled [OF assms(2) ent] by blast
    note acc = accepted_as_reviewed [OF assms(1) ent u(1)]
    have "applied_change item = c" if "ac_SubscriptionRecord c = None"
      using that acc(1) assms(1) ent u(2,3) by (simp add: applied_change_def c reviewed_def)
    then show ?thesis using acc(2) ent u(2-6) by (simp add: applied_change_def c)
  qed
  moreover have "?A \<and> ?B \<and> ?C" if "\<not> ac_SetEntitlement c"
    using that by (simp add: applied_change_def c)
  ultimately show ?A ?B ?C by blast+
qed

lemma preview_stored:
  assumes "CreateAdminPlanGroupPreview f n c n' p s = (s', Inr changes)"
  shows "gm_get (adminPlanGroupPreviews s') (av_TokenHash p) = Some (p\<lparr>av_Changes := changes\<rparr>) \<and> list_all reviewed changes"
proof -
  have "post (\<lambda>(s', r). \<forall>changes. r = Inr changes \<longrightarrow>
      gm_get (adminPlanGroupPreviews s') (av_TokenHash p) = Some (p\<lparr>av_Changes := changes\<rparr>) \<and> list_all reviewed changes)
    (CreateAdminPlanGroupPreview f n c n' p s)"
    unfolding CreateAdminPlanGroupPreview_def
    by (intro branches) (simp_all add: post_def preview_loop_reviewed)
  then show ?thesis using assms by (simp add: post_def)
qed

lemma applied_groups:
  assumes "plan_inv s" "plan_inv t" "prepared_in s item"
    "account_at t (item_user item) = account_after n item (account_at s (item_user item))"
  shows "\<exists>u u'. GetUserByID (item_user item) s = Inr u \<and> GetUserByID (item_user item) t = Inr u' \<and>
    u' = applied_user n (pc_change item) u"
proof -
  let ?u = "users s ! pc_user item"
  have u: "user_of s (byID s) (item_user item) = Some ?u" "user_normal ?u"
    using assms(1,3) user_inv_at(3) by (auto simp: prepared_in_def user_of_def plan_inv_def)
  then have "user_of t (byID t) (item_user item) = Some (applied_user n (pc_change item) ?u)"
    using assms(4) by (simp add: account_at_def)
  then show ?thesis
    using u applied_user_normal [OF u(2)] by (simp add: GetUserByID_def user_normal_def)
qed

text \<open>
  C7: What an administrator reviewed is what is applied. When a batch is applied for a preview that was made
  earlier, after any operations in between, its changes are those of the preview, one for each account. A
  change without a subscription record is applied exactly as it was reviewed, usage and remaining quota
  included; one with a record never exhausts a positive quota that the review showed as not exhausted. The
  account gets the reviewed groups, and keeps its grant markers; its profile and its quota are the ones
  of the change; and accounts that are not in the preview stay as they are.
\<close>

theorem reviewed_change_is_applied:
  assumes "plan_run ops (newPlanStore allow)"
    and "CreateAdminPlanGroupPreview f n c n' p (after_plans allow ops) = (s, Inr changes)"
    and "plan_run ops' s" and "s' = exec_all plan_exec ops' s"
    and "ApplyAdminPlanGroupBatch g g' m d d' m' b s' = (t, Inr (applied, False))"
    and "ab_PreviewTokenHash b = av_TokenHash p"
    and "j < length changes" and "change = changes ! j" and "result = applied ! j" and "i = ac_UserID change"
  shows "map ac_UserID applied = map ac_UserID changes \<and> distinct (map ac_UserID changes) \<and>
    (ac_SubscriptionRecord change = None \<or> \<not> ac_SetEntitlement change \<longrightarrow> result = change) \<and>
    (ac_SetEntitlement change \<and> 0 < ac_IncludedQuotaBytes change \<and> ac_IncludedQuotaBytes change < 2 ^ 63 \<and>
       0 < ac_RemainingAfter change \<longrightarrow> 0 < ac_RemainingAfter result) \<and>
    (\<exists>u u'. GetUserByID i s' = Inr u \<and> GetUserByID i t = Inr u' \<and>
       us_Groups u' = PreserveAgentFreeGrantGroups (us_Groups u) (normalizeStringSlice (ac_Groups change))) \<and>
    (ac_SetEntitlement change \<longrightarrow> (\<exists>p q. gm_get (accountBillingProfiles t) i = Some p \<and> gm_get (accountQuotaStates t) i = Some q \<and>
       bp_IncludedQuotaBytes p = ac_IncludedQuotaBytes change \<and> bp_PackageName p = ac_PackageName change \<and>
       bp_PricingRuleVersion p = ac_PricingRuleVersion change \<and> aq_RemainingIncludedQuota q = ac_RemainingAfter result)) \<and>
    (\<forall>uid. uid \<notin> set (map ac_UserID changes) \<longrightarrow> account_at t uid = account_at s' uid)"
proof -
  note inv = after_plans_inv [OF assms(1)] and stored = preview_stored [OF assms(2)]
  have s: "plan_inv s" using CreateAdminPlanGroupPreview_core [OF inv, of f n c n' p] assms(2) by simp
  have s': "plan_inv s'" "plan_le s s'" unfolding assms(4) using s assms(3) by (simp_all add: pln.legal_run pln.legal_run_le)
  have t: "plan_inv t" using ApplyAdminPlanGroupBatch_core [OF s'(1), of g g' m d d' m' b] assms(5) by simp
  have pv: "gm_get (adminPlanGroupPreviews s') (ab_PreviewTokenHash b) = Some (p\<lparr>av_Changes := changes\<rparr>)"
    using map_le_atD [OF plan_leD(3) [OF s'(2)]] stored assms(6) by simp
  from batch_effect [OF s'(1) assms(5) pv] obtain items where
    items: "map pc_change items = changes" "applied = map applied_change items" "distinct (map ac_UserID changes)"
    and others: "\<And>uid. uid \<notin> set (map ac_UserID changes) \<Longrightarrow> account_at t uid = account_at s' uid"
    and eff: "\<And>j. j < length items \<Longrightarrow> prepared_in s' (items ! j) \<and>
       account_at t (item_user (items ! j)) = account_after m' (items ! j) (account_at s' (item_user (items ! j))) \<and>
       prepare_change (d j) (d' j) s' (changes ! j) = Inr (items ! j)"
    by simp blast
  have j: "j < length items" using assms(7) items(1) by (metis length_map)
  then have ch: "pc_change (items ! j) = change" "result = applied_change (items ! j)"
    using items(1,2) assms(8,9) by auto
  note at = eff [OF j, unfolded ch]
  have "reviewed change" using stored assms(7,8) by (simp add: list_all_length)
  note as = applied_as_reviewed [OF this, of "d j" "d' j" s' "items ! j", folded ch(2)]
  have ids: "map ac_UserID applied = map ac_UserID changes"
    unfolding items(2) items(1) [symmetric] by (simp add: applied_change_def)
  have groups: "\<exists>u u'. GetUserByID i s' = Inr u \<and> GetUserByID i t = Inr u' \<and>
       us_Groups u' = PreserveAgentFreeGrantGroups (us_Groups u) (normalizeStringSlice (ac_Groups change))"
    using applied_groups [OF s'(1) t, of "items ! j" m'] at ch(1) assms(10) by (auto simp: applied_user_def)
  have "gm_get (accountBillingProfiles t) i = Some ((pc_profile (items ! j))\<lparr>bp_UpdatedAt := m'\<rparr>) \<and>
      gm_get (accountQuotaStates t) i = Some ((pc_quota (items ! j))\<lparr>aq_UpdatedAt := m'\<rparr>)" if "ac_SetEntitlement change"
    using at that ch(1) assms(10) by (simp add: account_at_def)
  then show ?thesis using ids items(3) groups others as at assms(8) by auto
qed

theorem reviewed_change_is_applied_witness:
  "ac_UserID sample_reviewed = ''u1'' \<and> ac_RemainingAfter sample_reviewed = 700 \<and>
   (\<exists>q. gm_get (accountQuotaStates sample_applied) ''u1'' = Some q \<and> aq_RemainingIncludedQuota q = 700) \<and>
   (\<exists>u u'. GetUserByID ''u1'' (exec_all plan_exec sample_later sample_previewed) = Inr u \<and>
      GetUserByID ''u1'' sample_applied = Inr u' \<and>
      us_Groups u' = PreserveAgentFreeGrantGroups (us_Groups u) (normalizeStringSlice ['' pro '']))"
proof -
  have "ab_PreviewTokenHash sample_batch = av_TokenHash sample_preview" "0 < length [sample_reviewed]"
    by (simp_all add: sample_batch_def sample_preview_def)
  from reviewed_change_is_applied [OF sample_run(1) sample_preview_result sample_run(2) refl sample_batch_result this refl refl refl]
  show ?thesis by (auto simp: sample_reviewed_def sample_change_def)
qed

end
