(* ===== verification/Spec2Isabelle.thy ===== *)
theory Spec2Isabelle
  imports Task_Properties Task_Commands Task_Reads Referral_Accounts Recovery_Properties Team_Properties
    Subscription_Properties Agent_Properties Overlay_Properties Migration_Properties Plan_Properties
begin

text \<open>
  \<^bold>\<open>The accounts service.\<close> The service (Go, under \<open>src/\<close>) keeps user accounts, their money and the
  tasks they run, and decides which agents of a proxy network serve them. HTTP handlers (\<open>api/\<close>)
  call two stores: \<open>store.Store\<close> (\<open>internal/store\<close>) for accounts, finance, traffic accounting and plans,
  subscriptions, referrals, recovery and teams, and \<open>tasksession.Store\<close>
  (\<open>internal/tasksession\<close>) for task sessions that workers claim and report on. Each store has an
  in-memory implementation, which holds the rules in Go, and one on PostgreSQL. This development
  models the in-memory stores and proves what they promise their callers. Around the stores
  it models the decisions of three parts that are otherwise I/O: the access of agents (\<open>api/\<close>),
  the overlay network (\<open>internal/overlay\<close>) and the plans of data migrations
  (\<open>internal/migrate\<close>).

  \<^bold>\<open>How the code is modelled.\<close> Every operation of a modelled store is a function from its arguments and
  the state to the new state and the result, an error or a value; each early return is a
  branch. A struct is a record whose fields carry a prefix (\<open>us_Email\<close> is \<open>User.Email\<close>), a store is
  a record with one field per map, and a map is an association list (\<open>Go_Prelude\<close> has the
  conventions for strings, time, integers and maps). Clock readings, generated ids and the
  outcome of \<open>uuid.NewV7\<close> are arguments named \<open>now\<close>, \<open>fresh\<close> and \<open>newV7\<close>. An operation holds the
  mutex of its store throughout, so a run of concurrent callers is a list of operations,
  executed by \<open>exec_all\<close>; \<open>CreateUserWithReferral\<close>, which does not, is split into its
  critical sections. The pointers \<open>byID\<close>, \<open>byEmail\<close> and \<open>byName\<close> share are indexes into a
  heap of users; where code could follow a nil pointer the result is \<open>GoPanic\<close>.

  \<^bold>\<open>Theories.\<close>

  \<^item> \<open>Go_Prelude\<close>, \<open>Go_Values\<close>, \<open>Go_Time\<close>, \<open>Go_Float\<close>, \<open>Go_Sha256\<close>, \<open>Go_Netip\<close>: the part of Go and its
    standard library in use, with the calendar (a month contains the times dated in it) and the addition of
    \<open>float64\<close> (exact on whole numbers below \<open>2 ^ 53\<close>); generic
    lemmas on maps, wrapped sums and selection loops; the rules \<open>branches\<close> that follow the returns of
    an operation; and the locales \<open>selection\<close>, \<open>invariant\<close>, \<open>guarded_invariant\<close>, \<open>legal_invariant\<close>,
    \<open>monotone_store\<close> and \<open>legal_monotone\<close>, which each store interprets.
  \<^item> \<open>Task_Types\<close>, \<open>Task_Payload\<close>, \<open>Task_Store\<close>: \<open>internal/tasksession\<close> (\<open>types.go\<close>, \<open>scheduler.go\<close>,
    \<open>store.go\<close>). \<open>Task_Spec\<close> is an abstract specification (inductive \<open>run_step\<close> and \<open>task_step\<close>) that the
    store refines; \<open>Task_Invariant\<close> proves the invariants once per abstract step.
    \<open>Task_Properties\<close>, \<open>Task_Commands\<close> and \<open>Task_Reads\<close> show: limits on active runs, a gapless event
    log, preserved history, the choice, progress and fairness of claims, fenced callbacks,
    replay of commands, and isolated reads. \<open>Task_Sample\<close> is the run their witnesses use.
  \<^item> \<open>Store_Types\<close>, \<open>Users\<close>, \<open>User_Store\<close>, \<open>User_Records\<close>: the account part of \<open>store.go\<close>, \<open>account_access.go\<close>
    and \<open>audit_memory.go\<close>. \<open>User_Invariant\<close>, \<open>User_Properties\<close> and \<open>User_Lifecycle\<close> show: unique
    addresses (as long as no update fails for want of an id), typed accounts, lookups after creation, guarded and replayable archiving, one-time
    codes and complete audit pages.
  \<^item> \<open>Finance_Json\<close>, \<open>Finance\<close>, \<open>Finance_Operations\<close>: \<open>finance_memory.go\<close>. \<open>Finance_Amounts\<close>,
    \<open>Finance_Invariant\<close>, \<open>Finance_Steps\<close> and \<open>Finance_Properties\<close> show that refunds and the amounts held
    by refund operations stay within the payment, and that payments are immutable and replayable.
  \<^item> \<open>Referral\<close>: \<open>referral_memory.go\<close>, \<open>referral_campaign.go\<close>, \<open>referral_plan.go\<close>,
    \<open>referral_invoice_verification.go\<close> and \<open>CreateUserWithReferral\<close>. \<open>Referral_Invariant\<close>,
    \<open>Referral_Steps\<close>, \<open>Referral_Properties\<close> and \<open>Referral_Accounts\<close> show: payouts within the rewards, sound
    and unique rewards, no payout on a payment at risk, a campaign history that is not
    rewritten, no panics, rollback of refused registrations, and the totals of the summary.
  \<^item> \<open>Recovery\<close>: \<open>password_recovery.go\<close>, \<open>mfa_recovery_codes.go\<close>, \<open>mfa_reset.go\<close>. \<open>Recovery_Properties\<close>
    shows: one open request, credentials that work once, the lockout, and the reviewed reset.
  \<^item> \<open>Teams\<close>: \<open>network_teams.go\<close>, \<open>team_agent_enrollments.go\<close>. \<open>Team_Properties\<close> shows: the member limit,
    the groups of a member, and that decisions on an outdated version are refused.
  \<^item> \<open>Subscription\<close>: \<open>subscription_lifecycle.go\<close>, \<open>subscription_lifecycle_policy.go\<close>,
    \<open>subscription_purchase.go\<close>, \<open>subscription_refund_review.go\<close>. \<open>Subscription_Properties\<close> shows, for runs that mix
    them with the ledger: one unfinished change per account, the cooldown, refusal of
    outdated quotes, and a renewal that preview and reservation treat differently.
  \<^item> \<open>Accounting\<close>: \<open>accounting_memory.go\<close>, \<open>subscription_quota.go\<close>, \<open>monthly_usage_reset.go\<close> and \<open>free_quota.go\<close>.
    \<open>Plan_Groups\<close>: \<open>billing_memory.go\<close> with the types of \<open>billing.go\<close> and \<open>billing_events.go\<close>, and the reviewed changes of plan
    groups in \<open>store.go\<close>. \<open>Plan_Properties\<close> shows, over runs of all of these and the account operations: the changes
    that were reviewed are the ones applied, a batch is applied and a top-up credited once, a reset of the usage lasts
    until the month ends, and a balance in USD is exact for whole amounts, in whatever order the ledger is read.
  \<^item> \<open>Agent_Access\<close>: what \<open>network_access.go\<close>, \<open>agent_routes.go\<close> and \<open>team_agent_enrollments.go\<close> of \<open>api/\<close> decide
    from the team store and the reports of agents. \<open>Agent_Properties\<close> shows, over runs of team
    operations and administrators' decisions: isolation of teams, and no new team
    before an agent has reported its withdrawal.
  \<^item> \<open>Overlay\<close>: \<open>mesh.go\<close>, and \<open>allocateAddress\<close> of \<open>repository.go\<close>. \<open>Overlay_Properties\<close> shows: the bit masks
    grant whole-device access only, peers are symmetric and agree with the relay, and the
    first free address is taken.
  \<^item> \<open>Migration_Plan\<close>, \<open>Migration_Sql\<close>: \<open>full_business.go\<close>, \<open>usage_merge.go\<close>, \<open>catchup_classification.go\<close>,
    \<open>catchup_compare.go\<close>, \<open>controlled.go\<close>, as far as they plan. \<open>Migration_Tokens\<close> specifies the lexical structure of
    SQL scripts by inductive predicates. \<open>Migration_Properties\<close> and \<open>Migration_Tokens\<close> show: the table order is found when there is one and respects foreign keys, merges lose
    nothing, a catch-up overwrites no change of the target, and the splitter accepts and
    cuts scripts exactly as their tokens say.

  The states of finance, accounting, recovery and teams extend the account state, those of referrals
  and subscriptions extend finance, and that of plans extends accounting; operations are polymorphic in the extension, so the account
  operations run on all of them, and the invariants are kept by runs that mix them.

  \<^bold>\<open>Bounds and conditions.\<close> Almost every loop of the modelled packages runs over a
  list or a map and is structural recursion, a fold or a list function. The others are: \<open>businessOrder\<close>, a
  \<open>while_option\<close> whose value \<open>None\<close> would be an endless loop, excluded by
  \<open>business_order_ends\<close>; \<open>allocate_loop\<close>, \<open>skip_comment\<close>, \<open>skip_blank\<close> and \<open>sql_loop\<close>, with termination proofs by
  a measure; and so have the functions of the standard library that recurse otherwise
  (\<open>strip\<close>, \<open>show_digits\<close>, \<open>json_escape\<close>, \<open>excess_bits\<close>, \<open>hex_digits\<close>). The
  reader of IPv6 addresses has a fuel of 8, the number of groups after which Go's loop stops. The conditions on runs are part of the statements. Ids are new where
  a run needs it (\<open>referral_allowed\<close>, \<open>recovery_allowed\<close>, \<open>plan_allowed\<close>) or not empty (\<open>finance_op_ok\<close>); clock readings in recovery are not Go's zero
  time, which the code uses for \<open>not yet\<close>; payments are below \<open>2 ^ 53\<close> minor units and a refund
  request names no field twice in \<open>finance_op_ok\<close>, which runs of subscription changes require of the ledger operations too.
  In \<open>ids_generated\<close> no update needs an id that \<open>uuid.NewV7\<close> fails to generate; all other properties allow
  this error. Amounts and the counters of failed attempts wrap at 64 bits where the code adds to them.

  \<^bold>\<open>Limits of the model.\<close> Upper and lower case and case-insensitive comparison are those of ASCII
  letters. Go's unspecified iteration order of maps is the order of an arbitrary list.
  Times are unbounded integers, so the saturation of time differences above 292
  years is not modelled. Event numbers, attempts and fences of task sessions, which grow by one per
  operation, are unbounded integers as well. Changes to a caller's argument on an error return are not returned.

  \<^bold>\<open>Not modelled.\<close> The PostgreSQL stores and the execution of migrations: their behaviour is in
  SQL. Temporary grants encoded in group names. Tenants and
  profiles, and the devices and nodes of the in-memory store. Of the overlay
  network, enrolment and signed configurations. The other HTTP handlers, authentication, mail,
  agents, configuration and commands, which do I/O around the stores.
\<close>

end
